(* ===== verification/WebDroid_Prelude.thy ===== *)
theory WebDroid_Prelude
  imports Main
begin

text \<open>
  Shared vocabulary of the WebDroid OS development: the type of app identifiers, the
  JavaScript truthiness test that the source applies to \<open>string | null\<close> values, the
  named collection of invariant facts, and generic list lemmas (on \<open>successively\<close>,
  \<open>butlast\<close>, \<open>filter\<close>, \<open>take\<close> and \<open>remdups\<close>) that the component theories share.
\<close>

named_theorems webdroid_inv
  \<open>facts that an operation of the model preserves an invariant\<close>

type_synonym app_id = string

text \<open>
  \<open>if (x)\<close> on a value of type \<open>string | null\<close> is false for \<open>null\<close> and for the empty
  string: this is the test \<open>App.tsx\<close> applies to \<open>currentApp\<close> and \<open>DeviceFrame.tsx\<close>
  applies to \<open>lockscreenPin\<close>.
\<close>

definition truthy :: "string option \<Rightarrow> bool" where
  "truthy v = (case v of None \<Rightarrow> False | Some s \<Rightarrow> s \<noteq> [])"

lemma truthy_simps [simp]:
  "truthy None = False"
  "truthy (Some s) = (s \<noteq> [])"
  by (simp_all add: truthy_def)

lemma truthy_Some_the: "truthy v \<Longrightarrow> Some (the v) = v"
  by (cases v) simp_all

lemma not_truthy_None: "\<not> truthy v \<Longrightarrow> v \<noteq> Some [] \<Longrightarrow> v = None"
  by (cases v) simp_all

text \<open>
  \<open>String.prototype.trim\<close>: strip leading and trailing white space and line
  terminators. Strings are byte lists, so only the ASCII ones are recognised (tab, line
  feed, vertical tab, form feed, carriage return, space).
\<close>

definition js_ws :: "char \<Rightarrow> bool" where
  "js_ws c \<longleftrightarrow> c \<in> set [CHR 0x09, CHR 0x0A, CHR 0x0B, CHR 0x0C, CHR 0x0D, CHR 0x20]"

definition js_trim :: "string \<Rightarrow> string" where
  "js_trim s = rev (dropWhile js_ws (rev (dropWhile js_ws s)))"

lemma js_trim_empty_iff: "js_trim s = [] \<longleftrightarrow> list_all js_ws s"
  by (induction s) (auto simp: js_trim_def dropWhile_eq_Nil_conv list_all_iff)

subsection \<open>Lists\<close>

lemma successively_butlast [simp]:
  "successively P xs \<Longrightarrow> successively P (butlast xs)"
proof (cases "xs = []")
  case False
  assume s: "successively P xs"
  from False have "xs = butlast xs @ [last xs]" by simp
  with s have "successively P (butlast xs @ [last xs])" by simp
  then show ?thesis by (simp add: successively_append_iff)
qed simp

lemma successively_snoc_neq:
  "successively (\<noteq>) xs \<Longrightarrow> (xs \<noteq> [] \<Longrightarrow> last xs \<noteq> a) \<Longrightarrow> successively (\<noteq>) (xs @ [a])"
  by (auto simp: successively_append_iff)

lemma length_filter_neq_distinct:
  "distinct ys \<Longrightarrow> length ys \<le> Suc (length (filter (\<lambda>y. y \<noteq> x) ys))"
proof (induction ys)
  case (Cons a ys)
  show ?case
  proof (cases "a = x")
    case True
    with Cons.prems have "filter (\<lambda>y. y \<noteq> x) ys = ys" by (auto intro: filter_True)
    with True show ?thesis by simp
  next
    case False
    with Cons show ?thesis by simp
  qed
qed simp

text \<open>
  Truncating before or after removing one element of a duplicate-free list gives the same
  first \<open>n\<close> elements once the removed element is put in front: the key step of the
  equivalence of the recents update with its reference definition.
\<close>

lemma take_Cons_filter_take:
  assumes "distinct ys"
  shows "take n (x # filter (\<lambda>y. y \<noteq> x) (take n ys)) = take n (x # filter (\<lambda>y. y \<noteq> x) ys)"
proof (cases n)
  case (Suc m)
  define us where "us = take n ys"
  define vs where "vs = drop n ys"
  have ys: "ys = us @ vs" by (simp add: us_def vs_def)
  note us = us_def
  have pre: "filter (\<lambda>y. y \<noteq> x) ys = filter (\<lambda>y. y \<noteq> x) us @ filter (\<lambda>y. y \<noteq> x) vs"
    using ys by simp
  show ?thesis
  proof (cases "n \<le> length ys")
    case True
    with us have "length us = n" by simp
    moreover from assms ys have "distinct us" by simp
    ultimately have "m \<le> length (filter (\<lambda>y. y \<noteq> x) us)"
      using length_filter_neq_distinct [of us x] Suc by simp
    then show ?thesis using Suc pre us by simp
  next
    case False
    then show ?thesis by simp
  qed
qed simp

lemma rev_remdups_snoc:
  "rev (remdups (xs @ [x])) = x # filter (\<lambda>y. y \<noteq> x) (rev (remdups xs))"
proof -
  have "remdups (xs @ [x]) = remdups (filter (\<lambda>y. y \<noteq> x) xs) @ [x]"
    by (induction xs) auto
  then show ?thesis by (simp add: remdups_filter rev_filter)
qed

end
