(* ===== verification/Recents.thy ===== *)
theory Recents
  imports WebDroid_Prelude
begin

text \<open>
  The recents registry of \<open>WebDroid-OS/src/App.tsx\<close>: the list \<open>recentAppsList\<close>,
  most recent first, updated by the two list expressions of \<open>AppContent\<close>: the
  move-to-front-and-truncate update of \<open>handleOpenApp\<close> (line 26) and the filter of
  \<open>handleRemoveRecentApp\<close> (line 15). The theory proves that the registry stays
  duplicate-free and bounded by its capacity, the eviction and ordering behaviour the spec
  asks for, and that a run of touches equals a reference definition: the last ten distinct
  apps opened, most recent first.
\<close>

text \<open>\<open>[appId, ...prev.filter(id => id !== appId)].slice(0, 10)\<close>\<close>

definition recents_touch :: "app_id \<Rightarrow> app_id list \<Rightarrow> app_id list" where
  "recents_touch appId prev = take 10 (appId # filter (\<lambda>id. id \<noteq> appId) prev)"

text \<open>\<open>prev.filter(id => id !== appIdToRemove)\<close>\<close>

definition recents_remove :: "app_id \<Rightarrow> app_id list \<Rightarrow> app_id list" where
  "recents_remove appIdToRemove prev = filter (\<lambda>id. id \<noteq> appIdToRemove) prev"

text \<open>The registry's invariant: no duplicates, at most ten entries.\<close>

definition recents_inv :: "app_id list \<Rightarrow> bool" where
  "recents_inv rs \<longleftrightarrow> distinct rs \<and> length rs \<le> 10"

text \<open>Reference definition: the recents list after opening \<open>opens\<close> in order from an empty list.\<close>

definition recents_of_opens :: "app_id list \<Rightarrow> app_id list" where
  "recents_of_opens opens = foldl (\<lambda>rs a. recents_touch a rs) [] opens"

subsection \<open>Basic facts\<close>

lemma recents_touch_hd: "hd (recents_touch a rs) = a"
  by (simp add: recents_touch_def)

lemma recents_touch_nonempty: "recents_touch a rs \<noteq> []"
  by (simp add: recents_touch_def)

lemma set_recents_touch: "set (recents_touch a rs) \<subseteq> insert a (set rs)"
  by (auto simp: recents_touch_def dest: in_set_takeD)

lemma set_recents_remove: "set (recents_remove a rs) = set rs - {a}"
  by (auto simp: recents_remove_def)

lemma recents_inv_Nil [simp]: "recents_inv []"
  by (simp add: recents_inv_def)

lemma recents_touch_inv [webdroid_inv]: "recents_inv rs \<Longrightarrow> recents_inv (recents_touch a rs)"
  by (auto simp: recents_inv_def recents_touch_def distinct_take dest: in_set_takeD)

lemma recents_remove_inv [webdroid_inv]: "recents_inv rs \<Longrightarrow> recents_inv (recents_remove a rs)"
  by (auto simp: recents_inv_def recents_remove_def intro: order_trans [OF length_filter_le])

lemma recents_touch_list_all [webdroid_inv]:
  "list_all P rs \<Longrightarrow> P a \<Longrightarrow> list_all P (recents_touch a rs)"
  by (auto simp: recents_touch_def list_all_iff dest: in_set_takeD)

lemma recents_remove_list_all [webdroid_inv]:
  "list_all P rs \<Longrightarrow> list_all P (recents_remove a rs)"
  by (auto simp: recents_remove_def list_all_iff)

lemma recents_touch_length_le: "length (recents_touch a rs) \<le> 10"
  by (simp add: recents_touch_def)

lemma recents_of_opens_snoc:
  "recents_of_opens (xs @ [x]) = recents_touch x (recents_of_opens xs)"
  by (simp add: recents_of_opens_def)

subsection \<open>Properties of the registry\<close>

text \<open>
  C36: equivalence with the reference definition. Opening the apps \<open>opens\<close> one after
  another from an empty registry leaves exactly the ten most recently opened distinct apps,
  most recent first: the de-duplicated history reversed and cut to capacity.
\<close>

theorem recents_of_opens_eq: "recents_of_opens opens = take 10 (rev (remdups opens))"
proof (induction opens rule: rev_induct)
  case Nil
  show ?case by (simp add: recents_of_opens_def)
next
  case (snoc x xs)
  have "recents_of_opens (xs @ [x]) = take 10 (x # filter (\<lambda>y. y \<noteq> x) (take 10 (rev (remdups xs))))"
    by (simp add: recents_of_opens_snoc snoc.IH recents_touch_def)
  also have "\<dots> = take 10 (x # filter (\<lambda>y. y \<noteq> x) (rev (remdups xs)))"
    by (rule take_Cons_filter_take) simp
  also have "\<dots> = take 10 (rev (remdups (xs @ [x])))"
    by (simp add: rev_remdups_snoc)
  finally show ?case .
qed

text \<open>
  Eviction at capacity (spec scenario B). Touching an eleventh distinct app in a full
  registry puts it in front and drops the oldest (last) entry.
\<close>

theorem recents_touch_evicts_oldest:
  assumes "recents_inv rs" and "length rs = 10" and "a \<notin> set rs"
  shows "recents_touch a rs = a # take 9 rs \<and> length (recents_touch a rs) = 10"
proof -
  from assms(3) have "filter (\<lambda>id. id \<noteq> a) rs = rs" by (auto intro: filter_True)
  with assms(2) show ?thesis by (simp add: recents_touch_def)
qed

text \<open>
  Most-recently-used order (spec property P5). After \<open>touch a; touch b; touch a\<close>
  with \<open>a \<noteq> b\<close> the list starts with \<open>a\<close> then \<open>b\<close>, whatever it held before.
\<close>

theorem recents_mru_order:
  assumes "a \<noteq> b"
  shows "take 2 (recents_touch a (recents_touch b (recents_touch a rs))) = [a, b]"
  using assms by (simp add: recents_touch_def)

subsection \<open>Witnesses\<close>

theorem recents_touch_evicts_oldest_witness:
  "let rs = [''a'', ''b'', ''c'', ''d'', ''e'', ''f'', ''g'', ''h'', ''i'', ''j'']
   in recents_inv rs \<and> length rs = 10 \<and> ''k'' \<notin> set rs
    \<and> recents_touch ''k'' rs = ''k'' # take 9 rs \<and> length (recents_touch ''k'' rs) = 10"
  using recents_touch_evicts_oldest
    [of "[''a'', ''b'', ''c'', ''d'', ''e'', ''f'', ''g'', ''h'', ''i'', ''j'']" "''k''"]
  by (simp add: recents_inv_def)

theorem recents_mru_order_witness:
  "''a'' \<noteq> ''b'' \<and>
   take 2 (recents_touch ''a'' (recents_touch ''b'' (recents_touch ''a'' [''c'', ''b'']))) = [''a'', ''b'']"
  using recents_mru_order [of "''a''" "''b''" "[''c'', ''b'']"] by simp

end
