(* ===== verification/Navigation.thy ===== *)
theory Navigation
  imports Recents
begin

text \<open>
  The application controller \<open>AppContent\<close> of \<open>WebDroid-OS/src/App.tsx\<close>: its four
  pieces of React state (\<open>currentApp\<close>, \<open>appHistory\<close>, \<open>recentAppsList\<close>,
  \<open>showRecentsView\<close>) as one record, and its five handlers as functions on that record.
  Each handler runs against the state of the last render, which is the state the model
  passes in: intents are dispatched one at a time and React re-renders between them.
  The theory states the invariant that links \<open>currentApp\<close> with \<open>appHistory\<close>, proves
  that every handler keeps it, and proves that the handlers refine the abstract
  navigation stack of the spec (section 4.1) through the abstraction \<open>nav_stack\<close>.
\<close>

record app_content =
  currentApp :: "app_id option"
  appHistory :: "app_id list"
  recentAppsList :: "app_id list"
  showRecentsView :: bool

definition initial_app_content :: app_content where
  "initial_app_content =
     \<lparr>currentApp = None, appHistory = [], recentAppsList = [], showRecentsView = False\<rparr>"

definition handleRemoveRecentApp :: "app_id \<Rightarrow> app_content \<Rightarrow> app_content" where
  "handleRemoveRecentApp appIdToRemove s =
     s\<lparr>recentAppsList := recents_remove appIdToRemove (recentAppsList s)\<rparr>"

text \<open>
  \<open>handleOpenApp\<close>: close the recents view, move the app to the front of the recents,
  then push it on the history when another app is active (\<open>if (currentApp)\<close>, a
  truthiness test), or restart the history with it when none is.
\<close>

definition handleOpenApp :: "app_id \<Rightarrow> app_content \<Rightarrow> app_content" where
  "handleOpenApp appId s =
     (let s1 = (if showRecentsView s then s\<lparr>showRecentsView := False\<rparr> else s);
          s2 = s1\<lparr>recentAppsList := recents_touch appId (recentAppsList s1)\<rparr>;
          s3 = (if truthy (currentApp s)
                then (if the (currentApp s) \<noteq> appId
                      then s2\<lparr>appHistory := appHistory s2 @ [appId]\<rparr> else s2)
                else s2\<lparr>appHistory := [appId]\<rparr>)
      in s3\<lparr>currentApp := Some appId\<rparr>)"

text \<open>\<open>handleCloseApp\<close>, the Home button: it clears \<open>currentApp\<close> but leaves \<open>appHistory\<close> as it is.\<close>

definition handleCloseApp :: "app_content \<Rightarrow> app_content" where
  "handleCloseApp s =
     (if truthy (currentApp s)
      then (let s1 = s\<lparr>currentApp := None\<rparr>
            in if showRecentsView s then s1\<lparr>showRecentsView := False\<rparr> else s1)
      else (if showRecentsView s then s\<lparr>showRecentsView := False\<rparr> else s))"

text \<open>
  \<open>handleBackNav\<close>: closing the recents view has priority; otherwise, with an app open,
  pop the history (\<open>appHistory.slice(0, -1)\<close>) or, from its last entry, go home.
\<close>

definition handleBackNav :: "app_content \<Rightarrow> app_content" where
  "handleBackNav s =
     (if showRecentsView s then s\<lparr>showRecentsView := False\<rparr>
      else if currentApp s \<noteq> None then
        (if length (appHistory s) > 1 then
           (let newHistory = butlast (appHistory s)
            in s\<lparr>appHistory := newHistory, currentApp := Some (last newHistory)\<rparr>)
         else if length (appHistory s) = 1 then
           s\<lparr>currentApp := None, appHistory := []\<rparr>
         else s)
      else s)"

definition handleRecentsClick :: "app_content \<Rightarrow> app_content" where
  "handleRecentsClick s = s\<lparr>showRecentsView := \<not> showRecentsView s\<rparr>"

text \<open>The \<open>hasHistory\<close> prop passed to \<open>DeviceFrame\<close>: it enables the Back button.\<close>

definition hasHistory :: "app_content \<Rightarrow> bool" where
  "hasHistory s \<longleftrightarrow> currentApp s \<noteq> None \<or> showRecentsView s"

subsection \<open>Invariant\<close>

text \<open>
  When an app is active it is the last entry of the history; the history never holds the
  same app twice in a row and holds no empty identifier (so \<open>if (currentApp)\<close> and
  \<open>currentApp !== null\<close> agree); the recents are duplicate-free, within capacity and
  hold no empty identifier. When no app is active the history may be stale: \<open>handleCloseApp\<close>
  does not clear it, and the next \<open>handleOpenApp\<close> overwrites it.
\<close>

definition history_inv :: "app_content \<Rightarrow> bool" where
  "history_inv s \<longleftrightarrow>
     (case currentApp s of
        None \<Rightarrow> True
      | Some c \<Rightarrow> appHistory s \<noteq> [] \<and> last (appHistory s) = c)
     \<and> successively (\<noteq>) (appHistory s)
     \<and> list_all (\<lambda>a. a \<noteq> []) (appHistory s)"

definition app_inv :: "app_content \<Rightarrow> bool" where
  "app_inv s \<longleftrightarrow> history_inv s \<and> recents_inv (recentAppsList s)
     \<and> list_all (\<lambda>a. a \<noteq> []) (recentAppsList s)"

text \<open>The abstract navigation stack of the spec: empty at home, the history otherwise.\<close>

definition nav_stack :: "app_content \<Rightarrow> app_id list" where
  "nav_stack s = (case currentApp s of None \<Rightarrow> [] | Some _ \<Rightarrow> appHistory s)"

text \<open>The operations of the spec's NavigationStack (section 4.1) on that list.\<close>

definition stack_open :: "app_id \<Rightarrow> app_id list \<Rightarrow> app_id list" where
  "stack_open a st = (if st \<noteq> [] \<and> last st = a then st else st @ [a])"

definition stack_goBack :: "app_id list \<Rightarrow> app_id list" where
  "stack_goBack st = butlast st"

text \<open>
  The callbacks \<open>AppContent\<close> hands to \<open>DeviceFrame\<close> (its props, \<open>DeviceFrame.tsx\<close>
  lines 62--73) as a datatype of operations, and the dispatch of one of them.
\<close>

datatype app_event =
    OpenApp app_id
  | CloseApp
  | BackNav
  | RecentsClick
  | RemoveRecentApp app_id

fun app_step :: "app_content \<Rightarrow> app_event \<Rightarrow> app_content" where
  "app_step s (OpenApp a) = handleOpenApp a s"
| "app_step s CloseApp = handleCloseApp s"
| "app_step s BackNav = handleBackNav s"
| "app_step s RecentsClick = handleRecentsClick s"
| "app_step s (RemoveRecentApp a) = handleRemoveRecentApp a s"

definition app_run :: "app_content \<Rightarrow> app_event list \<Rightarrow> app_content" where
  "app_run s es = foldl app_step s es"

text \<open>
  The identifiers that reach \<open>handleOpenApp\<close> are never empty: the home screen's are
  fixed names, the recents view's were opened before, and the \<open>webdroid:openApp\<close>
  listener drops falsy ones (\<open>if (appId && ...)\<close>).
\<close>

fun app_event_ok :: "app_event \<Rightarrow> bool" where
  "app_event_ok (OpenApp a) = (a \<noteq> [])"
| "app_event_ok _ = True"

text \<open>A state with two apps in the history, the second active, recents view closed.\<close>

definition two_apps_state :: app_content where
  "two_apps_state =
     \<lparr>currentApp = Some ''notes'', appHistory = [''weather'', ''notes''],
      recentAppsList = [''notes'', ''weather''], showRecentsView = False\<rparr>"

lemma app_inv_initial: "app_inv initial_app_content"
  by (simp add: app_inv_def history_inv_def initial_app_content_def)

lemma handleOpenApp_history_inv [webdroid_inv]:
  "history_inv s \<Longrightarrow> appId \<noteq> [] \<Longrightarrow> history_inv (handleOpenApp appId s)"
  by (auto simp: history_inv_def handleOpenApp_def Let_def successively_snoc_neq
      split: option.splits)

lemma handleCloseApp_history_inv [webdroid_inv]:
  "history_inv s \<Longrightarrow> history_inv (handleCloseApp s)"
  by (auto simp: history_inv_def handleCloseApp_def Let_def split: option.splits)

lemma history_inv_truthy:
  "history_inv s \<Longrightarrow> truthy (currentApp s) = (currentApp s \<noteq> None)"
  by (auto simp: history_inv_def list_all_iff split: option.splits)

lemma list_all_butlast: "list_all P xs \<Longrightarrow> list_all P (butlast xs)"
  by (auto simp: list_all_iff dest: in_set_butlastD)

lemma handleBackNav_history_inv [webdroid_inv]:
  "history_inv s \<Longrightarrow> history_inv (handleBackNav s)"
proof -
  assume inv: "history_inv s"
  show ?thesis
  proof (cases "\<not> showRecentsView s \<and> currentApp s \<noteq> None \<and> length (appHistory s) > 1")
    case True
    let ?h = "butlast (appHistory s)"
    from True have ne: "?h \<noteq> []" by (cases "appHistory s" rule: rev_cases) auto
    from inv have "successively (\<noteq>) ?h" and "list_all (\<lambda>a. a \<noteq> []) ?h"
      by (simp_all add: history_inv_def list_all_butlast)
    with True ne show ?thesis
      by (simp add: history_inv_def handleBackNav_def Let_def)
  next
    case False
    with inv show ?thesis
      by (auto simp: history_inv_def handleBackNav_def Let_def split: option.splits)
  qed
qed

lemma history_inv_eqI:
  "currentApp t = currentApp s \<Longrightarrow> appHistory t = appHistory s \<Longrightarrow> history_inv t = history_inv s"
  by (simp add: history_inv_def split: option.split)

lemma recentAppsList_handleOpenApp:
  "recentAppsList (handleOpenApp a s) = recents_touch a (recentAppsList s)"
  by (simp add: handleOpenApp_def Let_def)

lemma recentAppsList_handleCloseApp: "recentAppsList (handleCloseApp s) = recentAppsList s"
  by (simp add: handleCloseApp_def Let_def)

lemma recentAppsList_handleBackNav: "recentAppsList (handleBackNav s) = recentAppsList s"
  by (simp add: handleBackNav_def Let_def)

lemma handleOpenApp_app_inv [webdroid_inv]:
  "app_inv s \<Longrightarrow> appId \<noteq> [] \<Longrightarrow> app_inv (handleOpenApp appId s)"
  by (simp add: app_inv_def handleOpenApp_history_inv recentAppsList_handleOpenApp
      recents_touch_inv recents_touch_list_all)

lemma handleCloseApp_app_inv [webdroid_inv]: "app_inv s \<Longrightarrow> app_inv (handleCloseApp s)"
  by (simp add: app_inv_def handleCloseApp_history_inv recentAppsList_handleCloseApp)

lemma handleBackNav_app_inv [webdroid_inv]: "app_inv s \<Longrightarrow> app_inv (handleBackNav s)"
  by (simp add: app_inv_def handleBackNav_history_inv recentAppsList_handleBackNav)

lemma handleRemoveRecentApp_app_inv [webdroid_inv]:
  "app_inv s \<Longrightarrow> app_inv (handleRemoveRecentApp a s)"
proof -
  have "history_inv (handleRemoveRecentApp a s) = history_inv s"
    by (rule history_inv_eqI) (simp_all add: handleRemoveRecentApp_def)
  then show "app_inv s \<Longrightarrow> ?thesis"
    by (simp add: app_inv_def handleRemoveRecentApp_def recents_remove_inv recents_remove_list_all)
qed

lemma handleRecentsClick_app_inv [webdroid_inv]:
  "app_inv s \<Longrightarrow> app_inv (handleRecentsClick s)"
proof -
  have "history_inv (handleRecentsClick s) = history_inv s"
    by (rule history_inv_eqI) (simp_all add: handleRecentsClick_def)
  then show "app_inv s \<Longrightarrow> ?thesis"
    by (simp add: app_inv_def handleRecentsClick_def)
qed

lemma app_step_app_inv [webdroid_inv]:
  "app_inv s \<Longrightarrow> app_event_ok e \<Longrightarrow> app_inv (app_step s e)"
  by (cases e) (simp_all add: webdroid_inv)

lemma app_run_app_inv:
  "app_inv s \<Longrightarrow> list_all app_event_ok es \<Longrightarrow> app_inv (app_run s es)"
  by (induction es arbitrary: s) (simp_all add: app_run_def app_step_app_inv)

subsection \<open>Refinement of the spec's navigation stack\<close>

lemma currentApp_nav_stack:
  "history_inv s \<Longrightarrow> currentApp s = (if nav_stack s = [] then None else Some (last (nav_stack s)))"
  by (auto simp: history_inv_def nav_stack_def split: option.splits)

text \<open>
  C35: opening an app refines the spec's \<open>open\<close>: re-opening the top is a no-op,
  otherwise the app is pushed (as the sole element when at home).
\<close>

theorem handleOpenApp_refines:
  assumes "history_inv s" and "appId \<noteq> []"
  shows "nav_stack (handleOpenApp appId s) = stack_open appId (nav_stack s)"
  using assms history_inv_truthy [OF assms(1)]
  by (auto simp: history_inv_def nav_stack_def stack_open_def handleOpenApp_def Let_def
      split: option.splits)

text \<open>
  With the recents view closed, Back refines the spec's \<open>goBack\<close>: it drops the
  top of the stack, which from a one-element stack means going home.
\<close>

theorem handleBackNav_refines:
  assumes "history_inv s" and "\<not> showRecentsView s"
  shows "nav_stack (handleBackNav s) = stack_goBack (nav_stack s)"
proof (cases "currentApp s")
  case None
  then show ?thesis using assms by (simp add: nav_stack_def stack_goBack_def handleBackNav_def)
next
  case (Some c)
  with assms(1) have ne: "appHistory s \<noteq> []" by (simp add: history_inv_def)
  then consider "length (appHistory s) = 1" | "length (appHistory s) > 1"
    by (cases "appHistory s") auto
  then show ?thesis
  proof cases
    case 1
    then obtain x where "appHistory s = [x]" by (cases "appHistory s") auto
    with Some assms(2) show ?thesis by (simp add: nav_stack_def stack_goBack_def handleBackNav_def)
  next
    case 2
    with Some assms(2) show ?thesis
      by (simp add: nav_stack_def stack_goBack_def handleBackNav_def Let_def)
  qed
qed

text \<open>
  The Home button refines the spec's \<open>goHome\<close>: the abstract stack is empty
  afterwards, although \<open>appHistory\<close> itself is left stale.
\<close>

theorem handleCloseApp_refines:
  assumes "history_inv s"
  shows "nav_stack (handleCloseApp s) = [] \<and> currentApp (handleCloseApp s) = None
    \<and> \<not> showRecentsView (handleCloseApp s)"
  using assms history_inv_truthy [OF assms]
  by (auto simp: nav_stack_def handleCloseApp_def Let_def split: option.splits)

subsection \<open>The spec's navigation properties\<close>

text \<open>
  C34: every sequence of the controller's callbacks from the initial state keeps the
  invariant; in particular the recents stay duplicate-free and within ten entries
  (spec property P4 at the level of \<open>App.tsx\<close>).
\<close>

theorem app_run_initial_inv:
  assumes "list_all app_event_ok es"
  shows "app_inv (app_run initial_app_content es)"
  using app_inv_initial assms by (rule app_run_app_inv)

text \<open>Re-opening the active app changes neither history nor active app (spec P1).\<close>

theorem handleOpenApp_idempotent:
  assumes "history_inv s" and "currentApp s = Some x"
  shows "appHistory (handleOpenApp x s) = appHistory s \<and> currentApp (handleOpenApp x s) = currentApp s"
  using assms history_inv_truthy [OF assms(1)] by (simp add: handleOpenApp_def Let_def)

lemma last_butlast_nth:
  "length xs = Suc (Suc n) \<Longrightarrow> last (butlast xs) = xs ! n"
proof (cases xs rule: rev_cases)
  case (snoc ys y)
  moreover assume "length xs = Suc (Suc n)"
  ultimately have "length ys = Suc n" by simp
  then have "ys \<noteq> []" and "length ys - 1 = n" by auto
  then have "last ys = ys ! n" by (simp add: last_conv_nth)
  with snoc \<open>length ys = Suc n\<close> show ?thesis by (simp add: nth_append)
qed simp

text \<open>
  Back from a history of \<open>n + 2\<close> apps, with the recents view closed, leaves
  \<open>n + 1\<close> and activates the second-from-top app (spec P2).
\<close>

theorem handleBackNav_pops_one:
  assumes "\<not> showRecentsView s" and "currentApp s \<noteq> None"
    and "length (appHistory s) = Suc (Suc n)"
  shows "length (appHistory (handleBackNav s)) = Suc n
    \<and> currentApp (handleBackNav s) = Some (appHistory s ! n)"
  using assms last_butlast_nth [OF assms(3)] by (simp add: handleBackNav_def Let_def)

text \<open>Back from the last app of the history goes home and clears the history (spec P3).\<close>

theorem handleBackNav_last_goes_home:
  assumes "\<not> showRecentsView s" and "currentApp s \<noteq> None" and "length (appHistory s) = 1"
  shows "currentApp (handleBackNav s) = None \<and> appHistory (handleBackNav s) = []"
  using assms by (simp add: handleBackNav_def)

text \<open>
  With the recents view open, Back only closes it: history, active app and recents
  are untouched (spec P7, recents-close beats back).
\<close>

theorem handleBackNav_closes_recents_first:
  assumes "showRecentsView s"
  shows "\<not> showRecentsView (handleBackNav s) \<and> currentApp (handleBackNav s) = currentApp s
    \<and> appHistory (handleBackNav s) = appHistory s
    \<and> recentAppsList (handleBackNav s) = recentAppsList s"
  using assms by (simp add: handleBackNav_def)

text \<open>
  The Back button's enabling flag \<open>hasHistory\<close> is exact: under the invariant,
  Back changes the state if and only if the flag is set.
\<close>

theorem hasHistory_iff_back_changes:
  assumes "history_inv s"
  shows "hasHistory s \<longleftrightarrow> handleBackNav s \<noteq> s"
proof (cases "showRecentsView s")
  case True
  then show ?thesis by (auto simp: hasHistory_def handleBackNav_def dest: arg_cong [of _ _ showRecentsView])
next
  case False
  show ?thesis
  proof (cases "currentApp s")
    case None
    with False show ?thesis by (simp add: hasHistory_def handleBackNav_def)
  next
    case (Some c)
    with assms have "appHistory s \<noteq> []" by (simp add: history_inv_def)
    then have "length (appHistory s) = 1 \<or> length (appHistory s) > 1"
      by (cases "appHistory s") auto
    with False Some show ?thesis
      by (auto simp: hasHistory_def handleBackNav_def Let_def
          dest: arg_cong [of _ _ currentApp] arg_cong [of _ _ "\<lambda>t. length (appHistory t)"])
  qed
qed

text \<open>
  Spec scenario A. From home, open weather, open notes, Back, Back: the active app
  and the history go \<open>weather\<close> / \<open>[weather]\<close>, \<open>notes\<close> /
  \<open>[weather, notes]\<close>, \<open>weather\<close> / \<open>[weather]\<close>, home / \<open>[]\<close>; the
  recents keep both apps, most recent first.
\<close>

theorem scenario_A:
  "let s1 = handleOpenApp ''weather'' initial_app_content;
       s2 = handleOpenApp ''notes'' s1;
       s3 = handleBackNav s2;
       s4 = handleBackNav s3
   in currentApp s1 = Some ''weather'' \<and> appHistory s1 = [''weather'']
    \<and> recentAppsList s1 = [''weather'']
    \<and> currentApp s2 = Some ''notes'' \<and> appHistory s2 = [''weather'', ''notes'']
    \<and> currentApp s3 = Some ''weather'' \<and> appHistory s3 = [''weather'']
    \<and> currentApp s4 = None \<and> appHistory s4 = []
    \<and> recentAppsList s4 = [''notes'', ''weather'']"
  by (simp add: initial_app_content_def handleOpenApp_def handleBackNav_def recents_touch_def Let_def)

subsection \<open>Witnesses\<close>

lemma history_inv_two_apps: "history_inv two_apps_state"
  by (simp add: history_inv_def two_apps_state_def)

theorem app_run_initial_inv_witness:
  "list_all app_event_ok [OpenApp ''weather'', OpenApp ''notes'', BackNav, CloseApp]
   \<and> app_inv (app_run initial_app_content [OpenApp ''weather'', OpenApp ''notes'', BackNav, CloseApp])"
  using app_run_initial_inv [of "[OpenApp ''weather'', OpenApp ''notes'', BackNav, CloseApp]"]
  by simp

theorem handleOpenApp_refines_witness:
  "history_inv two_apps_state \<and> ''clock'' \<noteq> []
   \<and> nav_stack (handleOpenApp ''clock'' two_apps_state) = [''weather'', ''notes'', ''clock'']"
  using handleOpenApp_refines [of two_apps_state "''clock''"] history_inv_two_apps
  by (simp add: two_apps_state_def nav_stack_def stack_open_def)

theorem handleBackNav_refines_witness:
  "history_inv two_apps_state \<and> \<not> showRecentsView two_apps_state
   \<and> nav_stack (handleBackNav two_apps_state) = [''weather'']"
  using handleBackNav_refines [of two_apps_state] history_inv_two_apps
  by (simp add: two_apps_state_def nav_stack_def stack_goBack_def)

theorem handleCloseApp_refines_witness:
  "history_inv two_apps_state \<and> nav_stack (handleCloseApp two_apps_state) = []
   \<and> currentApp (handleCloseApp two_apps_state) = None"
  using handleCloseApp_refines [of two_apps_state] history_inv_two_apps by simp

theorem handleOpenApp_idempotent_witness:
  "history_inv two_apps_state \<and> currentApp two_apps_state = Some ''notes''
   \<and> appHistory (handleOpenApp ''notes'' two_apps_state) = [''weather'', ''notes'']"
  using handleOpenApp_idempotent [of two_apps_state "''notes''"] history_inv_two_apps
  by (simp add: two_apps_state_def)

theorem handleBackNav_pops_one_witness:
  "\<not> showRecentsView two_apps_state \<and> currentApp two_apps_state \<noteq> None
   \<and> length (appHistory two_apps_state) = Suc (Suc 0)
   \<and> currentApp (handleBackNav two_apps_state) = Some ''weather''"
  using handleBackNav_pops_one [of two_apps_state 0] by (simp add: two_apps_state_def)

theorem handleBackNav_last_goes_home_witness:
  "let s = two_apps_state\<lparr>currentApp := Some ''weather'', appHistory := [''weather'']\<rparr>
   in \<not> showRecentsView s \<and> currentApp s \<noteq> None \<and> length (appHistory s) = 1
    \<and> currentApp (handleBackNav s) = None \<and> appHistory (handleBackNav s) = []"
  using handleBackNav_last_goes_home
    [of "two_apps_state\<lparr>currentApp := Some ''weather'', appHistory := [''weather'']\<rparr>"]
  by (simp add: two_apps_state_def)

theorem handleBackNav_closes_recents_first_witness:
  "let s = two_apps_state\<lparr>showRecentsView := True\<rparr>
   in showRecentsView s \<and> \<not> showRecentsView (handleBackNav s)
    \<and> currentApp (handleBackNav s) = Some ''notes''
    \<and> appHistory (handleBackNav s) = [''weather'', ''notes'']"
  using handleBackNav_closes_recents_first [of "two_apps_state\<lparr>showRecentsView := True\<rparr>"]
  by (simp add: two_apps_state_def)

theorem hasHistory_iff_back_changes_witness:
  "history_inv two_apps_state \<and> hasHistory two_apps_state
   \<and> handleBackNav two_apps_state \<noteq> two_apps_state"
  using hasHistory_iff_back_changes [of two_apps_state] history_inv_two_apps
  by (simp add: hasHistory_def two_apps_state_def)

end
