(* ===== verification/DeviceFrame.thy ===== *)
theory DeviceFrame
  imports WebDroid_Prelude
begin

text \<open>
  The power lifecycle of \<open>src/src/components/DeviceFrame.tsx\<close>: the boot state
  (\<open>booting | locked | unlocked | off\<close>), the screen state, the power menu and the
  "Powering off" overlay, and the handlers that change them. A handler returns the new
  frame state together with its effects on the rest of the program, in the order the code
  performs them: callbacks into \<open>AppContent\<close> (\<open>handleCloseApp\<close>, \<open>handleOpenApp\<close>),
  calls into the settings context (volume), and timers it schedules with \<open>setTimeout\<close>.
  A timer records what its callback closed over: the 100 ms timer of
  \<open>handlePowerOffAction\<close> calls the \<open>togglePower\<close> of the render that scheduled it,
  which reads that render's \<open>bootState\<close>. The effect that re-locks the device when the
  screen goes off (lines 286--291) is \<open>lockOnScreenOff\<close>, run after every update.
  The theory also translates the conditional rendering (lines 298--407) into
  \<open>render_frame\<close>: which overlays are mounted, hence which UI events can occur.
\<close>

datatype boot_state = Booting | Locked | Unlocked | Off

datatype screen_state = ScreenOn | ScreenOff

record device_frame =
  bootState :: boot_state
  screenState :: screen_state
  showPowerMenu :: bool
  showPoweringOffMessage :: bool
  showNavBar :: bool

text \<open>Timers scheduled by the frame, by the lock screen and by the status bar's shade.\<close>


datatype timer =
    PowerOffTimer                 \<comment> \<open>\<open>togglePower\<close>, 1500 ms: message off, \<open>bootState\<close> off\<close>
  | TogglePowerTimer boot_state   \<comment> \<open>\<open>handlePowerOffAction\<close>, 100 ms: the captured \<open>togglePower\<close>\<close>
  | RestartTimer                  \<comment> \<open>\<open>handleRestartAction\<close>, 800 ms: message off, booting\<close>
  | UnlockTimer                   \<comment> \<open>\<open>LockScreen\<close>, 300 ms: \<open>onUnlock()\<close>\<close>
  | PinResetTimer nat             \<comment> \<open>\<open>LockScreen\<close>, 500 ms: clear the PIN of that mount\<close>
  | ShadeSettingsTimer            \<comment> \<open>\<open>StatusBar\<close>, 300 ms: dispatch \<open>webdroid:openApp\<close>\<close>

datatype frame_effect =
    CloseAppCall
  | OpenAppCall app_id
  | VolumeUpCall
  | VolumeDownCall
  | Schedule timer

type_synonym frame_result = "device_frame \<times> frame_effect list"

definition initial_device_frame :: device_frame where
  "initial_device_frame =
     \<lparr>bootState = Booting, screenState = ScreenOn, showPowerMenu = False,
      showPoweringOffMessage = False, showNavBar = False\<rparr>"

text \<open>\<open>handleBootComplete\<close>: skip the lock screen when no PIN is set (\<open>!lockscreenPin\<close>).\<close>

definition handleBootComplete :: "string option \<Rightarrow> device_frame \<Rightarrow> device_frame" where
  "handleBootComplete lockscreenPin f =
     (if \<not> truthy lockscreenPin then f\<lparr>bootState := Unlocked\<rparr> else f\<lparr>bootState := Locked\<rparr>)"

definition handleUnlock :: "device_frame \<Rightarrow> device_frame" where
  "handleUnlock f = f\<lparr>bootState := Unlocked\<rparr>"

text \<open>\<open>togglePower\<close> as the render with boot state \<open>b\<close> defines it.\<close>

definition togglePower :: "boot_state \<Rightarrow> device_frame \<Rightarrow> frame_result" where
  "togglePower b f =
     (if b = Off then (f\<lparr>bootState := Booting\<rparr>, [])
      else (f\<lparr>showPowerMenu := False, showPoweringOffMessage := True\<rparr>, [Schedule PowerOffTimer]))"

definition handlePowerOffAction :: "device_frame \<Rightarrow> frame_result" where
  "handlePowerOffAction f =
     (f\<lparr>screenState := ScreenOff\<rparr>, [Schedule (TogglePowerTimer (bootState f))])"

definition handleRestartAction :: "device_frame \<Rightarrow> frame_result" where
  "handleRestartAction f =
     (let f1 = f\<lparr>showPowerMenu := False\<rparr>
      in if bootState f = Off then (f1\<lparr>bootState := Booting\<rparr>, [CloseAppCall])
         else (f1\<lparr>showPoweringOffMessage := True\<rparr>, [CloseAppCall, Schedule RestartTimer]))"

definition handleShortPowerPress :: "device_frame \<Rightarrow> frame_result" where
  "handleShortPowerPress f =
     (if bootState f = Off then togglePower (bootState f) f
      else if screenState f = ScreenOn then (f\<lparr>screenState := ScreenOff\<rparr>, [])
      else (f\<lparr>screenState := ScreenOn\<rparr>, []))"

definition handleLongPowerPress :: "device_frame \<Rightarrow> device_frame" where
  "handleLongPowerPress f = (if bootState f \<noteq> Off then f\<lparr>showPowerMenu := True\<rparr> else f)"

definition handleVolumeUp :: "device_frame \<Rightarrow> frame_effect list" where
  "handleVolumeUp f = (if bootState f = Off then [] else [VolumeUpCall])"

definition handleVolumeDown :: "device_frame \<Rightarrow> frame_effect list" where
  "handleVolumeDown f = (if bootState f = Off then [] else [VolumeDownCall])"

text \<open>The \<open>webdroid:openApp\<close> listener: it forwards any non-empty string identifier.\<close>

definition openAppHandler :: "app_id option \<Rightarrow> frame_effect list" where
  "openAppHandler detail = (if truthy detail then [OpenAppCall (the detail)] else [])"

text \<open>The effect on \<open>[screenState, bootState]\<close>: a dark screen re-locks an unlocked device.\<close>

definition lockOnScreenOff :: "device_frame \<Rightarrow> device_frame" where
  "lockOnScreenOff f =
     (if screenState f = ScreenOff \<and> bootState f = Unlocked then f\<lparr>bootState := Locked\<rparr> else f)"

text \<open>The callbacks of the frame's own timers; other timers leave the frame as it is.\<close>

fun fire_frame_timer :: "timer \<Rightarrow> device_frame \<Rightarrow> frame_result" where
  "fire_frame_timer PowerOffTimer f = (f\<lparr>showPoweringOffMessage := False, bootState := Off\<rparr>, [])"
| "fire_frame_timer (TogglePowerTimer b) f = togglePower b f"
| "fire_frame_timer RestartTimer f = (f\<lparr>showPoweringOffMessage := False, bootState := Booting\<rparr>, [])"
| "fire_frame_timer UnlockTimer f = (handleUnlock f, [])"
| "fire_frame_timer _ f = (f, [])"

definition closePowerMenu :: "device_frame \<Rightarrow> device_frame" where
  "closePowerMenu f = f\<lparr>showPowerMenu := False\<rparr>"

text \<open>
  \<open>handlePowerClick\<close> of \<open>DeviceButtons.tsx\<close>, the power button's only listener:
  both branches call \<open>onShortPowerPress\<close>.
\<close>

definition handlePowerClick :: "device_frame \<Rightarrow> frame_result" where
  "handlePowerClick f =
     (if bootState f = Off then handleShortPowerPress f else handleShortPowerPress f)"

text \<open>The hover area of the navigation bar (\<open>onMouseEnter\<close> / \<open>onMouseLeave\<close>).\<close>

definition setShowNavBar :: "bool \<Rightarrow> device_frame \<Rightarrow> device_frame" where
  "setShowNavBar b f = f\<lparr>showNavBar := b\<rparr>"

text \<open>What the render mounts (lines 317--393 and \<open>renderApps\<close>, lines 187--214).\<close>

record frame_view =
  bootScreenShown :: bool
  lockScreenShown :: bool
  appsShown :: bool
  statusBarShown :: bool
  recentsViewShown :: bool
  navigationBarShown :: bool
  powerMenuShown :: bool

definition render_frame :: "bool \<Rightarrow> device_frame \<Rightarrow> frame_view" where
  "render_frame showRecentsView f =
     (let on = (screenState f = ScreenOn) in
      \<lparr>bootScreenShown = (bootState f = Booting),
       lockScreenShown = (bootState f = Locked),
       appsShown = (bootState f = Unlocked),
       statusBarShown = (bootState f \<noteq> Off \<and> on),
       recentsViewShown = (bootState f = Unlocked \<and> on \<and> showRecentsView),
       navigationBarShown = (bootState f = Unlocked \<and> on),
       powerMenuShown = (showPowerMenu f \<and> bootState f \<noteq> Off \<and> on)\<rparr>)"

text \<open>The frame's invariant once the lock effect has run: never unlocked with the screen dark.\<close>

definition frame_inv :: "device_frame \<Rightarrow> bool" where
  "frame_inv f \<longleftrightarrow> \<not> (screenState f = ScreenOff \<and> bootState f = Unlocked)"

subsection \<open>Facts\<close>

lemma screen_state_neq_ScreenOff [simp]: "(x \<noteq> ScreenOff) = (x = ScreenOn)"
  by (cases x) auto

lemma lockOnScreenOff_frame_inv [webdroid_inv]: "frame_inv (lockOnScreenOff f)"
  by (simp add: frame_inv_def lockOnScreenOff_def)

lemma lockOnScreenOff_id: "frame_inv f \<Longrightarrow> lockOnScreenOff f = f"
  by (simp add: frame_inv_def lockOnScreenOff_def)

lemma screenState_lockOnScreenOff [simp]: "screenState (lockOnScreenOff f) = screenState f"
  by (simp add: lockOnScreenOff_def)

lemma bootState_lockOnScreenOff:
  "bootState (lockOnScreenOff f) =
     (if screenState f = ScreenOff \<and> bootState f = Unlocked then Locked else bootState f)"
  by (simp add: lockOnScreenOff_def)

end
