(* ===== verification/LockScreen.thy ===== *)
theory LockScreen
  imports WebDroid_Prelude
begin

text \<open>
  The PIN pad of \<open>WebDroid-OS/src/components/LockScreen.tsx\<close>: the entered digits
  \<open>pinDisplay\<close>, the key handler that appends a digit while fewer than four are entered,
  and the effect that validates four digits against the configured PIN. The effect's
  verdict is a value of \<open>pin_check\<close>; the controller turns it into the timer the code
  schedules (300 ms to \<open>onUnlock\<close>, 500 ms to clear the digits). With no PIN configured
  the effect returns at once, so the pad never validates anything.
\<close>

record lock_screen =
  pinDisplay :: string

definition initial_lock_screen :: lock_screen where
  "initial_lock_screen = \<lparr>pinDisplay = []\<rparr>"

text \<open>The ten keys of the pad, \<open>numberKeys\<close>.\<close>

definition numberKeys :: "char list" where
  "numberKeys = ''1234567890''"

definition handleKeyPress :: "char \<Rightarrow> lock_screen \<Rightarrow> lock_screen" where
  "handleKeyPress key ls =
     (if length (pinDisplay ls) < 4 then ls\<lparr>pinDisplay := pinDisplay ls @ [key]\<rparr> else ls)"

datatype pin_check = NoCheck | PinAccepted | PinRejected

definition validatePin :: "string option \<Rightarrow> lock_screen \<Rightarrow> pin_check" where
  "validatePin lockscreenPin ls =
     (if \<not> truthy lockscreenPin then NoCheck
      else if length (pinDisplay ls) = 4 then
        (if pinDisplay ls = the lockscreenPin then PinAccepted else PinRejected)
      else NoCheck)"

definition resetPin :: "lock_screen \<Rightarrow> lock_screen" where
  "resetPin ls = ls\<lparr>pinDisplay := []\<rparr>"

definition lock_inv :: "lock_screen \<Rightarrow> bool" where
  "lock_inv ls \<longleftrightarrow> length (pinDisplay ls) \<le> 4 \<and> set (pinDisplay ls) \<subseteq> set numberKeys"

subsection \<open>Facts\<close>

lemma lock_inv_initial [simp]: "lock_inv initial_lock_screen"
  by (simp add: lock_inv_def initial_lock_screen_def)

lemma lock_inv_resetPin [simp]: "lock_inv (resetPin ls)"
  by (simp add: lock_inv_def resetPin_def)

lemma handleKeyPress_lock_inv [webdroid_inv]:
  "lock_inv ls \<Longrightarrow> key \<in> set numberKeys \<Longrightarrow> lock_inv (handleKeyPress key ls)"
  by (simp add: lock_inv_def handleKeyPress_def)

lemma validatePin_accepted:
  "validatePin p ls = PinAccepted \<longleftrightarrow> truthy p \<and> length (pinDisplay ls) = 4 \<and> p = Some (pinDisplay ls)"
  by (cases p) (auto simp: validatePin_def)

lemma validatePin_no_pin: "\<not> truthy p \<Longrightarrow> validatePin p ls = NoCheck"
  by (simp add: validatePin_def)

end
