(* ===== verification/Controller.thy ===== *)
theory Controller
  imports Navigation DeviceFrame LockScreen
begin

text \<open>
  The composition of \<open>AppContent\<close> (\<open>App.tsx\<close>), \<open>DeviceFrame\<close>, the lock screen,
  the device's power button and the PIN setting of the settings context. One record
  holds all of their state together with the pending \<open>setTimeout\<close> timers. An event is
  one DOM event or one timer callback; an event can only occur on an element the current
  render mounts (\<open>render_frame\<close>). After the handler, the frame's effect that re-locks on
  a dark screen runs, and the lock screen is mounted afresh when the device enters the
  locked state. \<open>step\<close> is the resulting deterministic function of an event (\<open>None\<close>
  when the event cannot occur); which event comes next, including which pending timer
  fires, is left open, so the reachable states over-approximate every real timing.
\<close>

record webdroid =
  app :: app_content
  frame :: device_frame
  lock :: lock_screen
  lockMount :: nat
  pinSetting :: "string option"
  timers :: "timer list"

text \<open>\<open>appsConfig\<close> of \<open>HomeScreen.tsx\<close>: the identifiers of the launcher's icons.\<close>

definition homeApps :: "app_id list" where
  "homeApps = [''calculator'', ''weather'', ''notes'', ''camera'', ''browser'', ''clock'',
               ''files'', ''themes'', ''settings'']"

definition initial_webdroid :: "string option \<Rightarrow> webdroid" where
  "initial_webdroid p =
     \<lparr>app = initial_app_content, frame = initial_device_frame, lock = initial_lock_screen,
      lockMount = 0, pinSetting = p, timers = []\<rparr>"

definition view :: "webdroid \<Rightarrow> frame_view" where
  "view s = render_frame (showRecentsView (app s)) (frame s)"

text \<open>The frame's calls into the other components, in order.\<close>

fun apply_effect :: "webdroid \<Rightarrow> frame_effect \<Rightarrow> webdroid" where
  "apply_effect s CloseAppCall = s\<lparr>app := handleCloseApp (app s)\<rparr>"
| "apply_effect s (OpenAppCall a) = s\<lparr>app := handleOpenApp a (app s)\<rparr>"
| "apply_effect s VolumeUpCall = s"
| "apply_effect s VolumeDownCall = s"
| "apply_effect s (Schedule t) = s\<lparr>timers := timers s @ [t]\<rparr>"

definition run_frame :: "frame_result \<Rightarrow> webdroid \<Rightarrow> webdroid" where
  "run_frame r s = foldl apply_effect (s\<lparr>frame := fst r\<rparr>) (snd r)"

text \<open>The lock screen's validation effect, run when a key press changed the digits.\<close>

definition lock_effect :: "webdroid \<Rightarrow> webdroid" where
  "lock_effect s =
     (case validatePin (pinSetting s) (lock s) of
        NoCheck \<Rightarrow> s
      | PinAccepted \<Rightarrow> s\<lparr>timers := timers s @ [UnlockTimer]\<rparr>
      | PinRejected \<Rightarrow> s\<lparr>timers := timers s @ [PinResetTimer (lockMount s)]\<rparr>)"

text \<open>
  \<open>LockSettingsPage\<close>: turning the lock off sets the PIN to \<open>null\<close>; the change-PIN
  modal submits a new PIN (\<open>handlePinSubmit\<close>, which always succeeds).
\<close>

definition setLockscreenPin :: "string option \<Rightarrow> webdroid \<Rightarrow> webdroid" where
  "setLockscreenPin p s = s\<lparr>pinSetting := p\<rparr>"

text \<open>The callback of a pending timer, once it has left the queue.\<close>

fun fire :: "timer \<Rightarrow> webdroid \<Rightarrow> webdroid" where
  "fire (PinResetTimer m) s =
     (if bootState (frame s) = Locked \<and> lockMount s = m then s\<lparr>lock := resetPin (lock s)\<rparr> else s)"
| "fire ShadeSettingsTimer s = foldl apply_effect s (openAppHandler (Some ''settings''))"
| "fire t s = run_frame (fire_frame_timer t (frame s)) s"

definition remove_nth :: "nat \<Rightarrow> 'a list \<Rightarrow> 'a list" where
  "remove_nth i xs = take i xs @ drop (Suc i) xs"

datatype event =
    HomeLaunch app_id
  | RecentsSelect app_id
  | RecentsRemove app_id
  | NavHome
  | NavBack
  | NavRecents
  | NavBarHover bool
  | AppClose
  | PowerClick
  | MenuPowerOff
  | MenuRestart
  | MenuCancel
  | PinKey char
  | BootDone
  | ShadeOpenSettings
  | SettingsSetPin "string option"
  | FireTimer nat

text \<open>
  The handler of one event, or \<open>None\<close> when no mounted element can produce it. The
  navigation bar's Back button calls \<open>onBackClick\<close> only when \<open>hasHistory\<close>
  (\<open>NavigationBar.tsx\<close>, \<open>handleBackClick\<close>); the home screen takes clicks only while no
  app is active (its \<open>pointer-events\<close>); the PIN a settings page may store is \<open>null\<close>
  or four digits, as \<open>ChangePinModal\<close> checks. The power button has only its click
  listener: the long-press handlers of \<open>useLongPress\<close> never reach it (theory
  \<open>UseLongPress\<close>), and the shade's power tile calls the context's \<open>showPowerMenu\<close>,
  a stub that only logs; no event opens the power menu.
\<close>

fun dispatch :: "webdroid \<Rightarrow> event \<Rightarrow> webdroid option" where
  "dispatch s (HomeLaunch a) =
     (if appsShown (view s) \<and> currentApp (app s) = None \<and> a \<in> set homeApps
      then Some (s\<lparr>app := handleOpenApp a (app s)\<rparr>) else None)"
| "dispatch s (RecentsSelect a) =
     (if recentsViewShown (view s) \<and> a \<in> set (recentAppsList (app s))
      then Some (s\<lparr>app := handleOpenApp a (app s)\<rparr>) else None)"
| "dispatch s (RecentsRemove a) =
     (if recentsViewShown (view s) \<and> a \<in> set (recentAppsList (app s))
      then Some (s\<lparr>app := handleRemoveRecentApp a (app s)\<rparr>) else None)"
| "dispatch s NavHome =
     (if navigationBarShown (view s) then Some (s\<lparr>app := handleCloseApp (app s)\<rparr>) else None)"
| "dispatch s NavBack =
     (if navigationBarShown (view s)
      then Some (if hasHistory (app s) then s\<lparr>app := handleBackNav (app s)\<rparr> else s) else None)"
| "dispatch s NavRecents =
     (if navigationBarShown (view s) then Some (s\<lparr>app := handleRecentsClick (app s)\<rparr>) else None)"
| "dispatch s (NavBarHover b) =
     (if navigationBarShown (view s) then Some (s\<lparr>frame := setShowNavBar b (frame s)\<rparr>) else None)"
| "dispatch s AppClose =
     (if appsShown (view s) \<and> currentApp (app s) \<noteq> None
      then Some (s\<lparr>app := handleCloseApp (app s)\<rparr>) else None)"
| "dispatch s PowerClick = Some (run_frame (handlePowerClick (frame s)) s)"
| "dispatch s MenuPowerOff =
     (if powerMenuShown (view s) then Some (run_frame (handlePowerOffAction (frame s)) s) else None)"
| "dispatch s MenuRestart =
     (if powerMenuShown (view s) then Some (run_frame (handleRestartAction (frame s)) s) else None)"
| "dispatch s MenuCancel =
     (if powerMenuShown (view s) then Some (s\<lparr>frame := closePowerMenu (frame s)\<rparr>) else None)"
| "dispatch s (PinKey k) =
     (if lockScreenShown (view s) \<and> k \<in> set numberKeys
      then (let s1 = s\<lparr>lock := handleKeyPress k (lock s)\<rparr>
            in Some (if lock s1 \<noteq> lock s then lock_effect s1 else s1))
      else None)"
| "dispatch s BootDone =
     (if bootScreenShown (view s)
      then Some (s\<lparr>frame := handleBootComplete (pinSetting s) (frame s)\<rparr>) else None)"
| "dispatch s ShadeOpenSettings =
     (if statusBarShown (view s) then Some (s\<lparr>timers := timers s @ [ShadeSettingsTimer]\<rparr>) else None)"
| "dispatch s (SettingsSetPin p) =
     (if appsShown (view s) \<and> currentApp (app s) = Some ''settings''
         \<and> (case p of None \<Rightarrow> True | Some q \<Rightarrow> length q = 4 \<and> list_all (\<lambda>c. c \<in> set numberKeys) q)
      then Some (setLockscreenPin p s) else None)"
| "dispatch s (FireTimer i) =
     (if i < length (timers s)
      then Some (fire (timers s ! i) (s\<lparr>timers := remove_nth i (timers s)\<rparr>)) else None)"

text \<open>
  After the handler: the re-lock effect of \<open>DeviceFrame\<close>, then a fresh lock screen
  when the device enters the locked state (it was not locked before the event, or the
  handler itself left the locked state).
\<close>

definition settle :: "boot_state \<Rightarrow> webdroid \<Rightarrow> webdroid" where
  "settle b0 s =
     (let b1 = bootState (frame s); f = lockOnScreenOff (frame s)
      in if bootState f = Locked \<and> (b0 \<noteq> Locked \<or> b1 \<noteq> Locked)
         then s\<lparr>frame := f, lock := initial_lock_screen, lockMount := Suc (lockMount s)\<rparr>
         else s\<lparr>frame := f\<rparr>)"

definition step :: "webdroid \<Rightarrow> event \<Rightarrow> webdroid option" where
  "step s e = map_option (settle (bootState (frame s))) (dispatch s e)"

fun run :: "webdroid \<Rightarrow> event list \<Rightarrow> webdroid option" where
  "run s [] = Some s"
| "run s (e # es) = (case step s e of None \<Rightarrow> None | Some s' \<Rightarrow> run s' es)"

inductive reach :: "string option \<Rightarrow> webdroid \<Rightarrow> bool" for p where
  reach_init: "reach p (initial_webdroid p)"
| reach_step: "reach p s \<Longrightarrow> step s e = Some s' \<Longrightarrow> reach p s'"

text \<open>The timers the reachable states can hold: those of the lock screen and of the shade.\<close>

fun ui_timer :: "timer \<Rightarrow> bool" where
  "ui_timer UnlockTimer = True"
| "ui_timer (PinResetTimer _) = True"
| "ui_timer ShadeSettingsTimer = True"
| "ui_timer _ = False"

definition sys_inv :: "webdroid \<Rightarrow> bool" where
  "sys_inv s \<longleftrightarrow> app_inv (app s) \<and> frame_inv (frame s) \<and> lock_inv (lock s)
     \<and> \<not> showPowerMenu (frame s) \<and> list_all ui_timer (timers s)"

fun effect_ok :: "frame_effect \<Rightarrow> bool" where
  "effect_ok (OpenAppCall a) = (a \<noteq> [])"
| "effect_ok _ = True"

text \<open>Concrete states and event sequences used by the scenarios and the witnesses.\<close>

definition booted_unlocked :: webdroid where
  "booted_unlocked = (initial_webdroid None)\<lparr>frame := initial_device_frame\<lparr>bootState := Unlocked\<rparr>\<rparr>"

definition menu_open_with_apps :: webdroid where
  "menu_open_with_apps =
     booted_unlocked\<lparr>app := two_apps_state, frame := (frame booted_unlocked)\<lparr>showPowerMenu := True\<rparr>\<rparr>"

text \<open>
  The power menu open on an unlocked device without a PIN, as \<open>handleLongPowerPress\<close>
  would leave it; then Power off, its two timers, the power button, and boot completion.
\<close>

definition menu_open_no_pin :: webdroid where
  "menu_open_no_pin = booted_unlocked\<lparr>frame := (frame booted_unlocked)\<lparr>showPowerMenu := True\<rparr>\<rparr>"

definition power_cycle :: "event list" where
  "power_cycle = [MenuPowerOff, FireTimer 0, FireTimer 0, PowerClick, BootDone]"

text \<open>Boot without a PIN, then darken and relight the screen with the power button.\<close>

definition relock_no_pin :: "event list" where
  "relock_no_pin = [BootDone, PowerClick, PowerClick]"

text \<open>A locked device without a PIN and without a pending unlock, in an invariant state.\<close>

definition locked_no_pin_state :: "webdroid \<Rightarrow> bool" where
  "locked_no_pin_state s \<longleftrightarrow> sys_inv s \<and> pinSetting s = None \<and> bootState (frame s) = Locked
     \<and> UnlockTimer \<notin> set (timers s)"

subsection \<open>The invariant of the composed program\<close>

lemma apply_effect_app_inv:
  "app_inv (app s) \<Longrightarrow> effect_ok e \<Longrightarrow> app_inv (app (apply_effect s e))"
  by (cases e) (simp_all add: webdroid_inv)

lemma apply_effect_lock [simp]: "lock (apply_effect s e) = lock s"
  by (cases e) simp_all

lemma apply_effect_frame [simp]: "frame (apply_effect s e) = frame s"
  by (cases e) simp_all

lemma foldl_apply_effect_app_inv:
  "app_inv (app s) \<Longrightarrow> list_all effect_ok es \<Longrightarrow> app_inv (app (foldl apply_effect s es))"
  by (induction es arbitrary: s) (simp_all add: apply_effect_app_inv)

lemma foldl_apply_effect_lock [simp]: "lock (foldl apply_effect s es) = lock s"
  by (induction es arbitrary: s) simp_all

lemma foldl_apply_effect_frame [simp]: "frame (foldl apply_effect s es) = frame s"
  by (induction es arbitrary: s) simp_all

lemma run_frame_app_inv:
  "app_inv (app s) \<Longrightarrow> list_all effect_ok (snd r) \<Longrightarrow> app_inv (app (run_frame r s))"
  by (simp add: run_frame_def foldl_apply_effect_app_inv)

lemma run_frame_lock [simp]: "lock (run_frame r s) = lock s"
  by (simp add: run_frame_def)

lemma run_frame_frame [simp]: "frame (run_frame r s) = fst r"
  by (simp add: run_frame_def)

lemma ok_togglePower: "list_all effect_ok (snd (togglePower b f))"
  by (simp add: togglePower_def)
lemma ok_handlePowerOffAction: "list_all effect_ok (snd (handlePowerOffAction f))"
  by (simp add: handlePowerOffAction_def)
lemma ok_handleRestartAction: "list_all effect_ok (snd (handleRestartAction f))"
  by (simp add: handleRestartAction_def Let_def)
lemma ok_handleShortPowerPress: "list_all effect_ok (snd (handleShortPowerPress f))"
  by (simp add: handleShortPowerPress_def togglePower_def)
lemma ok_handlePowerClick: "list_all effect_ok (snd (handlePowerClick f))"
  by (simp add: handlePowerClick_def ok_handleShortPowerPress)
lemma ok_fire_frame_timer: "list_all effect_ok (snd (fire_frame_timer t f))"
  by (cases t) (simp_all add: ok_togglePower)
lemma ok_openAppHandler: "list_all effect_ok (openAppHandler d)"
  by (cases d) (simp_all add: openAppHandler_def)

lemmas frame_effects_ok = ok_togglePower ok_handlePowerOffAction ok_handleRestartAction
  ok_handleShortPowerPress ok_handlePowerClick ok_fire_frame_timer ok_openAppHandler

lemma lock_effect_fields [simp]:
  "app (lock_effect s) = app s" "frame (lock_effect s) = frame s" "lock (lock_effect s) = lock s"
  by (simp_all add: lock_effect_def split: pin_check.splits)

lemma fire_app_inv: "app_inv (app s) \<Longrightarrow> app_inv (app (fire t s))"
  by (cases t) (simp_all add: run_frame_app_inv foldl_apply_effect_app_inv frame_effects_ok)

lemma fire_lock_inv: "lock_inv (lock s) \<Longrightarrow> lock_inv (lock (fire t s))"
  by (cases t) simp_all

lemma homeApps_nonempty: "a \<in> set homeApps \<Longrightarrow> a \<noteq> []"
  by (auto simp: homeApps_def)

lemma app_inv_recent_nonempty: "app_inv s \<Longrightarrow> a \<in> set (recentAppsList s) \<Longrightarrow> a \<noteq> []"
  by (auto simp: app_inv_def list_all_iff)

lemma dispatch_app_inv:
  assumes "dispatch s e = Some s'" and "app_inv (app s)"
  shows "app_inv (app s')"
  using assms
proof (cases e)
  case (HomeLaunch a)
  with assms show ?thesis by (auto simp: webdroid_inv homeApps_nonempty split: if_split_asm)
next
  case (RecentsSelect a)
  with assms show ?thesis by (auto simp: webdroid_inv app_inv_recent_nonempty split: if_split_asm)
next
  case (FireTimer i)
  with assms show ?thesis by (auto simp: fire_app_inv split: if_split_asm)
next
  case (PinKey k)
  with assms show ?thesis by (auto simp: Let_def split: if_split_asm)
qed (auto simp: webdroid_inv run_frame_app_inv frame_effects_ok setLockscreenPin_def
      split: if_split_asm)


lemma dispatch_lock_inv:
  assumes "dispatch s e = Some s'" and "lock_inv (lock s)"
  shows "lock_inv (lock s')"
  using assms
proof (cases e)
  case (PinKey k)
  with assms show ?thesis by (auto simp: Let_def handleKeyPress_lock_inv split: if_split_asm)
next
  case (FireTimer i)
  with assms show ?thesis by (auto simp: fire_lock_inv split: if_split_asm)
qed (auto simp: setLockscreenPin_def split: if_split_asm)

lemma settle_fields [simp]: "app (settle b s) = app s"
  by (simp add: settle_def Let_def)

lemma settle_frame_inv: "frame_inv (frame (settle b s))"
  by (simp add: settle_def Let_def lockOnScreenOff_frame_inv)

lemma settle_lock_inv: "lock_inv (lock s) \<Longrightarrow> lock_inv (lock (settle b s))"
  by (simp add: settle_def Let_def)

lemma ui_timers_remove_nth:
  "list_all ui_timer ts \<Longrightarrow> list_all ui_timer (remove_nth i ts)"
  by (auto simp: remove_nth_def list_all_iff dest: in_set_takeD in_set_dropD)

lemma ui_timer_nth: "list_all ui_timer ts \<Longrightarrow> i < length ts \<Longrightarrow> ui_timer (ts ! i)"
  by (simp add: list_all_length)

lemma fire_ui_timer:
  assumes "ui_timer t" and "\<not> showPowerMenu (frame s)" and "list_all ui_timer (timers s)"
  shows "\<not> showPowerMenu (frame (fire t s)) \<and> list_all ui_timer (timers (fire t s))"
  using assms
  by (cases t) (simp_all add: run_frame_def handleUnlock_def openAppHandler_def)

text \<open>No event opens the power menu, and only the lock screen's and the shade's timers are set.\<close>

lemma dispatch_power_inv:
  assumes "dispatch s e = Some s'" and "\<not> showPowerMenu (frame s)"
    and "list_all ui_timer (timers s)"
  shows "\<not> showPowerMenu (frame s') \<and> list_all ui_timer (timers s')"
  using assms
proof (cases e)
  case (FireTimer i)
  with assms show ?thesis
    by (auto simp: fire_ui_timer ui_timer_nth ui_timers_remove_nth split: if_split_asm)
next
  case (PinKey k)
  with assms show ?thesis
    by (auto simp: Let_def lock_effect_def split: if_split_asm pin_check.splits)
next
  case PowerClick
  with assms show ?thesis
    by (auto simp: run_frame_def handlePowerClick_def handleShortPowerPress_def togglePower_def
        split: if_splits)
qed (auto simp: view_def render_frame_def Let_def setShowNavBar_def handleBootComplete_def
      setLockscreenPin_def split: if_split_asm)

lemma settle_power_inv [simp]:
  "showPowerMenu (frame (settle b s)) = showPowerMenu (frame s)" "timers (settle b s) = timers s"
  by (simp_all add: settle_def Let_def lockOnScreenOff_def)

lemma step_sys_inv [webdroid_inv]: "step s e = Some s' \<Longrightarrow> sys_inv s \<Longrightarrow> sys_inv s'"
  by (auto simp: step_def sys_inv_def settle_frame_inv dest: dispatch_app_inv dispatch_lock_inv
      dispatch_power_inv intro: settle_lock_inv)

lemma sys_inv_initial: "sys_inv (initial_webdroid p)"
  by (simp add: sys_inv_def initial_webdroid_def app_inv_initial frame_inv_def initial_device_frame_def)

lemma reach_sys_inv: "reach p s \<Longrightarrow> sys_inv s"
proof (induction rule: reach.induct)
  case reach_init
  show ?case by (rule sys_inv_initial)
next
  case (reach_step s e s')
  then show ?case by (blast intro: step_sys_inv)
qed


text \<open>
  C1: every state the composed program can reach, whatever the order of events and
  timers, keeps the recents duplicate-free and within ten entries, keeps the active app on
  top of its history with no adjacent repetition, is never unlocked with the screen dark,
  and holds at most four digits on the PIN pad.
\<close>

theorem reachable_state_safe:
  assumes "reach p s"
  shows "distinct (recentAppsList (app s)) \<and> length (recentAppsList (app s)) \<le> 10
    \<and> (\<forall>c. currentApp (app s) = Some c \<longrightarrow> appHistory (app s) \<noteq> [] \<and> last (appHistory (app s)) = c)
    \<and> successively (\<noteq>) (appHistory (app s))
    \<and> (bootState (frame s) = Unlocked \<longrightarrow> screenState (frame s) = ScreenOn)
    \<and> length (pinDisplay (lock s)) \<le> 4"
proof -
  from assms have "sys_inv s" by (rule reach_sys_inv)
  then show ?thesis
    by (auto simp: sys_inv_def app_inv_def history_inv_def recents_inv_def frame_inv_def
        lock_inv_def split: option.splits)
qed

lemma reach_run: "reach p s \<Longrightarrow> run s es = Some s' \<Longrightarrow> reach p s'"
proof (induction es arbitrary: s)
  case (Cons e es)
  then obtain s1 where "step s e = Some s1" and "run s1 es = Some s'" by (auto split: option.splits)
  with Cons show ?case by (blast intro: reach_step)
qed simp

subsection \<open>Power lifecycle and lock behaviour of the composed program\<close>

lemmas step_simps = step_def settle_def lockOnScreenOff_def view_def render_frame_def
  run_frame_def Let_def

lemmas concrete_states = booted_unlocked_def menu_open_no_pin_def menu_open_with_apps_def
  initial_webdroid_def initial_device_frame_def initial_lock_screen_def initial_app_content_def

text \<open>
  C2: no reachable state shows the power menu: nothing the user can do sets
  \<open>showPowerMenu\<close>, so Power off and Restart (spec section 4.3) are out of reach.
\<close>

theorem power_menu_never_opens:
  assumes "reach p s"
  shows "\<not> showPowerMenu (frame s) \<and> \<not> powerMenuShown (view s)"
proof -
  from assms have "sys_inv s" by (rule reach_sys_inv)
  then show ?thesis by (simp add: sys_inv_def view_def render_frame_def Let_def)
qed

text \<open>
  Spec scenario C and property P6. From an unlocked device with its screen on, a
  short press of the power button darkens the screen and locks the device; a second press
  lights the screen and leaves it locked.
\<close>

theorem short_press_relocks:
  assumes "bootState (frame s) = Unlocked" and "screenState (frame s) = ScreenOn"
  shows "\<exists>s1 s2. step s PowerClick = Some s1
    \<and> bootState (frame s1) = Locked \<and> screenState (frame s1) = ScreenOff
    \<and> step s1 PowerClick = Some s2
    \<and> bootState (frame s2) = Locked \<and> screenState (frame s2) = ScreenOn"
  using assms by (simp add: step_simps handlePowerClick_def handleShortPowerPress_def)

text \<open>
  Spec scenario D on a fresh start. When the boot animation completes, the device
  is locked if a PIN is configured and unlocked otherwise, with the screen on.
\<close>

theorem boot_complete_respects_pin:
  "\<exists>s. step (initial_webdroid p) BootDone = Some s \<and> screenState (frame s) = ScreenOn
     \<and> bootState (frame s) = (if truthy p then Locked else Unlocked)"
  by (simp add: step_simps initial_webdroid_def initial_device_frame_def handleBootComplete_def)

text \<open>
  What Power off would do if the menu could be opened. From the menu on an unlocked
  device without a PIN: Power off, its 100 ms and 1500 ms timers, a press of the power
  button and the end of the boot animation leave the device with its screen dark and
  locked, not unlocked as spec scenario D expects: \<open>handlePowerOffAction\<close> turns the
  screen off and nothing turns it on again, so the re-lock effect fires at boot completion.
\<close>

theorem power_cycle_boots_dark_and_locked:
  "case run menu_open_no_pin power_cycle of
     None \<Rightarrow> False
   | Some s \<Rightarrow> bootState (frame s) = Locked \<and> screenState (frame s) = ScreenOff \<and> pinSetting s = None"
  by (simp add: power_cycle_def step_simps concrete_states handleBootComplete_def
      handlePowerClick_def handleShortPowerPress_def handlePowerOffAction_def togglePower_def
      remove_nth_def)

lemma set_remove_nth: "set (remove_nth i xs) \<subseteq> set xs"
  by (auto simp: remove_nth_def dest: in_set_takeD in_set_dropD)

lemma fire_locked_frame:
  assumes "ui_timer t" and "t \<noteq> UnlockTimer"
  shows "frame (fire t s) = frame s \<and> timers (fire t s) = timers s \<and> pinSetting (fire t s) = pinSetting s"
  using assms by (cases t) (simp_all add: openAppHandler_def)

lemma step_locked_no_pin:
  assumes "locked_no_pin_state s" and "step s e = Some s'"
  shows "locked_no_pin_state s'"
proof -
  from assms have inv': "sys_inv s'" by (auto simp: locked_no_pin_state_def intro: step_sys_inv)
  from assms(1) have L: "bootState (frame s) = Locked" and N: "pinSetting s = None"
    and U: "UnlockTimer \<notin> set (timers s)" and I: "sys_inv s"
    by (simp_all add: locked_no_pin_state_def)
  obtain d where d: "dispatch s e = Some d" and s': "s' = settle Locked d"
    using assms(2) L by (auto simp: step_def)
  have "bootState (frame d) = Locked \<and> pinSetting d = None \<and> UnlockTimer \<notin> set (timers d)"
  proof (cases e)
    case (FireTimer i)
    with d have i: "i < length (timers s)"
      and dd: "d = fire (timers s ! i) (s\<lparr>timers := remove_nth i (timers s)\<rparr>)"
      by (simp_all split: if_split_asm)
    from I i have "ui_timer (timers s ! i)" by (simp add: sys_inv_def ui_timer_nth)
    moreover from U i have "timers s ! i \<noteq> UnlockTimer" by (auto simp: in_set_conv_nth)
    ultimately show ?thesis using dd L N U set_remove_nth [of i "timers s"]
      by (auto dest!: fire_locked_frame [where s = "s\<lparr>timers := remove_nth i (timers s)\<rparr>"])
  next
    case (PinKey k)
    with d L N U show ?thesis
      by (auto simp: Let_def lock_effect_def validatePin_def split: if_split_asm)
  next
    case PowerClick
    with d L N U show ?thesis
      by (auto simp: run_frame_def handlePowerClick_def handleShortPowerPress_def split: if_split_asm)
  qed (use d L N U I in \<open>auto simp: view_def render_frame_def Let_def sys_inv_def
        split: if_split_asm\<close>)
  with s' inv' show ?thesis
    by (simp add: locked_no_pin_state_def settle_def Let_def lockOnScreenOff_def)
qed

lemma run_locked_no_pin:
  "locked_no_pin_state s \<Longrightarrow> run s es = Some s' \<Longrightarrow> locked_no_pin_state s'"
proof (induction es arbitrary: s)
  case (Cons e es)
  then obtain s1 where "step s e = Some s1" and "run s1 es = Some s'" by (auto split: option.splits)
  with Cons show ?case by (blast intro: step_locked_no_pin)
qed simp

text \<open>
  C3: a reachable locked device with no PIN configured and no unlock pending stays locked
  after any sequence of events: the lock screen never validates without a PIN, and with
  the power menu out of reach no restart can leave the locked state either.
\<close>

theorem no_pin_locked_forever:
  assumes "reach p s" and "pinSetting s = None" and "bootState (frame s) = Locked"
    and "UnlockTimer \<notin> set (timers s)" and "run s es = Some s'"
  shows "bootState (frame s') = Locked"
proof -
  from assms(1) have "sys_inv s" by (rule reach_sys_inv)
  with assms(2-4) have "locked_no_pin_state s" by (simp add: locked_no_pin_state_def)
  from run_locked_no_pin [OF this assms(5)] show ?thesis by (simp add: locked_no_pin_state_def)
qed

text \<open>
  The notification shade's settings tile works on the lock screen: after boot with a
  PIN, opening settings from the shade makes \<open>settings\<close> the active app and a recent
  app while the device is still locked.
\<close>

theorem shade_opens_settings_while_locked:
  "case run (initial_webdroid (Some ''1234'')) [BootDone, ShadeOpenSettings, FireTimer 0] of
     None \<Rightarrow> False
   | Some s \<Rightarrow> bootState (frame s) = Locked \<and> currentApp (app s) = Some ''settings''
       \<and> recentAppsList (app s) = [''settings'']"
  by (simp add: step_simps initial_webdroid_def initial_device_frame_def handleBootComplete_def
      remove_nth_def openAppHandler_def initial_app_content_def handleOpenApp_def recents_touch_def)

text \<open>
  Restarting from the power menu goes home and boots again but keeps the recents
  list, which the spec says a restart discards.
\<close>

theorem restart_keeps_recents:
  assumes "app_inv (app s)" and "step s MenuRestart = Some s1"
    and "step s1 (FireTimer (length (timers s))) = Some s2"
  shows "bootState (frame s2) = Booting \<and> currentApp (app s2) = None
    \<and> recentAppsList (app s2) = recentAppsList (app s)"
proof -
  from assms(2) have on: "bootState (frame s) \<noteq> Off"
    by (simp add: step_simps split: if_split_asm)
  with assms(2) have t1: "timers s1 = timers s @ [RestartTimer]"
    and a1: "app s1 = handleCloseApp (app s)"
    by (auto simp: step_simps handleRestartAction_def split: if_split_asm)
  with assms(3) have "app s2 = app s1" and "bootState (frame s2) = Booting"
    by (auto simp: step_simps remove_nth_def split: if_split_asm)
  moreover from assms(1) have "currentApp (handleCloseApp (app s)) = None"
    by (simp add: handleCloseApp_def history_inv_truthy app_inv_def Let_def)
  ultimately show ?thesis using a1 by (simp add: recentAppsList_handleCloseApp)
qed

subsection \<open>Witnesses\<close>

text \<open>The state after booting without a PIN and opening notes from the home screen.\<close>

lemma reach_notes_open:
  "\<exists>s. reach None s \<and> currentApp (app s) = Some ''notes''"
proof -
  obtain s where r: "run (initial_webdroid None) [BootDone, HomeLaunch ''notes''] = Some s"
    and c: "currentApp (app s) = Some ''notes''"
    by (simp add: step_simps concrete_states handleBootComplete_def homeApps_def handleOpenApp_def)
  have "reach None s" by (rule reach_run [OF reach_init r])
  with c show ?thesis by blast
qed

theorem reachable_state_safe_witness:
  "\<exists>s. reach None s \<and> currentApp (app s) = Some ''notes''
     \<and> distinct (recentAppsList (app s)) \<and> length (recentAppsList (app s)) \<le> 10
     \<and> (\<forall>c. currentApp (app s) = Some c \<longrightarrow> appHistory (app s) \<noteq> [] \<and> last (appHistory (app s)) = c)
     \<and> successively (\<noteq>) (appHistory (app s))
     \<and> (bootState (frame s) = Unlocked \<longrightarrow> screenState (frame s) = ScreenOn)
     \<and> length (pinDisplay (lock s)) \<le> 4"
  using reach_notes_open reachable_state_safe by blast

theorem power_menu_never_opens_witness:
  "\<exists>s. reach None s \<and> currentApp (app s) = Some ''notes''
     \<and> \<not> showPowerMenu (frame s) \<and> \<not> powerMenuShown (view s)"
  using reach_notes_open power_menu_never_opens by blast

theorem short_press_relocks_witness:
  "bootState (frame booted_unlocked) = Unlocked \<and> screenState (frame booted_unlocked) = ScreenOn
   \<and> (\<exists>s1 s2. step booted_unlocked PowerClick = Some s1
       \<and> bootState (frame s1) = Locked \<and> screenState (frame s1) = ScreenOff
       \<and> step s1 PowerClick = Some s2
       \<and> bootState (frame s2) = Locked \<and> screenState (frame s2) = ScreenOn)"
  using short_press_relocks [of booted_unlocked] by (simp add: concrete_states)

theorem no_pin_locked_forever_witness:
  "\<exists>s s'. reach None s \<and> pinSetting s = None \<and> bootState (frame s) = Locked
     \<and> UnlockTimer \<notin> set (timers s)
     \<and> run s [PinKey (CHR ''1''), ShadeOpenSettings, FireTimer 0] = Some s'
     \<and> bootState (frame s') = Locked \<and> currentApp (app s') = Some ''settings''"
proof -
  define s where "s = (initial_webdroid None)\<lparr>frame := initial_device_frame\<lparr>bootState := Locked\<rparr>,
     lockMount := 1\<rparr>"
  have r: "run (initial_webdroid None) relock_no_pin = Some s"
    by (simp add: s_def relock_no_pin_def step_simps concrete_states handleBootComplete_def
        handlePowerClick_def handleShortPowerPress_def)
  have re: "reach None s" by (rule reach_run [OF reach_init r])
  have r': "run s [PinKey (CHR ''1''), ShadeOpenSettings, FireTimer 0] =
     Some (s\<lparr>app := \<lparr>currentApp = Some ''settings'', appHistory = [''settings''],
        recentAppsList = [''settings''], showRecentsView = False\<rparr>,
        lock := \<lparr>pinDisplay = ''1''\<rparr>\<rparr>)"
    by (simp add: s_def step_simps concrete_states numberKeys_def handleKeyPress_def
        lock_effect_def validatePin_def remove_nth_def openAppHandler_def handleOpenApp_def
        recents_touch_def)
  have "pinSetting s = None \<and> bootState (frame s) = Locked \<and> UnlockTimer \<notin> set (timers s)"
    by (simp add: s_def concrete_states)
  with no_pin_locked_forever [OF re _ _ _ r'] re r' show ?thesis by (auto simp: s_def)
qed

theorem restart_keeps_recents_witness:
  "\<exists>s1 s2. app_inv (app menu_open_with_apps) \<and> step menu_open_with_apps MenuRestart = Some s1
     \<and> step s1 (FireTimer 0) = Some s2
     \<and> bootState (frame s2) = Booting \<and> currentApp (app s2) = None
     \<and> recentAppsList (app s2) = [''notes'', ''weather'']"
proof -
  have inv: "app_inv (app menu_open_with_apps)"
    by (simp add: concrete_states app_inv_def history_inv_def recents_inv_def two_apps_state_def)
  obtain s1 where s1: "step menu_open_with_apps MenuRestart = Some s1"
    by (simp add: step_simps concrete_states handleRestartAction_def)
  then have t: "timers s1 = [RestartTimer]"
    by (auto simp: step_simps concrete_states handleRestartAction_def split: if_split_asm)
  obtain s2 where s2: "step s1 (FireTimer 0) = Some s2"
    using t by (simp add: step_simps)
  from restart_keeps_recents [OF inv s1] s2 inv s1
  show ?thesis by (auto simp: concrete_states two_apps_state_def)
qed

end
