(* ===== verification/UseLongPress.thy ===== *)
theory UseLongPress
  imports DeviceFrame
begin

text \<open>
  The hook \<open>src/src/hooks/useLongPress.ts\<close> and the power button of
  \<open>DeviceButtons.tsx\<close>. The hook's \<open>start\<close> (mouse or touch down) marks the press
  active and schedules a 600 ms timer; \<open>cancel\<close> (up, leave, touch end) clears the flag
  and the timer whose id \<open>timerRef\<close> holds; when the timer fires while the press is still
  active it calls \<open>onLongPress\<close>. A timer is identified by a number so that
  \<open>clearTimeout\<close> removes exactly the timer \<open>timerRef\<close> names; it also records the
  \<open>bootState\<close> of the render whose \<open>onLongPress\<close> closure it calls
  (\<open>DeviceButtons.tsx\<close> lines 85--95).

  The hook returns \<open>getHandlers\<close>, a function, and \<open>DeviceButtons\<close> spreads that
  function into the button's props (\<open>{...powerButtonLongPressHandler}\<close>). A function has
  no own enumerable properties, so the spread attaches no handler: the button has only its
  \<open>onClick\<close>. The composed program (theory \<open>Controller\<close>) therefore wires no press or
  release event; this theory models the hook itself.
\<close>

datatype lp_timer = LongPressTimer nat boot_state

record long_press =
  isLongPressActive :: bool
  timerRef :: "nat option"

definition initial_long_press :: long_press where
  "initial_long_press = \<lparr>isLongPressActive = False, timerRef = None\<rparr>"

text \<open>\<open>start\<close>, with the id \<open>n\<close> of the new timer and the render's boot state.\<close>

definition lp_start :: "nat \<Rightarrow> boot_state \<Rightarrow> long_press \<Rightarrow> long_press \<times> lp_timer" where
  "lp_start n b lp = (lp\<lparr>isLongPressActive := True, timerRef := Some n\<rparr>, LongPressTimer n b)"

text \<open>\<open>cancel\<close>: the new hook state and the id of the timer to clear, if any.\<close>

definition lp_cancel :: "long_press \<Rightarrow> long_press \<times> nat option" where
  "lp_cancel lp = (lp\<lparr>isLongPressActive := False, timerRef := None\<rparr>, timerRef lp)"

text \<open>
  The timer's callback: \<open>onLongPress\<close> of \<open>DeviceButtons\<close> runs when the press is
  still active, and it calls \<open>handleLongPowerPress\<close> when the captured state is not off.
\<close>

definition lp_fire :: "boot_state \<Rightarrow> long_press \<Rightarrow> device_frame \<Rightarrow> device_frame" where
  "lp_fire b lp f = (if isLongPressActive lp \<and> b \<noteq> Off then handleLongPowerPress f else f)"

fun lp_timer_id :: "lp_timer \<Rightarrow> nat" where
  "lp_timer_id (LongPressTimer n _) = n"

definition clearTimeout :: "nat option \<Rightarrow> lp_timer list \<Rightarrow> lp_timer list" where
  "clearTimeout r ts = (case r of None \<Rightarrow> ts | Some n \<Rightarrow> filter (\<lambda>t. lp_timer_id t \<noteq> n) ts)"

text \<open>
  The hook wired to a button as its author meant it: press and release events, and the
  hook's pending timers, numbered by the browser's increasing timer ids.
\<close>

record lp_sys =
  hook :: long_press
  lpFrame :: device_frame
  lpTimers :: "lp_timer list"
  nextTimerId :: nat

datatype lp_event = PressStart | PressEnd | LpFire nat

fun lp_step :: "lp_sys \<Rightarrow> lp_event \<Rightarrow> lp_sys" where
  "lp_step s PressStart =
     (let (h, t) = lp_start (nextTimerId s) (bootState (lpFrame s)) (hook s)
      in s\<lparr>hook := h, lpTimers := lpTimers s @ [t], nextTimerId := Suc (nextTimerId s)\<rparr>)"
| "lp_step s PressEnd =
     (let (h, r) = lp_cancel (hook s) in s\<lparr>hook := h, lpTimers := clearTimeout r (lpTimers s)\<rparr>)"
| "lp_step s (LpFire i) =
     (if i < length (lpTimers s)
      then (case lpTimers s ! i of LongPressTimer _ b \<Rightarrow>
              s\<lparr>lpFrame := lp_fire b (hook s) (lpFrame s),
                lpTimers := take i (lpTimers s) @ drop (Suc i) (lpTimers s)\<rparr>)
      else s)"

definition lp_run :: "lp_sys \<Rightarrow> lp_event list \<Rightarrow> lp_sys" where
  "lp_run s es = foldl lp_step s es"

text \<open>Every pending timer has an id below the next one the browser hands out.\<close>

definition lp_fresh :: "lp_sys \<Rightarrow> bool" where
  "lp_fresh s \<longleftrightarrow> list_all (\<lambda>t. lp_timer_id t < nextTimerId s) (lpTimers s)"

definition initial_lp_sys :: "device_frame \<Rightarrow> lp_sys" where
  "initial_lp_sys f = \<lparr>hook = initial_long_press, lpFrame = f, lpTimers = [], nextTimerId = 1\<rparr>"

text \<open>Touch and emulated mouse events both start a press: two starts, one release.\<close>

definition double_start_press :: "lp_event list" where
  "double_start_press = [PressStart, PressStart, PressEnd, PressStart, LpFire 0]"

subsection \<open>Behaviour of the hook\<close>

lemma clearTimeout_fresh:
  assumes "list_all (\<lambda>t. lp_timer_id t < n) ts"
  shows "clearTimeout (Some n) (ts @ [LongPressTimer n b]) = ts"
proof -
  from assms have "filter (\<lambda>t. lp_timer_id t \<noteq> n) ts = ts"
    by (auto simp: list_all_iff intro!: filter_True)
  then show ?thesis by (simp add: clearTimeout_def)
qed

text \<open>
  A press released before the threshold leaves no trace: the timer it scheduled is
  cleared, the press is inactive and the frame is unchanged.
\<close>

theorem press_release_cancels:
  assumes "lp_fresh s"
  shows "lpTimers (lp_run s [PressStart, PressEnd]) = lpTimers s
    \<and> lpFrame (lp_run s [PressStart, PressEnd]) = lpFrame s
    \<and> \<not> isLongPressActive (hook (lp_run s [PressStart, PressEnd]))"
  using assms
  by (simp add: lp_run_def lp_start_def lp_cancel_def lp_fresh_def clearTimeout_fresh)

text \<open>
  A press held until its timer fires opens the power menu when the device is on
  (\<open>onLongPress\<close> of \<open>DeviceButtons\<close>, then \<open>handleLongPowerPress\<close>).
\<close>

theorem held_press_opens_menu:
  assumes "bootState (lpFrame s) \<noteq> Off"
  shows "showPowerMenu (lpFrame (lp_run s [PressStart, LpFire (length (lpTimers s))]))"
  using assms by (simp add: lp_run_def lp_start_def lp_fire_def handleLongPowerPress_def nth_append)

text \<open>
  \<open>start\<close> overwrites \<open>timerRef\<close> without clearing the timer it held. When a
  press starts twice (touch start and the emulated mouse down) and is released, the first
  timer survives; it fires during the next press, opening the menu before that press has
  been held for the threshold, while the next press's own timer is still pending.
\<close>

theorem double_start_fires_early:
  "let s = lp_run (initial_lp_sys (initial_device_frame\<lparr>bootState := Unlocked\<rparr>)) double_start_press
   in showPowerMenu (lpFrame s) \<and> lpTimers s = [LongPressTimer 3 Unlocked]"
  by (simp add: double_start_press_def lp_run_def initial_lp_sys_def initial_long_press_def
      initial_device_frame_def lp_start_def lp_cancel_def clearTimeout_def lp_fire_def
      handleLongPowerPress_def)

subsection \<open>Witnesses\<close>

theorem press_release_cancels_witness:
  "lp_fresh (initial_lp_sys initial_device_frame)
   \<and> lpTimers (lp_run (initial_lp_sys initial_device_frame) [PressStart, PressEnd]) = []
   \<and> lpFrame (lp_run (initial_lp_sys initial_device_frame) [PressStart, PressEnd]) = initial_device_frame
   \<and> \<not> isLongPressActive (hook (lp_run (initial_lp_sys initial_device_frame) [PressStart, PressEnd]))"
proof -
  have f: "lp_fresh (initial_lp_sys initial_device_frame)"
    by (simp add: lp_fresh_def initial_lp_sys_def)
  from press_release_cancels [OF f] f show ?thesis by (simp add: initial_lp_sys_def)
qed

theorem held_press_opens_menu_witness:
  "bootState (lpFrame (initial_lp_sys initial_device_frame)) \<noteq> Off
   \<and> showPowerMenu (lpFrame (lp_run (initial_lp_sys initial_device_frame) [PressStart, LpFire 0]))"
  using held_press_opens_menu [of "initial_lp_sys initial_device_frame"]
  by (simp add: initial_lp_sys_def initial_device_frame_def)

end
