(* ===== verification/JSNumber.thy ===== *)
theory JSNumber
  imports Complex_Main
begin

text \<open>
  JavaScript numbers as the code of the settings context uses them. A number is an IEEE
  double; it is written here as a pair \<open>(m, e)\<close> of integers standing for
  \<open>m * 2^e\<close> (\<open>dval\<close>). Every arithmetic operation computes the exact result and rounds
  it to 53 significant bits, ties to even, with the subnormal exponent floor of \<open>-1074\<close>
  (\<open>fp_norm\<close>); overflow to infinity is not modelled, as the values of the program stay
  within \<open>[-200, 200]\<close>. \<open>Math.round\<close>, \<open>Number.prototype.toString\<close> on integers and
  \<open>parseInt\<close> on decimal strings are defined on the same representation. Equality and
  order compare values, so that different pairs for one double are the same number.
\<close>

type_synonym double = "int \<times> int"

definition dval :: "double \<Rightarrow> rat" where
  "dval x = of_int (fst x) * 2 powi (snd x)"

fun nat_bitlen :: "nat \<Rightarrow> nat" where
  "nat_bitlen n = (if n = 0 then 0 else Suc (nat_bitlen (n div 2)))"

text \<open>Integer division rounding to nearest, ties to even (for \<open>d > 0\<close>).\<close>

definition rdiv_even :: "int \<Rightarrow> int \<Rightarrow> int" where
  "rdiv_even m d = (let q = m div d; r = m mod d in
     if 2 * r < d then q else if 2 * r > d then q + 1 else if even q then q else q + 1)"

text \<open>
  The canonical pair of a value: an odd mantissa, or \<open>(0, 0)\<close>. Results are kept
  canonical, so that two results are the same number exactly when they are equal pairs.
\<close>

function canon :: "int \<Rightarrow> int \<Rightarrow> double" where
  "canon m e = (if m = 0 then (0, 0) else if even m then canon (m div 2) (e + 1) else (m, e))"
  by pat_completeness auto
termination
proof (relation "measure (\<lambda>(m, e). nat \<bar>m\<bar>)")
  fix m e :: int
  assume "m \<noteq> 0" "even m"
  then show "((m div 2, e + 1), m, e) \<in> measure (\<lambda>(m, e). nat \<bar>m\<bar>)" by auto
qed simp

definition canonical :: "double \<Rightarrow> bool" where
  "canonical x \<longleftrightarrow> (if fst x = 0 then snd x = 0 else odd (fst x))"

text \<open>Round an exact dyadic value to the nearest double.\<close>

definition fp_shift :: "double \<Rightarrow> int" where
  "fp_shift x = max (int (nat_bitlen (nat \<bar>fst x\<bar>)) - 53) (-1074 - snd x)"

definition fp_norm :: "double \<Rightarrow> double" where
  "fp_norm x = (let s = fp_shift x in
     if s \<le> 0 then canon (fst x) (snd x) else canon (rdiv_even (fst x) (2 ^ nat s)) (snd x + s))"

definition js_add :: "double \<Rightarrow> double \<Rightarrow> double" where
  "js_add x y = (let e = min (snd x) (snd y)
     in fp_norm (fst x * 2 ^ nat (snd x - e) + fst y * 2 ^ nat (snd y - e), e))"

definition js_neg :: "double \<Rightarrow> double" where
  "js_neg x = (- fst x, snd x)"

definition js_sub :: "double \<Rightarrow> double \<Rightarrow> double" where
  "js_sub x y = js_add x (js_neg y)"

definition js_mul :: "double \<Rightarrow> double \<Rightarrow> double" where
  "js_mul x y = fp_norm (fst x * fst y, snd x + snd y)"

text \<open>
  The double nearest to \<open>n / d\<close> for \<open>d > 0\<close>: with \<open>L = \<lfloor>log2 (|n| / d)\<rfloor>\<close>, the
  quotient is scaled to 53 bits and rounded once.
\<close>

definition js_div_int :: "int \<Rightarrow> int \<Rightarrow> double" where
  "js_div_int n d =
     (if n = 0 then (0, 0) else
      let a = \<bar>n\<bar>; k = int (nat_bitlen (nat a)) - int (nat_bitlen (nat d));
          L = (if a * 2 ^ nat (- k) \<ge> d * 2 ^ nat k then k else k - 1);
          t = 52 - L;
          q = (if t \<ge> 0 then rdiv_even (a * 2 ^ nat t) d else rdiv_even a (d * 2 ^ nat (- t)))
      in fp_norm (sgn n * q, - t))"

definition js_of_int :: "int \<Rightarrow> double" where
  "js_of_int n = fp_norm (n, 0)"

text \<open>Comparisons and \<open>Math.min\<close> / \<open>Math.max\<close>, which return one of their arguments.\<close>

definition js_eq :: "double \<Rightarrow> double \<Rightarrow> bool" where
  "js_eq x y \<longleftrightarrow> dval x = dval y"

definition js_less :: "double \<Rightarrow> double \<Rightarrow> bool" where
  "js_less x y \<longleftrightarrow> dval x < dval y"

definition js_min :: "double \<Rightarrow> double \<Rightarrow> double" where
  "js_min x y = (if dval y < dval x then y else x)"

definition js_max :: "double \<Rightarrow> double \<Rightarrow> double" where
  "js_max x y = (if dval x < dval y then y else x)"

text \<open>\<open>Math.round\<close>: \<open>\<lfloor>x + 1/2\<rfloor>\<close>, an integer-valued double returned as its integer.\<close>

definition js_round :: "double \<Rightarrow> int" where
  "js_round x =
     (if snd x \<ge> 0 then fst x * 2 ^ nat (snd x)
      else (2 * fst x + 2 ^ nat (- snd x)) div 2 ^ nat (1 - snd x))"

subsection \<open>Integers as decimal strings\<close>

fun nat_digits :: "nat \<Rightarrow> string" where
  "nat_digits n =
     (if n < 10 then [char_of (48 + n)] else nat_digits (n div 10) @ [char_of (48 + n mod 10)])"

text \<open>\<open>String(n)\<close> and \<open>n.toString()\<close> for an integer-valued number.\<close>

definition int_toString :: "int \<Rightarrow> string" where
  "int_toString n = (if n < 0 then CHR ''-'' # nat_digits (nat (- n)) else nat_digits (nat n))"

definition is_digit :: "char \<Rightarrow> bool" where
  "is_digit c \<longleftrightarrow> 48 \<le> (of_char c :: nat) \<and> (of_char c :: nat) \<le> 57"

definition digit_val :: "char \<Rightarrow> nat" where
  "digit_val c = of_char c - 48"

definition digits_val :: "string \<Rightarrow> nat" where
  "digits_val ds = foldl (\<lambda>acc c. 10 * acc + digit_val c) 0 ds"

definition js_space :: "char \<Rightarrow> bool" where
  "js_space c \<longleftrightarrow> c \<in> set '' \<newline>'' \<or> c = CHR 0x09 \<or> c = CHR 0x0D"

text \<open>
  \<open>parseInt(s)\<close> (radix 10): skip leading white space, read an optional sign and the
  longest run of decimal digits; \<open>None\<close> stands for \<open>NaN\<close>, when there is no digit.
\<close>

definition parseInt :: "string \<Rightarrow> int option" where
  "parseInt s =
     (let s1 = dropWhile js_space s;
          (neg, s2) = (case s1 of
                         c # r \<Rightarrow> if c = CHR ''-'' then (True, r)
                                  else if c = CHR ''+'' then (False, r) else (False, s1)
                       | [] \<Rightarrow> (False, []));
          ds = takeWhile is_digit s2
      in if ds = [] then None
         else Some ((if neg then -1 else 1) * int (digits_val ds)))"

subsection \<open>Evaluation rules\<close>

text \<open>
  The recursive equations are replaced by rules for numerals, so that \<open>simp\<close> evaluates
  on concrete numbers without unfolding them on symbolic arguments.
\<close>

declare nat_bitlen.simps [simp del] nat_digits.simps [simp del]

lemma nat_bitlen_0 [simp]: "nat_bitlen 0 = 0"
  by (simp add: nat_bitlen.simps)

lemma nat_bitlen_Suc_0 [simp]: "nat_bitlen (Suc 0) = 1"
  by (simp add: nat_bitlen.simps)

lemma nat_bitlen_1 [simp]: "nat_bitlen 1 = 1"
  by (simp add: nat_bitlen.simps)

lemma nat_bitlen_numeral [simp]: "nat_bitlen (numeral n) = Suc (nat_bitlen (numeral n div 2))"
  by (subst nat_bitlen.simps) simp

declare canon.simps [simp del]

lemma canon_0 [simp]: "canon 0 e = (0, 0)"
  by (simp add: canon.simps)

lemma canon_1 [simp]: "canon 1 e = (1, e)"
  by (simp add: canon.simps)

lemma canon_minus_1 [simp]: "canon (-1) e = (-1, e)"
  by (simp add: canon.simps)

lemma canon_Bit0 [simp]: "canon (numeral (Num.Bit0 n)) e = canon (numeral n) (e + 1)"
  by (subst canon.simps) simp

lemma canon_Bit1 [simp]: "canon (numeral (Num.Bit1 n)) e = (numeral (Num.Bit1 n), e)"
  by (subst canon.simps) simp

lemma canon_neg_Bit0 [simp]: "canon (- numeral (Num.Bit0 n)) e = canon (- numeral n) (e + 1)"
  by (subst canon.simps) simp

lemma canon_neg_Bit1 [simp]: "canon (- numeral (Num.Bit1 n)) e = (- numeral (Num.Bit1 n), e)"
  by (subst canon.simps) simp

lemma digit_char_table: "\<forall>n<10. char_of (48 + n :: nat) = ''0123456789'' ! n"
  by code_simp

lemma char_of_digit: "n < 10 \<Longrightarrow> char_of (48 + n :: nat) = ''0123456789'' ! n"
  using digit_char_table by blast

lemma nat_digits_0 [simp]: "nat_digits 0 = ''0''"
  using char_of_digit [of 0] by (simp add: nat_digits.simps)

lemma nat_digits_Suc_0 [simp]: "nat_digits (Suc 0) = ''1''"
  using char_of_digit [of 1] by (simp add: nat_digits.simps)

lemma nat_digits_numeral [simp]:
  "nat_digits (numeral n) = (if numeral n < (10::nat) then [''0123456789'' ! numeral n]
     else nat_digits (numeral n div 10) @ [''0123456789'' ! (numeral n mod 10)])"
proof (cases "numeral n < (10::nat)")
  case True
  then show ?thesis by (subst nat_digits.simps) (simp only: True if_True char_of_digit [OF True])
next
  case False
  have "numeral n mod 10 < (10::nat)" by (rule mod_less_divisor) simp
  with False show ?thesis
    by (subst nat_digits.simps) (simp only: False if_False char_of_digit)
qed

lemma nat_digits_code [code]:
  "nat_digits n = (if n < 10 then [''0123456789'' ! n]
     else nat_digits (n div 10) @ [''0123456789'' ! (n mod 10)])"
  by (subst nat_digits.simps) (simp add: char_of_digit)

lemmas fp_eval = js_sub_def js_add_def js_neg_def js_mul_def js_of_int_def js_div_int_def
  fp_norm_def fp_shift_def rdiv_even_def js_round_def js_max_def js_min_def js_eq_def js_less_def

subsection \<open>Canonical pairs\<close>

lemma canon_canonical: "canonical (canon m e)"
proof (induction m e rule: canon.induct)
  case (1 m e)
  then show ?case by (subst canon.simps) (auto simp: canonical_def)
qed

lemma dval_canon: "dval (canon m e) = dval (m, e)"
proof (induction m e rule: canon.induct)
  case (1 m e)
  show ?case
  proof (cases "m = 0 \<or> odd m")
    case True then show ?thesis by (subst canon.simps) (auto simp: dval_def)
  next
    case False
    then obtain k where k: "m = 2 * k" by auto
    have "dval (m div 2, e + 1) = dval (m, e)"
      by (simp add: k dval_def power_int_add algebra_simps)
    then show ?thesis using 1 False by (subst canon.simps) simp
  qed
qed

lemma odd_pow2_le:
  assumes "odd a" and "i \<le> j" and "of_int a * (2::rat) powi i = of_int b * 2 powi j"
  shows "i = j \<and> a = b"
proof -
  have "of_int a = of_int b * (2::rat) powi (j - i)"
    using assms(3) by (simp add: power_int_diff field_simps)
  also have "(2::rat) powi (j - i) = of_int (2 ^ nat (j - i))"
    using assms(2) by (simp add: power_int_def)
  finally have ab: "a = b * 2 ^ nat (j - i)"
    by (metis of_int_eq_iff of_int_mult)
  have "nat (j - i) = 0"
  proof (rule ccontr)
    assume "nat (j - i) \<noteq> 0"
    then have "even (b * 2 ^ nat (j - i))" by simp
    with ab assms(1) show False by simp
  qed
  with ab assms(2) show ?thesis by simp
qed

lemma odd_pow2_eq:
  assumes "odd a" "odd b" "of_int a * (2::rat) powi i = of_int b * 2 powi j"
  shows "i = j \<and> a = b"
proof (cases "i \<le> j")
  case True show ?thesis by (rule odd_pow2_le [OF assms(1) True assms(3)])
next
  case False
  then have "j \<le> i" by simp
  with assms odd_pow2_le [of b j i a] show ?thesis by simp
qed

text \<open>On canonical pairs, equality of numbers is equality of pairs.\<close>

lemma canonical_dval_inj:
  assumes "canonical x" "canonical y" "dval x = dval y"
  shows "x = y"
proof (cases "fst x = 0")
  case True
  with assms have "fst y = 0" by (simp add: dval_def canonical_def split: if_splits)
  with True assms show ?thesis by (simp add: canonical_def prod_eq_iff)
next
  case False
  with assms have "fst y \<noteq> 0" by (auto simp: dval_def canonical_def)
  with False assms odd_pow2_eq [of "fst x" "fst y" "snd x" "snd y"] show ?thesis
    by (simp add: canonical_def dval_def prod_eq_iff)
qed

lemma canonical_dval_eq_iff:
  "canonical x \<Longrightarrow> canonical y \<Longrightarrow> dval x = dval y \<longleftrightarrow> x = y"
  using canonical_dval_inj by blast

lemma canonical_0 [simp]: "canonical (0, 0)" and canonical_1 [simp]: "canonical (1, 0)"
  by (simp_all add: canonical_def)

lemma canonical_fp_norm [simp]: "canonical (fp_norm x)"
  by (simp add: fp_norm_def Let_def canon_canonical)

lemma canonical_js_add [simp]: "canonical (js_add x y)"
  by (simp add: js_add_def Let_def)

lemma canonical_js_sub [simp]: "canonical (js_sub x y)"
  by (simp add: js_sub_def)

lemma canonical_js_div_int [simp]: "canonical (js_div_int n d)"
  unfolding js_div_int_def Let_def
  by (simp only: canonical_fp_norm canonical_0 simp_thms split: if_split)

lemma canonical_js_min: "canonical x \<Longrightarrow> canonical y \<Longrightarrow> canonical (js_min x y)"
  by (simp add: js_min_def)

lemma canonical_js_max: "canonical x \<Longrightarrow> canonical y \<Longrightarrow> canonical (js_max x y)"
  by (simp add: js_max_def)

lemma dval_js_min: "dval (js_min x y) = min (dval x) (dval y)"
  by (simp add: js_min_def min_def)

lemma dval_js_max: "dval (js_max x y) = max (dval x) (dval y)"
  by (simp add: js_max_def max_def)

lemma dval_pair_0 [simp]: "dval (0, e) = 0" and dval_1_0 [simp]: "dval (1, 0) = 1"
  by (simp_all add: dval_def)

text \<open>\<open>Math.max(0, Math.min(1, x))\<close> lies in \<open>[0, 1]\<close>, whatever \<open>x\<close> is.\<close>

lemma clamp01_bounds:
  "0 \<le> dval (js_max (0, 0) (js_min (1, 0) x)) \<and> dval (js_max (0, 0) (js_min (1, 0) x)) \<le> 1"
  by (simp add: dval_js_max dval_js_min)

lemma canonical_clamp01: "canonical x \<Longrightarrow> canonical (js_max (0, 0) (js_min (1, 0) x))"
  by (simp add: canonical_js_max canonical_js_min)

subsection \<open>Signs\<close>

text \<open>The operations keep the sign of their operands.\<close>

lemma canon_fst_nonneg: "0 \<le> m \<Longrightarrow> 0 \<le> fst (canon m e)"
proof (induction m e rule: canon.induct)
  case (1 m e)
  then show ?case by (subst canon.simps) simp
qed

lemma rdiv_even_nonneg: "0 \<le> m \<Longrightarrow> 0 < d \<Longrightarrow> 0 \<le> rdiv_even m d"
  by (auto simp: rdiv_even_def Let_def pos_imp_zdiv_nonneg_iff)

lemma fp_norm_nonneg: "0 \<le> fst x \<Longrightarrow> 0 \<le> fst (fp_norm x)"
  by (simp add: fp_norm_def Let_def canon_fst_nonneg rdiv_even_nonneg)

lemma js_div_int_nonneg: "0 \<le> n \<Longrightarrow> 0 < d \<Longrightarrow> 0 \<le> fst (js_div_int n d)"
  by (simp add: js_div_int_def Let_def fp_norm_nonneg rdiv_even_nonneg)

lemma js_round_nonneg: "0 \<le> fst x \<Longrightarrow> 0 \<le> js_round x"
  by (simp add: js_round_def pos_imp_zdiv_nonneg_iff)

lemma dval_nonneg_iff: "0 \<le> dval x \<longleftrightarrow> 0 \<le> fst x"
proof -
  have p: "0 < (2::rat) powi snd x" by simp
  show ?thesis
    using mult_le_cancel_right_pos [OF p, of 0 "of_int (fst x)"] by (simp add: dval_def)
qed

lemma dval_js_neg: "dval (js_neg x) = - dval x"
  by (simp add: dval_def js_neg_def)

lemma js_mul_nonneg: "0 \<le> fst x \<Longrightarrow> 0 \<le> fst y \<Longrightarrow> 0 \<le> fst (js_mul x y)"
  by (simp add: js_mul_def fp_norm_nonneg)

lemma canon_fst_nonpos: "m \<le> 0 \<Longrightarrow> fst (canon m e) \<le> 0"
proof (induction m e rule: canon.induct)
  case (1 m e)
  then show ?case by (subst canon.simps) simp
qed

lemma rdiv_even_nonpos: "m \<le> 0 \<Longrightarrow> 0 < d \<Longrightarrow> rdiv_even m d \<le> 0"
proof -
  assume m: "m \<le> 0" and d: "0 < d"
  show ?thesis
  proof (cases "m = 0")
    case False
    with m have "m < 0" by simp
    with d have "m div d \<le> -1" using div_neg_pos_less0 [of m d] by simp
    then show ?thesis by (auto simp: rdiv_even_def Let_def)
  qed (simp add: rdiv_even_def d)
qed

lemma fp_norm_nonpos: "fst x \<le> 0 \<Longrightarrow> fst (fp_norm x) \<le> 0"
  by (simp add: fp_norm_def Let_def canon_fst_nonpos rdiv_even_nonpos)

lemma js_add_nonpos: "fst x \<le> 0 \<Longrightarrow> fst y \<le> 0 \<Longrightarrow> fst (js_add x y) \<le> 0"
  by (simp add: js_add_def Let_def fp_norm_nonpos add_nonpos_nonpos mult_nonpos_nonneg)

lemma js_sub_nonpos: "fst x \<le> 0 \<Longrightarrow> 0 \<le> fst y \<Longrightarrow> fst (js_sub x y) \<le> 0"
  by (simp add: js_sub_def js_neg_def js_add_nonpos)

lemma dval_nonpos_iff: "dval x \<le> 0 \<longleftrightarrow> fst x \<le> 0"
proof -
  have "0 \<le> dval (js_neg x) \<longleftrightarrow> 0 \<le> fst (js_neg x)" by (rule dval_nonneg_iff)
  then show ?thesis by (simp only: dval_js_neg) (simp add: js_neg_def)
qed

subsection \<open>Decimal strings\<close>

lemma nat_digits_unfold:
  "nat_digits n =
     (if n < 10 then [char_of (48 + n)] else nat_digits (n div 10) @ [char_of (48 + n mod 10)])"
  by (rule nat_digits.simps)

lemma digit_char [simp]: "n < 10 \<Longrightarrow> of_char (char_of (48 + n) :: char) = (48 + n :: nat)"
  by (simp add: of_char_of)

lemma nat_digits_all_digits: "list_all is_digit (nat_digits n)"
proof (induction n rule: nat_digits.induct)
  case (1 n)
  then show ?case by (subst nat_digits_unfold) (auto simp: is_digit_def list_all_iff)
qed

lemma nat_digits_nonempty: "nat_digits n \<noteq> []"
  by (subst nat_digits_unfold) simp

lemma digits_val_snoc: "digits_val (ds @ [c]) = 10 * digits_val ds + digit_val c"
  by (simp add: digits_val_def)

lemma digits_val_nat_digits: "digits_val (nat_digits n) = n"
proof (induction n rule: nat_digits.induct)
  case (1 n)
  show ?case
  proof (cases "n < 10")
    case True then show ?thesis
      by (subst nat_digits_unfold) (simp add: digits_val_def digit_val_def)
  next
    case False
    then have "digits_val (nat_digits n) = 10 * (n div 10) + n mod 10"
      using 1 by (subst nat_digits_unfold) (simp add: digits_val_snoc digit_val_def)
    then show ?thesis by simp
  qed
qed

lemma takeWhile_all: "list_all P xs \<Longrightarrow> takeWhile P xs = xs"
  by (induction xs) auto

lemma hd_nat_digits_not_space: "\<not> js_space (hd (nat_digits n)) \<and> hd (nat_digits n) \<noteq> CHR ''-''
    \<and> hd (nat_digits n) \<noteq> CHR ''+''"
proof -
  have "is_digit (hd (nat_digits n))"
    using nat_digits_all_digits [of n] nat_digits_nonempty [of n]
    by (cases "nat_digits n") auto
  then show ?thesis by (auto simp: is_digit_def js_space_def)
qed

lemma parseInt_nat_digits:
  "parseInt (nat_digits n) = Some (int n) \<and> parseInt (CHR ''-'' # nat_digits n) = Some (- int n)"
proof -
  obtain c cs where cs: "nat_digits n = c # cs"
    using nat_digits_nonempty [of n] by (cases "nat_digits n") auto
  have c: "\<not> js_space c" "c \<noteq> CHR ''-''" "c \<noteq> CHR ''+''"
    using hd_nat_digits_not_space [of n] by (simp_all add: cs)
  have tw: "takeWhile is_digit (c # cs) = c # cs"
    using takeWhile_all [OF nat_digits_all_digits [of n]] by (simp add: cs)
  have dv: "digits_val (c # cs) = n"
    using digits_val_nat_digits [of n] by (simp add: cs)
  show ?thesis using c tw dv by (simp add: parseInt_def cs js_space_def)
qed

subsection \<open>Properties\<close>

text \<open>
  Round trip of integers through decimal strings: \<open>parseInt(String(n))\<close> gives
  back \<open>n\<close> for every integer, negative ones included. The settings context relies on
  it to persist the volume percentage and the brightness.
\<close>

theorem parseInt_int_toString: "parseInt (int_toString n) = Some n"
  using parseInt_nat_digits [of "nat n"] parseInt_nat_digits [of "nat (- n)"]
  by (simp add: int_toString_def)

end
