(* ===== verification/Settings.thy ===== *)
theory Settings
  imports WebDroid_Prelude JSNumber
begin

text \<open>
  The settings context of \<open>src/WebDroid-OS/src/contexts/SettingsContext.tsx\<close>
  (\<open>SettingsProvider\<close>): its state (\<open>settings\<close>), the initial load from
  \<open>localStorage\<close> (\<open>load_settings\<close>), the effects that write the state back
  (\<open>storage_effects\<close>), apply the theme to the document and the volume to the
  synthesizer, and every handler the context exposes. Enumerated settings (device type,
  units, modes) are the strings the code stores: the TypeScript casts of
  \<open>localStorage.getItem(...) as DeviceType\<close> check nothing. The volume is a JavaScript
  number (theory \<open>JSNumber\<close>); the brightness only ever holds integers (it is set from
  \<open>parseInt\<close> of a range input and clamped by \<open>Math.max\<close>/\<open>Math.min\<close>).

  \<open>settings_env\<close> adds the world the provider acts on: \<open>localStorage\<close>, the last call
  of \<open>setMasterVolume\<close> (\<open>utils/soundSynth.ts\<close>), the classes of
  \<open>document.documentElement\<close>, and the pending timers. One handler call is
  \<open>settings_handler\<close>; after it the effects whose dependencies changed run in the order
  of the code (\<open>settings_effects\<close>); \<open>settings_step\<close> is the two together.
\<close>

subsection \<open>State\<close>

record theme =
  themeId :: string
  themeName :: string
  forcedMode :: "string option"
  themeColors :: "string list"

definition availableThemes :: "theme list" where
  "availableThemes =
     [\<lparr>themeId = ''default'', themeName = ''Default'', forcedMode = None,
       themeColors = [''#3b82f6'', ''#6b7280'', ''#f59e0b'', ''#f8fafc'', ''#ffffff'']\<rparr>,
      \<lparr>themeId = ''material'', themeName = ''Material You'', forcedMode = None,
       themeColors = [''#a78bfa'', ''#8b5cf6'', ''#c4b5fd'', ''#f5f3ff'', ''#ffffff'']\<rparr>,
      \<lparr>themeId = ''pixel'', themeName = ''Pixel'', forcedMode = None,
       themeColors = [''#2563eb'', ''#ef4444'', ''#eab308'', ''#22c55e'', ''#f8fafc'']\<rparr>,
      \<lparr>themeId = ''synthwave'', themeName = ''Synthwave'', forcedMode = Some ''dark'',
       themeColors = [''#ec4899'', ''#8b5cf6'', ''#10b981'', ''#0f172a'', ''#1e293b'']\<rparr>]"

record settings =
  deviceType :: string
  isSoundEnabled :: bool
  volumeLevel :: double
  brightnessLevel :: int
  isMuted :: bool
  showVolumeUI :: bool
  activePageBgId :: string
  tempUnit :: string
  defaultWeatherLocation :: "string option"
  notesFontSize :: string
  notesSortOrder :: string
  activeThemeId :: string
  colorMode :: string
  systemPrefersDark :: bool
  lockscreenPin :: "string option"
  volumeUITimerRef :: "nat option"

text \<open>\<open>localStorage\<close>: a map from keys to strings.\<close>

type_synonym store = "string \<Rightarrow> string option"

definition bool_toString :: "bool \<Rightarrow> string" where
  "bool_toString b = (if b then ''true'' else ''false'')"

text \<open>\<open>saved || dflt\<close> on the result of \<open>localStorage.getItem\<close>.\<close>

definition or_default :: "string option \<Rightarrow> string \<Rightarrow> string" where
  "or_default saved dflt = (if truthy saved then the saved else dflt)"

text \<open>
  The lazy initialisers of the \<open>useState\<close> calls (lines 111--193); \<open>prefersDark\<close> is
  \<open>matchMedia('(prefers-color-scheme: dark)').matches\<close>. The result is \<open>None\<close> when
  a stored number does not parse, where the code would hold \<open>NaN\<close>.
\<close>

definition load_settings :: "store \<Rightarrow> bool \<Rightarrow> settings option" where
  "load_settings st prefersDark =
     (let vol = (if truthy (st ''volumeLevel'')
                 then map_option (\<lambda>n. js_div_int n 100) (parseInt (the (st ''volumeLevel'')))
                 else Some (js_div_int 1 2));
          bright = (if truthy (st ''brightnessLevel'')
                    then parseInt (the (st ''brightnessLevel'')) else Some 80)
      in case (vol, bright) of
           (Some v, Some b) \<Rightarrow> Some
             \<lparr>deviceType = or_default (st ''deviceType'') ''phone'',
              isSoundEnabled = (st ''sound'' \<noteq> Some ''false''),
              volumeLevel = v,
              brightnessLevel = b,
              isMuted = (st ''isMuted'' = Some ''true''),
              showVolumeUI = False,
              activePageBgId = or_default (st ''activePageBg'') ''default'',
              tempUnit = or_default (st ''tempUnit'') ''celsius'',
              defaultWeatherLocation = st ''defaultWeatherLocation'',
              notesFontSize = or_default (st ''notesFontSize'') ''base'',
              notesSortOrder = or_default (st ''notesSortOrder'') ''newest'',
              activeThemeId = or_default (st ''activeTheme'') ''default'',
              colorMode = or_default (st ''colorMode'') ''dark'',
              systemPrefersDark = prefersDark,
              lockscreenPin = Some (or_default (st ''lockscreenPin'') ''1234''),
              volumeUITimerRef = None\<rparr>
         | _ \<Rightarrow> None)"

text \<open>The derived \<open>currentMode\<close> (lines 196--205): a theme may force a mode.\<close>

definition currentMode :: "settings \<Rightarrow> string" where
  "currentMode s =
     (case find (\<lambda>t. themeId t = activeThemeId s) availableThemes of
        Some t \<Rightarrow> (if truthy (forcedMode t) then the (forcedMode t) else colorMode s)
      | None \<Rightarrow> colorMode s)"

text \<open>\<open>Math.round(volumeLevel * 100)\<close>, the volume as a percentage.\<close>

definition volume_percent :: "double \<Rightarrow> int" where
  "volume_percent v = js_round (js_mul v (js_of_int 100))"

subsection \<open>The world of the provider\<close>

text \<open>Callbacks of the provider's \<open>setTimeout\<close> calls.\<close>

datatype settings_timer =
    DeviceTypeTimer string    \<comment> \<open>\<open>setDeviceType\<close>, 10 ms: set the state, schedule the next\<close>
  | TransitionEndTimer        \<comment> \<open>500 ms: remove the transition class\<close>
  | VolumeUITimer             \<comment> \<open>\<open>triggerVolumeUIShow\<close>, 3000 ms: hide the volume UI\<close>

record settings_env =
  st :: settings
  store :: store
  masterGain :: double
  docClasses :: "string list"
  stimers :: "(nat \<times> settings_timer) list"
  nextTimerId :: nat

text \<open>\<open>setMasterVolume(level, isMuted)\<close> of \<open>soundSynth.ts\<close>: the master gain's target.\<close>

definition setMasterVolume :: "int \<Rightarrow> bool \<Rightarrow> settings_env \<Rightarrow> settings_env" where
  "setMasterVolume level muted env =
     env\<lparr>masterGain := (if muted then (0, 0) else js_div_int level 100)\<rparr>"

definition set_timeout :: "settings_timer \<Rightarrow> settings_env \<Rightarrow> settings_env" where
  "set_timeout t env =
     env\<lparr>stimers := stimers env @ [(nextTimerId env, t)], nextTimerId := Suc (nextTimerId env)\<rparr>"

definition clear_timeout :: "nat \<Rightarrow> settings_env \<Rightarrow> settings_env" where
  "clear_timeout i env = env\<lparr>stimers := filter (\<lambda>p. fst p \<noteq> i) (stimers env)\<rparr>"

definition class_add :: "string \<Rightarrow> string list \<Rightarrow> string list" where
  "class_add c cls = (if c \<in> set cls then cls else cls @ [c])"

definition class_remove :: "string \<Rightarrow> string list \<Rightarrow> string list" where
  "class_remove c cls = filter (\<lambda>x. x \<noteq> c) cls"

definition update_st :: "(settings \<Rightarrow> settings) \<Rightarrow> settings_env \<Rightarrow> settings_env" where
  "update_st f env = env\<lparr>st := f (st env)\<rparr>"

subsection \<open>Effects\<close>

text \<open>Whether an effect with this dependency runs: always on mount (\<open>None\<close>), else on change.\<close>

definition dep_changed :: "settings option \<Rightarrow> settings \<Rightarrow> (settings \<Rightarrow> 'a) \<Rightarrow> bool" where
  "dep_changed old s f = (case old of None \<Rightarrow> True | Some prev \<Rightarrow> f prev \<noteq> f s)"

text \<open>
  The theme effect (lines 225--240): the \<open>dark\<close> class follows \<open>currentMode\<close>, every
  \<open>theme-\<close> class is dropped and the active theme's is added. The class list is the
  token list of \<open>className\<close>, which the code splits and joins at spaces.
\<close>

definition theme_effect :: "settings \<Rightarrow> string list \<Rightarrow> string list" where
  "theme_effect s cls =
     (let c1 = (if currentMode s = ''dark'' then class_add ''dark'' cls else class_remove ''dark'' cls);
          c2 = filter (\<lambda>c. take 6 c \<noteq> ''theme-'') c1
      in class_add (''theme-'' @ activeThemeId s) c2)"

text \<open>
  The thirteen \<open>localStorage\<close> effects (lines 242--310), in their order: the key, whether
  the effect runs, and what it leaves under the key (\<open>setItem\<close> or, for a falsy
  location or PIN, \<open>removeItem\<close>).
\<close>

definition storage_entries :: "settings option \<Rightarrow> settings \<Rightarrow> (string \<times> bool \<times> string option) list" where
  "storage_entries old s =
     [(''deviceType'', dep_changed old s deviceType, Some (deviceType s)),
      (''sound'', dep_changed old s isSoundEnabled, Some (bool_toString (isSoundEnabled s))),
      (''volumeLevel'', dep_changed old s (dval \<circ> volumeLevel),
         Some (int_toString (volume_percent (volumeLevel s)))),
      (''brightnessLevel'', dep_changed old s brightnessLevel, Some (int_toString (brightnessLevel s))),
      (''isMuted'', dep_changed old s isMuted, Some (bool_toString (isMuted s))),
      (''activePageBg'', dep_changed old s activePageBgId, Some (activePageBgId s)),
      (''tempUnit'', dep_changed old s tempUnit, Some (tempUnit s)),
      (''defaultWeatherLocation'', dep_changed old s defaultWeatherLocation,
         if truthy (defaultWeatherLocation s) then defaultWeatherLocation s else None),
      (''notesFontSize'', dep_changed old s notesFontSize, Some (notesFontSize s)),
      (''notesSortOrder'', dep_changed old s notesSortOrder, Some (notesSortOrder s)),
      (''activeTheme'', dep_changed old s activeThemeId, Some (activeThemeId s)),
      (''colorMode'', dep_changed old s colorMode, Some (colorMode s)),
      (''lockscreenPin'', dep_changed old s lockscreenPin,
         if truthy (lockscreenPin s) then lockscreenPin s else None)]"

definition storage_effects :: "settings option \<Rightarrow> settings \<Rightarrow> store \<Rightarrow> store" where
  "storage_effects old s ls =
     fold (\<lambda>(k, run, v) ls. if run then ls(k := v) else ls) (storage_entries old s) ls"

text \<open>
  The effects after a render whose previous state was \<open>old\<close>: the theme, the storage,
  then the volume effect (lines 312--317).
\<close>

definition settings_effects :: "settings option \<Rightarrow> settings_env \<Rightarrow> settings_env" where
  "settings_effects old env =
     (let s = st env;
          env1 = (if dep_changed old s currentMode \<or> dep_changed old s activeThemeId
                  then env\<lparr>docClasses := theme_effect s (docClasses env)\<rparr> else env);
          env2 = env1\<lparr>store := storage_effects old s (store env1)\<rparr>
      in if dep_changed old s (dval \<circ> volumeLevel) \<or> dep_changed old s isMuted
         then setMasterVolume (volume_percent (volumeLevel s)) (isMuted s) env2 else env2)"

text \<open>
  Mounting the provider on a store, the system's colour preference and the document's
  classes; the synthesizer's master gain starts at \<open>1.0\<close> and browsers number timers
  from 1.
\<close>

definition mount_settings :: "store \<Rightarrow> bool \<Rightarrow> string list \<Rightarrow> settings_env option" where
  "mount_settings st0 prefersDark cls =
     map_option (\<lambda>s. settings_effects None
        \<lparr>st = s, store = st0, masterGain = (1, 0), docClasses = cls, stimers = [],
         nextTimerId = 1\<rparr>)
       (load_settings st0 prefersDark)"

subsection \<open>Handlers\<close>

definition setDeviceType :: "string \<Rightarrow> settings_env \<Rightarrow> settings_env" where
  "setDeviceType ty env =
     set_timeout (DeviceTypeTimer ty)
       (env\<lparr>docClasses := class_add ''device-type-transitioning'' (docClasses env)\<rparr>)"

definition toggleSound :: "settings_env \<Rightarrow> settings_env" where
  "toggleSound env =
     (let s = st env; newValue = \<not> isSoundEnabled s;
          env1 = (if \<not> newValue then setMasterVolume 0 True env
                  else setMasterVolume (volume_percent (volumeLevel s)) (isMuted s) env)
      in update_st (\<lambda>s. s\<lparr>isSoundEnabled := newValue\<rparr>) env1)"

definition setVolumeLevel :: "double \<Rightarrow> settings_env \<Rightarrow> settings_env" where
  "setVolumeLevel level env =
     (let s = st env; newLevel = js_max (0, 0) (js_min (1, 0) level);
          muted = (if js_eq newLevel (0, 0) then True
                   else if isMuted s \<and> js_less (0, 0) newLevel then False else isMuted s)
      in setMasterVolume (volume_percent newLevel) (js_eq newLevel (0, 0) \<or> isMuted s)
           (update_st (\<lambda>s. s\<lparr>volumeLevel := newLevel, isMuted := muted\<rparr>) env))"

definition triggerVolumeUIShow :: "settings_env \<Rightarrow> settings_env" where
  "triggerVolumeUIShow env =
     (let env1 = (case volumeUITimerRef (st env) of
                    Some i \<Rightarrow> if i \<noteq> 0 then clear_timeout i env else env
                  | None \<Rightarrow> env);
          i = nextTimerId env1
      in set_timeout VolumeUITimer
           (update_st (\<lambda>s. s\<lparr>showVolumeUI := True, volumeUITimerRef := Some i\<rparr>) env1))"

text \<open>The literal \<open>0.1\<close>.\<close>

definition tenth :: double where
  "tenth = js_div_int 1 10"

definition increaseVolume :: "settings_env \<Rightarrow> settings_env" where
  "increaseVolume env =
     triggerVolumeUIShow (setVolumeLevel (js_add (volumeLevel (st env)) tenth) env)"

definition decreaseVolume :: "settings_env \<Rightarrow> settings_env" where
  "decreaseVolume env =
     triggerVolumeUIShow (setVolumeLevel (js_sub (volumeLevel (st env)) tenth) env)"

definition toggleMute :: "settings_env \<Rightarrow> settings_env" where
  "toggleMute env =
     (let s = st env; newMuted = \<not> isMuted s
      in triggerVolumeUIShow
           (update_st (\<lambda>s. s\<lparr>isMuted := newMuted\<rparr>)
              (setMasterVolume (volume_percent (volumeLevel s)) newMuted env)))"

definition setActivePageBgId :: "string \<Rightarrow> settings_env \<Rightarrow> settings_env" where
  "setActivePageBgId i env =
     (update_st (\<lambda>s. s\<lparr>activePageBgId := i\<rparr>) env)\<lparr>store := (store env)(''activePageBg'' \<mapsto> i)\<rparr>"

definition toggleColorMode :: "settings \<Rightarrow> settings" where
  "toggleColorMode s = s\<lparr>colorMode := (if colorMode s = ''dark'' then ''light'' else ''dark'')\<rparr>"

definition setBrightnessLevel :: "int \<Rightarrow> settings \<Rightarrow> settings" where
  "setBrightnessLevel level s = s\<lparr>brightnessLevel := max 10 (min 100 level)\<rparr>"

text \<open>The timer callbacks.\<close>

fun fire_settings_timer :: "settings_timer \<Rightarrow> settings_env \<Rightarrow> settings_env" where
  "fire_settings_timer (DeviceTypeTimer ty) env =
     set_timeout TransitionEndTimer (update_st (\<lambda>s. s\<lparr>deviceType := ty\<rparr>) env)"
| "fire_settings_timer TransitionEndTimer env =
     env\<lparr>docClasses := class_remove ''device-type-transitioning'' (docClasses env)\<rparr>"
| "fire_settings_timer VolumeUITimer env =
     update_st (\<lambda>s. s\<lparr>showVolumeUI := False, volumeUITimerRef := None\<rparr>) env"

text \<open>
  The operations of the context's value (lines 484--520), the media-query listener
  (lines 211--213) and the firing of a pending timer. The setters that only store their
  argument (\<open>setTempUnit\<close>, \<open>setDefaultWeatherLocation\<close>, \<open>setNotesFontSize\<close>,
  \<open>setNotesSortOrder\<close>, \<open>setActiveThemeId\<close>, \<open>setColorMode\<close>, \<open>setLockscreenPin\<close>) are
  record updates; the stubs \<open>handleOpenApp\<close> and \<open>showPowerMenu\<close> only log.
\<close>

datatype settings_event =
    SetDeviceType string
  | ToggleSound
  | SetVolumeLevel double
  | IncreaseVolume
  | DecreaseVolume
  | ToggleMute
  | TriggerVolumeUIShow
  | SetBrightnessLevel int
  | SetActivePageBgId string
  | SetTempUnit string
  | SetDefaultWeatherLocation "string option"
  | SetNotesFontSize string
  | SetNotesSortOrder string
  | SetActiveThemeId string
  | SetColorMode string
  | ToggleColorMode
  | SetLockscreenPin "string option"
  | ContextOpenApp string
  | ContextShowPowerMenu
  | SystemColorScheme bool
  | FireSettingsTimer nat

fun settings_handler :: "settings_env \<Rightarrow> settings_event \<Rightarrow> settings_env option" where
  "settings_handler env (SetDeviceType ty) = Some (setDeviceType ty env)"
| "settings_handler env ToggleSound = Some (toggleSound env)"
| "settings_handler env (SetVolumeLevel l) = Some (setVolumeLevel l env)"
| "settings_handler env IncreaseVolume = Some (increaseVolume env)"
| "settings_handler env DecreaseVolume = Some (decreaseVolume env)"
| "settings_handler env ToggleMute = Some (toggleMute env)"
| "settings_handler env TriggerVolumeUIShow = Some (triggerVolumeUIShow env)"
| "settings_handler env (SetBrightnessLevel l) = Some (update_st (setBrightnessLevel l) env)"
| "settings_handler env (SetActivePageBgId i) = Some (setActivePageBgId i env)"
| "settings_handler env (SetTempUnit u) = Some (update_st (\<lambda>s. s\<lparr>tempUnit := u\<rparr>) env)"
| "settings_handler env (SetDefaultWeatherLocation l) =
     Some (update_st (\<lambda>s. s\<lparr>defaultWeatherLocation := l\<rparr>) env)"
| "settings_handler env (SetNotesFontSize z) = Some (update_st (\<lambda>s. s\<lparr>notesFontSize := z\<rparr>) env)"
| "settings_handler env (SetNotesSortOrder so) = Some (update_st (\<lambda>s. s\<lparr>notesSortOrder := so\<rparr>) env)"
| "settings_handler env (SetActiveThemeId t) = Some (update_st (\<lambda>s. s\<lparr>activeThemeId := t\<rparr>) env)"
| "settings_handler env (SetColorMode m) = Some (update_st (\<lambda>s. s\<lparr>colorMode := m\<rparr>) env)"
| "settings_handler env ToggleColorMode = Some (update_st toggleColorMode env)"
| "settings_handler env (SetLockscreenPin p) = Some (update_st (\<lambda>s. s\<lparr>lockscreenPin := p\<rparr>) env)"
| "settings_handler env (ContextOpenApp a) = Some env"
| "settings_handler env ContextShowPowerMenu = Some env"
| "settings_handler env (SystemColorScheme b) = Some (update_st (\<lambda>s. s\<lparr>systemPrefersDark := b\<rparr>) env)"
| "settings_handler env (FireSettingsTimer i) =
     (if i < length (stimers env)
      then Some (fire_settings_timer (snd (stimers env ! i))
                  (env\<lparr>stimers := take i (stimers env) @ drop (Suc i) (stimers env)\<rparr>))
      else None)"

definition settings_step :: "settings_env \<Rightarrow> settings_event \<Rightarrow> settings_env option" where
  "settings_step env e = map_option (settings_effects (Some (st env))) (settings_handler env e)"

fun settings_run :: "settings_env \<Rightarrow> settings_event list \<Rightarrow> settings_env option" where
  "settings_run env [] = Some env"
| "settings_run env (e # es) =
     (case settings_step env e of None \<Rightarrow> None | Some env' \<Rightarrow> settings_run env' es)"


subsection \<open>Invariants\<close>

text \<open>
  The argument of \<open>setVolumeLevel\<close> is a number, written canonically; the other events
  carry no constraint.
\<close>

fun settings_event_ok :: "settings_event \<Rightarrow> bool" where
  "settings_event_ok (SetVolumeLevel l) = canonical l"
| "settings_event_ok _ = True"

definition settings_bounds :: "settings \<Rightarrow> bool" where
  "settings_bounds s \<longleftrightarrow> canonical (volumeLevel s)
     \<and> 0 \<le> dval (volumeLevel s) \<and> dval (volumeLevel s) \<le> 1
     \<and> 10 \<le> brightnessLevel s \<and> brightnessLevel s \<le> 100"

text \<open>The keys the storage effects write, and what each writes for a state.\<close>

definition persisted_keys :: "string list" where
  "persisted_keys = [''deviceType'', ''sound'', ''volumeLevel'', ''brightnessLevel'', ''isMuted'',
     ''activePageBg'', ''tempUnit'', ''defaultWeatherLocation'', ''notesFontSize'',
     ''notesSortOrder'', ''activeTheme'', ''colorMode'', ''lockscreenPin'']"

definition stored_value :: "settings \<Rightarrow> string \<Rightarrow> string option" where
  "stored_value s k = (case map_of (storage_entries None s) k of Some (_, v) \<Rightarrow> v | None \<Rightarrow> None)"

definition synced :: "settings_env \<Rightarrow> bool" where
  "synced env \<longleftrightarrow> (\<forall>k \<in> set persisted_keys. store env k = stored_value (st env) k)"


lemma st_settings_effects [simp]: "st (settings_effects old env) = st env"
  by (simp add: settings_effects_def Let_def setMasterVolume_def)

lemma st_setMasterVolume [simp]: "st (setMasterVolume l m env) = st env"
  by (simp add: setMasterVolume_def)

lemma st_set_timeout [simp]: "st (set_timeout t env) = st env"
  by (simp add: set_timeout_def)

lemma st_clear_timeout [simp]: "st (clear_timeout i env) = st env"
  by (simp add: clear_timeout_def)

lemma st_update_st [simp]: "st (update_st f env) = f (st env)"
  by (simp add: update_st_def)

lemma volumeLevel_triggerVolumeUIShow [simp]:
  "volumeLevel (st (triggerVolumeUIShow env)) = volumeLevel (st env)
   \<and> brightnessLevel (st (triggerVolumeUIShow env)) = brightnessLevel (st env)
   \<and> isMuted (st (triggerVolumeUIShow env)) = isMuted (st env)"
  by (simp add: triggerVolumeUIShow_def Let_def split: option.split)

lemma setVolumeLevel_bounds:
  "settings_bounds (st env) \<Longrightarrow> canonical l \<Longrightarrow> settings_bounds (st (setVolumeLevel l env))"
  by (simp add: setVolumeLevel_def Let_def settings_bounds_def clamp01_bounds canonical_clamp01)

lemma fire_settings_timer_bounds:
  "settings_bounds (st env) \<Longrightarrow> settings_bounds (st (fire_settings_timer t env))"
  by (cases t) (simp_all add: settings_bounds_def)

lemma settings_handler_bounds:
  assumes "settings_bounds (st env)" "settings_event_ok e" "settings_handler env e = Some env'"
  shows "settings_bounds (st env')"
proof (cases e)
  case (SetVolumeLevel l)
  with assms show ?thesis by (auto intro: setVolumeLevel_bounds)
next
  case IncreaseVolume
  with assms show ?thesis
    by (auto simp: increaseVolume_def intro: setVolumeLevel_bounds [of env, simplified settings_bounds_def] simp add: settings_bounds_def setVolumeLevel_def Let_def clamp01_bounds canonical_clamp01)
next
  case DecreaseVolume
  with assms show ?thesis
    by (auto simp: decreaseVolume_def settings_bounds_def setVolumeLevel_def Let_def clamp01_bounds canonical_clamp01)
next
  case (FireSettingsTimer i)
  with assms show ?thesis by (auto split: if_splits intro: fire_settings_timer_bounds [of "env\<lparr>stimers := _\<rparr>", simplified])
qed (use assms in \<open>auto simp: settings_bounds_def setDeviceType_def toggleSound_def Let_def
        toggleMute_def setActivePageBgId_def setBrightnessLevel_def toggleColorMode_def\<close>)

lemma fold_cond_upd:
  "distinct (map fst xs) \<Longrightarrow>
   fold (\<lambda>(k, r, v) m. if r then m(k := v) else m) xs m k =
     (case map_of xs k of None \<Rightarrow> m k | Some (r, v) \<Rightarrow> if r then v else m k)"
proof (induction xs arbitrary: m)
  case (Cons x xs)
  obtain k' r' v' where x: "x = (k', r', v')" by (cases x) auto
  from Cons.prems x have "k' \<notin> set (map fst xs)" by simp
  then have "k = k' \<Longrightarrow> map_of xs k = None" by (simp add: map_of_eq_None_iff)
  with Cons x show ?case by (auto split: option.split)
qed simp

lemma storage_effects_at:
  "storage_effects old s ls k =
     (case map_of (storage_entries old s) k of None \<Rightarrow> ls k | Some (r, v) \<Rightarrow> if r then v else ls k)"
proof -
  have "distinct (map fst (storage_entries old s))"
    by (simp add: storage_entries_def)
  then show ?thesis unfolding storage_effects_def by (rule fold_cond_upd)
qed

lemma storage_effects_None:
  "k \<in> set persisted_keys \<Longrightarrow> storage_effects None s ls k = stored_value s k"
  by (auto simp: storage_effects_at stored_value_def persisted_keys_def storage_entries_def
      dep_changed_def)

lemma storage_entry_at:
  assumes "canonical (volumeLevel prev)" "canonical (volumeLevel s)" "k \<in> set persisted_keys"
  shows "\<exists>r. map_of (storage_entries (Some prev) s) k = Some (r, stored_value s k)
           \<and> (\<not> r \<longrightarrow> stored_value prev k = stored_value s k)"
  using assms
  by (auto simp: persisted_keys_def stored_value_def storage_entries_def dep_changed_def
      canonical_dval_eq_iff)

lemma storage_effects_Some:
  assumes "k \<in> set persisted_keys" "ls k = stored_value prev k \<or> ls k = stored_value s k"
    and "canonical (volumeLevel prev)" "canonical (volumeLevel s)"
  shows "storage_effects (Some prev) s ls k = stored_value s k"
proof -
  obtain r where "map_of (storage_entries (Some prev) s) k = Some (r, stored_value s k)"
    and "\<not> r \<longrightarrow> stored_value prev k = stored_value s k"
    using storage_entry_at [OF assms(3,4,1)] by blast
  with assms(2) show ?thesis by (auto simp: storage_effects_at)
qed

lemma store_settings_effects [simp]:
  "store (settings_effects old env) = storage_effects old (st env) (store env)"
  by (simp add: settings_effects_def Let_def setMasterVolume_def)

lemma store_handlers [simp]:
  "store (setMasterVolume l m env) = store env" "store (set_timeout t env) = store env"
  "store (clear_timeout i env) = store env" "store (update_st f env) = store env"
  by (simp_all add: setMasterVolume_def set_timeout_def clear_timeout_def update_st_def)

lemma store_triggerVolumeUIShow [simp]: "store (triggerVolumeUIShow env) = store env"
  by (simp add: triggerVolumeUIShow_def Let_def split: option.split)

lemma store_fire_settings_timer [simp]: "store (fire_settings_timer t env) = store env"
  by (cases t) simp_all

lemma store_settings_handlers [simp]:
  "store (setDeviceType ty env) = store env" "store (toggleSound env) = store env"
  "store (setVolumeLevel l env) = store env" "store (increaseVolume env) = store env"
  "store (decreaseVolume env) = store env" "store (toggleMute env) = store env"
  by (simp_all add: setDeviceType_def toggleSound_def Let_def setVolumeLevel_def
      increaseVolume_def decreaseVolume_def toggleMute_def)

lemma settings_handler_store:
  assumes "settings_handler env e = Some env'" "k \<in> set persisted_keys"
  shows "store env' k = store env k \<or> store env' k = stored_value (st env') k"
proof (cases e)
  case (SetActivePageBgId i)
  have "stored_value ((st env)\<lparr>activePageBgId := i\<rparr>) ''activePageBg'' = Some i"
    by (simp add: stored_value_def storage_entries_def)
  moreover from assms(1) SetActivePageBgId have "env' = setActivePageBgId i env" by simp
  ultimately show ?thesis
    by (cases "k = ''activePageBg''") (simp_all add: setActivePageBgId_def update_st_def)
next
  case (FireSettingsTimer i)
  with assms(1) have "env' = fire_settings_timer (snd (stimers env ! i))
      (env\<lparr>stimers := take i (stimers env) @ drop (Suc i) (stimers env)\<rparr>)"
    by (simp split: if_splits)
  then show ?thesis by simp
qed (use assms in \<open>auto\<close>)

lemma volume_canonical_fire:
  "canonical (volumeLevel (st (fire_settings_timer t env))) = canonical (volumeLevel (st env))"
  by (cases t) simp_all

lemma settings_handler_canonical:
  assumes "canonical (volumeLevel (st env))" "settings_event_ok e" "settings_handler env e = Some env'"
  shows "canonical (volumeLevel (st env'))"
  using assms
  by (cases e) (auto simp: setDeviceType_def toggleSound_def Let_def increaseVolume_def
      decreaseVolume_def setVolumeLevel_def toggleMute_def setActivePageBgId_def
      setBrightnessLevel_def toggleColorMode_def canonical_clamp01 volume_canonical_fire
      split: if_splits)

lemma settings_step_synced:
  assumes "synced env" "canonical (volumeLevel (st env))" "settings_event_ok e"
    and "settings_step env e = Some env'"
  shows "synced env' \<and> canonical (volumeLevel (st env'))"
proof -
  obtain env1 where h: "settings_handler env e = Some env1"
    and e': "env' = settings_effects (Some (st env)) env1"
    using assms(4) by (auto simp: settings_step_def)
  have c1: "canonical (volumeLevel (st env1))"
    by (rule settings_handler_canonical [OF assms(2,3) h])
  have "store env' k = stored_value (st env') k" if k: "k \<in> set persisted_keys" for k
  proof -
    from assms(1) k have "store env k = stored_value (st env) k" by (simp add: synced_def)
    with settings_handler_store [OF h k]
    have "store env1 k = stored_value (st env) k \<or> store env1 k = stored_value (st env1) k"
      by auto
    from storage_effects_Some [of k "store env1" "st env" "st env1", OF k this assms(2) c1]
    show ?thesis by (simp add: e')
  qed
  with c1 e' show ?thesis by (simp add: synced_def)
qed

lemma load_settings_canonical:
  "load_settings ls pd = Some s \<Longrightarrow> canonical (volumeLevel s)"
  by (auto simp: load_settings_def Let_def split: if_splits option.splits)

lemma mount_settings_synced:
  assumes "mount_settings ls pd cls = Some env"
  shows "synced env \<and> canonical (volumeLevel (st env))"
proof -
  obtain s where l: "load_settings ls pd = Some s"
    and e: "env = settings_effects None
              \<lparr>st = s, store = ls, masterGain = (1, 0), docClasses = cls, stimers = [],
               nextTimerId = 1\<rparr>"
    using assms by (auto simp: mount_settings_def)
  then show ?thesis
    by (simp add: synced_def storage_effects_None load_settings_canonical)
qed

lemma settings_run_synced_canonical:
  "synced env \<Longrightarrow> canonical (volumeLevel (st env)) \<Longrightarrow> list_all settings_event_ok es \<Longrightarrow>
   settings_run env es = Some env' \<Longrightarrow> synced env' \<and> canonical (volumeLevel (st env'))"
proof (induction es arbitrary: env)
  case (Cons e es)
  then obtain env1 where s1: "settings_step env e = Some env1" and r: "settings_run env1 es = Some env'"
    by (auto split: option.splits)
  from settings_step_synced [OF Cons.prems(1,2) _ s1] Cons.prems(3) have
    "synced env1 \<and> canonical (volumeLevel (st env1))" by simp
  with Cons.IH [OF _ _ _ r] Cons.prems(3) show ?case by simp
qed simp

lemma settings_step_bounds:
  "settings_bounds (st env) \<Longrightarrow> settings_event_ok e \<Longrightarrow> settings_step env e = Some env' \<Longrightarrow>
   settings_bounds (st env')"
  by (auto simp: settings_step_def dest: settings_handler_bounds)

lemma synced_store:
  assumes "synced env"
  shows "store env ''deviceType'' = Some (deviceType (st env))
    \<and> store env ''sound'' = Some (bool_toString (isSoundEnabled (st env)))
    \<and> store env ''volumeLevel'' = Some (int_toString (volume_percent (volumeLevel (st env))))
    \<and> store env ''brightnessLevel'' = Some (int_toString (brightnessLevel (st env)))
    \<and> store env ''isMuted'' = Some (bool_toString (isMuted (st env)))
    \<and> store env ''activePageBg'' = Some (activePageBgId (st env))
    \<and> store env ''tempUnit'' = Some (tempUnit (st env))
    \<and> store env ''defaultWeatherLocation'' =
        (if truthy (defaultWeatherLocation (st env)) then defaultWeatherLocation (st env) else None)
    \<and> store env ''notesFontSize'' = Some (notesFontSize (st env))
    \<and> store env ''notesSortOrder'' = Some (notesSortOrder (st env))
    \<and> store env ''activeTheme'' = Some (activeThemeId (st env))
    \<and> store env ''colorMode'' = Some (colorMode (st env))
    \<and> store env ''lockscreenPin'' =
        (if truthy (lockscreenPin (st env)) then lockscreenPin (st env) else None)"
  using assms by (simp add: synced_def persisted_keys_def stored_value_def storage_entries_def)

lemma int_toString_nonempty [simp]: "int_toString n \<noteq> []"
  by (simp add: int_toString_def nat_digits_nonempty)

text \<open>
  C5: round trip of the settings through \<open>localStorage\<close>. When the store mirrors the
  state, reloading the page restores every persisted setting exactly, provided the PIN is
  set, the strings are non-empty (\<open>saved || default\<close> replaces an empty one) and the
  volume is a whole percentage (it is stored as \<open>Math.round(volume * 100)\<close>).
\<close>

theorem reload_restores_settings:
  assumes "synced env" and "truthy (lockscreenPin (st env))"
    and "defaultWeatherLocation (st env) \<noteq> Some []"
    and "deviceType (st env) \<noteq> []" "activePageBgId (st env) \<noteq> []" "tempUnit (st env) \<noteq> []"
    and "notesFontSize (st env) \<noteq> []" "notesSortOrder (st env) \<noteq> []"
    and "activeThemeId (st env) \<noteq> []" "colorMode (st env) \<noteq> []"
    and "js_div_int (volume_percent (volumeLevel (st env))) 100 = volumeLevel (st env)"
  shows "load_settings (store env) (systemPrefersDark (st env)) =
           Some ((st env)\<lparr>showVolumeUI := False, volumeUITimerRef := None\<rparr>)"
proof -
  note eqs = synced_store [OF assms(1)]
  have pin: "store env ''lockscreenPin'' = lockscreenPin (st env)"
    using eqs assms(2) by simp
  have loc: "store env ''defaultWeatherLocation'' = defaultWeatherLocation (st env)"
    using eqs assms(3) by (cases "defaultWeatherLocation (st env)") auto
  show ?thesis
    unfolding load_settings_def Let_def
    apply (simp only: eqs pin loc)
    using assms(2-)
    by (cases "st env", cases "defaultWeatherLocation (st env)")
       (auto simp: or_default_def bool_toString_def parseInt_int_toString truthy_Some_the)
qed

text \<open>
  C6: turning the screen lock off does not survive a reload. \<open>setLockscreenPin(null)\<close>
  removes the key, and the initialiser reads a missing key as the default PIN
  \<open>'1234'\<close>: after a reload the device is locked again with a PIN the user never chose.
\<close>

theorem disabled_pin_reloads_default:
  assumes "synced env" and "lockscreenPin (st env) = None"
  shows "\<exists>s'. load_settings (store env) pd = Some s' \<and> lockscreenPin s' = Some ''1234''"
  using synced_store [OF assms(1)] assms(2)
  by (simp add: load_settings_def Let_def or_default_def parseInt_int_toString)

lemma tenth_value: "tenth = (3602879701896397, -55)"
  unfolding tenth_def fp_eval Let_def by simp

lemma decrement_chain:
  "js_max (0, 0) (js_min (1, 0) (js_sub (1, -1) tenth)) = (3602879701896397, -53)"
  "js_max (0, 0) (js_min (1, 0) (js_sub (3602879701896397, -53) tenth)) = (1351079888211149, -52)"
  "js_max (0, 0) (js_min (1, 0) (js_sub (1351079888211149, -52) tenth)) = (7205759403792795, -55)"
  "js_max (0, 0) (js_min (1, 0) (js_sub (7205759403792795, -55) tenth)) = (1801439850948199, -54)"
  "js_max (0, 0) (js_min (1, 0) (js_sub (1801439850948199, -54) tenth)) = (1, -55)"
  unfolding tenth_value fp_eval Let_def dval_def by simp_all

lemma st_decreaseVolume:
  "volumeLevel (st (decreaseVolume env)) = js_max (0, 0) (js_min (1, 0) (js_sub (volumeLevel (st env)) tenth))"
  "\<not> isMuted (st env) \<Longrightarrow> \<not> js_eq (volumeLevel (st (decreaseVolume env))) (0, 0) \<Longrightarrow>
   \<not> isMuted (st (decreaseVolume env))"
  by (simp_all add: decreaseVolume_def setVolumeLevel_def Let_def js_eq_def)

lemma settings_step_DecreaseVolume:
  "settings_step env DecreaseVolume = Some (settings_effects (Some (st env)) (decreaseVolume env))"
  by (simp add: settings_step_def)

lemma load_settings_empty:
  "load_settings Map.empty False = Some
    \<lparr>deviceType = ''phone'', isSoundEnabled = True, volumeLevel = (1, -1), brightnessLevel = 80,
     isMuted = False, showVolumeUI = False, activePageBgId = ''default'', tempUnit = ''celsius'',
     defaultWeatherLocation = None, notesFontSize = ''base'', notesSortOrder = ''newest'',
     activeThemeId = ''default'', colorMode = ''dark'', systemPrefersDark = False,
     lockscreenPin = Some ''1234'', volumeUITimerRef = None\<rparr>"
  unfolding load_settings_def Let_def or_default_def fp_eval by simp

text \<open>
  Pressing volume down five times from the default 50\<percent> does not reach 0 in
  floating point: the volume is \<open>2^-55\<close>, the display and the stored value read 0\<percent>,
  yet \<open>newLevel === 0\<close> failed, so the device is not muted.
\<close>

theorem five_decrements_leave_residue:
  "\<exists>env env'. mount_settings Map.empty False [] = Some env
     \<and> settings_run env (replicate 5 DecreaseVolume) = Some env'
     \<and> dval (volumeLevel (st env')) = 1 / 2 ^ 55 \<and> \<not> isMuted (st env')
     \<and> volume_percent (volumeLevel (st env')) = 0
     \<and> store env' ''volumeLevel'' = Some ''0'' \<and> store env' ''isMuted'' = Some ''false''"
proof -
  obtain env where m: "mount_settings Map.empty False [] = Some env"
    and v0: "volumeLevel (st env) = (1, -1)" and u0: "\<not> isMuted (st env)"
    by (simp add: mount_settings_def load_settings_empty)
  define env' where "env' = settings_effects (Some (st env)) (decreaseVolume env)"
  let ?d = "\<lambda>e. settings_effects (Some (st e)) (decreaseVolume e)"
  have r: "settings_run env (replicate 5 DecreaseVolume) = Some (?d (?d (?d (?d (?d env)))))"
    by (simp add: numeral_eq_Suc settings_step_DecreaseVolume)
  have v: "volumeLevel (st (?d (?d (?d (?d (?d env)))))) = (1, -55)"
    by (simp add: st_decreaseVolume v0 decrement_chain)
  have u: "\<not> isMuted (st (?d (?d (?d (?d (?d env))))))"
    using u0 by (simp add: st_decreaseVolume v0 decrement_chain js_eq_def dval_def)
  have sync: "synced (?d (?d (?d (?d (?d env)))))"
  proof -
    have ok: "list_all settings_event_ok (replicate 5 DecreaseVolume)"
      by (simp add: numeral_eq_Suc)
    from mount_settings_synced [OF m] settings_run_synced_canonical [OF _ _ ok r] show ?thesis
      by simp
  qed
  have p: "volume_percent (1, -55) = 0"
    unfolding volume_percent_def fp_eval Let_def by simp
  have c: "char_of (48::nat) = CHR ''0''" by code_simp
  have z: "int_toString 0 = ''0''"
    by (simp add: int_toString_def nat_digits_unfold c)
  show ?thesis
    using m r v u p z synced_store [OF sync]
    by (intro exI [of _ env] exI [of _ "?d (?d (?d (?d (?d env))))"])
       (simp add: dval_def bool_toString_def)
qed


subsection \<open>Properties of the settings context\<close>

text \<open>
  C4: \<open>localStorage\<close> always mirrors the state. After the provider mounts on any store
  and any sequence of handler calls and timer callbacks, every key the storage effects
  write holds what writing the current state would give: the effects that run only on a
  changed dependency never leave a stale value.
\<close>

theorem storage_mirrors_state:
  assumes "mount_settings ls pd cls = Some env" and "list_all settings_event_ok es"
    and "settings_run env es = Some env'"
  shows "synced env'"
  using mount_settings_synced [OF assms(1)] settings_run_synced_canonical [OF _ _ assms(2,3)]
  by simp

text \<open>
  C7: the volume stays in \<open>[0, 1]\<close> and the brightness in \<open>[10, 100]\<close> under every
  sequence of operations, whatever the argument of \<open>setVolumeLevel\<close> or
  \<open>setBrightnessLevel\<close>: the clamps of lines 353 and 436 hold in floating point.
\<close>

theorem settings_run_bounds:
  assumes "settings_bounds (st env)" and "list_all settings_event_ok es"
    and "settings_run env es = Some env'"
  shows "settings_bounds (st env')"
  using assms
proof (induction es arbitrary: env)
  case (Cons e es)
  then obtain env1 where s1: "settings_step env e = Some env1" and r: "settings_run env1 es = Some env'"
    by (auto split: option.splits)
  with Cons show ?case by (auto intro: settings_step_bounds)
qed simp

subsection \<open>Witnesses\<close>

lemma mount_empty:
  "\<exists>env. mount_settings Map.empty False [] = Some env \<and> volumeLevel (st env) = (1, -1)
     \<and> brightnessLevel (st env) = 80 \<and> lockscreenPin (st env) = Some ''1234''
     \<and> defaultWeatherLocation (st env) = None \<and> st env = the (load_settings Map.empty False)"
  by (simp add: mount_settings_def load_settings_empty)

theorem storage_mirrors_state_witness:
  "\<exists>env env'. mount_settings Map.empty False [] = Some env
     \<and> settings_run env [IncreaseVolume, SetActivePageBgId ''sunset''] = Some env' \<and> synced env'"
proof -
  obtain env where m: "mount_settings Map.empty False [] = Some env"
    using mount_empty by blast
  obtain env' where r: "settings_run env [IncreaseVolume, SetActivePageBgId ''sunset''] = Some env'"
    by (simp add: settings_step_def)
  have "list_all settings_event_ok [IncreaseVolume, SetActivePageBgId ''sunset'']" by simp
  from storage_mirrors_state [OF m this r] m r show ?thesis by blast
qed

theorem settings_run_bounds_witness:
  "\<exists>env env'. mount_settings Map.empty False [] = Some env \<and> settings_bounds (st env)
     \<and> settings_run env [SetVolumeLevel (3, 0), SetBrightnessLevel 0] = Some env'
     \<and> settings_bounds (st env')"
proof -
  obtain env where m: "mount_settings Map.empty False [] = Some env"
    and v: "volumeLevel (st env) = (1, -1)" and b: "brightnessLevel (st env) = 80"
    using mount_empty by blast
  have bd: "settings_bounds (st env)"
    using v b by (simp add: settings_bounds_def canonical_def dval_def)
  obtain env' where r: "settings_run env [SetVolumeLevel (3, 0), SetBrightnessLevel 0] = Some env'"
    by (simp add: settings_step_def)
  have "list_all settings_event_ok [SetVolumeLevel (3, 0), SetBrightnessLevel 0]"
    by (simp add: canonical_def)
  from settings_run_bounds [OF bd this r] m bd r show ?thesis by blast
qed

theorem reload_restores_settings_witness:
  "\<exists>env. mount_settings Map.empty False [] = Some env \<and> synced env
     \<and> load_settings (store env) (systemPrefersDark (st env)) =
         Some ((st env)\<lparr>showVolumeUI := False, volumeUITimerRef := None\<rparr>)"
proof -
  obtain env where m: "mount_settings Map.empty False [] = Some env"
    and st: "st env = the (load_settings Map.empty False)"
    using mount_empty by blast
  have sy: "synced env" using mount_settings_synced [OF m] by simp
  have p50: "volume_percent (1, -1) = 50"
    unfolding volume_percent_def fp_eval Let_def by simp
  have "js_div_int 50 100 = (1, -1)"
    unfolding fp_eval Let_def by simp
  with p50 have p: "js_div_int (volume_percent (1, -1)) 100 = (1, -1)" by simp
  have "load_settings (store env) (systemPrefersDark (st env)) =
          Some ((st env)\<lparr>showVolumeUI := False, volumeUITimerRef := None\<rparr>)"
    using p by (intro reload_restores_settings [OF sy]) (simp_all add: st load_settings_empty)
  with m sy show ?thesis by blast
qed

theorem disabled_pin_reloads_default_witness:
  "\<exists>env env'. mount_settings Map.empty False [] = Some env
     \<and> settings_run env [SetLockscreenPin None] = Some env' \<and> synced env'
     \<and> lockscreenPin (st env') = None
     \<and> (\<exists>s'. load_settings (store env') False = Some s' \<and> lockscreenPin s' = Some ''1234'')"
proof -
  obtain env where m: "mount_settings Map.empty False [] = Some env"
    using mount_empty by blast
  obtain env' where r: "settings_run env [SetLockscreenPin None] = Some env'"
    and p: "lockscreenPin (st env') = None"
    by (simp add: settings_step_def update_st_def)
  have sy: "synced env'"
    using mount_settings_synced [OF m] settings_run_synced_canonical [OF _ _ _ r] by simp
  from disabled_pin_reloads_default [OF sy p] m r sy p show ?thesis by blast
qed

end
