(* ===== verification/Notes.thy ===== *)
theory Notes
  imports WebDroid_Prelude JSNumber "HOL-Library.Multiset"
begin

text \<open>
  The notes app of \<open>src/src/apps/NotesApp.tsx\<close>: the list of notes kept in
  \<open>localStorage\<close> under \<open>webdroid-notes\<close>, the list and detail views, the editor's text
  and the effect that refills it, the handlers of the buttons, the sort of the list by the
  setting \<open>notesSortOrder\<close>, and the tokenizer of \<open>[[link]]\<close> syntax
  (\<open>parseAndRenderLinks\<close>). The stored value is the JSON text of the list; it is written
  here as the list itself (\<open>NotesJSON\<close>) or as text that does not parse
  (\<open>MalformedJSON\<close>): \<open>JSON.stringify\<close> and \<open>JSON.parse\<close> are inverse on lists of
  these plain records. A handler reads the state of its render; \<open>notesVersion\<close> counts
  the calls of \<open>setNotes\<close>, each of which gives a new array, so that the effect whose
  dependency is the array runs exactly when React runs it.
\<close>

subsection \<open>State\<close>

record Note =
  noteId :: string
  noteTitle :: string
  noteContent :: string
  timestamp :: int

datatype view_mode = ListView | DetailView

datatype detail_mode = ViewNote | EditNote

datatype notes_json = NotesJSON "Note list" | MalformedJSON

record notes_app =
  viewMode :: view_mode
  detailMode :: detail_mode
  currentNoteId :: "string option"
  notesList :: "Note list"
  notesVersion :: nat
  editText :: string
  notesStore :: "notes_json option"

definition set_notes :: "Note list \<Rightarrow> notes_app \<Rightarrow> notes_app" where
  "set_notes ns s = s\<lparr>notesList := ns, notesVersion := Suc (notesVersion s)\<rparr>"

text \<open>
  The effect of lines 99--108: with a note selected, copy its content into the editor
  (if the note exists); with none, clear the editor.
\<close>

definition edit_text_effect :: "notes_app \<Rightarrow> notes_app" where
  "edit_text_effect s =
     (if truthy (currentNoteId s)
      then (case find (\<lambda>n. noteId n = the (currentNoteId s)) (notesList s) of
              Some n \<Rightarrow> s\<lparr>editText := noteContent n\<rparr>
            | None \<Rightarrow> s)
      else s\<lparr>editText := []\<rparr>)"

text \<open>
  Mounting on the stored value (lines 86--96): a stored list is loaded, text that does not
  parse gives the empty list, an absent key leaves the initial empty list. Both effects
  run after the first render.
\<close>

definition mount_notes :: "notes_json option \<Rightarrow> notes_app" where
  "mount_notes saved =
     (let s0 = \<lparr>viewMode = ListView, detailMode = ViewNote, currentNoteId = None, notesList = [],
                notesVersion = 0, editText = [], notesStore = saved\<rparr>;
          s1 = (case saved of
                  Some (NotesJSON ns) \<Rightarrow> set_notes ns s0
                | Some MalformedJSON \<Rightarrow> set_notes [] s0
                | None \<Rightarrow> s0)
      in edit_text_effect s1)"

text \<open>
  \<open>saveNotes\<close> (lines 111--118): write the store, then the state; when \<open>setItem\<close>
  throws (the storage is full, \<open>ok = False\<close>) the error is logged and neither changes.
\<close>

definition saveNotes :: "bool \<Rightarrow> Note list \<Rightarrow> notes_app \<Rightarrow> notes_app" where
  "saveNotes ok ns s = (if ok then set_notes ns (s\<lparr>notesStore := Some (NotesJSON ns)\<rparr>) else s)"

subsection \<open>Handlers\<close>

definition handleNoteSelect :: "string \<Rightarrow> notes_app \<Rightarrow> notes_app" where
  "handleNoteSelect i s = s\<lparr>currentNoteId := Some i, detailMode := ViewNote, viewMode := DetailView\<rparr>"

definition handleNewNote :: "notes_app \<Rightarrow> notes_app" where
  "handleNewNote s =
     s\<lparr>currentNoteId := None, editText := [], detailMode := EditNote, viewMode := DetailView\<rparr>"

text \<open>
  \<open>handleSaveNote\<close> at time \<open>now\<close> (\<open>Date.now()\<close>, milliseconds): a blank text only
  returns to the list; otherwise the selected note gets the text and the time, or a new
  note \<open>note-<now>\<close> is appended.
\<close>

definition handleSaveNote :: "int \<Rightarrow> bool \<Rightarrow> notes_app \<Rightarrow> notes_app" where
  "handleSaveNote now ok s =
     (if js_trim (editText s) = [] then s\<lparr>viewMode := ListView\<rparr>
      else (let s1 =
              (if truthy (currentNoteId s)
               then saveNotes ok
                      (map (\<lambda>n. if noteId n = the (currentNoteId s)
                                then n\<lparr>noteContent := editText s, timestamp := now\<rparr> else n) (notesList s)) s
               else saveNotes ok
                      (notesList s @ [\<lparr>noteId = ''note-'' @ int_toString now, noteTitle = [],
                                   noteContent = editText s, timestamp = now\<rparr>]) s)
            in s1\<lparr>viewMode := ListView\<rparr>))"

definition handleDeleteNote :: "bool \<Rightarrow> notes_app \<Rightarrow> notes_app" where
  "handleDeleteNote ok s =
     (if truthy (currentNoteId s)
      then (saveNotes ok (filter (\<lambda>n. noteId n \<noteq> the (currentNoteId s)) (notesList s)) s)\<lparr>viewMode := ListView\<rparr>
      else s)"

text \<open>\<open>handleBack\<close>, with the answer \<open>confirmed\<close> to \<open>window.confirm\<close> in edit mode.\<close>

definition handleBack :: "bool \<Rightarrow> notes_app \<Rightarrow> notes_app" where
  "handleBack confirmed s =
     (if detailMode s = EditNote
      then (if confirmed
            then (if truthy (currentNoteId s) then s\<lparr>detailMode := ViewNote\<rparr> else s\<lparr>viewMode := ListView\<rparr>)
            else s)
      else s\<lparr>viewMode := ListView\<rparr>)"

definition handleToggleEditMode :: "notes_app \<Rightarrow> notes_app" where
  "handleToggleEditMode s =
     s\<lparr>detailMode := (if detailMode s = ViewNote then EditNote else ViewNote)\<rparr>"

text \<open>\<open>getSortedNotes\<close>: a stable sort by time, newest or oldest first.\<close>

definition getSortedNotes :: "string \<Rightarrow> Note list \<Rightarrow> Note list" where
  "getSortedNotes notesSortOrder ns =
     sort_key (\<lambda>n. if notesSortOrder = ''newest'' then - timestamp n else timestamp n) ns"

subsection \<open>Events\<close>

text \<open>
  The events the render can produce (list rows, the floating button, the app bar and the
  editor), the callbacks of the detail view's link buttons, which only raise an alert,
  and the effect after each event: it runs when the selected id or the array changed.
\<close>

datatype notes_event =
    NoteSelect string
  | NewNote
  | SaveNote int bool
  | DeleteNote bool
  | Back bool
  | ToggleEditMode
  | EditTextChange string
  | InternalLinkClick string

fun notes_handler :: "notes_app \<Rightarrow> notes_event \<Rightarrow> notes_app" where
  "notes_handler s (NoteSelect i) = handleNoteSelect i s"
| "notes_handler s NewNote = handleNewNote s"
| "notes_handler s (SaveNote now ok) = handleSaveNote now ok s"
| "notes_handler s (DeleteNote ok) = handleDeleteNote ok s"
| "notes_handler s (Back c) = handleBack c s"
| "notes_handler s ToggleEditMode = handleToggleEditMode s"
| "notes_handler s (EditTextChange t) = s\<lparr>editText := t\<rparr>"
| "notes_handler s (InternalLinkClick i) = s"

definition notes_step :: "notes_app \<Rightarrow> notes_event \<Rightarrow> notes_app" where
  "notes_step s e =
     (let s' = notes_handler s e
      in if currentNoteId s' \<noteq> currentNoteId s \<or> notesVersion s' \<noteq> notesVersion s
         then edit_text_effect s' else s')"

definition notes_run :: "notes_app \<Rightarrow> notes_event list \<Rightarrow> notes_app" where
  "notes_run s es = foldl notes_step s es"

text \<open>
  Which events the render offers (lines 233--440): list rows and the floating button in
  the list view; in the detail view the back button, the save button and the editor in
  edit mode, the edit button in view mode, the delete button while a note is selected,
  and the link buttons of the displayed note.
\<close>

definition selected_note :: "notes_app \<Rightarrow> Note option" where
  "selected_note s =
     (if truthy (currentNoteId s) then find (\<lambda>n. noteId n = the (currentNoteId s)) (notesList s) else None)"

fun notes_enabled :: "notes_app \<Rightarrow> notes_event \<Rightarrow> bool" where
  "notes_enabled s (NoteSelect i) = (viewMode s = ListView \<and> i \<in> noteId ` set (notesList s))"
| "notes_enabled s NewNote = (viewMode s = ListView)"
| "notes_enabled s (SaveNote now ok) = (viewMode s = DetailView \<and> detailMode s = EditNote)"
| "notes_enabled s (DeleteNote ok) = (viewMode s = DetailView \<and> truthy (currentNoteId s))"
| "notes_enabled s (Back c) = (viewMode s = DetailView)"
| "notes_enabled s ToggleEditMode =
     (viewMode s = DetailView \<and> detailMode s = ViewNote
      \<and> (truthy (currentNoteId s) \<or> selected_note s \<noteq> None))"
| "notes_enabled s (EditTextChange t) = (viewMode s = DetailView \<and> detailMode s = EditNote)"
| "notes_enabled s (InternalLinkClick i) = (viewMode s = DetailView \<and> detailMode s = ViewNote \<and> selected_note s \<noteq> None)"

text \<open>What a reload reads back from the store.\<close>

definition load_notes :: "notes_json option \<Rightarrow> Note list" where
  "load_notes saved = (case saved of Some (NotesJSON ns) \<Rightarrow> ns | _ \<Rightarrow> [])"

subsection \<open>Internal links\<close>

text \<open>
  \<open>parseAndRenderLinks\<close> (lines 24--63) splits a text at the matches of
  \<open>/\[\[([^\]]+)\]\]/g\<close> into plain text and link buttons. A match at the front of a
  string: two opening brackets, a non-empty run without a closing bracket, two closing
  brackets. The greedy run cannot give back a character and still be followed by
  \<open>]\<close>, so the run is the longest one.
\<close>

datatype link_part = TextPart string | LinkPart string

definition link_at :: "string \<Rightarrow> (string \<times> string) option" where
  "link_at s =
     (if take 2 s = ''[['' then
        (let t = takeWhile (\<lambda>c. c \<noteq> CHR '']'') (drop 2 s); rest = dropWhile (\<lambda>c. c \<noteq> CHR '']'') (drop 2 s)
         in if t \<noteq> [] \<and> take 2 rest = '']]'' then Some (t, drop 2 rest) else None)
      else None)"

text \<open>
  The scan keeps the text since the last match (\<open>pending\<close>, reversed) and, at each
  position, either takes a match or moves one character on, as \<open>exec\<close> finds the
  leftmost match.
\<close>

function (domintros) scan_links :: "string \<Rightarrow> string \<Rightarrow> link_part list" where
  "scan_links pending s =
     (case s of
        [] \<Rightarrow> (if pending = [] then [] else [TextPart (rev pending)])
      | c # cs \<Rightarrow>
          (case link_at s of
             Some (t, rest) \<Rightarrow>
               (if pending = [] then [] else [TextPart (rev pending)]) @ LinkPart t # scan_links [] rest
           | None \<Rightarrow> scan_links (c # pending) cs))"
  by pat_completeness auto
termination
  by (relation "measure (\<lambda>(p, s). length s)")
     (auto simp: link_at_def Let_def less_Suc_eq_le split: if_splits
           intro!: order_trans[OF diff_le_self order_trans[OF length_dropWhile_le]])

definition parseAndRenderLinks :: "string \<Rightarrow> link_part list" where
  "parseAndRenderLinks text = (if text = [] then [] else scan_links [] text)"

fun part_text :: "link_part \<Rightarrow> string" where
  "part_text (TextPart t) = t"
| "part_text (LinkPart t) = ''[['' @ t @ '']]''"

text \<open>
  The shape of the rendered parts: every text is non-empty and followed by a link or by
  nothing (\<open>substring\<close> is pushed only when \<open>match.index > lastIndex\<close>), every
  link target is non-empty and free of \<open>]\<close>.
\<close>

fun links_wf :: "link_part list \<Rightarrow> bool" where
  "links_wf [] = True"
| "links_wf (TextPart t # ps) = (t \<noteq> [] \<and> links_wf ps \<and> (case ps of TextPart _ # _ \<Rightarrow> False | _ \<Rightarrow> True))"
| "links_wf (LinkPart t # ps) = (t \<noteq> [] \<and> CHR '']'' \<notin> set t \<and> links_wf ps)"

subsection \<open>Invariants\<close>

definition notes_synced :: "notes_app \<Rightarrow> bool" where
  "notes_synced s = (load_notes (notesStore s) = notesList s)"

definition ids_distinct :: "notes_app \<Rightarrow> bool" where
  "ids_distinct s = distinct (map noteId (notesList s))"

text \<open>A save whose id \<open>note-<now>\<close> is not taken yet.\<close>

fun fresh_event :: "notes_app \<Rightarrow> notes_event \<Rightarrow> bool" where
  "fresh_event s (SaveNote now ok) = (''note-'' @ int_toString now \<notin> noteId ` set (notesList s))"
| "fresh_event s e = True"

subsection \<open>Lemmas\<close>

lemma edit_text_effect_fields [simp]:
  "notesList (edit_text_effect s) = notesList s"
  "notesStore (edit_text_effect s) = notesStore s"
  "notesVersion (edit_text_effect s) = notesVersion s"
  "currentNoteId (edit_text_effect s) = currentNoteId s"
  "viewMode (edit_text_effect s) = viewMode s"
  "detailMode (edit_text_effect s) = detailMode s"
  by (simp_all add: edit_text_effect_def split: option.split)

lemma notesList_mount [simp]: "notesList (mount_notes saved) = load_notes saved"
  by (simp add: mount_notes_def Let_def set_notes_def load_notes_def
           split: option.split notes_json.split)

lemma notes_synced_mount: "notes_synced (mount_notes saved)"
  by (simp add: notes_synced_def mount_notes_def Let_def set_notes_def load_notes_def
           split: option.split notes_json.split)

lemma notes_synced_saveNotes [simp]: "notes_synced s \<Longrightarrow> notes_synced (saveNotes ok ns s)"
  by (simp add: notes_synced_def saveNotes_def set_notes_def load_notes_def)

lemma notes_synced_upd [simp]:
  "notes_synced (s\<lparr>viewMode := v\<rparr>) = notes_synced s"
  "notes_synced (s\<lparr>detailMode := d\<rparr>) = notes_synced s"
  "notes_synced (s\<lparr>currentNoteId := i\<rparr>) = notes_synced s"
  "notes_synced (s\<lparr>editText := t\<rparr>) = notes_synced s"
  "notes_synced (edit_text_effect s) = notes_synced s"
  by (simp_all add: notes_synced_def)

lemma notes_synced_handler: "notes_synced s \<Longrightarrow> notes_synced (notes_handler s e)"
  by (cases e)
     (simp_all add: handleNoteSelect_def handleNewNote_def handleSaveNote_def Let_def
        handleDeleteNote_def handleBack_def handleToggleEditMode_def)

lemma notes_synced_step: "notes_synced s \<Longrightarrow> notes_synced (notes_step s e)"
  by (simp add: notes_step_def Let_def notes_synced_handler)

lemma notes_synced_run: "notes_synced s \<Longrightarrow> notes_synced (notes_run s es)"
  unfolding notes_run_def
  by (induction es arbitrary: s rule: rev_induct) (simp_all add: notes_synced_step)

lemma link_at_Some:
  assumes "link_at s = Some (t, rest)"
  shows "s = ''[['' @ t @ '']]'' @ rest \<and> t \<noteq> [] \<and> CHR '']'' \<notin> set t"
proof -
  define d where "d = drop 2 s"
  define P where "P = (\<lambda>c. c \<noteq> CHR '']'')"
  from assms have h: "take 2 s = ''[[''" "t = takeWhile P d" "t \<noteq> []"
      "take 2 (dropWhile P d) = '']]''" "rest = drop 2 (dropWhile P d)"
    by (auto simp: link_at_def Let_def d_def P_def split: if_splits)
  have "s = take 2 s @ takeWhile P d @ take 2 (dropWhile P d) @ drop 2 (dropWhile P d)"
    by (simp add: d_def)
  moreover have "CHR '']'' \<notin> set t"
    using h(2) by (auto simp: P_def dest: set_takeWhileD)
  ultimately show ?thesis
    using h by simp
qed

lemma link_at_shorter: "link_at s = Some (t, rest) \<Longrightarrow> length rest < length s"
  using link_at_Some [of s t rest] by auto

declare scan_links.simps [simp del]

lemma scan_links_Nil [simp]:
  "scan_links p [] = (if p = [] then [] else [TextPart (rev p)])"
  by (simp add: scan_links.simps)

lemma scan_links_Cons:
  "scan_links p (c # cs) =
     (case link_at (c # cs) of
        Some (t, rest) \<Rightarrow> (if p = [] then [] else [TextPart (rev p)]) @ LinkPart t # scan_links [] rest
      | None \<Rightarrow> scan_links (c # p) cs)"
  by (simp add: scan_links.simps)

lemma scan_links_concat: "concat (map part_text (scan_links p s)) = rev p @ s"
proof (induction p s rule: scan_links.induct)
  case (1 p s)
  show ?case
  proof (cases s)
    case (Cons c cs)
    show ?thesis
    proof (cases "link_at s")
      case None
      with 1 Cons show ?thesis by (simp add: scan_links_Cons)
    next
      case (Some r)
      obtain t rest where r: "r = (t, rest)" by (cases r)
      from Some r have "s = ''[['' @ t @ '']]'' @ rest" using link_at_Some by blast
      moreover note 1(2) [OF Cons Some r [symmetric]]
      ultimately show ?thesis using Cons Some r by (simp add: scan_links_Cons)
    qed
  qed simp
qed

lemma links_wf_scan_links: "links_wf (scan_links p s)"
proof (induction p s rule: scan_links.induct)
  case (1 p s)
  show ?case
  proof (cases s)
    case (Cons c cs)
    show ?thesis
    proof (cases "link_at s")
      case None
      with 1 Cons show ?thesis by (simp add: scan_links_Cons)
    next
      case (Some r)
      obtain t rest where r: "r = (t, rest)" by (cases r)
      from Some r have "t \<noteq> [] \<and> CHR '']'' \<notin> set t" using link_at_Some by blast
      moreover note 1(2) [OF Cons Some r [symmetric]]
      ultimately show ?thesis using Cons Some r by (simp add: scan_links_Cons)
    qed
  qed simp
qed

lemma scan_links_total_helper: "link_at (c # cs) = Some (t, rest) \<Longrightarrow> length rest < Suc (length cs)"
  using link_at_shorter by fastforce

lemma links_wf_length: "links_wf ps \<Longrightarrow> length ps \<le> length (concat (map part_text ps))"
  by (induction ps rule: links_wf.induct) (auto simp flip: length_greater_0_conv)

lemma noteId_if_update [simp]:
  "noteId (if b then n\<lparr>noteContent := c, timestamp := t\<rparr> else n) = noteId n"
  by simp

lemma ids_distinct_handler: "ids_distinct s \<Longrightarrow> fresh_event s e \<Longrightarrow> ids_distinct (notes_handler s e)"
  by (cases e)
     (auto simp: ids_distinct_def handleNoteSelect_def handleNewNote_def handleSaveNote_def Let_def
        handleDeleteNote_def handleBack_def handleToggleEditMode_def saveNotes_def set_notes_def
        comp_def distinct_map_filter)

lemma blank_note_not_saved:
  assumes "list_all js_ws (editText s)"
  shows "notes_step s (SaveNote now ok) = s\<lparr>viewMode := ListView\<rparr>"
  using assms by (simp add: notes_step_def handleSaveNote_def js_trim_empty_iff)

lemma save_new_note_appends:
  assumes "currentNoteId s = None" "\<not> list_all js_ws (editText s)"
  shows "notesList (notes_step s (SaveNote now True)) =
           notesList s @ [\<lparr>noteId = ''note-'' @ int_toString now, noteTitle = [], noteContent = editText s,
                           timestamp = now\<rparr>] \<and>
         notesStore (notes_step s (SaveNote now True)) = Some (NotesJSON (notesList (notes_step s (SaveNote now True)))) \<and>
         viewMode (notes_step s (SaveNote now True)) = ListView"
  using assms
  by (simp add: notes_step_def handleSaveNote_def saveNotes_def set_notes_def js_trim_empty_iff Let_def)

subsection \<open>Properties\<close>

text \<open>
  C8: reloading the notes app shows the notes it showed: after mounting on any stored
  value and any sequence of events (failed writes included), \<open>localStorage\<close> holds
  the list of the state, so a remount loads exactly that list.
\<close>

theorem reload_restores_notes:
  "notesList (mount_notes (notesStore (notes_run (mount_notes saved) es))) =
   notesList (notes_run (mount_notes saved) es)"
  using notes_synced_run [OF notes_synced_mount, of saved es] by (simp add: notes_synced_def)

text \<open>
  C9: "Discard unsaved changes?" does not discard them. In the editor of an existing
  note with non-blank text, confirming Back returns to the note's view, but the editor
  keeps the typed text (the effect that refills it runs only when the selection or the
  list changes); pressing Edit shows it again and Save stores it into the note.
\<close>

theorem discarded_edit_is_saved:
  assumes "viewMode s = DetailView" "detailMode s = EditNote" "currentNoteId s = Some i" "i \<noteq> []"
    "\<not> list_all js_ws (editText s)"
  shows "notes_enabled s (Back True) \<and> notes_enabled (notes_run s [Back True]) ToggleEditMode \<and>
         notes_enabled (notes_run s [Back True, ToggleEditMode]) (SaveNote now True) \<and>
         editText (notes_run s [Back True, ToggleEditMode]) = editText s \<and>
         notesList (notes_run s [Back True, ToggleEditMode, SaveNote now True]) =
           map (\<lambda>n. if noteId n = i then n\<lparr>noteContent := editText s, timestamp := now\<rparr> else n) (notesList s)"
  using assms
  by (simp add: notes_run_def notes_step_def handleBack_def handleToggleEditMode_def handleSaveNote_def
      saveNotes_def set_notes_def js_trim_empty_iff Let_def)

text \<open>
  A save whose \<open>localStorage.setItem\<close> throws is only logged: the list and the store
  keep their old value, the editor keeps the text, and the view returns to the list as
  after a successful save, with no error shown.
\<close>

theorem failed_save_returns_to_list:
  assumes "notes_enabled s (SaveNote now False)"
  shows "notesList (notes_step s (SaveNote now False)) = notesList s \<and>
         notesStore (notes_step s (SaveNote now False)) = notesStore s \<and>
         editText (notes_step s (SaveNote now False)) = editText s \<and>
         viewMode (notes_step s (SaveNote now False)) = ListView"
  using assms by (simp add: notes_step_def handleSaveNote_def saveNotes_def Let_def)

text \<open>
  Note ids stay distinct under every event as long as a new note's id
  \<open>note-<Date.now()>\<close> is not already taken.
\<close>

theorem notes_step_ids_distinct: "ids_distinct s \<Longrightarrow> fresh_event s e \<Longrightarrow> ids_distinct (notes_step s e)"
  by (simp add: notes_step_def Let_def ids_distinct_handler [unfolded ids_distinct_def] ids_distinct_def)

text \<open>
  \<open>getSortedNotes\<close> returns a permutation of the notes, ordered by timestamp (newest
  first for the setting \<open>newest\<close>, oldest first otherwise), and keeps notes of equal
  timestamp in their stored order, as the stable \<open>Array.prototype.sort\<close> does.
\<close>

theorem getSortedNotes_spec:
  "mset (getSortedNotes order ns) = mset ns \<and>
   sorted_wrt (\<lambda>a b. if order = ''newest'' then timestamp b \<le> timestamp a else timestamp a \<le> timestamp b)
     (getSortedNotes order ns) \<and>
   (\<forall>t. filter (\<lambda>n. timestamp n = t) (getSortedNotes order ns) = filter (\<lambda>n. timestamp n = t) ns)"
proof (cases "order = ''newest''")
  case True
  have st: "filter (\<lambda>n. timestamp n = t) (sort_key (\<lambda>n. - timestamp n) ns) = filter (\<lambda>n. timestamp n = t) ns" for t
    using sort_key_stable [of "\<lambda>n. - timestamp n" "- t" ns] by simp
  have "sorted (map (\<lambda>n. - timestamp n) (sort_key (\<lambda>n. - timestamp n) ns))" by simp
  then have "sorted_wrt (\<lambda>a b. timestamp b \<le> timestamp a) (sort_key (\<lambda>n. - timestamp n) ns)"
    by (simp add: sorted_map)
  with True st show ?thesis by (simp add: getSortedNotes_def)
next
  case False
  have st: "filter (\<lambda>n. timestamp n = t) (sort_key timestamp ns) = filter (\<lambda>n. timestamp n = t) ns" for t
    using sort_key_stable [of timestamp t ns] by simp
  have "sorted (map timestamp (sort_key timestamp ns))" by simp
  then have "sorted_wrt (\<lambda>a b. timestamp a \<le> timestamp b) (sort_key timestamp ns)"
    by (simp add: sorted_map)
  with False st show ?thesis by (simp add: getSortedNotes_def)
qed

text \<open>
  The \<open>exec\<close> loop of \<open>parseAndRenderLinks\<close> ends on every text: each round either
  consumes a match or moves one character on.
\<close>

theorem scan_links_total: "scan_links_dom (p, s) \<and> length (scan_links p s) \<le> length p + length s"
proof
  show "scan_links_dom (p, s)"
  proof (induction "length s" arbitrary: p s rule: less_induct)
    case less
    show ?case
    proof (rule scan_links.domintros)
      fix c cs assume "s = c # cs"
      then show "scan_links_dom (c # p, cs)" using less by simp
    next
      fix c cs t rest assume "s = c # cs" "link_at (c # cs) = Some (t, rest)"
      then show "scan_links_dom ([], rest)" using less scan_links_total_helper by simp
    qed
  qed
  show "length (scan_links p s) \<le> length p + length s"
    using links_wf_length [OF links_wf_scan_links [of p s]] by (simp add: scan_links_concat)
qed

text \<open>
  C10: the parts rendered by \<open>parseAndRenderLinks\<close> spell the text again: the plain
  parts and the links \<open>[[target]]\<close> (as the buttons display them), in order, are the
  note's content, so no character is lost or repeated.
\<close>

theorem parseAndRenderLinks_roundtrip: "concat (map part_text (parseAndRenderLinks text)) = text"
  by (simp add: parseAndRenderLinks_def scan_links_concat)

text \<open>
  Every plain part is non-empty and followed by a link or by nothing, and every link
  target is non-empty and free of \<open>]\<close>.
\<close>

theorem parseAndRenderLinks_wf: "links_wf (parseAndRenderLinks text)"
  by (simp add: parseAndRenderLinks_def links_wf_scan_links)

text \<open>
  Two notes saved within the same millisecond get the same id \<open>note-<now>\<close>;
  selecting one of them and deleting it deletes both.
\<close>

theorem same_ms_saves_collide:
  "map noteId (notesList (notes_run (mount_notes None)
      [NewNote, EditTextChange ''a'', SaveNote 7 True, NewNote, EditTextChange ''b'', SaveNote 7 True]))
     = [''note-'' @ int_toString 7, ''note-'' @ int_toString 7] \<and>
   notesList (notes_run (mount_notes None)
      [NewNote, EditTextChange ''a'', SaveNote 7 True, NewNote, EditTextChange ''b'', SaveNote 7 True,
       NoteSelect (''note-'' @ int_toString 7), DeleteNote True]) = []"
  by (simp add: notes_run_def notes_step_def mount_notes_def handleNewNote_def handleSaveNote_def
      handleNoteSelect_def handleDeleteNote_def saveNotes_def set_notes_def edit_text_effect_def js_trim_def
      js_ws_def Let_def truthy_simps)

subsection \<open>Witnesses\<close>

theorem discarded_edit_is_saved_witness:
  "editText (notes_run (notes_run (mount_notes (Some (NotesJSON [\<lparr>noteId = ''n'', noteTitle = [], noteContent = ''old'', timestamp = 1\<rparr>])))
      [NoteSelect ''n'', ToggleEditMode, EditTextChange ''new'']) [Back True, ToggleEditMode]) = ''new'' \<and>
   notesList (notes_run (notes_run (mount_notes (Some (NotesJSON [\<lparr>noteId = ''n'', noteTitle = [], noteContent = ''old'', timestamp = 1\<rparr>])))
      [NoteSelect ''n'', ToggleEditMode, EditTextChange ''new'']) [Back True, ToggleEditMode, SaveNote 5 True]) =
     [\<lparr>noteId = ''n'', noteTitle = [], noteContent = ''new'', timestamp = 5\<rparr>]"
proof -
  define s where "s = notes_run (mount_notes (Some (NotesJSON [\<lparr>noteId = ''n'', noteTitle = [], noteContent = ''old'', timestamp = 1\<rparr>])))
      [NoteSelect ''n'', ToggleEditMode, EditTextChange ''new'']"
  have h: "viewMode s = DetailView" "detailMode s = EditNote" "currentNoteId s = Some ''n''"
    "editText s = ''new''" "notesList s = [\<lparr>noteId = ''n'', noteTitle = [], noteContent = ''old'', timestamp = 1\<rparr>]"
    by (simp_all add: s_def notes_run_def notes_step_def mount_notes_def set_notes_def edit_text_effect_def
        handleNoteSelect_def handleToggleEditMode_def truthy_simps)
  have "''n'' \<noteq> []" "\<not> list_all js_ws (editText s)"
    by (simp_all add: h js_ws_def)
  from discarded_edit_is_saved [OF h(1-3) this, of 5] show ?thesis
    unfolding s_def [symmetric] by (simp add: h)
qed

theorem failed_save_returns_to_list_witness:
  "notesList (notes_step (handleNewNote (mount_notes None)\<lparr>editText := ''x''\<rparr>) (SaveNote 3 False)) = [] \<and>
   viewMode (notes_step (handleNewNote (mount_notes None)\<lparr>editText := ''x''\<rparr>) (SaveNote 3 False)) = ListView"
  using failed_save_returns_to_list [of "handleNewNote (mount_notes None)\<lparr>editText := ''x''\<rparr>" 3]
  by (simp add: handleNewNote_def mount_notes_def edit_text_effect_def truthy_simps)

theorem notes_step_ids_distinct_witness:
  "ids_distinct (notes_step (handleNewNote (mount_notes None)\<lparr>editText := ''x''\<rparr>) (SaveNote 3 True))"
  using notes_step_ids_distinct [of "handleNewNote (mount_notes None)\<lparr>editText := ''x''\<rparr>" "SaveNote 3 True"]
  by (simp add: ids_distinct_def handleNewNote_def mount_notes_def edit_text_effect_def truthy_simps)

end
