(* ===== verification/Files.thy ===== *)
theory Files
  imports WebDroid_Prelude JSNumber
begin

text \<open>
  The file explorer of \<open>src/WebDroid-OS/src/apps/FileExplorerApp.tsx\<close>: the mock file
  system (a flat list of items with parent links), the state of the app, the effect that
  recomputes the items and the breadcrumb trail of the current folder, the click,
  context-menu, breadcrumb and view handlers, and \<open>formatFileSize\<close>. The breadcrumb
  trail is a \<open>while\<close> loop that follows parent links and ends only if the links have
  no cycle, so it is a \<open>partial_function (option)\<close>: \<open>None\<close> is a loop that never
  returns (a frozen tab). File sizes are integers, as in the mock data.
\<close>

subsection \<open>The file system\<close>

datatype fs_type = FileT | FolderT | ImageT | TextT | PdfT

record fs_item =
  itemId :: string
  itemName :: string
  itemType :: fs_type
  itemSize :: "int option"
  lastModified :: "string option"
  parentId :: "string option"

definition folder :: "string \<Rightarrow> string \<Rightarrow> string option \<Rightarrow> fs_item" where
  "folder i n p = \<lparr>itemId = i, itemName = n, itemType = FolderT, itemSize = None, lastModified = None,
                   parentId = p\<rparr>"

definition entry :: "string \<Rightarrow> string \<Rightarrow> fs_type \<Rightarrow> int \<Rightarrow> string \<Rightarrow> string \<Rightarrow> fs_item" where
  "entry i n t sz d p = \<lparr>itemId = i, itemName = n, itemType = t, itemSize = Some sz, lastModified = Some d,
                         parentId = Some p\<rparr>"

definition mockFileSystem :: "fs_item list" where
  "mockFileSystem =
     [folder ''root'' ''Root'' None,
      folder ''docs'' ''Documents'' (Some ''root''),
      folder ''pics'' ''Pictures'' (Some ''root''),
      folder ''music'' ''Music'' (Some ''root''),
      folder ''downloads'' ''Downloads'' (Some ''root''),
      entry ''doc1'' ''Resume.pdf'' PdfT 2048 ''2023-03-15'' ''docs'',
      entry ''doc2'' ''Notes.txt'' TextT 1024 ''2023-03-20'' ''docs'',
      entry ''doc3'' ''Project.docx'' TextT 4096 ''2023-03-25'' ''docs'',
      entry ''pic1'' ''Vacation.jpg'' ImageT 5120 ''2023-02-10'' ''pics'',
      entry ''pic2'' ''Family.png'' ImageT 3072 ''2023-02-15'' ''pics'',
      entry ''pic3'' ''Screenshot.png'' ImageT 1536 ''2023-02-20'' ''pics'',
      entry ''pic4'' ''Profile.jpg'' ImageT 2048 ''2023-02-25'' ''pics'',
      entry ''music1'' ''Song1.mp3'' FileT 10240 ''2023-01-05'' ''music'',
      entry ''music2'' ''Song2.mp3'' FileT 8192 ''2023-01-10'' ''music'',
      entry ''dl1'' ''Install.exe'' FileT 15360 ''2023-04-01'' ''downloads'',
      entry ''dl2'' ''Manual.pdf'' PdfT 3072 ''2023-04-05'' ''downloads'']"

subsection \<open>Breadcrumbs\<close>

text \<open>
  Lines 92--98: start from the item whose id is the current path, put each item in front
  of the trail and continue with the item whose id is its parent id (\<open>find\<close> returns
  the first such item; a \<open>null\<close> parent id matches no id).
\<close>

definition find_id :: "fs_item list \<Rightarrow> string \<Rightarrow> fs_item option" where
  "find_id fs p = find (\<lambda>i. itemId i = p) fs"

definition parent_of :: "fs_item list \<Rightarrow> fs_item \<Rightarrow> fs_item option" where
  "parent_of fs it = find (\<lambda>i. Some (itemId i) = parentId it) fs"

partial_function (option) crumbs_loop ::
  "fs_item list \<Rightarrow> fs_item option \<Rightarrow> (string \<times> string) list \<Rightarrow> (string \<times> string) list option" where
  "crumbs_loop fs cur segs =
     (case cur of
        None \<Rightarrow> Some segs
      | Some it \<Rightarrow> crumbs_loop fs (parent_of fs it) ((itemId it, itemName it) # segs))"

declare crumbs_loop.simps [code]

definition breadcrumbs :: "fs_item list \<Rightarrow> string \<Rightarrow> (string \<times> string) list option" where
  "breadcrumbs fs p = crumbs_loop fs (find_id fs p) []"

text \<open>
  A rank that decreases along every parent link: the parent links have no cycle, so the
  loop ends.
\<close>

definition ranked :: "fs_item list \<Rightarrow> (fs_item \<Rightarrow> nat) \<Rightarrow> bool" where
  "ranked fs r = (\<forall>it\<in>set fs. \<forall>q. parent_of fs it = Some q \<longrightarrow> r q < r it)"

definition mock_rank :: "fs_item \<Rightarrow> nat" where
  "mock_rank it = (if parentId it = None then 0 else if parentId it = Some ''root'' then 1 else 2)"

subsection \<open>File sizes\<close>

text \<open>
  \<open>Number.prototype.toFixed(1)\<close> on a non-negative value below \<open>10\<^sup>2\<^sup>1\<close>: the integer
  \<open>n\<close> nearest to \<open>10 x\<close>, the larger one on a tie, printed with one decimal; a
  negative value gets a minus sign. Dividing an integer size by \<open>1024\<close> or
  \<open>1024 * 1024\<close> is exact in floating point, so the argument is the rational quotient.
\<close>

definition fixed1 :: "int \<Rightarrow> string" where
  "fixed1 n = int_toString (n div 10) @ ''.'' @ int_toString (n mod 10)"

definition toFixed1 :: "rat \<Rightarrow> string" where
  "toFixed1 x = (if x < 0 then CHR ''-'' # fixed1 \<lfloor>10 * (- x) + 1 / 2\<rfloor> else fixed1 \<lfloor>10 * x + 1 / 2\<rfloor>)"

definition formatFileSize :: "int option \<Rightarrow> string" where
  "formatFileSize sz_opt =
     (case sz_opt of
        None \<Rightarrow> []
      | Some sz \<Rightarrow>
          if sz < 1024 then int_toString sz @ '' B''
          else if sz < 1024 * 1024 then toFixed1 (of_int sz / 1024) @ '' KB''
          else toFixed1 (of_int sz / (1024 * 1024)) @ '' MB'')"

subsection \<open>State and handlers\<close>

datatype files_view = ListV | GridV

text \<open>
  The state of lines 57--61, and the \<open>deviceType\<close> of the settings context that the
  last render read (the dependency of the effect of lines 66--68).
\<close>

record files_app =
  currentPath :: string
  currentPathItems :: "fs_item list"
  breadcrumbSegments :: "(string \<times> string) list"
  selectedItemId :: "string option"
  filesView :: files_view
  filesDeviceType :: string

definition view_for :: "string \<Rightarrow> files_view" where
  "view_for deviceType = (if deviceType = ''tablet'' then GridV else ListV)"

text \<open>The effect of lines 87--101, run when \<open>currentPath\<close> changed; \<open>None\<close> if it hangs.\<close>

definition path_effect :: "files_app \<Rightarrow> files_app option" where
  "path_effect s =
     map_option (\<lambda>segs. s\<lparr>currentPathItems := filter (\<lambda>i. parentId i = Some (currentPath s)) mockFileSystem,
                         breadcrumbSegments := segs\<rparr>)
       (breadcrumbs mockFileSystem (currentPath s))"

text \<open>Mounting under a device type: the initial state, then the effects in order.\<close>

definition mount_files :: "string \<Rightarrow> files_app option" where
  "mount_files deviceType =
     path_effect \<lparr>currentPath = ''root'', currentPathItems = [], breadcrumbSegments = [], selectedItemId = None,
                  filesView = view_for deviceType, filesDeviceType = deviceType\<rparr>"

definition handleItemClick :: "fs_item \<Rightarrow> files_app \<Rightarrow> files_app" where
  "handleItemClick item s =
     (let s1 = s\<lparr>selectedItemId := Some (itemId item)\<rparr>
      in if itemType item = FolderT then s1\<lparr>currentPath := itemId item\<rparr> else s1)"

definition navigateToPathFromBreadcrumb :: "string \<Rightarrow> files_app \<Rightarrow> files_app" where
  "navigateToPathFromBreadcrumb i s = s\<lparr>currentPath := i\<rparr>"

definition handleContextMenu :: "fs_item \<Rightarrow> files_app \<Rightarrow> files_app" where
  "handleContextMenu item s = s\<lparr>selectedItemId := Some (itemId item)\<rparr>"

definition toggleViewMode :: "files_app \<Rightarrow> files_app" where
  "toggleViewMode s = s\<lparr>filesView := (if filesView s = ListV then GridV else ListV)\<rparr>"

text \<open>
  The events: the rows (click, context menu), the breadcrumb buttons, the view toggle,
  and a change of the device type in the settings context. The back button calls
  \<open>closeApp\<close> of the frame and leaves this state.
\<close>

datatype files_event =
    ItemClick fs_item
  | ContextMenu fs_item
  | BreadcrumbClick string
  | ToggleView
  | DeviceTypeChange string

fun files_handler :: "files_app \<Rightarrow> files_event \<Rightarrow> files_app" where
  "files_handler s (ItemClick it) = handleItemClick it s"
| "files_handler s (ContextMenu it) = handleContextMenu it s"
| "files_handler s (BreadcrumbClick i) = navigateToPathFromBreadcrumb i s"
| "files_handler s ToggleView = toggleViewMode s"
| "files_handler s (DeviceTypeChange d) =
     (if d \<noteq> filesDeviceType s then s\<lparr>filesView := view_for d, filesDeviceType := d\<rparr> else s)"

definition files_step :: "files_app \<Rightarrow> files_event \<Rightarrow> files_app option" where
  "files_step s e =
     (let s' = files_handler s e in if currentPath s' \<noteq> currentPath s then path_effect s' else Some s')"

fun files_run :: "files_app \<Rightarrow> files_event list \<Rightarrow> files_app option" where
  "files_run s [] = Some s"
| "files_run s (e # es) = (case files_step s e of None \<Rightarrow> None | Some s' \<Rightarrow> files_run s' es)"

text \<open>Which events the render offers (lines 267--372): rows of a non-empty folder, crumbs.\<close>

fun files_enabled :: "files_app \<Rightarrow> files_event \<Rightarrow> bool" where
  "files_enabled s (ItemClick it) = (it \<in> set (currentPathItems s))"
| "files_enabled s (ContextMenu it) = (it \<in> set (currentPathItems s))"
| "files_enabled s (BreadcrumbClick i) = (i \<in> fst ` set (breadcrumbSegments s))"
| "files_enabled s ToggleView = True"
| "files_enabled s (DeviceTypeChange d) = True"

text \<open>\<open>getPreviewState\<close> (lines 71--77) and the footer (line 376).\<close>

fun js_join :: "string \<Rightarrow> string list \<Rightarrow> string" where
  "js_join sep [] = []"
| "js_join sep [x] = x"
| "js_join sep (x # y # xs) = x @ sep @ js_join sep (y # xs)"

definition getPreviewState :: "files_app \<Rightarrow> string \<times> nat" where
  "getPreviewState s = (js_join ''/'' (map snd (breadcrumbSegments s)), length (currentPathItems s))"

definition footer_text :: "files_app \<Rightarrow> string" where
  "footer_text s =
     int_toString (int (length (currentPathItems s))) @ '' '' @
     (if length (currentPathItems s) = 1 then ''item'' else ''items'')"

text \<open>The state the effect maintains.\<close>

definition files_inv :: "files_app \<Rightarrow> bool" where
  "files_inv s =
     (breadcrumbs mockFileSystem (currentPath s) = Some (breadcrumbSegments s) \<and>
      currentPathItems s = filter (\<lambda>i. parentId i = Some (currentPath s)) mockFileSystem)"

subsection \<open>Breadcrumb lemmas\<close>

lemma crumbs_loop_None [simp]: "crumbs_loop fs None acc = Some acc"
  by (simp add: crumbs_loop.simps)

lemma crumbs_loop_Some:
  "crumbs_loop fs (Some it) acc = crumbs_loop fs (parent_of fs it) ((itemId it, itemName it) # acc)"
  by (simp add: crumbs_loop.simps)

lemma parent_of_in_set: "parent_of fs it = Some q \<Longrightarrow> q \<in> set fs"
  by (auto simp: parent_of_def find_Some_iff)

lemma find_id_in_set: "find_id fs p = Some it \<Longrightarrow> it \<in> set fs \<and> itemId it = p"
  by (auto simp: find_id_def find_Some_iff)

lemma ranked_parent: "ranked fs r \<Longrightarrow> it \<in> set fs \<Longrightarrow> parent_of fs it = Some q \<Longrightarrow> q \<in> set fs \<and> r q < r it"
  by (auto simp: ranked_def parent_of_in_set)

text \<open>On a ranked file system the loop from an item ends, and its accumulator is a suffix.\<close>

lemma crumbs_loop_total:
  assumes "ranked fs r" "it \<in> set fs"
  shows "\<exists>segs. crumbs_loop fs (Some it) [] = Some segs \<and> (\<forall>acc. crumbs_loop fs (Some it) acc = Some (segs @ acc))"
  using assms(2)
proof (induction "r it" arbitrary: it rule: less_induct)
  case less
  show ?case
  proof (cases "parent_of fs it")
    case None
    then show ?thesis by (simp add: crumbs_loop_Some)
  next
    case (Some q)
    with assms(1) less.prems have q: "q \<in> set fs" "r q < r it" using ranked_parent by blast+
    then obtain segs where "crumbs_loop fs (Some q) [] = Some segs"
      "\<forall>acc. crumbs_loop fs (Some q) acc = Some (segs @ acc)"
      using less.hyps by blast
    with Some show ?thesis by (simp add: crumbs_loop_Some)
  qed
qed

lemma crumbs_loop_unfold:
  assumes "ranked fs r" "it \<in> set fs"
  shows "crumbs_loop fs (Some it) [] =
           map_option (\<lambda>l. l @ [(itemId it, itemName it)])
             (case parent_of fs it of None \<Rightarrow> Some [] | Some q \<Rightarrow> crumbs_loop fs (Some q) [])"
proof (cases "parent_of fs it")
  case (Some q)
  with assms have "q \<in> set fs" using ranked_parent by blast
  with assms(1) obtain segs where "crumbs_loop fs (Some q) [] = Some segs"
      "\<forall>acc. crumbs_loop fs (Some q) acc = Some (segs @ acc)"
    using crumbs_loop_total by blast
  with Some show ?thesis by (simp add: crumbs_loop_Some)
qed (simp add: crumbs_loop_Some)

lemma find_id_self: "distinct (map itemId fs) \<Longrightarrow> it \<in> set fs \<Longrightarrow> find_id fs (itemId it) = Some it"
  by (induction fs) (auto simp: find_id_def)

lemma crumbs_loop_take:
  assumes "ranked fs r" "distinct (map itemId fs)" "it \<in> set fs"
    and "crumbs_loop fs (Some it) [] = Some segs" "i < length segs"
  shows "breadcrumbs fs (fst (segs ! i)) = Some (take (Suc i) segs)"
  using assms(3-5)
proof (induction "r it" arbitrary: it segs rule: less_induct)
  case less
  define pre where "pre = (case parent_of fs it of None \<Rightarrow> Some [] | Some q \<Rightarrow> crumbs_loop fs (Some q) [])"
  have "Some segs = map_option (\<lambda>l. l @ [(itemId it, itemName it)]) pre"
    using crumbs_loop_unfold [OF assms(1) less.prems(1)] less.prems(2) by (simp add: pre_def)
  then obtain l where l: "pre = Some l" "segs = l @ [(itemId it, itemName it)]"
    by (cases pre) auto
  show ?case
  proof (cases "i < length l")
    case True
    then obtain q where q: "parent_of fs it = Some q" "crumbs_loop fs (Some q) [] = Some l"
      using l by (auto simp: pre_def split: option.splits)
    with assms(1) less.prems(1) have "q \<in> set fs" "r q < r it" using ranked_parent by blast+
    with less.hyps q True have "breadcrumbs fs (fst (l ! i)) = Some (take (Suc i) l)" by blast
    with True l show ?thesis by (simp add: nth_append)
  next
    case False
    with less.prems(3) l have "i = length l" by simp
    with l find_id_self [OF assms(2) less.prems(1)] less.prems(2) show ?thesis
      by (simp add: breadcrumbs_def)
  qed
qed

lemma breadcrumbs_take:
  assumes "ranked fs r" "distinct (map itemId fs)" "breadcrumbs fs p = Some segs" "i < length segs"
  shows "breadcrumbs fs (fst (segs ! i)) = Some (take (Suc i) segs)"
proof (cases "find_id fs p")
  case None
  with assms(3,4) show ?thesis by (simp add: breadcrumbs_def)
next
  case (Some it)
  with assms show ?thesis
    using crumbs_loop_take [of fs r it segs i] find_id_in_set [of fs p it] by (simp add: breadcrumbs_def)
qed

lemma breadcrumbs_total: "ranked fs r \<Longrightarrow> \<exists>segs. breadcrumbs fs p = Some segs"
  using crumbs_loop_total [of fs r] find_id_in_set [of fs p]
  by (cases "find_id fs p") (auto simp: breadcrumbs_def)

subsection \<open>The app\<close>

lemma mock_distinct_ids: "distinct (map itemId mockFileSystem)"
  by (simp add: mockFileSystem_def folder_def entry_def)

lemma mock_ranked: "ranked mockFileSystem mock_rank"
  unfolding ranked_def parent_of_def mock_rank_def mockFileSystem_def folder_def entry_def
  by simp

lemma path_effect_inv: "\<exists>s'. path_effect s = Some s' \<and> files_inv s' \<and>
    s' = s\<lparr>currentPathItems := currentPathItems s', breadcrumbSegments := breadcrumbSegments s'\<rparr>"
  using breadcrumbs_total [OF mock_ranked, of "currentPath s"]
  by (auto simp: path_effect_def files_inv_def)

lemma files_handler_fields:
  "currentPathItems (files_handler s e) = currentPathItems s"
  "breadcrumbSegments (files_handler s e) = breadcrumbSegments s"
  by (cases e; simp add: handleItemClick_def Let_def navigateToPathFromBreadcrumb_def handleContextMenu_def
      toggleViewMode_def)+

lemma files_step_inv: "files_inv s \<Longrightarrow> \<exists>s'. files_step s e = Some s' \<and> files_inv s'"
  using path_effect_inv [of "files_handler s e"]
  by (auto simp: files_step_def Let_def files_inv_def files_handler_fields)

lemma mount_files_inv: "\<exists>s. mount_files d = Some s \<and> files_inv s"
  unfolding mount_files_def using path_effect_inv by blast

lemma fixed1_10240: "fixed1 10240 = ''1024.0''"
  unfolding fixed1_def by code_simp

text \<open>On a folder that is its own parent the loop never returns.\<close>

lemma self_parent_hangs:
  assumes "parent_of fs it = Some it"
  shows "crumbs_loop fs (Some it) acc = None"
proof (rule ccontr)
  assume "crumbs_loop fs (Some it) acc \<noteq> None"
  then obtain y where y: "crumbs_loop fs (Some it) acc = Some y" by blast
  have "fs = fs \<longrightarrow> Some it \<noteq> Some it"
    by (rule crumbs_loop.raw_induct [where P = "\<lambda>fs' cur acc y. fs' = fs \<longrightarrow> cur \<noteq> Some it", OF _ y])
       (auto simp: assms, blast)
  then show False by simp
qed

subsection \<open>Properties\<close>

text \<open>
  C11: the file explorer never freezes: mounted under any device type and driven by any
  sequence of events, every effect's breadcrumb loop ends on the mock file system, and
  the items and the trail shown are those of the current folder.
\<close>

theorem files_never_hang:
  "\<exists>s. Option.bind (mount_files deviceType) (\<lambda>s0. files_run s0 es) = Some s \<and> files_inv s"
proof -
  have run: "files_inv s0 \<Longrightarrow> \<exists>s. files_run s0 es = Some s \<and> files_inv s" for s0
  proof (induction es arbitrary: s0)
    case (Cons e es)
    then obtain s1 where "files_step s0 e = Some s1" "files_inv s1" using files_step_inv by blast
    with Cons.IH show ?case by simp
  qed simp
  from mount_files_inv obtain s0 where "mount_files deviceType = Some s0" "files_inv s0" by blast
  with run show ?thesis by simp
qed

text \<open>
  C12: clicking the \<open>i\<close>-th breadcrumb opens that folder and cuts the trail after it.
\<close>

theorem breadcrumb_click_truncates:
  assumes "files_inv s" "i < length (breadcrumbSegments s)"
  shows "\<exists>s'. files_step s (BreadcrumbClick (fst (breadcrumbSegments s ! i))) = Some s' \<and>
              currentPath s' = fst (breadcrumbSegments s ! i) \<and>
              breadcrumbSegments s' = take (Suc i) (breadcrumbSegments s)"
proof -
  let ?p = "fst (breadcrumbSegments s ! i)"
  have "breadcrumbs mockFileSystem (currentPath s) = Some (breadcrumbSegments s)"
    using assms(1) by (simp add: files_inv_def)
  from breadcrumbs_take [OF mock_ranked mock_distinct_ids this assms(2)]
  have bt: "breadcrumbs mockFileSystem ?p = Some (take (Suc i) (breadcrumbSegments s))" .
  show ?thesis
  proof (cases "?p = currentPath s")
    case True
    with bt assms(1) have "take (Suc i) (breadcrumbSegments s) = breadcrumbSegments s"
      by (simp add: files_inv_def)
    with True show ?thesis
      by (simp add: files_step_def navigateToPathFromBreadcrumb_def)
  next
    case False
    with bt show ?thesis
      by (simp add: files_step_def navigateToPathFromBreadcrumb_def path_effect_def)
  qed
qed

text \<open>
  C13: a size from 1048525 to 1048575 bytes is shown as \<open>1024.0 KB\<close>: \<open>toFixed(1)\<close>
  rounds up to the next unit while the unit is chosen before rounding.
\<close>

theorem formatFileSize_near_MiB:
  assumes "1048525 \<le> sz" "sz < 1048576"
  shows "formatFileSize (Some sz) = ''1024.0 KB''"
proof -
  have a: "(1048525::rat) \<le> of_int sz" "of_int sz < (1048576::rat)"
    using assms by linarith+
  have "\<lfloor>10 * (of_int sz / 1024) + 1 / 2 :: rat\<rfloor> = 10240"
    unfolding floor_eq_iff using a by simp
  with assms show ?thesis
    by (simp add: formatFileSize_def toFixed1_def fixed1_10240)
qed

subsection \<open>Witnesses\<close>

theorem breadcrumb_click_truncates_witness:
  "\<exists>s'. files_step (the (path_effect ((the (mount_files ''phone''))\<lparr>currentPath := ''pics''\<rparr>)))
      (BreadcrumbClick ''root'') = Some s' \<and> currentPath s' = ''root'' \<and>
      breadcrumbSegments s' = [(''root'', ''Root'')]"
proof -
  define s where "s = the (path_effect ((the (mount_files ''phone''))\<lparr>currentPath := ''pics''\<rparr>))"
  have segs: "breadcrumbSegments s = [(''root'', ''Root''), (''pics'', ''Pictures'')]"
    and inv: "files_inv s"
    unfolding s_def files_inv_def path_effect_def mount_files_def breadcrumbs_def find_id_def
      mockFileSystem_def folder_def entry_def
    by (simp_all add: crumbs_loop_Some parent_of_def)
  from breadcrumb_click_truncates [OF inv, of 0] segs show ?thesis
    by (simp add: s_def [symmetric])
qed

theorem formatFileSize_near_MiB_witness: "formatFileSize (Some 1048575) = ''1024.0 KB''"
  using formatFileSize_near_MiB [of 1048575] by simp

end
