(* ===== verification/PinModal.thy ===== *)
theory PinModal
  imports LockScreen JSNumber
begin

text \<open>
  The PIN settings: the dialog of \<open>src/WebDroid-OS/src/apps/SettingsApp/ChangePinModal.tsx\<close>
  (three sanitised inputs, the validation chain of \<open>handleSubmit\<close> with one error message
  per failed check, the reset on opening) and the page that hosts it,
  \<open>src/src/apps/SettingsApp/LockSettingsPage.tsx\<close> (the lock toggle with its
  \<open>window.confirm\<close>, the change button, \<open>handlePinSubmit\<close>, which stores the PIN in the
  settings context). Validation returns an error of the datatype \<open>pin_error\<close> or the
  accepted PIN, as a sum. The main lemma connects the page to the composed device of theory
  \<open>Controller\<close>: every PIN the page stores passes the guard of its \<open>SettingsSetPin\<close> event.
\<close>

subsection \<open>The dialog\<close>

datatype pin_error =
    EnterCurrentPin
  | CurrentPinIncorrect
  | EnterNewPin
  | NotFourDigits
  | PinsDontMatch
  | UpdateFailed

fun pin_error_message :: "pin_error \<Rightarrow> string" where
  "pin_error_message EnterCurrentPin = ''Please enter your current PIN''"
| "pin_error_message CurrentPinIncorrect = ''Current PIN is incorrect''"
| "pin_error_message EnterNewPin = ''Please enter a new PIN''"
| "pin_error_message NotFourDigits = ''PIN must be exactly 4 digits''"
| "pin_error_message PinsDontMatch = ''PINs don't match''"
| "pin_error_message UpdateFailed = ''Failed to update PIN''"

record pin_modal =
  oldPinInput :: string
  newPinInput :: string
  confirmPinInput :: string
  errorMessage :: string

definition empty_modal :: pin_modal where
  "empty_modal = \<lparr>oldPinInput = [], newPinInput = [], confirmPinInput = [], errorMessage = []\<rparr>"

text \<open>\<open>e.target.value.replace(/\D/g, '').slice(0, 4)\<close>, the \<open>onChange\<close> of each input.\<close>

definition sanitize_pin :: "string \<Rightarrow> string" where
  "sanitize_pin v = take 4 (filter is_digit v)"

text \<open>\<open>/^\d{4}$/.test(p)\<close>.\<close>

definition four_digits :: "string \<Rightarrow> bool" where
  "four_digits p = (length p = 4 \<and> list_all is_digit p)"

text \<open>The checks of lines 38--65 in order; the first that fails gives the error.\<close>

definition validate_pin :: "bool \<Rightarrow> string option \<Rightarrow> pin_modal \<Rightarrow> pin_error + string" where
  "validate_pin requiresOldPin currentPin m =
     (if requiresOldPin \<and> oldPinInput m = [] then Inl EnterCurrentPin
      else if requiresOldPin \<and> Some (oldPinInput m) \<noteq> currentPin then Inl CurrentPinIncorrect
      else if newPinInput m = [] then Inl EnterNewPin
      else if \<not> four_digits (newPinInput m) then Inl NotFourDigits
      else if newPinInput m \<noteq> confirmPinInput m then Inl PinsDontMatch
      else Inr (newPinInput m))"

text \<open>
  \<open>handleSubmit\<close> with the answer \<open>ok\<close> of \<open>onSubmitPin\<close>: the new dialog state, the PIN
  passed to \<open>onSubmitPin\<close> (if it was called) and whether \<open>onClose\<close> was called.
\<close>

definition handleSubmit ::
  "bool \<Rightarrow> string option \<Rightarrow> bool \<Rightarrow> pin_modal \<Rightarrow> pin_modal \<times> string option \<times> bool" where
  "handleSubmit requiresOldPin currentPin ok m =
     (case validate_pin requiresOldPin currentPin (m\<lparr>errorMessage := []\<rparr>) of
        Inl e \<Rightarrow> (m\<lparr>errorMessage := pin_error_message e\<rparr>, None, False)
      | Inr p \<Rightarrow>
          (if ok then (m\<lparr>errorMessage := []\<rparr>, Some p, True)
           else (m\<lparr>errorMessage := pin_error_message UpdateFailed\<rparr>, Some p, False)))"

subsection \<open>The lock settings page\<close>

text \<open>
  The page's state: the context's \<open>lockscreenPin\<close>, \<open>isChangePinModalOpen\<close>, and the
  state of the mounted dialog (which survives while it is closed).
\<close>

record lock_page =
  pagePin :: "string option"
  modalOpen :: bool
  modal :: pin_modal

definition handleTogglePin :: "bool \<Rightarrow> lock_page \<Rightarrow> lock_page" where
  "handleTogglePin confirmed pg =
     (if truthy (pagePin pg) then (if confirmed then pg\<lparr>pagePin := None\<rparr> else pg)
      else pg\<lparr>modalOpen := True\<rparr>)"

definition handleChangePin :: "lock_page \<Rightarrow> lock_page" where
  "handleChangePin pg = pg\<lparr>modalOpen := True\<rparr>"

definition handlePinSubmit :: "string \<Rightarrow> lock_page \<Rightarrow> lock_page \<times> bool" where
  "handlePinSubmit newPin pg = (pg\<lparr>pagePin := Some newPin\<rparr>, True)"

text \<open>
  The dialog's submit as the page wires it (lines 94--100): \<open>requiresOldPin\<close> is
  \<open>lockscreenPin !== null\<close>, \<open>currentPin\<close> is \<open>lockscreenPin || undefined\<close>, and
  \<open>onSubmitPin\<close> is \<open>handlePinSubmit\<close>, which stores the PIN and returns \<open>true\<close>.
\<close>

definition page_submit :: "lock_page \<Rightarrow> lock_page" where
  "page_submit pg =
     (case handleSubmit (pagePin pg \<noteq> None) (if truthy (pagePin pg) then pagePin pg else None) True (modal pg) of
        (m', submitted, closes) \<Rightarrow>
          (let pg1 = (case submitted of None \<Rightarrow> pg | Some p \<Rightarrow> fst (handlePinSubmit p pg))
           in pg1\<lparr>modal := m', modalOpen := (if closes then False else modalOpen pg1)\<rparr>))"

datatype page_event =
    TogglePin bool
  | ChangePin
  | OldPinChange string
  | NewPinChange string
  | ConfirmPinChange string
  | SubmitPin
  | CancelPin

fun page_handler :: "lock_page \<Rightarrow> page_event \<Rightarrow> lock_page" where
  "page_handler pg (TogglePin c) = handleTogglePin c pg"
| "page_handler pg ChangePin = handleChangePin pg"
| "page_handler pg (OldPinChange v) = pg\<lparr>modal := (modal pg)\<lparr>oldPinInput := sanitize_pin v\<rparr>\<rparr>"
| "page_handler pg (NewPinChange v) = pg\<lparr>modal := (modal pg)\<lparr>newPinInput := sanitize_pin v\<rparr>\<rparr>"
| "page_handler pg (ConfirmPinChange v) = pg\<lparr>modal := (modal pg)\<lparr>confirmPinInput := sanitize_pin v\<rparr>\<rparr>"
| "page_handler pg SubmitPin = page_submit pg"
| "page_handler pg CancelPin = pg\<lparr>modalOpen := False\<rparr>"

text \<open>The dialog's reset effect (lines 24--31) runs when \<open>isOpen\<close> changed and is true.\<close>

definition page_step :: "lock_page \<Rightarrow> page_event \<Rightarrow> lock_page" where
  "page_step pg e =
     (let pg' = page_handler pg e
      in if modalOpen pg' \<noteq> modalOpen pg \<and> modalOpen pg' then pg'\<lparr>modal := empty_modal\<rparr> else pg')"

text \<open>
  The controls the render offers: the dialog is a full-screen overlay, so the page's
  switch and button take clicks only while it is closed; the current-PIN input exists only
  when a PIN is required.
\<close>

fun page_enabled :: "lock_page \<Rightarrow> page_event \<Rightarrow> bool" where
  "page_enabled pg (TogglePin c) = (\<not> modalOpen pg)"
| "page_enabled pg ChangePin = (\<not> modalOpen pg \<and> truthy (pagePin pg))"
| "page_enabled pg (OldPinChange v) = (modalOpen pg \<and> pagePin pg \<noteq> None)"
| "page_enabled pg (NewPinChange v) = modalOpen pg"
| "page_enabled pg (ConfirmPinChange v) = modalOpen pg"
| "page_enabled pg SubmitPin = modalOpen pg"
| "page_enabled pg CancelPin = modalOpen pg"

text \<open>The guard of the composed device's \<open>SettingsSetPin\<close> event.\<close>

definition device_pin_ok :: "string option \<Rightarrow> bool" where
  "device_pin_ok p = (case p of None \<Rightarrow> True | Some q \<Rightarrow> length q = 4 \<and> list_all (\<lambda>c. c \<in> set numberKeys) q)"

subsection \<open>Lemmas\<close>

lemma is_digit_numberKeys: "is_digit c \<longleftrightarrow> c \<in> set numberKeys"
  by (cases c) (simp add: is_digit_def numberKeys_def)

lemma four_digits_device_pin_ok: "four_digits p \<Longrightarrow> device_pin_ok (Some p)"
  by (simp add: four_digits_def device_pin_ok_def list_all_iff is_digit_numberKeys)

lemma validate_pin_Inr:
  "validate_pin r c m = Inr p \<Longrightarrow>
     p = newPinInput m \<and> four_digits p \<and> confirmPinInput m = p \<and> (r \<longrightarrow> c = Some (oldPinInput m))"
  by (auto simp: validate_pin_def split: if_splits)

lemma handleSubmit_submitted:
  "handleSubmit r c ok m = (m', Some p, cl) \<Longrightarrow> validate_pin r c (m\<lparr>errorMessage := []\<rparr>) = Inr p"
  by (auto simp: handleSubmit_def split: sum.splits if_splits)

lemma page_submit_pin:
  "pagePin (page_submit pg) = pagePin pg \<or>
   (\<exists>p. pagePin (page_submit pg) = Some p \<and>
        validate_pin (pagePin pg \<noteq> None) (if truthy (pagePin pg) then pagePin pg else None)
          ((modal pg)\<lparr>errorMessage := []\<rparr>) = Inr p)"
  by (auto simp: page_submit_def handlePinSubmit_def Let_def dest: handleSubmit_submitted
      split: prod.splits option.splits)

lemma pagePin_page_step:
  "pagePin (page_step pg e) = pagePin (page_handler pg e)"
  by (simp add: page_step_def Let_def)

lemma sanitize_pin_shape: "length (sanitize_pin v) \<le> 4 \<and> list_all is_digit (sanitize_pin v) \<and> sanitize_pin (sanitize_pin v) = sanitize_pin v"
proof -
  have d: "filter is_digit (take 4 (filter is_digit v)) = take 4 (filter is_digit v)"
    by (auto simp: filter_id_conv dest: in_set_takeD)
  then show ?thesis by (auto simp: sanitize_pin_def list_all_iff dest: in_set_takeD)
qed

lemma pin_change_succeeds:
  assumes "pagePin pg = Some q" "q \<noteq> []" "modal pg = \<lparr>oldPinInput = q, newPinInput = p, confirmPinInput = p, errorMessage = msg\<rparr>"
    "four_digits p"
  shows "page_step pg SubmitPin = pg\<lparr>pagePin := Some p, modal := (modal pg)\<lparr>errorMessage := []\<rparr>, modalOpen := False\<rparr>"
  using assms
  by (auto simp: page_step_def page_submit_def handleSubmit_def validate_pin_def handlePinSubmit_def four_digits_def)

lemma page_pin_passes_device_guard:
  assumes "pagePin (page_step pg e) \<noteq> pagePin pg"
  shows "device_pin_ok (pagePin (page_step pg e))"
proof (cases e)
  case SubmitPin
  with assms page_submit_pin [of pg] show ?thesis
    by (auto simp: pagePin_page_step dest!: validate_pin_Inr intro: four_digits_device_pin_ok)
qed (use assms in \<open>auto simp: pagePin_page_step handleTogglePin_def handleChangePin_def device_pin_ok_def
       split: if_splits\<close>)

subsection \<open>Properties\<close>

text \<open>
  C15: with a PIN set, a submit whose current-PIN field is empty or wrong leaves the PIN and
  the dialog as they are and shows the message of the first failed check.
\<close>

theorem wrong_current_pin_rejected:
  assumes "pagePin pg = Some q" "q \<noteq> []" "oldPinInput (modal pg) \<noteq> q"
  shows "pagePin (page_step pg SubmitPin) = pagePin pg \<and> modalOpen (page_step pg SubmitPin) = modalOpen pg \<and>
         errorMessage (modal (page_step pg SubmitPin)) =
           (if oldPinInput (modal pg) = [] then ''Please enter your current PIN'' else ''Current PIN is incorrect'')"
  using assms
  by (simp add: page_step_def page_submit_def handleSubmit_def validate_pin_def)

subsection \<open>Witnesses\<close>

theorem wrong_current_pin_rejected_witness:
  "pagePin (page_step \<lparr>pagePin = Some ''1234'', modalOpen = True,
     modal = \<lparr>oldPinInput = ''9999'', newPinInput = ''2580'', confirmPinInput = ''2580'', errorMessage = []\<rparr>\<rparr> SubmitPin)
     = Some ''1234''"
  using wrong_current_pin_rejected [of "\<lparr>pagePin = Some ''1234'', modalOpen = True,
     modal = \<lparr>oldPinInput = ''9999'', newPinInput = ''2580'', confirmPinInput = ''2580'', errorMessage = []\<rparr>\<rparr>" "''1234''"]
  by simp

end
