(* ===== verification/Alarm.thy ===== *)
theory Alarm
  imports WebDroid_Prelude JSNumber
begin

text \<open>
  The alarm tab of the clock app, \<open>src/src/apps/ClockApp/AlarmTab.tsx\<close>: the alarm list
  kept in \<open>localStorage\<close> under \<open>webdroid-alarms\<close> and written by an effect after every
  change, the toggle, add and delete handlers, and the dialog \<open>AddAlarmModal\<close> whose
  \<open>handleSubmit\<close> checks the time text with the regular expression
  \<open>/^(0?[1-9]|1[0-2]):([0-5][0-9])\s?(AM|PM)$/i\<close>, splits it with \<open>split(/\s+/)\<close> and
  \<open>split(':')\<close>, and accepts only a time at least two hours ahead. A submit ends in an
  error message, a saved alarm, or a \<open>TypeError\<close> thrown by the handler (the datatype
  \<open>submit_result\<close>). Characters are Isabelle's 8-bit \<open>char\<close>s, so \<open>\s\<close> is the
  white space among them (tab to carriage return, space, no-break space). The time of
  day is given in milliseconds since local midnight, the clock in milliseconds since the
  epoch; days are 24 hours long (no daylight-saving change).
\<close>

subsection \<open>The time pattern\<close>

definition regex_space :: "char \<Rightarrow> bool" where
  "regex_space c = (js_ws c \<or> c = CHR 0xA0)"

definition digit_in :: "char \<Rightarrow> char \<Rightarrow> char \<Rightarrow> bool" where
  "digit_in lo hi c = (of_char lo \<le> (of_char c :: nat) \<and> (of_char c :: nat) \<le> of_char hi)"

text \<open>What may follow the hour: each alternative of \<open>(0?[1-9]|1[0-2])\<close> that matches a prefix.\<close>

definition hour_rests :: "string \<Rightarrow> string list" where
  "hour_rests s =
     (case s of
        a # b # r \<Rightarrow>
          (if a = CHR ''0'' \<and> digit_in CHR ''1'' CHR ''9'' b then [r] else []) @
          (if digit_in CHR ''1'' CHR ''9'' a then [b # r] else []) @
          (if a = CHR ''1'' \<and> digit_in CHR ''0'' CHR ''2'' b then [r] else [])
      | [a] \<Rightarrow> (if digit_in CHR ''1'' CHR ''9'' a then [[]] else [])
      | [] \<Rightarrow> [])"

text \<open>\<open>(AM|PM)$\<close> under the flag \<open>i\<close>.\<close>

definition ampm_end :: "string \<Rightarrow> bool" where
  "ampm_end t =
     (case t of
        [a, m] \<Rightarrow> a \<in> set ''aApP'' \<and> m \<in> set ''mM''
      | _ \<Rightarrow> False)"

definition minutes_rest_ok :: "string \<Rightarrow> bool" where
  "minutes_rest_ok r =
     (case r of
        c # a # b # t \<Rightarrow>
          c = CHR '':'' \<and> digit_in CHR ''0'' CHR ''5'' a \<and> digit_in CHR ''0'' CHR ''9'' b \<and>
          (ampm_end t \<or> (t \<noteq> [] \<and> regex_space (hd t) \<and> ampm_end (tl t)))
      | _ \<Rightarrow> False)"

definition time_regex :: "string \<Rightarrow> bool" where
  "time_regex s = list_ex minutes_rest_ok (hour_rests s)"

subsection \<open>Splitting and numbers\<close>

text \<open>\<open>s.split(/\s+/)\<close>: the pieces between maximal runs of white space.\<close>

function split_ws_aux :: "string \<Rightarrow> string \<Rightarrow> string list" where
  "split_ws_aux cur [] = [rev cur]"
| "split_ws_aux cur (c # cs) =
     (if regex_space c then rev cur # split_ws_aux [] (dropWhile regex_space cs)
      else split_ws_aux (c # cur) cs)"
  by pat_completeness auto
termination
  by (relation "measure (\<lambda>(cur, s). length s)")
     (auto simp: less_Suc_eq_le intro: length_dropWhile_le)

definition split_ws :: "string \<Rightarrow> string list" where
  "split_ws s = split_ws_aux [] s"

text \<open>\<open>s.split(':')\<close>.\<close>

fun split_colon_aux :: "string \<Rightarrow> string \<Rightarrow> string list" where
  "split_colon_aux cur [] = [rev cur]"
| "split_colon_aux cur (c # cs) =
     (if c = CHR '':'' then rev cur # split_colon_aux [] cs else split_colon_aux (c # cur) cs)"

definition split_colon :: "string \<Rightarrow> string list" where
  "split_colon s = split_colon_aux [] s"

text \<open>
  \<open>Number(s)\<close> on a non-empty string of decimal digits; any other text is \<open>NaN\<close>
  (\<open>None\<close>), which the code only meets after the pattern check, where the pieces are
  digits.
\<close>

definition js_Number :: "string \<Rightarrow> int option" where
  "js_Number s = (if s \<noteq> [] \<and> list_all is_digit s then Some (int (digits_val s)) else None)"

text \<open>\<open>toUpperCase()\<close> on the letters \<open>a\<close>--\<open>z\<close>.\<close>

definition upper_char :: "char \<Rightarrow> char" where
  "upper_char c = (if digit_in CHR ''a'' CHR ''z'' c then char_of (of_char c - (32::nat)) else c)"

subsection \<open>The dialog\<close>

record alarm_modal =
  timeInput :: string
  labelInput :: string
  alarmError :: string

datatype submit_result =
    SubmitError string
  | SubmitThrows
  | SubmitSaved string string

definition day_ms :: int where "day_ms = 24 * 60 * 60 * 1000"

text \<open>
  The alarm's next occurrence (lines 55--71) in milliseconds since midnight of today,
  for the hour and minute read from the text and the current time of day \<open>now\<close>.
\<close>

definition alarm_at :: "int \<Rightarrow> int \<Rightarrow> string \<Rightarrow> int \<Rightarrow> int" where
  "alarm_at hours minutes ampm now =
     (let alarmHours = (if map upper_char ampm = ''PM'' \<and> hours < 12 then hours + 12
                        else if map upper_char ampm = ''AM'' \<and> hours = 12 then 0 else hours);
          t = alarmHours * 3600000 + minutes * 60000
      in if t < now then t + day_ms else t)"

text \<open>
  Lines 52--71 for a text with white space: the hour and minute read from the first
  piece, and the alarm's next occurrence; \<open>None\<close> if a number is \<open>NaN\<close> (the date is
  then invalid).
\<close>

definition alarm_target :: "int \<Rightarrow> string \<Rightarrow> int option" where
  "alarm_target now time =
     (let parts = split_ws time; nums = map js_Number (split_colon (hd parts))
      in case (nums ! 0, if 1 < length nums then nums ! 1 else None) of
           (Some hours, Some minutes) \<Rightarrow> Some (alarm_at hours minutes (parts ! 1) now)
         | _ \<Rightarrow> None)"

text \<open>
  \<open>handleSubmit\<close> (lines 35--84) at time of day \<open>now\<close>. When the text has no white
  space, \<open>ampm\<close> is \<open>undefined\<close> and \<open>ampm.toUpperCase()\<close> throws. An invalid date
  compares false with every date, so a \<open>NaN\<close> time would be saved.
\<close>

definition alarm_submit :: "int \<Rightarrow> alarm_modal \<Rightarrow> submit_result" where
  "alarm_submit now m =
     (let time = timeInput m; label = (if labelInput m = [] then ''Alarm'' else labelInput m) in
      if time = [] then SubmitError ''Please enter a valid time''
      else if \<not> time_regex time then SubmitError ''Please enter time in format: HH:MM AM/PM''
      else if length (split_ws time) < 2 then SubmitThrows
      else (case alarm_target now time of
              Some t \<Rightarrow>
                if t < now + 2 * 60 * 60 * 1000
                then SubmitError ''Alarm must be set at least 2 hours in the future''
                else SubmitSaved time label
            | None \<Rightarrow> SubmitSaved time label))"

subsection \<open>The alarm list\<close>

record alarm =
  alarmId :: string
  alarmTime :: string
  alarmLabel :: string
  enabled :: bool

datatype alarms_json = AlarmsJSON "alarm list" | MalformedAlarms

record alarm_tab =
  alarms :: "alarm list"
  showAddAlarmModal :: bool
  alarmModal :: alarm_modal
  alarmStore :: "alarms_json option"

definition load_alarms :: "alarms_json option \<Rightarrow> alarm list" where
  "load_alarms saved = (case saved of Some (AlarmsJSON l) \<Rightarrow> l | _ \<Rightarrow> [])"

text \<open>The save effect (lines 162--168); \<open>ok = False\<close> is a \<open>setItem\<close> that throws.\<close>

definition save_alarms_effect :: "bool \<Rightarrow> alarm_tab \<Rightarrow> alarm_tab" where
  "save_alarms_effect ok t = (if ok then t\<lparr>alarmStore := Some (AlarmsJSON (alarms t))\<rparr> else t)"

definition empty_alarm_modal :: alarm_modal where
  "empty_alarm_modal = \<lparr>timeInput = [], labelInput = [], alarmError = []\<rparr>"

definition mount_alarms :: "bool \<Rightarrow> alarms_json option \<Rightarrow> alarm_tab" where
  "mount_alarms ok saved =
     save_alarms_effect ok
       \<lparr>alarms = load_alarms saved, showAddAlarmModal = False, alarmModal = empty_alarm_modal, alarmStore = saved\<rparr>"

definition handleToggleAlarm :: "string \<Rightarrow> alarm_tab \<Rightarrow> alarm_tab" where
  "handleToggleAlarm i t =
     t\<lparr>alarms := map (\<lambda>a. if alarmId a = i then a\<lparr>enabled := \<not> enabled a\<rparr> else a) (alarms t)\<rparr>"

definition handleAddAlarm :: "int \<Rightarrow> string \<Rightarrow> string \<Rightarrow> alarm_tab \<Rightarrow> alarm_tab" where
  "handleAddAlarm epoch time label t =
     t\<lparr>alarms := alarms t @ [\<lparr>alarmId = ''alarm-'' @ int_toString epoch, alarmTime = time, alarmLabel = label,
                               enabled = True\<rparr>]\<rparr>"

definition handleDeleteAlarm :: "bool \<Rightarrow> string \<Rightarrow> alarm_tab \<Rightarrow> alarm_tab" where
  "handleDeleteAlarm confirmed i t =
     (if confirmed then t\<lparr>alarms := filter (\<lambda>a. alarmId a \<noteq> i) (alarms t)\<rparr> else t)"

text \<open>The dialog's save button as the tab wires it: \<open>onSave\<close> is \<open>handleAddAlarm\<close>.\<close>

definition submit_in_tab :: "int \<Rightarrow> int \<Rightarrow> alarm_tab \<Rightarrow> alarm_tab" where
  "submit_in_tab now epoch t =
     (case alarm_submit now (alarmModal t) of
        SubmitError e \<Rightarrow> t\<lparr>alarmModal := (alarmModal t)\<lparr>alarmError := e\<rparr>\<rparr>
      | SubmitThrows \<Rightarrow> t
      | SubmitSaved time label \<Rightarrow> (handleAddAlarm epoch time label t)\<lparr>showAddAlarmModal := False\<rparr>)"

datatype alarm_event =
    ToggleAlarm string
  | DeleteAlarm bool string
  | OpenAddAlarm
  | CloseAddAlarm
  | TimeInput string
  | LabelInput string
  | SaveAlarm int int

fun alarm_handler :: "alarm_tab \<Rightarrow> alarm_event \<Rightarrow> alarm_tab" where
  "alarm_handler t (ToggleAlarm i) = handleToggleAlarm i t"
| "alarm_handler t (DeleteAlarm c i) = handleDeleteAlarm c i t"
| "alarm_handler t OpenAddAlarm = t\<lparr>showAddAlarmModal := True\<rparr>"
| "alarm_handler t CloseAddAlarm = t\<lparr>showAddAlarmModal := False\<rparr>"
| "alarm_handler t (TimeInput v) = t\<lparr>alarmModal := (alarmModal t)\<lparr>timeInput := v\<rparr>\<rparr>"
| "alarm_handler t (LabelInput v) = t\<lparr>alarmModal := (alarmModal t)\<lparr>labelInput := v\<rparr>\<rparr>"
| "alarm_handler t (SaveAlarm now epoch) = submit_in_tab now epoch t"

text \<open>
  After a handler: the dialog's reset effect when it has just opened, and the save effect
  when the list changed (a new array: every \<open>setAlarms\<close> call above builds one).
\<close>

definition alarm_step :: "bool \<Rightarrow> alarm_tab \<Rightarrow> alarm_event \<Rightarrow> alarm_tab" where
  "alarm_step ok t e =
     (let t1 = alarm_handler t e;
          t2 = (if showAddAlarmModal t1 \<and> \<not> showAddAlarmModal t then t1\<lparr>alarmModal := empty_alarm_modal\<rparr> else t1);
          changed = (case e of ToggleAlarm _ \<Rightarrow> True | DeleteAlarm c _ \<Rightarrow> c | SaveAlarm _ _ \<Rightarrow> alarms t1 \<noteq> alarms t
                     | _ \<Rightarrow> False)
      in if changed then save_alarms_effect ok t2 else t2)"

subsection \<open>Lemmas\<close>

lemma split_ws_aux_no_space:
  "\<not> list_ex regex_space s \<Longrightarrow> split_ws_aux cur s = [rev cur @ s]"
  by (induction s arbitrary: cur) auto

lemma split_ws_aux_nonempty: "split_ws_aux cur s \<noteq> []"
  by (induction cur s rule: split_ws_aux.induct) auto

lemma split_ws_aux_space: "list_ex regex_space s \<Longrightarrow> 2 \<le> length (split_ws_aux cur s)"
proof (induction cur s rule: split_ws_aux.induct)
  case (2 cur c cs)
  show ?case
  proof (cases "regex_space c")
    case True
    then show ?thesis
      using split_ws_aux_nonempty [of "[]" "dropWhile regex_space cs"] by (simp add: Suc_le_eq)
  qed (use 2 in auto)
qed simp

lemma split_ws_length: "length (split_ws s) < 2 \<longleftrightarrow> \<not> list_ex regex_space s"
  using split_ws_aux_space [of s "[]"] split_ws_aux_no_space [of s "[]"]
  by (auto simp: split_ws_def)

lemma split_ws_aux_one_space:
  assumes "\<not> list_ex regex_space a" "regex_space c" "\<not> list_ex regex_space b"
  shows "split_ws_aux cur (a @ c # b) = [rev cur @ a, b]"
  using assms(1)
proof (induction a arbitrary: cur)
  case Nil
  have "dropWhile regex_space b = b" using assms(3) by (cases b) auto
  with assms(2,3) show ?case by (simp add: split_ws_aux_no_space)
qed auto

lemma split_colon_aux_no_colon:
  "CHR '':'' \<notin> set s \<Longrightarrow> split_colon_aux cur s = [rev cur @ s]"
  by (induction s arbitrary: cur) auto

lemma split_colon_aux_one:
  "CHR '':'' \<notin> set a \<Longrightarrow> CHR '':'' \<notin> set b \<Longrightarrow> split_colon_aux cur (a @ CHR '':'' # b) = [rev cur @ a, b]"
  by (induction a arbitrary: cur) (auto simp: split_colon_aux_no_colon)


lemma hour_rests_prefix:
  assumes "r \<in> set (hour_rests s)"
  shows "\<exists>hh. s = hh @ r \<and> hh \<noteq> [] \<and> list_all is_digit hh \<and> 1 \<le> digits_val hh \<and> digits_val hh \<le> 12"
proof (cases s)
  case (Cons a s')
  show ?thesis
  proof (cases s')
    case Nil
    with Cons assms show ?thesis
      by (auto simp: hour_rests_def digit_in_def is_digit_def digits_val_def digit_val_def)
  next
    case (Cons b s'')
    with \<open>s = a # s'\<close> assms
    have "(a = CHR ''0'' \<and> digit_in CHR ''1'' CHR ''9'' b \<and> r = s'') \<or> (digit_in CHR ''1'' CHR ''9'' a \<and> r = b # s'')
        \<or> (a = CHR ''1'' \<and> digit_in CHR ''0'' CHR ''2'' b \<and> r = s'')"
      by (auto simp: hour_rests_def split: if_splits)
    with Cons \<open>s = a # s'\<close> show ?thesis
      unfolding digit_in_def is_digit_def digits_val_def digit_val_def
      by (elim disjE; (rule exI [of _ "[a, b]"] exI [of _ "[a]"])?; simp; linarith)
  qed
qed (use assms in \<open>simp add: hour_rests_def\<close>)


lemma minutes_rest_shape:
  assumes "minutes_rest_ok r"
  shows "\<exists>mm t. r = CHR '':'' # mm @ t \<and> length mm = 2 \<and> list_all is_digit mm \<and> digits_val mm \<le> 59 \<and>
           (ampm_end t \<or> (t \<noteq> [] \<and> regex_space (hd t) \<and> ampm_end (tl t)))"
proof -
  from assms obtain x y t where r: "r = CHR '':'' # x # y # t" "digit_in CHR ''0'' CHR ''5'' x"
      "digit_in CHR ''0'' CHR ''9'' y" "ampm_end t \<or> (t \<noteq> [] \<and> regex_space (hd t) \<and> ampm_end (tl t))"
    by (auto simp: minutes_rest_ok_def split: list.splits)
  then show ?thesis
    unfolding digit_in_def is_digit_def digits_val_def digit_val_def
    by (intro exI [of _ "[x, y]"] exI [of _ t]) (simp; linarith)
qed

lemma ampm_end_chars: "ampm_end t \<Longrightarrow> \<not> list_ex regex_space t \<and> CHR '':'' \<notin> set t"
  by (auto simp: ampm_end_def regex_space_def js_ws_def split: list.splits)

lemma digits_no_space: "list_all is_digit d \<Longrightarrow> \<not> list_ex regex_space d \<and> CHR '':'' \<notin> set d"
  by (auto simp: list_all_iff list_ex_iff is_digit_def regex_space_def js_ws_def)

lemma js_Number_digits: "d \<noteq> [] \<Longrightarrow> list_all is_digit d \<Longrightarrow> js_Number d = Some (int (digits_val d))"
  by (simp add: js_Number_def)

lemma alarm_target_shape:
  assumes "time_regex s" "list_ex regex_space s"
  shows "\<exists>h m ap. alarm_target now s = Some (alarm_at h m ap now) \<and> 1 \<le> h \<and> h \<le> 12 \<and> 0 \<le> m \<and> m \<le> 59"
proof -
  from assms(1) obtain r where r: "r \<in> set (hour_rests s)" "minutes_rest_ok r"
    by (auto simp: time_regex_def list_ex_iff)
  from hour_rests_prefix [OF r(1)] obtain hh where hh: "s = hh @ r" "hh \<noteq> []" "list_all is_digit hh"
      "1 \<le> digits_val hh" "digits_val hh \<le> 12" by blast
  from minutes_rest_shape [OF r(2)] obtain mm t where mm: "r = CHR '':'' # mm @ t" "length mm = 2"
      "list_all is_digit mm" "digits_val mm \<le> 59"
      "ampm_end t \<or> (t \<noteq> [] \<and> regex_space (hd t) \<and> ampm_end (tl t))" by blast
  have nh: "\<not> list_ex regex_space hh" "CHR '':'' \<notin> set hh" using digits_no_space [OF hh(3)] by auto
  have nm: "\<not> list_ex regex_space mm" "CHR '':'' \<notin> set mm" using digits_no_space [OF mm(3)] by auto
  have colon: "\<not> regex_space CHR '':''" by (simp add: regex_space_def js_ws_def)
  have "\<not> ampm_end t"
    using assms(2) hh(1) mm(1) nh nm colon ampm_end_chars [of t] by auto
  with mm(5) obtain c ap where t: "t = c # ap" "regex_space c" "ampm_end ap"
    by (cases t) auto
  have sp: "split_ws s = [hh @ CHR '':'' # mm, ap]"
    using split_ws_aux_one_space [of "hh @ CHR '':'' # mm" c ap "[]"] nh nm colon t ampm_end_chars [of ap]
      hh(1) mm(1) by (simp add: split_ws_def)
  have sc: "split_colon (hh @ CHR '':'' # mm) = [hh, mm]"
    using split_colon_aux_one [OF nh(2) nm(2), of "[]"] by (simp add: split_colon_def)
  have "mm \<noteq> []" using mm(2) by auto
  with hh nh mm sp sc show ?thesis
    by (intro exI [of _ "int (digits_val hh)"] exI [of _ "int (digits_val mm)"] exI [of _ ap])
       (simp add: alarm_target_def js_Number_digits)
qed

lemma alarm_at_window:
  assumes "1 \<le> h" "h \<le> 12" "0 \<le> m" "m \<le> 59" "0 \<le> now" "now < day_ms"
  shows "now \<le> alarm_at h m ap now \<and> alarm_at h m ap now < now + day_ms"
  using assms by (auto simp: alarm_at_def Let_def day_ms_def)

definition alarms_synced :: "alarm_tab \<Rightarrow> bool" where
  "alarms_synced t = (load_alarms (alarmStore t) = alarms t)"

lemma alarm_step_synced: "alarms_synced t \<Longrightarrow> alarms_synced (alarm_step True t e)"
  by (cases e)
     (auto simp: alarms_synced_def alarm_step_def Let_def save_alarms_effect_def load_alarms_def
        handleToggleAlarm_def handleDeleteAlarm_def submit_in_tab_def handleAddAlarm_def
        split: submit_result.splits)

lemma mount_alarms_synced: "alarms_synced (mount_alarms True saved)"
  by (simp add: alarms_synced_def mount_alarms_def save_alarms_effect_def load_alarms_def)

subsection \<open>Properties\<close>

text \<open>
  C17: an alarm that the dialog saves rings at its next occurrence, which is at least two
  hours and less than a day ahead of the time of day at which it was saved.
\<close>

theorem saved_alarm_window:
  assumes "alarm_submit now m = SubmitSaved tm lb" "0 \<le> now" "now < day_ms"
  shows "\<exists>t. alarm_target now tm = Some t \<and> now + 2 * 60 * 60 * 1000 \<le> t \<and> t < now + day_ms"
proof -
  have re: "time_regex tm" "list_ex regex_space tm" "tm = timeInput m"
    using assms(1) by (auto simp: alarm_submit_def Let_def split_ws_length split: if_splits option.splits)
  from alarm_target_shape [OF re(1,2), of now] obtain h mi ap
    where h: "alarm_target now tm = Some (alarm_at h mi ap now)" "1 \<le> h" "h \<le> 12" "0 \<le> mi" "mi \<le> 59"
    by blast
  with assms(1) re have "\<not> alarm_at h mi ap now < now + 2 * 60 * 60 * 1000"
    by (auto simp: alarm_submit_def Let_def split: if_splits)
  with h alarm_at_window [OF h(2-5) assms(2,3), of ap] show ?thesis by auto
qed

text \<open>
  C16: a time typed without a space before AM/PM, such as \<open>7:30AM\<close>, passes the pattern
  (its \<open>\s?\<close> is optional) but \<open>split(/\s+/)\<close> gives one piece, so
  \<open>ampm.toUpperCase()\<close> throws: pressing Save changes nothing, shows no message and
  saves no alarm.
\<close>

theorem unspaced_time_is_lost:
  assumes "time_regex (timeInput (alarmModal t))" "\<not> list_ex regex_space (timeInput (alarmModal t))"
  shows "alarm_step ok t (SaveAlarm now epoch) = t"
proof -
  have "timeInput (alarmModal t) \<noteq> []" using assms(1) by (auto simp: time_regex_def hour_rests_def)
  with assms have "alarm_submit now (alarmModal t) = SubmitThrows"
    by (simp add: alarm_submit_def Let_def split_ws_length)
  then show ?thesis by (simp add: alarm_step_def submit_in_tab_def)
qed

subsection \<open>Witnesses\<close>

theorem saved_alarm_window_witness:
  "\<exists>t. alarm_target 28800000 ''11:30 AM'' = Some t \<and> 28800000 + 2 * 60 * 60 * 1000 \<le> t \<and> t < 28800000 + day_ms"
  using saved_alarm_window [of 28800000 "\<lparr>timeInput = ''11:30 AM'', labelInput = [], alarmError = []\<rparr>"
      "''11:30 AM''" "''Alarm''"]
  by (simp add: alarm_submit_def alarm_target_def time_regex_def hour_rests_def minutes_rest_ok_def
      ampm_end_def digit_in_def regex_space_def js_ws_def split_ws_def split_colon_def js_Number_def
      is_digit_def digits_val_def digit_val_def alarm_at_def upper_char_def day_ms_def)

theorem unspaced_time_is_lost_witness:
  "alarm_step True ((mount_alarms True None)\<lparr>alarmModal := \<lparr>timeInput = ''7:30AM'', labelInput = [], alarmError = []\<rparr>\<rparr>)
     (SaveAlarm 28800000 1700000000000) =
   (mount_alarms True None)\<lparr>alarmModal := \<lparr>timeInput = ''7:30AM'', labelInput = [], alarmError = []\<rparr>\<rparr>"
  using unspaced_time_is_lost [of "(mount_alarms True None)\<lparr>alarmModal := \<lparr>timeInput = ''7:30AM'', labelInput = [],
      alarmError = []\<rparr>\<rparr>" True 28800000 1700000000000]
  by (simp add: time_regex_def hour_rests_def minutes_rest_ok_def ampm_end_def digit_in_def regex_space_def js_ws_def)

end
