(* ===== verification/Clock.thy ===== *)
theory Clock
  imports WebDroid_Prelude JSNumber
begin

text \<open>
  The clock app's timer and stopwatch and the tab container that holds them:
  \<open>src/WebDroid-OS/src/apps/ClockApp/TimerTab.tsx\<close>,
  \<open>src/src/apps/ClockApp/StopwatchTab.tsx\<close> and
  \<open>src/WebDroid-OS/src/apps/ClockApp/index.tsx\<close>. Times are integer milliseconds of
  \<open>Date.now()\<close>, passed with each event. The timer's \<open>setInterval\<close> and the stopwatch's
  \<open>requestAnimationFrame\<close> loop are a flag saying whether a callback is pending; a pending
  callback fires as the event \<open>Tick\<close> or \<open>Frame\<close>. \<open>Math.round(d / 1000)\<close> for an
  integer \<open>d\<close> of magnitude below \<open>2\<^sup>5\<^sup>0\<close> is \<open>(d + 500) div 1000\<close>: the quotient is
  at least \<open>1/1000\<close> away from any half-integer it does not equal, far more than the
  rounding error of the division.
\<close>

subsection \<open>Formatting\<close>

definition round_div_1000 :: "int \<Rightarrow> int" where
  "round_div_1000 d = (d + 500) div 1000"

text \<open>The remainder operator \<open>%\<close>, which takes the sign of the dividend.\<close>

definition js_rem :: "int \<Rightarrow> int \<Rightarrow> int" where
  "js_rem a b = (if a < 0 then - ((- a) mod b) else a mod b)"

definition pad2 :: "string \<Rightarrow> string" where
  "pad2 s = replicate (2 - length s) CHR ''0'' @ s"

text \<open>The timer's \<open>formatTime\<close> (lines 24--28), on whole seconds.\<close>

definition timer_formatTime :: "int \<Rightarrow> string" where
  "timer_formatTime seconds =
     pad2 (int_toString (seconds div 60)) @ '':'' @ pad2 (int_toString (js_rem seconds 60))"

text \<open>The stopwatch's \<open>formatTime\<close> (lines 14--21), on milliseconds.\<close>

definition stopwatch_formatTime :: "int \<Rightarrow> string" where
  "stopwatch_formatTime ms =
     (let totalSeconds = ms div 1000
      in pad2 (int_toString (totalSeconds div 60)) @ '':'' @ pad2 (int_toString (js_rem totalSeconds 60)) @
         ''.'' @ pad2 (int_toString (js_rem ms 1000 div 10)))"

text \<open>JavaScript truthiness of a number or \<open>null\<close>: \<open>0\<close> and \<open>null\<close> are false.\<close>

definition truthy_num :: "int option \<Rightarrow> bool" where
  "truthy_num v = (case v of None \<Rightarrow> False | Some x \<Rightarrow> x \<noteq> 0)"

subsection \<open>Timer\<close>

datatype timer_state = TStopped | TRunning | TPaused

definition preset_durations :: "int list" where
  "preset_durations = [1, 5, 10, 15, 30, 60]"

record timer_tab =
  durationMinutes :: int
  remainingSeconds :: "int option"
  timerState :: timer_state
  targetEndTime :: "int option"
  timerInterval :: bool

definition initial_timer :: timer_tab where
  "initial_timer = \<lparr>durationMinutes = 60, remainingSeconds = None, timerState = TStopped, targetEndTime = None,
                    timerInterval = False\<rparr>"

text \<open>\<open>handleStart\<close>: \<open>Date.now()\<close> is read twice, at \<open>now1\<close> and \<open>now2\<close>.\<close>

definition timer_handleStart :: "int \<Rightarrow> int \<Rightarrow> timer_tab \<Rightarrow> timer_tab" where
  "timer_handleStart now1 now2 t =
     (let endTime = now1 + durationMinutes t * 60 * 1000
      in t\<lparr>targetEndTime := Some endTime, remainingSeconds := Some (round_div_1000 (endTime - now2)),
           timerState := TRunning\<rparr>)"

definition timer_handlePause :: "timer_tab \<Rightarrow> timer_tab" where
  "timer_handlePause t = t\<lparr>timerState := TPaused\<rparr>"

definition timer_handleResume :: "int \<Rightarrow> timer_tab \<Rightarrow> timer_tab" where
  "timer_handleResume now t =
     (case remainingSeconds t of
        Some r \<Rightarrow> if r \<noteq> 0 \<and> r > 0 then t\<lparr>targetEndTime := Some (now + r * 1000), timerState := TRunning\<rparr> else t
      | None \<Rightarrow> t)"

definition timer_handleCancel :: "timer_tab \<Rightarrow> timer_tab" where
  "timer_handleCancel t = t\<lparr>timerState := TStopped, remainingSeconds := None, targetEndTime := None\<rparr>"

definition timer_handleDurationSelect :: "int \<Rightarrow> timer_tab \<Rightarrow> timer_tab" where
  "timer_handleDurationSelect m t = (if timerState t = TStopped then t\<lparr>durationMinutes := m\<rparr> else t)"

text \<open>\<open>updateTimer\<close> (lines 94--112), with the end time of the effect's render.\<close>

definition updateTimer :: "int \<Rightarrow> int \<Rightarrow> timer_tab \<Rightarrow> timer_tab" where
  "updateTimer target now t =
     (let remaining = round_div_1000 (target - now)
      in if remaining \<le> 0 then t\<lparr>remainingSeconds := Some 0, timerState := TStopped, timerInterval := False\<rparr>
         else t\<lparr>remainingSeconds := Some remaining\<rparr>)"

text \<open>
  The effect of lines 92--127 after a render whose \<open>timerState\<close> or \<open>targetEndTime\<close>
  differ from those of \<open>prev\<close>: the cleanup clears the interval; a running timer is updated
  at once and gets a new interval. When that update ends the timer, the next render runs
  the effect again and its cleanup clears the new interval.
\<close>

definition timer_deps :: "timer_tab \<Rightarrow> timer_state \<times> int option" where
  "timer_deps t = (timerState t, targetEndTime t)"

definition timer_effect :: "int \<Rightarrow> timer_tab \<Rightarrow> timer_tab \<Rightarrow> timer_tab" where
  "timer_effect now prev t =
     (if timer_deps t = timer_deps prev then t
      else (let t1 = t\<lparr>timerInterval := False\<rparr>
            in case (timerState t1, targetEndTime t1) of
                 (TRunning, Some target) \<Rightarrow>
                   if target = 0 then t1 else
                   (let t2 = updateTimer target now t1
                    in if timer_deps t2 \<noteq> timer_deps t1 then t2\<lparr>timerInterval := False\<rparr>
                       else t2\<lparr>timerInterval := True\<rparr>)
               | _ \<Rightarrow> t1))"

datatype timer_event =
    TimerStart int int
  | TimerPause
  | TimerResume int
  | TimerCancel
  | TimerSelect int
  | TimerTick int

fun timer_event_time :: "timer_event \<Rightarrow> int \<Rightarrow> int" where
  "timer_event_time (TimerStart n1 n2) d = n2"
| "timer_event_time (TimerResume n) d = n"
| "timer_event_time (TimerTick n) d = n"
| "timer_event_time e d = d"

fun timer_handler :: "timer_tab \<Rightarrow> timer_event \<Rightarrow> timer_tab" where
  "timer_handler t (TimerStart n1 n2) = timer_handleStart n1 n2 t"
| "timer_handler t TimerPause = timer_handlePause t"
| "timer_handler t (TimerResume n) = timer_handleResume n t"
| "timer_handler t TimerCancel = timer_handleCancel t"
| "timer_handler t (TimerSelect m) = timer_handleDurationSelect m t"
| "timer_handler t (TimerTick n) =
     (if timerInterval t then (case targetEndTime t of Some target \<Rightarrow> updateTimer target n t | None \<Rightarrow> t) else t)"

text \<open>An event at time \<open>now\<close> (the effect reads the clock when it runs, at the same time).\<close>

definition timer_step :: "int \<Rightarrow> timer_tab \<Rightarrow> timer_event \<Rightarrow> timer_tab" where
  "timer_step now t e = timer_effect (timer_event_time e now) t (timer_handler t e)"

text \<open>The controls of each state (lines 140--203): presets and Start when stopped.\<close>

fun timer_enabled :: "timer_tab \<Rightarrow> timer_event \<Rightarrow> bool" where
  "timer_enabled t (TimerStart n1 n2) = (timerState t = TStopped \<and> n1 \<le> n2)"
| "timer_enabled t TimerPause = (timerState t = TRunning)"
| "timer_enabled t (TimerResume n) = (timerState t = TPaused)"
| "timer_enabled t TimerCancel = (timerState t \<noteq> TStopped)"
| "timer_enabled t (TimerSelect m) = (timerState t = TStopped \<and> m \<in> set preset_durations)"
| "timer_enabled t (TimerTick n) = timerInterval t"

definition timer_display :: "timer_tab \<Rightarrow> string" where
  "timer_display t =
     (case remainingSeconds t of Some r \<Rightarrow> timer_formatTime r | None \<Rightarrow> timer_formatTime (durationMinutes t * 60))"

subsection \<open>Stopwatch\<close>

text \<open>
  The state of lines 4--11 and the animation-frame loop. The callback \<open>updateElapsedTime\<close>
  scheduled by the effect is the one of the render that ran the effect, and it schedules
  itself again: it keeps the \<open>isRunning\<close> and \<open>startTime\<close> of that render
  (\<open>frameRunning\<close>, \<open>frameStart\<close>).
\<close>

record stopwatch =
  isRunning :: bool
  startTime :: "int option"
  elapsedTime :: int
  laps :: "int list"
  lastTime :: int
  framePending :: bool
  frameRunning :: bool
  frameStart :: "int option"

definition initial_stopwatch :: stopwatch where
  "initial_stopwatch = \<lparr>isRunning = False, startTime = None, elapsedTime = 0, laps = [], lastTime = 0,
                        framePending = False, frameRunning = False, frameStart = None\<rparr>"

definition sw_handleStart :: "int \<Rightarrow> stopwatch \<Rightarrow> stopwatch" where
  "sw_handleStart now s =
     (let s1 = s\<lparr>isRunning := True, lastTime := now\<rparr>
      in if elapsedTime s = 0 then s1\<lparr>startTime := Some now\<rparr> else s1)"

definition sw_handleStop :: "stopwatch \<Rightarrow> stopwatch" where
  "sw_handleStop s = s\<lparr>isRunning := False\<rparr>"

definition sw_handleLap :: "stopwatch \<Rightarrow> stopwatch" where
  "sw_handleLap s = (if isRunning s then s\<lparr>laps := elapsedTime s # laps s\<rparr> else s)"

definition sw_handleReset :: "stopwatch \<Rightarrow> stopwatch" where
  "sw_handleReset s = s\<lparr>isRunning := False, elapsedTime := 0, startTime := None, laps := []\<rparr>"

text \<open>\<open>updateElapsedTime\<close> (lines 24--34) as the pending frame at time \<open>now\<close>.\<close>

definition sw_frame :: "int \<Rightarrow> stopwatch \<Rightarrow> stopwatch" where
  "sw_frame now s =
     (if \<not> frameRunning s \<or> \<not> truthy_num (frameStart s) then s\<lparr>framePending := False\<rparr>
      else s\<lparr>elapsedTime := elapsedTime s + (now - lastTime s), lastTime := now, framePending := True\<rparr>)"

text \<open>The effect of lines 68--82, run when \<open>isRunning\<close> changed.\<close>

definition sw_effect :: "int \<Rightarrow> stopwatch \<Rightarrow> stopwatch \<Rightarrow> stopwatch" where
  "sw_effect now prev s =
     (if isRunning s = isRunning prev then s
      else if isRunning s
      then s\<lparr>lastTime := now, framePending := True, frameRunning := True, frameStart := startTime s\<rparr>
      else s\<lparr>framePending := False\<rparr>)"

datatype sw_event = SwStart int | SwStop | SwLap | SwReset | SwFrame int

fun sw_handler :: "stopwatch \<Rightarrow> sw_event \<Rightarrow> stopwatch" where
  "sw_handler s (SwStart n) = sw_handleStart n s"
| "sw_handler s SwStop = sw_handleStop s"
| "sw_handler s SwLap = sw_handleLap s"
| "sw_handler s SwReset = sw_handleReset s"
| "sw_handler s (SwFrame n) = (if framePending s then sw_frame n s else s)"

definition sw_step :: "int \<Rightarrow> stopwatch \<Rightarrow> sw_event \<Rightarrow> stopwatch" where
  "sw_step now s e = sw_effect now s (sw_handler s e)"

text \<open>The buttons of lines 93--130: Start from zero, Lap and Stop while running, Reset and Resume after.\<close>

fun sw_enabled :: "stopwatch \<Rightarrow> sw_event \<Rightarrow> bool" where
  "sw_enabled s (SwStart n) = (\<not> isRunning s)"
| "sw_enabled s SwStop = isRunning s"
| "sw_enabled s SwLap = isRunning s"
| "sw_enabled s SwReset = (\<not> isRunning s \<and> elapsedTime s \<noteq> 0)"
| "sw_enabled s (SwFrame n) = framePending s"

subsection \<open>The tab container\<close>

text \<open>
  \<open>ClockApp\<close> renders only the active tab (lines 116--129): leaving a tab unmounts it, its
  cleanup clears its interval or frame, and coming back mounts it afresh.
\<close>

datatype clock_tab = ClockTab | AlarmTabId | StopwatchTabId | TimerTabId

record clock_app =
  activeTab :: clock_tab
  timerTab :: timer_tab
  stopwatchTab :: stopwatch

definition setActiveTab :: "clock_tab \<Rightarrow> clock_app \<Rightarrow> clock_app" where
  "setActiveTab tab c =
     (if tab = activeTab c then c
      else c\<lparr>activeTab := tab,
             timerTab := (if tab = TimerTabId then initial_timer else timerTab c\<lparr>timerInterval := False\<rparr>),
             stopwatchTab := (if tab = StopwatchTabId then initial_stopwatch
                              else stopwatchTab c\<lparr>framePending := False\<rparr>)\<rparr>)"

subsection \<open>Invariants\<close>

text \<open>An interval is pending exactly while the timer runs towards a set end time.\<close>

definition timer_inv :: "timer_tab \<Rightarrow> bool" where
  "timer_inv t = (timerInterval t \<longleftrightarrow> timerState t = TRunning \<and> truthy_num (targetEndTime t))"

text \<open>Laps are listed newest first, so their times never increase, and none exceeds the display.\<close>

definition sw_inv :: "stopwatch \<Rightarrow> bool" where
  "sw_inv s = (sorted_wrt (\<ge>) (laps s) \<and> list_all (\<lambda>l. l \<le> elapsedTime s) (laps s))"

subsection \<open>Lemmas\<close>

lemma timer_effect_inv:
  assumes "timer_deps t' = timer_deps t \<Longrightarrow> timer_inv t'"
  shows "timer_inv (timer_effect now t t')"
  using assms
  by (auto simp: timer_effect_def timer_inv_def Let_def updateTimer_def timer_deps_def truthy_num_def
      split: timer_state.splits option.splits if_splits)

lemma timer_step_inv: "timer_inv t \<Longrightarrow> timer_inv (timer_step now t e)"
  unfolding timer_step_def
  by (rule timer_effect_inv)
     (cases e; auto simp: timer_inv_def timer_deps_def timer_handleStart_def timer_handlePause_def
        timer_handleResume_def timer_handleCancel_def timer_handleDurationSelect_def updateTimer_def Let_def
        truthy_num_def split: option.splits if_splits)

text \<open>A tick ends the timer as soon as less than half a second is left.\<close>

lemma tick_finishes_early:
  assumes "timer_inv t" "timerState t = TRunning" "targetEndTime t = Some tg" "tg \<noteq> 0"
  shows "timerState (timer_step now t (TimerTick n)) = TStopped \<longleftrightarrow> tg - n < 500"
  using assms
  by (auto simp: timer_step_def timer_effect_def timer_inv_def truthy_num_def updateTimer_def round_div_1000_def
      timer_deps_def Let_def)

text \<open>
  Pausing uses the remaining seconds of the last tick: a one-minute timer started at
  1000 ms, ticked at 2000 ms and paused at 2999 ms resumes at 5000 ms with 59 s left, so it
  ends at 64000 ms after running 60999 ms.
\<close>

lemma pause_extends_timer:
  "timer_step 5000 (timer_step 2999 (timer_step 2000 (timer_step 1001 (timer_step 0 initial_timer (TimerSelect 1))
      (TimerStart 1000 1001)) (TimerTick 2000)) TimerPause) (TimerResume 5000)
   = \<lparr>durationMinutes = 1, remainingSeconds = Some 59, timerState = TRunning, targetEndTime = Some 64000,
      timerInterval = True\<rparr>"
  by (simp add: timer_step_def timer_effect_def timer_deps_def initial_timer_def timer_handleDurationSelect_def
      timer_handleStart_def timer_handlePause_def timer_handleResume_def updateTimer_def round_div_1000_def Let_def)

lemma sw_step_inv:
  assumes "sw_inv s" "\<And>n. e = SwFrame n \<Longrightarrow> lastTime s \<le> n"
  shows "sw_inv (sw_step now s e)"
  using assms
  by (cases e)
     (auto simp: sw_step_def sw_effect_def sw_inv_def sw_handleStart_def sw_handleStop_def sw_handleLap_def
        sw_handleReset_def sw_frame_def Let_def list_all_iff)

text \<open>Switching to another tab and back discards a running timer.\<close>

lemma leaving_timer_tab_resets:
  "tab \<noteq> TimerTabId \<Longrightarrow> activeTab c = TimerTabId \<Longrightarrow>
   timerTab (setActiveTab TimerTabId (setActiveTab tab c)) = initial_timer"
  by (simp add: setActiveTab_def)

end
