(* ===== verification/JSFloat.thy ===== *)
theory JSFloat
  imports WebDroid_Prelude JSNumber
begin

text \<open>
  JavaScript numbers with their non-finite value and their conversions from and to
  strings, as the calculator uses them: \<open>jsnum\<close> is a double or \<open>NaN\<close>;
  \<open>js_div\<close> is the correctly rounded quotient of two doubles; \<open>parseFloat\<close> reads the
  longest decimal literal at the start of a string (sign, digits, fraction, exponent) and
  rounds it once to the nearest double; \<open>double_toString\<close> is \<open>Number::toString\<close> of the
  ECMAScript specification: the shortest digit string \<open>s\<close> (of \<open>k \<le> 17\<close> digits) whose
  value \<open>s * 10^(n - k)\<close> rounds back to the number, the closest such one on a tie, laid out
  in positional or exponent notation by the position \<open>n\<close> of the decimal point.
  As in \<open>JSNumber\<close>, overflow is not modelled, so there are no infinities: the literal
  \<open>Infinity\<close> reads as \<open>NaN\<close> and a division by zero, which the calculator guards, gives
  \<open>NaN\<close>. White space skipped by \<open>parseFloat\<close> is the ASCII white space of \<open>js_ws\<close>.
\<close>

datatype jsnum = Num double | NaN

definition js_div :: "double \<Rightarrow> double \<Rightarrow> double" where
  "js_div x y = (let n = sgn (fst y) * fst x; d = \<bar>fst y\<bar>; k = snd x - snd y in
     if 0 \<le> k then js_div_int (n * 2 ^ nat k) d else js_div_int n (d * 2 ^ nat (- k)))"

text \<open>The double nearest to \<open>s * 10^p\<close>.\<close>

definition dec_double :: "int \<Rightarrow> int \<Rightarrow> double" where
  "dec_double s p = (if 0 \<le> p then fp_norm (s * 10 ^ nat p, 0) else js_div_int s (10 ^ nat (- p)))"

subsection \<open>\<open>parseFloat\<close>\<close>

definition split_sign :: "string \<Rightarrow> bool \<times> string" where
  "split_sign s = (case s of
     c # r \<Rightarrow> if c = CHR ''-'' then (True, r) else if c = CHR ''+'' then (False, r) else (False, s)
   | [] \<Rightarrow> (False, []))"

definition signed_digits :: "bool \<Rightarrow> string \<Rightarrow> int" where
  "signed_digits neg ds = (if neg then - int (digits_val ds) else int (digits_val ds))"

text \<open>The exponent part \<open>e[+-]digits\<close>; without a digit it is not part of the literal.\<close>

definition parse_exp :: "string \<Rightarrow> int" where
  "parse_exp r = (case r of
     c # r' \<Rightarrow>
       if c = CHR ''e'' \<or> c = CHR ''E'' then
         (case split_sign r' of (neg, r2) \<Rightarrow>
            let ds = takeWhile is_digit r2 in if ds = [] then 0 else signed_digits neg ds)
       else 0
   | [] \<Rightarrow> 0)"

definition parseFloat :: "string \<Rightarrow> jsnum" where
  "parseFloat str = (case split_sign (dropWhile js_ws str) of (neg, s2) \<Rightarrow>
     let ds1 = takeWhile is_digit s2; r1 = dropWhile is_digit s2;
         (ds2, r2) = (case r1 of
                        c # r \<Rightarrow> if c = CHR ''.'' then (takeWhile is_digit r, dropWhile is_digit r)
                                 else ([], r1)
                      | [] \<Rightarrow> ([], []));
         v = dec_double (int (digits_val (ds1 @ ds2))) (parse_exp r2 - int (length ds2))
     in if ds1 = [] \<and> ds2 = [] then NaN else Num (if neg then js_neg v else v))"

subsection \<open>\<open>Number::toString\<close>\<close>

fun dec_len :: "nat \<Rightarrow> int" where
  "dec_len n = (if n < 10 then 1 else dec_len (n div 10) + 1)"

declare dec_len.simps [simp del]

text \<open>
  For a positive double \<open>x = m * 2^e\<close>, \<open>dec_exp x\<close> is the \<open>d\<close> with
  \<open>10^(d - 1) \<le> x < 10^d\<close>: the number of digits of \<open>m * 2^e\<close>, or, for \<open>e < 0\<close>, of the
  integer \<open>x * 10^(-e) = m * 5^(-e)\<close> less \<open>-e\<close>.
\<close>

definition dec_exp :: "double \<Rightarrow> int" where
  "dec_exp x = (if 0 \<le> snd x then dec_len (nat (fst x * 2 ^ nat (snd x)))
                else dec_len (nat (fst x * 5 ^ nat (- snd x))) + snd x)"

text \<open>\<open>x * 10^j\<close> as a fraction of integers.\<close>

definition scaled :: "double \<Rightarrow> int \<Rightarrow> int \<times> int" where
  "scaled x j = (fst x * 2 ^ nat (snd x) * 10 ^ nat j, 2 ^ nat (- snd x) * 10 ^ nat (- j))"

definition closer :: "int \<times> int \<Rightarrow> int \<Rightarrow> int \<Rightarrow> int" where
  "closer q u t = (if \<bar>t * snd q - fst q\<bar> < \<bar>u * snd q - fst q\<bar>
                     \<or> \<bar>t * snd q - fst q\<bar> = \<bar>u * snd q - fst q\<bar> \<and> even t \<and> odd u then t else u)"

definition rounds_back :: "int \<Rightarrow> int \<Rightarrow> double \<Rightarrow> bool" where
  "rounds_back s p x \<longleftrightarrow> js_eq (dec_double s p) x"

text \<open>
  The \<open>k\<close>-digit candidates are the two neighbours \<open>lo\<close> and \<open>lo + 1\<close> of
  \<open>x * 10^(k - d)\<close> (only \<open>lo\<close> when it is exact); those that round back to \<open>x\<close>
  qualify and the closer one is chosen. The result is \<open>(s, n)\<close> with
  \<open>x \<approx> s * 10^(n - k)\<close>.
\<close>

definition dec_cand :: "double \<Rightarrow> nat \<Rightarrow> (int \<times> int) option" where
  "dec_cand x k = (let d = dec_exp x; q = scaled x (int k - d); lo = fst q div snd q;
      ok_lo = rounds_back lo (d - int k) x;
      ok_hi = (fst q mod snd q \<noteq> 0 \<and> rounds_back (lo + 1) (d - int k) x);
      b = (if ok_lo \<and> ok_hi then closer q lo (lo + 1) else if ok_lo then lo else lo + 1)
   in if ok_lo \<or> ok_hi then Some (if b = 10 ^ k then (10 ^ (k - 1), d + 1) else (b, d)) else None)"

fun dec_search :: "double \<Rightarrow> nat \<Rightarrow> nat \<Rightarrow> int \<times> int" where
  "dec_search x k 0 = (case dec_cand x k of
      Some r \<Rightarrow> r
    | None \<Rightarrow> (let q = scaled x (int k - dec_exp x) in (fst q div snd q, dec_exp x)))"
| "dec_search x k (Suc f) = (case dec_cand x k of Some r \<Rightarrow> r | None \<Rightarrow> dec_search x (Suc k) f)"

definition exp_suffix :: "int \<Rightarrow> string" where
  "exp_suffix e = CHR ''e'' # (if 0 < e then CHR ''+'' else CHR ''-'') # nat_digits (nat \<bar>e\<bar>)"

text \<open>The layout of the digits \<open>ds\<close> of \<open>s\<close> with the decimal point at position \<open>n\<close>.\<close>

definition format_dec :: "string \<Rightarrow> int \<Rightarrow> string" where
  "format_dec ds n = (let k = int (length ds) in
     if k \<le> n \<and> n \<le> 21 then ds @ replicate (nat (n - k)) (CHR ''0'')
     else if 0 < n \<and> n \<le> 21 then take (nat n) ds @ ''.'' @ drop (nat n) ds
     else if -6 < n \<and> n \<le> 0 then ''0.'' @ replicate (nat (- n)) (CHR ''0'') @ ds
     else if k = 1 then ds @ exp_suffix (n - 1)
     else take 1 ds @ ''.'' @ drop 1 ds @ exp_suffix (n - 1))"

definition dtoa_pos :: "double \<Rightarrow> string" where
  "dtoa_pos x = (case dec_search x 1 16 of (s, n) \<Rightarrow> format_dec (nat_digits (nat s)) n)"

definition double_toString :: "double \<Rightarrow> string" where
  "double_toString x =
     (if fst x = 0 then ''0'' else if fst x < 0 then CHR ''-'' # dtoa_pos (js_neg x) else dtoa_pos x)"

subsection \<open>Arithmetic on \<open>jsnum\<close>\<close>

primrec num_toString :: "jsnum \<Rightarrow> string" where
  "num_toString (Num x) = double_toString x"
| "num_toString NaN = ''NaN''"

fun num_add :: "jsnum \<Rightarrow> jsnum \<Rightarrow> jsnum" where
  "num_add (Num x) (Num y) = Num (js_add x y)"
| "num_add _ _ = NaN"

fun num_sub :: "jsnum \<Rightarrow> jsnum \<Rightarrow> jsnum" where
  "num_sub (Num x) (Num y) = Num (js_sub x y)"
| "num_sub _ _ = NaN"

fun num_mul :: "jsnum \<Rightarrow> jsnum \<Rightarrow> jsnum" where
  "num_mul (Num x) (Num y) = Num (js_mul x y)"
| "num_mul _ _ = NaN"

fun num_div :: "jsnum \<Rightarrow> jsnum \<Rightarrow> jsnum" where
  "num_div (Num x) (Num y) = (if fst y = 0 then NaN else Num (js_div x y))"
| "num_div _ _ = NaN"

primrec num_neg :: "jsnum \<Rightarrow> jsnum" where
  "num_neg (Num x) = Num (js_neg x)"
| "num_neg NaN = NaN"

text \<open>\<open>v === 0\<close>: false for \<open>NaN\<close>.\<close>

primrec num_is_zero :: "jsnum \<Rightarrow> bool" where
  "num_is_zero (Num x) = (dval x = 0)"
| "num_is_zero NaN = False"

lemma js_div_nonneg: "0 \<le> fst x \<Longrightarrow> 0 < fst y \<Longrightarrow> 0 \<le> fst (js_div x y)"
  by (simp add: js_div_def Let_def js_div_int_nonneg)

subsection \<open>Evaluation rules\<close>

lemma dec_len_0 [simp]: "dec_len 0 = 1"
  by (simp add: dec_len.simps)

lemma dec_len_Suc_0 [simp]: "dec_len (Suc 0) = 1"
  by (simp add: dec_len.simps)

lemma dec_len_numeral [simp]:
  "dec_len (numeral n) = (if numeral n < (10::nat) then 1 else dec_len (numeral n div 10) + 1)"
  by (rule dec_len.simps)

lemma dec_search_numeral [simp]:
  "dec_search x k (numeral n) =
     (case dec_cand x k of Some r \<Rightarrow> r | None \<Rightarrow> dec_search x (Suc k) (pred_numeral n))"
  by (simp add: numeral_eq_Suc)

text \<open>
  Concrete conversions evaluate by \<open>simp add: float_eval tostr_eval Let_def cong: float_cong\<close>:
  the congruences evaluate a bound value or a case scrutinee before the body, so that
  \<open>dec_search\<close> stops at the first digit count that qualifies.
\<close>

lemmas float_eval = fp_eval js_div_def dec_double_def parseFloat_def split_sign_def parse_exp_def
  signed_digits_def digits_val_def digit_val_def is_digit_def js_ws_def

lemmas tostr_eval = double_toString_def dtoa_pos_def dec_cand_def dec_exp_def scaled_def
  closer_def format_dec_def exp_suffix_def rounds_back_def dval_def

lemmas float_cong = let_weak_cong option.case_cong_weak

subsection \<open>Shape of the printed number\<close>

definition count_dots :: "string \<Rightarrow> nat" where
  "count_dots s = length (filter (\<lambda>ch. ch = CHR ''.'') s)"

lemma count_dots_append [simp]: "count_dots (xs @ ys) = count_dots xs + count_dots ys"
  by (simp add: count_dots_def)

lemma count_dots_Cons [simp]: "count_dots (c # s) = (if c = CHR ''.'' then Suc (count_dots s) else count_dots s)"
  by (simp add: count_dots_def)

lemma count_dots_Nil [simp]: "count_dots [] = 0"
  by (simp add: count_dots_def)

lemma count_dots_zero_iff: "count_dots s = 0 \<longleftrightarrow> CHR ''.'' \<notin> set s"
  by (auto simp: count_dots_def filter_empty_conv)

lemma nat_digits_no_dot: "count_dots (nat_digits n) = 0"
  using nat_digits_all_digits [of n]
  by (auto simp: count_dots_zero_iff list_all_iff is_digit_def)

lemma count_dots_take_drop:
  "count_dots s = 0 \<Longrightarrow> count_dots (take i s) = 0 \<and> count_dots (drop i s) = 0"
  by (auto simp: count_dots_zero_iff dest: in_set_takeD in_set_dropD)

lemma exp_suffix_no_dot [simp]: "count_dots (exp_suffix e) = 0"
  by (simp add: exp_suffix_def nat_digits_no_dot)

lemma format_dec_one_dot:
  assumes "count_dots ds = 0"
  shows "count_dots (format_dec ds n) \<le> 1"
proof -
  have "count_dots (take i ds) = 0" "count_dots (drop i ds) = 0" for i
    using count_dots_take_drop [OF assms] by auto
  moreover have "count_dots (replicate m (CHR ''0'')) = 0" for m
    by (simp add: count_dots_def)
  ultimately show ?thesis using assms by (simp add: format_dec_def Let_def)
qed

lemma format_dec_nonempty: "ds \<noteq> [] \<Longrightarrow> format_dec ds n \<noteq> []"
  by (simp add: format_dec_def Let_def)

text \<open>\<open>String(x)\<close> is never empty and holds at most one decimal point.\<close>

lemma num_toString_shape: "num_toString v \<noteq> [] \<and> count_dots (num_toString v) \<le> 1"
proof (cases v)
  case (Num x)
  have "dtoa_pos y \<noteq> [] \<and> count_dots (dtoa_pos y) \<le> 1" for y
    using format_dec_one_dot [OF nat_digits_no_dot] format_dec_nonempty [OF nat_digits_nonempty]
    by (simp add: dtoa_pos_def split: prod.split)
  then show ?thesis by (simp add: Num double_toString_def)
qed simp

end
