(* ===== verification/Calculator.thy ===== *)
theory Calculator
  imports JSFloat
begin

text \<open>
  The calculator app (\<open>src/WebDroid-OS/src/apps/CalculatorApp.tsx\<close>). Its five pieces of
  React state are the record \<open>calc\<close>; every button click is a discrete event whose handler
  reads the state of the current render and sets new values, so a handler is a function on
  \<open>calc\<close> and a sequence of clicks is a fold (\<open>calc_run\<close>). Numbers are JavaScript numbers
  (\<open>jsnum\<close> of \<open>JSFloat\<close>): the display is read with \<open>parseFloat\<close> and written with
  \<open>String(...)\<close>. The click sounds are not modelled.
\<close>

record calc =
  displayValue :: string
  operand1 :: "jsnum option"
  operator :: "string option"
  isWaitingForOperand2 :: bool
  operationDisplay :: string

definition initial_calc :: calc where
  "initial_calc = \<lparr>displayValue = ''0'', operand1 = None, operator = None,
     isWaitingForOperand2 = False, operationDisplay = ''''\<rparr>"

definition calculate :: "jsnum \<Rightarrow> jsnum \<Rightarrow> string \<Rightarrow> jsnum" where
  "calculate val1 val2 op =
     (if op = ''+'' then num_add val1 val2
      else if op = ''-'' then num_sub val1 val2
      else if op = ''*'' then num_mul val1 val2
      else if op = ''/'' then (if num_is_zero val2 then Num (0, 0) else num_div val1 val2)
      else val2)"

definition handleClearClick :: "calc \<Rightarrow> calc" where
  "handleClearClick c = c\<lparr>displayValue := ''0'', operand1 := None, operator := None,
     isWaitingForOperand2 := False, operationDisplay := ''''\<rparr>"

definition handleToggleSignClick :: "calc \<Rightarrow> calc" where
  "handleToggleSignClick c =
     c\<lparr>displayValue := num_toString (num_neg (parseFloat (displayValue c)))\<rparr>"

definition handlePercentClick :: "calc \<Rightarrow> calc" where
  "handlePercentClick c =
     c\<lparr>displayValue := num_toString (num_div (parseFloat (displayValue c)) (Num (js_of_int 100)))\<rparr>"

definition handleEqualsClick :: "calc \<Rightarrow> calc" where
  "handleEqualsClick c =
     (if operand1 c = None \<or> \<not> truthy (operator c) then c
      else let o1 = the (operand1 c); op = the (operator c);
               inputValue = parseFloat (displayValue c);
               result = calculate o1 inputValue op
           in c\<lparr>operationDisplay :=
                  num_toString o1 @ '' '' @ op @ '' '' @ num_toString inputValue @ '' ='',
                displayValue := num_toString result, operand1 := None, operator := None,
                isWaitingForOperand2 := False\<rparr>)"

definition buttonValues :: "string list" where
  "buttonValues = [''C'', ''+/-'', ''%'', ''/'', ''7'', ''8'', ''9'', ''*'', ''4'', ''5'', ''6'', ''-'',
     ''1'', ''2'', ''3'', ''+'', ''0'', ''.'', ''='']"

definition handleNumberClick :: "string \<Rightarrow> calc \<Rightarrow> calc" where
  "handleNumberClick digit c =
     (if isWaitingForOperand2 c then c\<lparr>displayValue := digit, isWaitingForOperand2 := False\<rparr>
      else if displayValue c = ''0'' then
        c\<lparr>displayValue := (if digit = ''.'' then ''0.'' else digit)\<rparr>
      else if digit = ''.'' \<and> CHR ''.'' \<in> set (displayValue c) then c
      else c\<lparr>displayValue := displayValue c @ digit\<rparr>)"

definition handleOperatorClick :: "string \<Rightarrow> calc \<Rightarrow> calc" where
  "handleOperatorClick nextOperator c =
     (let inputValue = parseFloat (displayValue c) in
      if operand1 c = None then
        c\<lparr>operand1 := Some inputValue, operator := Some nextOperator,
          isWaitingForOperand2 := True,
          operationDisplay := num_toString inputValue @ '' '' @ nextOperator\<rparr>
      else
        (let c1 = (if truthy (operator c) then
                     (let result = calculate (the (operand1 c)) inputValue (the (operator c)) in
                      c\<lparr>operationDisplay := num_toString result @ '' '' @ nextOperator,
                        displayValue := num_toString result, operand1 := Some result\<rparr>)
                   else c)
         in c1\<lparr>operator := Some nextOperator, isWaitingForOperand2 := True\<rparr>))"

text \<open>\<open>/[0-9.]/.test(value)\<close>: the value holds a digit or a point somewhere.\<close>

definition number_button :: "string \<Rightarrow> bool" where
  "number_button v \<longleftrightarrow> list_ex (\<lambda>ch. is_digit ch \<or> ch = CHR ''.'') v"

definition calc_click :: "string \<Rightarrow> calc \<Rightarrow> calc" where
  "calc_click value c =
     (if number_button value then handleNumberClick value c
      else if value \<in> set [''+'', ''-'', ''*'', ''/''] then handleOperatorClick value c
      else if value = ''='' then handleEqualsClick c
      else if value = ''C'' then handleClearClick c
      else if value = ''+/-'' then handleToggleSignClick c
      else if value = ''%'' then handlePercentClick c
      else c)"

definition calc_run :: "string list \<Rightarrow> calc \<Rightarrow> calc" where
  "calc_run vs c = foldl (\<lambda>c v. calc_click v c) c vs"

text \<open>The clicks that type a string of digits, one button per character.\<close>

definition keys :: "string \<Rightarrow> string list" where
  "keys s = map (\<lambda>ch. [ch]) s"

definition arith_ops :: "string list" where
  "arith_ops = [''+'', ''-'', ''*'', ''/'']"

text \<open>A number as the user types it: digits, no leading zero unless it is \<open>0\<close> itself.\<close>

definition numeral_string :: "string \<Rightarrow> bool" where
  "numeral_string s \<longleftrightarrow> s \<noteq> [] \<and> list_all is_digit s \<and> (hd s = CHR ''0'' \<longrightarrow> s = ''0'')"

definition calc_inv :: "calc \<Rightarrow> bool" where
  "calc_inv c \<longleftrightarrow> displayValue c \<noteq> [] \<and> count_dots (displayValue c) \<le> 1"

subsection \<open>Clicks and runs\<close>

lemma calc_run_Nil [simp]: "calc_run [] c = c"
  by (simp add: calc_run_def)

lemma calc_run_Cons [simp]: "calc_run (v # vs) c = calc_run vs (calc_click v c)"
  by (simp add: calc_run_def)

lemma calc_run_append [simp]: "calc_run (vs @ ws) c = calc_run ws (calc_run vs c)"
  by (simp add: calc_run_def)

lemma keys_simps [simp]: "keys [] = []" "keys (d # ds) = [d] # keys ds"
  by (simp_all add: keys_def)

lemma digit_not_point: "is_digit d \<Longrightarrow> d \<noteq> CHR ''.''"
  by (auto simp: is_digit_def)

lemma click_digit: "is_digit d \<Longrightarrow> calc_click [d] c = handleNumberClick [d] c"
  by (simp add: calc_click_def number_button_def)

lemma click_point: "calc_click ''.'' c = handleNumberClick ''.'' c"
  by (simp add: calc_click_def number_button_def)

lemma click_op: "op \<in> set arith_ops \<Longrightarrow> calc_click op c = handleOperatorClick op c"
  by (auto simp: calc_click_def number_button_def arith_ops_def is_digit_def)

lemma click_equals: "calc_click ''='' c = handleEqualsClick c"
  by (simp add: calc_click_def number_button_def is_digit_def)

lemma arith_op_nonempty: "op \<in> set arith_ops \<Longrightarrow> op \<noteq> []"
  by (auto simp: arith_ops_def)

lemma not_waiting_update: "\<not> isWaitingForOperand2 c \<Longrightarrow> c\<lparr>isWaitingForOperand2 := False\<rparr> = c"
  by (cases c) simp

lemmas calc_clicks = click_digit click_point click_op click_equals

text \<open>Digits typed after a number other than \<open>0\<close> are appended to it.\<close>

lemma run_append_digits:
  assumes "\<not> isWaitingForOperand2 c" "displayValue c \<noteq> ''0''" "displayValue c \<noteq> []"
    and "list_all is_digit ds"
  shows "calc_run (keys ds) c = c\<lparr>displayValue := displayValue c @ ds\<rparr>"
  using assms
proof (induction ds arbitrary: c)
  case (Cons d ds)
  let ?c1 = "c\<lparr>displayValue := displayValue c @ [d]\<rparr>"
  have "calc_click [d] c = ?c1"
    using Cons.prems digit_not_point [of d] by (simp add: click_digit handleNumberClick_def)
  moreover have "displayValue ?c1 \<noteq> ''0''"
    using Cons.prems(3) by (cases "displayValue c") auto
  ultimately show ?case using Cons.IH [of ?c1] Cons.prems by simp
qed simp

text \<open>A number typed at a fresh operand (display \<open>0\<close> or waiting) is displayed as typed.\<close>

lemma run_enter_number:
  assumes "numeral_string a" "isWaitingForOperand2 c \<or> displayValue c = ''0''"
  shows "calc_run (keys a) c = c\<lparr>displayValue := a, isWaitingForOperand2 := False\<rparr>"
proof -
  obtain d r where a: "a = d # r"
    using assms(1) by (cases a) (auto simp: numeral_string_def)
  have d: "is_digit d" "list_all is_digit r" "d = CHR ''0'' \<Longrightarrow> r = []"
    using assms(1) by (auto simp: numeral_string_def a)
  let ?c1 = "c\<lparr>displayValue := [d], isWaitingForOperand2 := False\<rparr>"
  have c1: "calc_click [d] c = ?c1"
    using assms(2) digit_not_point [OF d(1)]
    by (cases "isWaitingForOperand2 c")
       (auto simp: click_digit [OF d(1)] handleNumberClick_def not_waiting_update)
  show ?thesis
  proof (cases "d = CHR ''0''")
    case True then show ?thesis using c1 d(3) by (simp add: a)
  next
    case False
    have "calc_run (keys r) ?c1 = ?c1\<lparr>displayValue := [d] @ r\<rparr>"
      using run_append_digits [of ?c1 r] False d(2) by simp
    then show ?thesis using c1 by (simp add: a)
  qed
qed

lemma parseFloat_digits:
  assumes "ds \<noteq> []" "list_all is_digit ds"
  shows "parseFloat ds = Num (js_of_int (int (digits_val ds)))"
proof -
  obtain d r where ds: "ds = d # r" using assms(1) by (cases ds) auto
  have d: "\<not> js_ws d" "d \<noteq> CHR ''-''" "d \<noteq> CHR ''+''"
    using assms(2) by (auto simp: ds is_digit_def js_ws_def)
  have "takeWhile is_digit ds = ds" "dropWhile is_digit ds = []"
    using assms(2) by (simp_all add: takeWhile_all list_all_iff)
  then show ?thesis
    using d by (simp add: parseFloat_def split_sign_def parse_exp_def dec_double_def js_of_int_def ds)
qed

lemma numeral_string_parse:
  "numeral_string a \<Longrightarrow> parseFloat a = Num (js_of_int (int (digits_val a)))"
  by (simp add: numeral_string_def parseFloat_digits)

text \<open>The first operand and an operator from a fresh calculator.\<close>

lemma run_first_operand:
  assumes "numeral_string a" "op \<in> set arith_ops"
  shows "calc_run (keys a @ [op]) initial_calc =
    initial_calc\<lparr>displayValue := a, operand1 := Some (parseFloat a), operator := Some op,
      isWaitingForOperand2 := True, operationDisplay := num_toString (parseFloat a) @ '' '' @ op\<rparr>"
proof -
  have s1: "calc_run (keys a) initial_calc = initial_calc\<lparr>displayValue := a\<rparr>"
    using run_enter_number [OF assms(1), of initial_calc] by (simp add: initial_calc_def)
  have "calc_run (keys a @ [op]) initial_calc = calc_click op (initial_calc\<lparr>displayValue := a\<rparr>)"
    by (simp only: calc_run_append calc_run_Cons calc_run_Nil s1)
  then show ?thesis
    using assms(2) by (simp add: click_op handleOperatorClick_def initial_calc_def Let_def)
qed

text \<open>The sequence \<open>a op b =\<close> from a fresh calculator.\<close>

lemma run_operands:
  assumes "numeral_string a" "numeral_string b" "op \<in> set arith_ops"
  shows "calc_run (keys a @ [op] @ keys b @ [''='']) initial_calc =
    handleEqualsClick (initial_calc\<lparr>displayValue := b, operand1 := Some (parseFloat a),
      operator := Some op, operationDisplay := num_toString (parseFloat a) @ '' '' @ op\<rparr>)"
proof -
  let ?c2 = "initial_calc\<lparr>displayValue := a, operand1 := Some (parseFloat a), operator := Some op,
      isWaitingForOperand2 := True, operationDisplay := num_toString (parseFloat a) @ '' '' @ op\<rparr>"
  have s2: "calc_run (keys a @ [op]) initial_calc = ?c2"
    using run_first_operand [OF assms(1,3)] .
  have s3: "calc_run (keys b) ?c2 = ?c2\<lparr>displayValue := b, isWaitingForOperand2 := False\<rparr>"
    using run_enter_number [OF assms(2)] by simp
  have "calc_run (keys a @ [op] @ keys b @ [''='']) initial_calc =
      calc_run (keys b @ [''='']) (calc_run (keys a @ [op]) initial_calc)"
    by (simp add: calc_run_def)
  also have "\<dots> = handleEqualsClick (?c2\<lparr>displayValue := b, isWaitingForOperand2 := False\<rparr>)"
    unfolding s2 unfolding calc_run_append s3 by (simp add: click_equals)
  finally show ?thesis by (simp add: initial_calc_def)
qed

lemma run_binary:
  assumes "numeral_string a" "numeral_string b" "op \<in> set arith_ops"
  shows "displayValue (calc_run (keys a @ [op] @ keys b @ [''='']) initial_calc) =
      num_toString (calculate (parseFloat a) (parseFloat b) op)
    \<and> operationDisplay (calc_run (keys a @ [op] @ keys b @ [''='']) initial_calc) =
      num_toString (parseFloat a) @ '' '' @ op @ '' '' @ num_toString (parseFloat b) @ '' =''"
  using run_operands [OF assms] arith_op_nonempty [OF assms(3)]
  by (simp add: handleEqualsClick_def initial_calc_def Let_def)

lemma parseFloat_point: "parseFloat ''.'' = NaN"
  by (simp add: parseFloat_def split_sign_def js_ws_def is_digit_def)

lemma calculate_NaN: "calculate x NaN op = NaN"
  by (cases x) (simp_all add: calculate_def)

subsection \<open>The display invariant\<close>

lemma inv_number_click:
  assumes "calc_inv c"
  shows "calc_inv (handleNumberClick [ch] c)"
proof -
  have "count_dots (displayValue c) = 0" if "CHR ''.'' \<notin> set (displayValue c)"
    using that by (simp add: count_dots_zero_iff)
  then show ?thesis using assms by (auto simp: handleNumberClick_def calc_inv_def)
qed

lemma inv_set_display: "calc_inv (c\<lparr>displayValue := num_toString v\<rparr>)"
  using num_toString_shape [of v] by (simp add: calc_inv_def)

lemma inv_operator_click: "calc_inv c \<Longrightarrow> calc_inv (handleOperatorClick op c)"
  using num_toString_shape by (auto simp: handleOperatorClick_def calc_inv_def Let_def)

lemma inv_equals_click: "calc_inv c \<Longrightarrow> calc_inv (handleEqualsClick c)"
  using num_toString_shape by (auto simp: handleEqualsClick_def calc_inv_def Let_def)

lemma button_kinds:
  assumes "v \<in> set buttonValues"
  shows "(length v = 1 \<and> number_button v) \<or> v \<in> set arith_ops \<or> v \<in> {''='', ''C'', ''+/-'', ''%''}"
  using assms unfolding buttonValues_def
  by (simp only: list.set insert_iff empty_iff; elim disjE;
      simp add: arith_ops_def number_button_def is_digit_def)

lemma calc_inv_click:
  assumes "v \<in> set buttonValues" "calc_inv c"
  shows "calc_inv (calc_click v c)"
  using button_kinds [OF assms(1)]
proof (elim disjE conjE)
  assume "length v = 1" "number_button v"
  moreover from \<open>length v = 1\<close> obtain ch where "v = [ch]"
    by (cases v) auto
  ultimately show ?thesis using inv_number_click [OF assms(2)] by (simp add: calc_click_def)
next
  assume "v \<in> set arith_ops"
  then show ?thesis using inv_operator_click [OF assms(2)] by (simp add: click_op)
next
  assume "v \<in> {''='', ''C'', ''+/-'', ''%''}"
  then show ?thesis
    using inv_equals_click [OF assms(2)] inv_set_display
    by (auto simp: calc_click_def number_button_def is_digit_def handleClearClick_def
        handleToggleSignClick_def handlePercentClick_def calc_inv_def)
qed

subsection \<open>Properties\<close>

text \<open>
  C18: typing a number, an operator, a number and \<open>=\<close> on a fresh calculator displays
  \<open>String(calculate(a, b, op))\<close> of the two typed integers (each rounded to a double).
\<close>

theorem calc_computes:
  assumes "numeral_string a" "numeral_string b" "op \<in> set arith_ops"
  shows "displayValue (calc_run (keys a @ [op] @ keys b @ [''='']) initial_calc) =
    num_toString (calculate (Num (js_of_int (int (digits_val a)))) (Num (js_of_int (int (digits_val b)))) op)"
  using run_binary [OF assms] numeral_string_parse [OF assms(1)] numeral_string_parse [OF assms(2)]
  by simp

text \<open>
  C19: a second operator typed right after the first does not replace it: the pending
  operation is applied to the displayed operand twice (\<open>5 + -\<close> shows \<open>10\<close>).
\<close>

theorem operator_change_applies_pending:
  assumes "numeral_string a" "op1 \<in> set arith_ops" "op2 \<in> set arith_ops"
  shows "calc_run (keys a @ [op1, op2]) initial_calc =
    initial_calc\<lparr>displayValue := num_toString (calculate (parseFloat a) (parseFloat a) op1),
      operand1 := Some (calculate (parseFloat a) (parseFloat a) op1), operator := Some op2,
      isWaitingForOperand2 := True,
      operationDisplay := num_toString (calculate (parseFloat a) (parseFloat a) op1) @ '' '' @ op2\<rparr>"
proof -
  have "calc_run (keys a @ [op1, op2]) initial_calc = calc_click op2 (calc_run (keys a @ [op1]) initial_calc)"
    by (simp add: calc_run_def)
  then show ?thesis
    using run_first_operand [OF assms(1,2)] arith_op_nonempty [OF assms(2)]
    by (simp add: click_op [OF assms(3)] handleOperatorClick_def initial_calc_def Let_def)
qed

text \<open>
  C20: a point typed as the first key of the second operand displays \<open>.\<close>, which
  \<open>parseFloat\<close> reads as \<open>NaN\<close>: the result of \<open>=\<close> is \<open>NaN\<close>, whatever the operator.
\<close>

theorem lone_point_gives_NaN:
  assumes "numeral_string a" "op \<in> set arith_ops"
  shows "displayValue (calc_run (keys a @ [op, ''.'', ''='']) initial_calc) = ''NaN''"
proof -
  have "calc_run (keys a @ [op, ''.'', ''='']) initial_calc =
      calc_click ''='' (calc_click ''.'' (calc_run (keys a @ [op]) initial_calc))"
    by (simp add: calc_run_def)
  then show ?thesis
    using run_first_operand [OF assms] arith_op_nonempty [OF assms(2)]
    by (simp add: click_point click_equals handleNumberClick_def handleEqualsClick_def
        initial_calc_def Let_def parseFloat_point calculate_NaN)
qed

text \<open>
  C21: a digit typed after a result is appended to the result, which \<open>=\<close> leaves as the
  display without waiting for a new operand (\<open>12 + 30 = 5\<close> shows \<open>425\<close>).
\<close>

theorem digit_after_result_appends:
  assumes "numeral_string a" "numeral_string b" "op \<in> set arith_ops" "is_digit d"
    and "num_toString (calculate (parseFloat a) (parseFloat b) op) \<noteq> ''0''"
  shows "displayValue (calc_run (keys a @ [op] @ keys b @ [''='', [d]]) initial_calc) =
    num_toString (calculate (parseFloat a) (parseFloat b) op) @ [d]"
proof -
  have "calc_run (keys a @ [op] @ keys b @ [''='', [d]]) initial_calc =
      calc_click [d] (calc_run (keys a @ [op] @ keys b @ [''='']) initial_calc)"
    by (simp add: calc_run_def)
  then show ?thesis
    using run_operands [OF assms(1-3)] assms(5) digit_not_point [OF assms(4)]
      arith_op_nonempty [OF assms(3)]
    by (simp add: click_digit [OF assms(4)] handleNumberClick_def handleEqualsClick_def
        initial_calc_def Let_def)
qed

text \<open>
  Division by zero is caught: \<open>a / 0 =\<close> displays \<open>0\<close> and the operation line
  shows the division.
\<close>

theorem divide_by_zero_shows_zero:
  assumes "numeral_string a"
  shows "displayValue (calc_run (keys a @ [''/'', ''0'', ''='']) initial_calc) = ''0'' \<and>
    operationDisplay (calc_run (keys a @ [''/'', ''0'', ''='']) initial_calc) =
      num_toString (parseFloat a) @ '' / 0 =''"
proof -
  have z: "numeral_string ''0''" "''/'' \<in> set arith_ops"
    by (simp_all add: numeral_string_def is_digit_def arith_ops_def)
  have p0: "parseFloat ''0'' = Num (0, 0)"
    using numeral_string_parse [OF z(1)] by (simp add: digits_val_def digit_val_def js_of_int_def fp_eval)
  show ?thesis
    using run_binary [OF assms z(1) z(2)]
    by (simp add: p0 calculate_def double_toString_def)
qed

text \<open>
  C22: whatever buttons are clicked, the display is never empty and holds at most one
  decimal point.
\<close>

theorem display_one_point:
  "list_all (\<lambda>v. v \<in> set buttonValues) vs \<Longrightarrow> calc_inv (calc_run vs initial_calc)"
proof (induction vs rule: rev_induct)
  case Nil then show ?case by (simp add: calc_inv_def initial_calc_def)
next
  case (snoc v vs)
  then show ?case by (simp add: calc_inv_click)
qed

subsection \<open>Witnesses\<close>

lemmas calc_num_eval = calculate_def float_eval tostr_eval Let_def

lemma calc_computes_witness:
  "numeral_string ''12'' \<and> numeral_string ''30'' \<and> ''+'' \<in> set arith_ops \<and>
   displayValue (calc_run (keys ''12'' @ [''+''] @ keys ''30'' @ [''='']) initial_calc) = ''42''"
proof -
  have h: "numeral_string ''12''" "numeral_string ''30''" "''+'' \<in> set arith_ops"
    by (simp_all add: numeral_string_def is_digit_def arith_ops_def)
  have "num_toString (calculate (Num (js_of_int (int (digits_val ''12''))))
      (Num (js_of_int (int (digits_val ''30'')))) ''+'') = ''42''"
    by (simp add: calc_num_eval cong: float_cong)
  with calc_computes [OF h] h show ?thesis by simp
qed

lemma operator_change_applies_pending_witness:
  "numeral_string ''5'' \<and> ''+'' \<in> set arith_ops \<and> ''-'' \<in> set arith_ops \<and>
   displayValue (calc_run (keys ''5'' @ [''+'', ''-'']) initial_calc) = ''10''"
proof -
  have h: "numeral_string ''5''" "''+'' \<in> set arith_ops" "''-'' \<in> set arith_ops"
    by (simp_all add: numeral_string_def is_digit_def arith_ops_def)
  have "num_toString (calculate (parseFloat ''5'') (parseFloat ''5'') ''+'') = ''10''"
    by (simp add: numeral_string_parse [OF h(1)] calc_num_eval cong: float_cong)
  with operator_change_applies_pending [OF h] h show ?thesis by simp
qed

lemma lone_point_gives_NaN_witness:
  "numeral_string ''7'' \<and> ''*'' \<in> set arith_ops \<and>
   displayValue (calc_run (keys ''7'' @ [''*'', ''.'', ''='']) initial_calc) = ''NaN''"
proof -
  have h: "numeral_string ''7''" "''*'' \<in> set arith_ops"
    by (simp_all add: numeral_string_def is_digit_def arith_ops_def)
  from lone_point_gives_NaN [OF h] h show ?thesis by simp
qed

lemma digit_after_result_appends_witness:
  "numeral_string ''12'' \<and> numeral_string ''30'' \<and> ''+'' \<in> set arith_ops \<and> is_digit (CHR ''5'') \<and>
   num_toString (calculate (parseFloat ''12'') (parseFloat ''30'') ''+'') \<noteq> ''0'' \<and>
   displayValue (calc_run (keys ''12'' @ [''+''] @ keys ''30'' @ [''='', ''5'']) initial_calc) = ''425''"
proof -
  have h: "numeral_string ''12''" "numeral_string ''30''" "''+'' \<in> set arith_ops"
      "is_digit (CHR ''5'')"
    by (simp_all add: numeral_string_def is_digit_def arith_ops_def)
  have r: "num_toString (calculate (parseFloat ''12'') (parseFloat ''30'') ''+'') = ''42''"
    by (simp add: numeral_string_parse [OF h(1)] numeral_string_parse [OF h(2)] calc_num_eval
        cong: float_cong)
  from digit_after_result_appends [OF h] r h show ?thesis by simp
qed

lemma divide_by_zero_shows_zero_witness:
  "numeral_string ''8'' \<and> displayValue (calc_run (keys ''8'' @ [''/'', ''0'', ''='']) initial_calc) = ''0''"
proof -
  have h: "numeral_string ''8''" by (simp add: numeral_string_def is_digit_def)
  from divide_by_zero_shows_zero [OF h] h show ?thesis by simp
qed

lemma display_one_point_witness:
  "list_all (\<lambda>v. v \<in> set buttonValues) [''1'', ''.'', ''.'', ''5'', ''/'', ''%'', ''+/-''] \<and>
   calc_inv (calc_run [''1'', ''.'', ''.'', ''5'', ''/'', ''%'', ''+/-''] initial_calc)"
proof -
  have h: "list_all (\<lambda>v. v \<in> set buttonValues) [''1'', ''.'', ''.'', ''5'', ''/'', ''%'', ''+/-'']"
    by (simp add: buttonValues_def)
  from display_one_point [OF h] h show ?thesis by simp
qed

end
