(* ===== verification/VolumeButtons.thy ===== *)
theory VolumeButtons
  imports Settings
begin

text \<open>
  The volume buttons of \<open>src/WebDroid-OS/src/components/DeviceButtons.tsx\<close> (lines 26--82
  and the button wiring, lines 109--180) composed with \<open>handleVolumeUp\<close> /
  \<open>handleVolumeDown\<close> of \<open>src/src/components/DeviceFrame.tsx\<close> (lines 272--283) and the
  settings context of theory \<open>Settings\<close>. A press (\<open>onMouseDown\<close>) changes the volume
  once and schedules a 400 ms delay, after which a 150 ms interval repeats the change;
  a release (\<open>onMouseUp\<close>, \<open>onMouseLeave\<close>) clears both; the browser's click after a
  press and release runs \<open>onClick\<close>, which changes the volume again.

  The timer callbacks are closures of the render in which the press ran: they call that
  render's \<open>onVolumeUp\<close>, hence that render's \<open>increaseVolume\<close>, which reads the
  \<open>volumeLevel\<close> and \<open>isMuted\<close> of that render. \<open>setVolumeLevel_r r\<close> and
  \<open>increaseVolume_r r\<close> are the context's functions as closures of a render whose state
  is \<open>r\<close>; applied to the current render they are \<open>setVolumeLevel\<close> and
  \<open>increaseVolume\<close>. The volume UI timer is a ref, read at call time. Timer ids come
  from the one counter of the window, \<open>nextTimerId\<close> of the context's environment.
  The click sounds are not modelled.
\<close>

datatype vol_dir = VolUp | VolDown

text \<open>The two callbacks the buttons schedule, with the render state their closure holds.\<close>

datatype btn_timer = InitialDelay vol_dir settings | RepeatTick vol_dir settings

record vol_device =
  senv :: settings_env
  bootOff :: bool
  volumeInitialDelayRef :: "nat option"
  volumeTimerRef :: "nat option"
  btimers :: "(nat \<times> btn_timer) list"

definition setVolumeLevel_r :: "settings \<Rightarrow> double \<Rightarrow> settings_env \<Rightarrow> settings_env" where
  "setVolumeLevel_r r level env =
     (let newLevel = js_max (0, 0) (js_min (1, 0) level);
          env1 = update_st (\<lambda>s. s\<lparr>volumeLevel := newLevel\<rparr>) env;
          env2 = (if js_eq newLevel (0, 0) then update_st (\<lambda>s. s\<lparr>isMuted := True\<rparr>) env1
                  else if isMuted r \<and> js_less (0, 0) newLevel
                  then update_st (\<lambda>s. s\<lparr>isMuted := False\<rparr>) env1 else env1)
      in setMasterVolume (volume_percent newLevel) (js_eq newLevel (0, 0) \<or> isMuted r) env2)"

definition increaseVolume_r :: "settings \<Rightarrow> settings_env \<Rightarrow> settings_env" where
  "increaseVolume_r r env = triggerVolumeUIShow (setVolumeLevel_r r (js_add (volumeLevel r) tenth) env)"

definition decreaseVolume_r :: "settings \<Rightarrow> settings_env \<Rightarrow> settings_env" where
  "decreaseVolume_r r env = triggerVolumeUIShow (setVolumeLevel_r r (js_sub (volumeLevel r) tenth) env)"

text \<open>
  \<open>onVolumeUp\<close> / \<open>onVolumeDown\<close> of the render with state \<open>r\<close>: DeviceFrame's handler,
  which returns when the device is off and otherwise calls the context's function.
\<close>

definition handleVolume :: "vol_dir \<Rightarrow> bool \<Rightarrow> settings \<Rightarrow> settings_env \<Rightarrow> settings_env" where
  "handleVolume dir off r env =
     (if off then env else if dir = VolUp then increaseVolume_r r env else decreaseVolume_r r env)"

definition clear_btn_timer :: "nat option \<Rightarrow> vol_device \<Rightarrow> vol_device" where
  "clear_btn_timer ref d =
     (case ref of None \<Rightarrow> d | Some i \<Rightarrow> d\<lparr>btimers := filter (\<lambda>p. fst p \<noteq> i) (btimers d)\<rparr>)"

definition stopVolumeChange :: "vol_device \<Rightarrow> vol_device" where
  "stopVolumeChange d =
     (let d1 = (if volumeInitialDelayRef d \<noteq> None
                then (clear_btn_timer (volumeInitialDelayRef d) d)\<lparr>volumeInitialDelayRef := None\<rparr>
                else d)
      in if volumeTimerRef d1 \<noteq> None
         then (clear_btn_timer (volumeTimerRef d1) d1)\<lparr>volumeTimerRef := None\<rparr>
         else d1)"

text \<open>\<open>window.setTimeout\<close> / \<open>window.setInterval\<close>: the next id of the window's counter.\<close>

definition add_btn_timer :: "btn_timer \<Rightarrow> vol_device \<Rightarrow> nat \<times> vol_device" where
  "add_btn_timer t d =
     (let i = nextTimerId (senv d)
      in (i, d\<lparr>btimers := btimers d @ [(i, t)], senv := (senv d)\<lparr>nextTimerId := Suc i\<rparr>\<rparr>))"

definition startVolumeChange :: "vol_dir \<Rightarrow> vol_device \<Rightarrow> vol_device" where
  "startVolumeChange dir d =
     (if bootOff d then d
      else let r = st (senv d); d1 = stopVolumeChange d;
               d2 = d1\<lparr>senv := handleVolume dir (bootOff d) r (senv d1)\<rparr>;
               (i, d3) = add_btn_timer (InitialDelay dir r) d2
           in d3\<lparr>volumeInitialDelayRef := Some i\<rparr>)"

text \<open>
  The callbacks. The delay, a timeout, leaves the list and starts the interval; the
  interval stays and calls the captured \<open>onVolumeUp\<close> and then \<open>triggerVolumeUIShow\<close>.
  The captured boot state is the one \<open>startVolumeChange\<close> checked, so it is not off.
\<close>

fun fire_btn_timer :: "nat \<Rightarrow> btn_timer \<Rightarrow> vol_device \<Rightarrow> vol_device" where
  "fire_btn_timer i (InitialDelay dir r) d =
     (let d1 = d\<lparr>btimers := filter (\<lambda>p. fst p \<noteq> i) (btimers d)\<rparr>;
          (j, d2) = add_btn_timer (RepeatTick dir r) d1
      in d2\<lparr>volumeTimerRef := Some j\<rparr>)"
| "fire_btn_timer i (RepeatTick dir r) d =
     d\<lparr>senv := triggerVolumeUIShow (handleVolume dir False r (senv d))\<rparr>"

datatype vol_event =
    PressVolume vol_dir
  | ReleaseVolume
  | ClickVolume vol_dir
  | FireButtonTimer nat

fun vol_handler :: "vol_device \<Rightarrow> vol_event \<Rightarrow> vol_device" where
  "vol_handler d (PressVolume dir) = startVolumeChange dir d"
| "vol_handler d ReleaseVolume = stopVolumeChange d"
| "vol_handler d (ClickVolume dir) =
     d\<lparr>senv := handleVolume dir (bootOff d) (st (senv d)) (senv d)\<rparr>"
| "vol_handler d (FireButtonTimer i) =
     (case map_of (btimers d) i of None \<Rightarrow> d | Some t \<Rightarrow> fire_btn_timer i t d)"

text \<open>A handler followed by the context's effects on the re-render.\<close>

definition vol_step :: "vol_device \<Rightarrow> vol_event \<Rightarrow> vol_device" where
  "vol_step d e =
     (let d' = vol_handler d e in d'\<lparr>senv := settings_effects (Some (st (senv d))) (senv d')\<rparr>)"

definition vol_run :: "vol_device \<Rightarrow> vol_event list \<Rightarrow> vol_device" where
  "vol_run d es = foldl vol_step d es"

text \<open>One volume step up from \<open>v\<close>: \<open>Math.max(0, Math.min(1, v + 0.1))\<close>.\<close>

definition vol_up :: "double \<Rightarrow> double" where
  "vol_up v = js_max (0, 0) (js_min (1, 0) (js_add v tenth))"

text \<open>The buttons as mounted: both refs \<open>null\<close>, no timer of theirs pending.\<close>

definition initial_vol_device :: "settings_env \<Rightarrow> bool \<Rightarrow> vol_device" where
  "initial_vol_device env off = \<lparr>senv = env, bootOff = off, volumeInitialDelayRef = None,
     volumeTimerRef = None, btimers = []\<rparr>"

text \<open>
  At most one button timer is pending, and it is the one its ref names, so that a release
  clears it.
\<close>

fun ref_of :: "btn_timer \<Rightarrow> vol_device \<Rightarrow> nat option" where
  "ref_of (InitialDelay _ _) d = volumeInitialDelayRef d"
| "ref_of (RepeatTick _ _) d = volumeTimerRef d"

definition btn_inv :: "vol_device \<Rightarrow> bool" where
  "btn_inv d \<longleftrightarrow> length (btimers d) \<le> 1 \<and> list_all (\<lambda>(i, t). ref_of t d = Some i) (btimers d)"

subsection \<open>The closures of the current render\<close>

text \<open>Called from the current render, the closure forms are the context's functions.\<close>

lemma setVolumeLevel_r_current: "setVolumeLevel_r (st env) l env = setVolumeLevel l env"
  by (simp add: setVolumeLevel_r_def setVolumeLevel_def Let_def update_st_def)

lemma increaseVolume_r_current: "increaseVolume_r (st env) env = increaseVolume env"
  by (simp add: increaseVolume_r_def increaseVolume_def setVolumeLevel_r_current)

lemma decreaseVolume_r_current: "decreaseVolume_r (st env) env = decreaseVolume env"
  by (simp add: decreaseVolume_r_def decreaseVolume_def setVolumeLevel_r_current)

lemma volumeLevel_increaseVolume_r [simp]:
  "volumeLevel (st (increaseVolume_r r env)) = vol_up (volumeLevel r)"
  by (simp add: increaseVolume_r_def setVolumeLevel_r_def Let_def vol_up_def)

lemma nextTimerId_triggerVolumeUIShow [simp]:
  "nextTimerId (triggerVolumeUIShow env) = Suc (nextTimerId env)"
  by (simp add: triggerVolumeUIShow_def Let_def set_timeout_def clear_timeout_def update_st_def
      split: option.split)

lemma nextTimerId_increaseVolume_r [simp]:
  "nextTimerId (increaseVolume_r r env) = Suc (nextTimerId env)"
  by (simp add: increaseVolume_r_def setVolumeLevel_r_def Let_def setMasterVolume_def update_st_def)

lemma settings_effects_keeps [simp]:
  "nextTimerId (settings_effects old env) = nextTimerId env"
  by (simp add: settings_effects_def Let_def setMasterVolume_def)

subsection \<open>Button timers\<close>

lemma stopVolumeChange_keeps [simp]:
  "senv (stopVolumeChange d) = senv d" "bootOff (stopVolumeChange d) = bootOff d"
  "volumeInitialDelayRef (stopVolumeChange d) = None" "volumeTimerRef (stopVolumeChange d) = None"
  by (simp_all add: stopVolumeChange_def clear_btn_timer_def Let_def split: option.split)

lemma stopVolumeChange_btimers:
  "btimers (stopVolumeChange d) =
     filter (\<lambda>p. Some (fst p) \<noteq> volumeInitialDelayRef d \<and> Some (fst p) \<noteq> volumeTimerRef d) (btimers d)"
  by (cases "volumeInitialDelayRef d"; cases "volumeTimerRef d")
     (simp_all add: stopVolumeChange_def clear_btn_timer_def Let_def conj_commute)

text \<open>Under the invariant a release leaves no button timer behind.\<close>

lemma stop_clears: "btn_inv d \<Longrightarrow> btimers (stopVolumeChange d) = []"
proof -
  assume "btn_inv d"
  then have "Some (fst p) = volumeInitialDelayRef d \<or> Some (fst p) = volumeTimerRef d"
    if "p \<in> set (btimers d)" for p
    using that by (cases p; cases "snd p") (auto simp: btn_inv_def list_all_iff)
  then show ?thesis by (auto simp: stopVolumeChange_btimers filter_empty_conv)
qed

lemma vol_run_Nil [simp]: "vol_run d [] = d"
  by (simp add: vol_run_def)

lemma vol_run_Cons [simp]: "vol_run d (e # es) = vol_run (vol_step d e) es"
  by (simp add: vol_run_def)

lemma vol_run_append [simp]: "vol_run d (es @ fs) = vol_run (vol_run d es) fs"
  by (simp add: vol_run_def)

lemma bootOff_fire_btn_timer [simp]: "bootOff (fire_btn_timer i t d) = bootOff d"
  by (cases t) (simp_all add: add_btn_timer_def Let_def)

lemma bootOff_vol_handler [simp]: "bootOff (vol_handler d e) = bootOff d"
  by (cases e) (simp_all add: startVolumeChange_def add_btn_timer_def Let_def split: option.split)

lemma vol_step_keeps [simp]:
  "bootOff (vol_step d e) = bootOff d"
  "btimers (vol_step d e) = btimers (vol_handler d e)"
  "volumeInitialDelayRef (vol_step d e) = volumeInitialDelayRef (vol_handler d e)"
  "volumeTimerRef (vol_step d e) = volumeTimerRef (vol_handler d e)"
  "st (senv (vol_step d e)) = st (senv (vol_handler d e))"
  "nextTimerId (senv (vol_step d e)) = nextTimerId (senv (vol_handler d e))"
  by (simp_all add: vol_step_def Let_def)

lemma ref_of_senv [simp]: "ref_of t (d\<lparr>senv := x\<rparr>) = ref_of t d"
  by (cases t) simp_all

lemma btn_inv_vol_step: "btn_inv (vol_step d e) = btn_inv (vol_handler d e)"
proof -
  have "ref_of t (vol_step d e) = ref_of t (vol_handler d e)" for t
    by (cases t) simp_all
  then show ?thesis by (simp add: btn_inv_def)
qed

lemma btn_inv_handler: "btn_inv d \<Longrightarrow> btn_inv (vol_handler d e)"
proof (cases e)
  case (PressVolume dir)
  assume "btn_inv d"
  then show ?thesis using stop_clears [of d]
    by (cases "bootOff d") (simp_all add: PressVolume startVolumeChange_def add_btn_timer_def Let_def btn_inv_def)
next
  case ReleaseVolume
  assume "btn_inv d"
  then show ?thesis using stop_clears [of d] by (simp add: ReleaseVolume btn_inv_def)
next
  case (ClickVolume dir)
  assume "btn_inv d"
  then show ?thesis by (simp add: ClickVolume btn_inv_def)
next
  case (FireButtonTimer i)
  assume inv: "btn_inv d"
  show ?thesis
  proof (cases "map_of (btimers d) i")
    case (Some t)
    then have "btimers d = [(i, t)]"
      using inv by (cases "btimers d") (auto simp: btn_inv_def split: if_splits)
    then show ?thesis
      using inv Some by (cases t) (auto simp: FireButtonTimer btn_inv_def add_btn_timer_def Let_def)
  qed (use inv in \<open>simp add: FireButtonTimer\<close>)
qed

lemma btn_inv_step: "btn_inv d \<Longrightarrow> btn_inv (vol_step d e)"
  by (simp only: btn_inv_vol_step btn_inv_handler)

lemma btn_inv_run: "btn_inv d \<Longrightarrow> btn_inv (vol_run d es)"
  by (induction es arbitrary: d) (simp_all add: btn_inv_step)

lemma btn_inv_initial: "btn_inv (initial_vol_device env off)"
  by (simp add: btn_inv_def initial_vol_device_def)

subsection \<open>Pressing, holding and releasing\<close>

lemma press_up:
  assumes "\<not> bootOff d" "btn_inv d"
  shows "btimers (vol_step d (PressVolume VolUp)) =
      [(Suc (nextTimerId (senv d)), InitialDelay VolUp (st (senv d)))]
    \<and> volumeTimerRef (vol_step d (PressVolume VolUp)) = None
    \<and> nextTimerId (senv (vol_step d (PressVolume VolUp))) = Suc (Suc (nextTimerId (senv d)))
    \<and> volumeLevel (st (senv (vol_step d (PressVolume VolUp)))) = vol_up (volumeLevel (st (senv d)))"
  using assms stop_clears [OF assms(2)]
  by (simp add: startVolumeChange_def handleVolume_def add_btn_timer_def Let_def)

lemma fire_delay:
  assumes "btimers d = [(i, InitialDelay dir r)]"
  shows "btimers (vol_step d (FireButtonTimer i)) = [(nextTimerId (senv d), RepeatTick dir r)]
    \<and> volumeTimerRef (vol_step d (FireButtonTimer i)) = Some (nextTimerId (senv d))
    \<and> st (senv (vol_step d (FireButtonTimer i))) = st (senv d)"
  using assms by (simp add: add_btn_timer_def Let_def)

text \<open>Each tick of the interval sets the volume from the level its closure captured.\<close>

lemma ticks_repeat_captured:
  assumes "btimers d = [(j, RepeatTick VolUp r)]" "volumeTimerRef d = Some j"
    and "volumeLevel (st (senv d)) = vol_up (volumeLevel r)"
  shows "btimers (vol_run d (replicate n (FireButtonTimer j))) = [(j, RepeatTick VolUp r)]
    \<and> volumeTimerRef (vol_run d (replicate n (FireButtonTimer j))) = Some j
    \<and> volumeLevel (st (senv (vol_run d (replicate n (FireButtonTimer j))))) = vol_up (volumeLevel r)"
  using assms
proof (induction n arbitrary: d)
  case (Suc n)
  have "btimers (vol_step d (FireButtonTimer j)) = [(j, RepeatTick VolUp r)]
      \<and> volumeTimerRef (vol_step d (FireButtonTimer j)) = Some j
      \<and> volumeLevel (st (senv (vol_step d (FireButtonTimer j)))) = vol_up (volumeLevel r)"
    using Suc.prems by (simp add: handleVolume_def)
  then show ?case using Suc.IH by simp
qed simp

lemma release_click_up:
  assumes "btn_inv d" "\<not> bootOff d"
  shows "volumeLevel (st (senv (vol_run d [ReleaseVolume, ClickVolume VolUp]))) =
    vol_up (volumeLevel (st (senv d)))"
  using assms by (simp add: handleVolume_def)

lemma vol_run_boot [simp]: "bootOff (vol_run d es) = bootOff d"
  by (induction es arbitrary: d) simp_all

lemma initial_vol_device_simps [simp]:
  "bootOff (initial_vol_device env off) = off" "senv (initial_vol_device env off) = env"
  by (simp_all add: initial_vol_device_def)

subsection \<open>Properties\<close>

text \<open>
  C23: a tap on volume-up (press, release, click) raises the volume by two steps, and
  holding the button changes nothing more: each tick of the repeat interval sets the
  volume from the level captured at the press, so press, the 400 ms delay, any number
  \<open>n\<close> of ticks, release and click also end exactly two steps up.
\<close>

theorem volume_up_steps_twice:
  "let d = vol_run (initial_vol_device env False) es; k = nextTimerId (senv d) in
     volumeLevel (st (senv (vol_run d [PressVolume VolUp, ReleaseVolume, ClickVolume VolUp]))) =
       vol_up (vol_up (volumeLevel (st (senv d))))
   \<and> volumeLevel (st (senv (vol_run d ([PressVolume VolUp, FireButtonTimer (Suc k)]
         @ replicate n (FireButtonTimer (Suc (Suc k))) @ [ReleaseVolume, ClickVolume VolUp])))) =
       vol_up (vol_up (volumeLevel (st (senv d))))"
proof -
  define d where "d = vol_run (initial_vol_device env False) es"
  define k where "k = nextTimerId (senv d)"
  define d1 where "d1 = vol_step d (PressVolume VolUp)"
  have inv: "btn_inv d" unfolding d_def by (rule btn_inv_run [OF btn_inv_initial])
  have off: "\<not> bootOff d" by (simp add: d_def)
  have p: "btimers d1 = [(Suc k, InitialDelay VolUp (st (senv d)))]" "volumeTimerRef d1 = None"
      "nextTimerId (senv d1) = Suc (Suc k)"
      "volumeLevel (st (senv d1)) = vol_up (volumeLevel (st (senv d)))"
    using press_up [OF off inv] by (simp_all add: d1_def k_def)
  have inv1: "btn_inv d1" unfolding d1_def by (rule btn_inv_step [OF inv])
  have tap: "volumeLevel (st (senv (vol_run d1 [ReleaseVolume, ClickVolume VolUp]))) =
      vol_up (vol_up (volumeLevel (st (senv d))))"
    using release_click_up [OF inv1] off p(4) by (simp add: d1_def)
  define d2 where "d2 = vol_step d1 (FireButtonTimer (Suc k))"
  have f: "btimers d2 = [(Suc (Suc k), RepeatTick VolUp (st (senv d)))]"
      "volumeTimerRef d2 = Some (Suc (Suc k))" "st (senv d2) = st (senv d1)"
    using fire_delay [OF p(1)] p(3) by (simp_all add: d2_def)
  define d3 where "d3 = vol_run d2 (replicate n (FireButtonTimer (Suc (Suc k))))"
  have t: "volumeLevel (st (senv d3)) = vol_up (volumeLevel (st (senv d)))"
    using ticks_repeat_captured [OF f(1,2)] f(3) p(4) by (simp add: d3_def)
  have inv3: "btn_inv d3"
    unfolding d3_def d2_def by (intro btn_inv_run btn_inv_step inv1)
  have off3: "\<not> bootOff d3" using off by (simp add: d3_def d2_def d1_def)
  have hold: "volumeLevel (st (senv (vol_run d3 [ReleaseVolume, ClickVolume VolUp]))) =
      vol_up (vol_up (volumeLevel (st (senv d))))"
    using release_click_up [OF inv3 off3] t by simp
  have e1: "vol_run d [PressVolume VolUp, ReleaseVolume, ClickVolume VolUp] =
      vol_run d1 [ReleaseVolume, ClickVolume VolUp]"
    by (simp add: d1_def)
  have e2: "vol_run d ([PressVolume VolUp, FireButtonTimer (Suc k)]
      @ replicate n (FireButtonTimer (Suc (Suc k))) @ [ReleaseVolume, ClickVolume VolUp]) =
      vol_run d3 [ReleaseVolume, ClickVolume VolUp]"
    by (simp add: d1_def d2_def d3_def vol_run_def)
  show ?thesis
    unfolding d_def [symmetric] k_def [symmetric] Let_def by (simp only: e1 e2 tap hold simp_thms)
qed

text \<open>
  C24: after any sequence of button events, a release leaves no delay or repeat timer of
  the buttons pending and both refs \<open>null\<close>.
\<close>

theorem release_clears_button_timers:
  "btimers (vol_run (initial_vol_device env off) (es @ [ReleaseVolume])) = []
   \<and> volumeInitialDelayRef (vol_run (initial_vol_device env off) (es @ [ReleaseVolume])) = None
   \<and> volumeTimerRef (vol_run (initial_vol_device env off) (es @ [ReleaseVolume])) = None"
  using stop_clears [OF btn_inv_run [OF btn_inv_initial, of env off es]] by simp

end
