(* ===== verification/Themes.thy ===== *)
theory Themes
  imports Settings
begin

text \<open>
  The TypeScript types of the settings context and the themes app.

  \<open>SettingsContext.tsx\<close> (lines 5--9) declares the enumerated settings as string unions
  (\<open>DeviceType\<close>, \<open>TemperatureUnit\<close>, \<open>NotesFontSize\<close>, \<open>NotesSortOrder\<close>,
  \<open>ColorMode\<close>). The model stores them as the strings the code stores; \<open>settings_typed\<close>
  says that each one is a member of its union, and \<open>env_typed\<close> adds the pending
  \<open>setDeviceType\<close> timers, whose callback sets the device type. The type is kept by every
  handler called with typed arguments, and a state loaded from a store holding typed
  values is typed; the casts of \<open>localStorage.getItem(...) as ColorMode\<close> check nothing,
  so a stored value outside the union is loaded as it is.

  The themes app (\<open>src/WebDroid-OS/src/apps/ThemesApp.tsx\<close>) has no state of its own:
  its handlers call the context's setters, so a click is a context event
  (\<open>themes_handler\<close>) handled by \<open>settings_step\<close>. The colour-mode buttons are rendered
  only when the active theme forces no mode. The click sounds are not modelled.
\<close>

subsection \<open>The declared types\<close>

definition deviceTypes :: "string list" where
  "deviceTypes = [''phone'', ''tablet'']"

definition temperatureUnits :: "string list" where
  "temperatureUnits = [''celsius'', ''fahrenheit'']"

definition notesFontSizes :: "string list" where
  "notesFontSizes = [''sm'', ''base'', ''lg'']"

definition notesSortOrders :: "string list" where
  "notesSortOrders = [''newest'', ''oldest'']"

definition colorModes :: "string list" where
  "colorModes = [''light'', ''dark'']"

definition settings_typed :: "settings \<Rightarrow> bool" where
  "settings_typed s \<longleftrightarrow> deviceType s \<in> set deviceTypes \<and> tempUnit s \<in> set temperatureUnits
     \<and> notesFontSize s \<in> set notesFontSizes \<and> notesSortOrder s \<in> set notesSortOrders
     \<and> colorMode s \<in> set colorModes"

fun timer_typed :: "settings_timer \<Rightarrow> bool" where
  "timer_typed (DeviceTypeTimer ty) = (ty \<in> set deviceTypes)"
| "timer_typed _ = True"

definition env_typed :: "settings_env \<Rightarrow> bool" where
  "env_typed env \<longleftrightarrow> settings_typed (st env) \<and> list_all (\<lambda>p. timer_typed (snd p)) (stimers env)"

text \<open>The arguments of the context's setters, as their parameter types declare them.\<close>

fun event_typed :: "settings_event \<Rightarrow> bool" where
  "event_typed (SetDeviceType ty) = (ty \<in> set deviceTypes)"
| "event_typed (SetTempUnit u) = (u \<in> set temperatureUnits)"
| "event_typed (SetNotesFontSize z) = (z \<in> set notesFontSizes)"
| "event_typed (SetNotesSortOrder so) = (so \<in> set notesSortOrders)"
| "event_typed (SetColorMode m) = (m \<in> set colorModes)"
| "event_typed _ = True"

text \<open>A store whose values under the typed keys are empty or members of their unions.\<close>

definition stored_typed :: "store \<Rightarrow> string \<Rightarrow> string list \<Rightarrow> bool" where
  "stored_typed ls k vs \<longleftrightarrow> (case ls k of None \<Rightarrow> True | Some v \<Rightarrow> v = [] \<or> v \<in> set vs)"

definition store_typed :: "store \<Rightarrow> bool" where
  "store_typed ls \<longleftrightarrow> stored_typed ls ''deviceType'' deviceTypes
     \<and> stored_typed ls ''tempUnit'' temperatureUnits \<and> stored_typed ls ''notesFontSize'' notesFontSizes
     \<and> stored_typed ls ''notesSortOrder'' notesSortOrders \<and> stored_typed ls ''colorMode'' colorModes"

subsection \<open>The themes app\<close>

definition pageBgOptions :: "(string \<times> string) list" where
  "pageBgOptions = [(''default'', ''Default Blue''), (''gradientA'', ''Sunset''),
     (''gradientB'', ''Ocean''), (''gradientC'', ''Forest'')]"

definition handleThemeSelect :: "string \<Rightarrow> settings_event" where
  "handleThemeSelect theme_id = SetActiveThemeId theme_id"

definition handlePageBgSelect :: "string \<Rightarrow> settings_event" where
  "handlePageBgSelect bgId = SetActivePageBgId bgId"

definition themes_toggleColorMode :: "settings \<Rightarrow> settings_event" where
  "themes_toggleColorMode s = SetColorMode (if colorMode s = ''light'' then ''dark'' else ''light'')"

text \<open>\<open>availableThemes.find(theme => theme.id === activeThemeId)?.forcedMode\<close>, truthy.\<close>

definition active_forced :: "settings \<Rightarrow> bool" where
  "active_forced s =
     (case find (\<lambda>t. themeId t = activeThemeId s) availableThemes of
        Some t \<Rightarrow> truthy (forcedMode t)
      | None \<Rightarrow> False)"

text \<open>The clickable elements: a theme card, a background tile, the Light and Dark buttons.\<close>

datatype themes_event = SelectTheme string | SelectPageBg string | ClickLight | ClickDark

fun themes_enabled :: "settings \<Rightarrow> themes_event \<Rightarrow> bool" where
  "themes_enabled s (SelectTheme i) = (i \<in> set (map themeId availableThemes))"
| "themes_enabled s (SelectPageBg i) = (i \<in> set (map fst pageBgOptions))"
| "themes_enabled s ClickLight = (\<not> active_forced s)"
| "themes_enabled s ClickDark = (\<not> active_forced s)"

text \<open>Both colour-mode buttons call \<open>toggleColorMode\<close>.\<close>

fun themes_handler :: "settings \<Rightarrow> themes_event \<Rightarrow> settings_event" where
  "themes_handler s (SelectTheme i) = handleThemeSelect i"
| "themes_handler s (SelectPageBg i) = handlePageBgSelect i"
| "themes_handler s ClickLight = themes_toggleColorMode s"
| "themes_handler s ClickDark = themes_toggleColorMode s"

definition themes_step :: "settings_env \<Rightarrow> themes_event \<Rightarrow> settings_env option" where
  "themes_step env e =
     (if themes_enabled (st env) e then settings_step env (themes_handler (st env) e) else None)"

subsection \<open>The type is kept\<close>

lemma stimers_settings_effects [simp]: "stimers (settings_effects old env) = stimers env"
  by (simp add: settings_effects_def Let_def setMasterVolume_def)

lemma env_typed_iff:
  "env_typed env \<longleftrightarrow> settings_typed (st env) \<and> (\<forall>p \<in> set (stimers env). timer_typed (snd p))"
  by (simp add: env_typed_def list_all_iff)

lemma stimers_update_st [simp]: "stimers (update_st f env) = stimers env"
  by (simp add: update_st_def)

lemma stimers_setMasterVolume [simp]: "stimers (setMasterVolume l m env) = stimers env"
  by (simp add: setMasterVolume_def)

text \<open>How each operation on the provider's world acts on the state and the timers.\<close>

named_theorems typed_env

lemma typed_env_fields [typed_env]:
  "stimers (set_timeout t env) = stimers env @ [(nextTimerId env, t)]"
  "stimers (clear_timeout i env) = filter (\<lambda>p. fst p \<noteq> i) (stimers env)"
  by (simp_all add: set_timeout_def clear_timeout_def)

lemma list_all_filter_keep [typed_env]: "list_all P xs \<Longrightarrow> list_all P (filter Q xs)"
  by (simp add: list_all_iff)

lemmas typed_unfold = typed_env env_typed_def settings_typed_def

lemma typed_triggerVolumeUIShow: "env_typed env \<Longrightarrow> env_typed (triggerVolumeUIShow env)"
  by (simp add: triggerVolumeUIShow_def Let_def typed_unfold split: option.split)

lemma typed_setVolumeLevel: "env_typed env \<Longrightarrow> env_typed (setVolumeLevel l env)"
  by (simp add: setVolumeLevel_def Let_def typed_unfold)

lemma typed_toggleColorMode: "settings_typed s \<Longrightarrow> settings_typed (toggleColorMode s)"
  by (simp add: settings_typed_def toggleColorMode_def colorModes_def)

lemma typed_fire: "env_typed env \<Longrightarrow> timer_typed t \<Longrightarrow> env_typed (fire_settings_timer t env)"
  by (cases t) (simp_all add: typed_unfold)

lemma typed_handler:
  assumes "env_typed env" "event_typed e" "settings_handler env e = Some env'"
  shows "env_typed env'"
proof (cases e)
  case (FireSettingsTimer i)
  then have i: "i < length (stimers env)" and
    env': "env' = fire_settings_timer (snd (stimers env ! i))
                   (env\<lparr>stimers := take i (stimers env) @ drop (Suc i) (stimers env)\<rparr>)"
    using assms(3) by (simp_all split: if_splits)
  have "timer_typed (snd (stimers env ! i))"
    using assms(1) i by (auto simp: env_typed_iff)
  moreover have "env_typed (env\<lparr>stimers := take i (stimers env) @ drop (Suc i) (stimers env)\<rparr>)"
    using assms(1) by (auto simp: env_typed_iff dest: in_set_takeD in_set_dropD)
  ultimately show ?thesis by (simp add: env' typed_fire)
next
  case ToggleColorMode
  then show ?thesis
    using assms typed_toggleColorMode [of "st env"] by (auto simp: env_typed_def)
qed (use assms(1,2) assms(3) [symmetric] in \<open>simp_all add: typed_unfold setDeviceType_def toggleSound_def toggleMute_def
      setActivePageBgId_def increaseVolume_def decreaseVolume_def setBrightnessLevel_def Let_def
      typed_triggerVolumeUIShow [unfolded typed_unfold]
      typed_setVolumeLevel [unfolded typed_unfold]\<close>)

lemma typed_step:
  "env_typed env \<Longrightarrow> event_typed e \<Longrightarrow> settings_step env e = Some env' \<Longrightarrow> env_typed env'"
  using typed_handler [of env e] by (auto simp: settings_step_def env_typed_def)

lemma or_default_typed: "stored_typed ls k vs \<Longrightarrow> d \<in> set vs \<Longrightarrow> or_default (ls k) d \<in> set vs"
  by (auto simp: stored_typed_def or_default_def split: option.splits)

lemma load_settings_typed_fields:
  "load_settings ls pd = Some s \<Longrightarrow>
     deviceType s = or_default (ls ''deviceType'') ''phone''
     \<and> tempUnit s = or_default (ls ''tempUnit'') ''celsius''
     \<and> notesFontSize s = or_default (ls ''notesFontSize'') ''base''
     \<and> notesSortOrder s = or_default (ls ''notesSortOrder'') ''newest''
     \<and> colorMode s = or_default (ls ''colorMode'') ''dark''"
  by (auto simp: load_settings_def Let_def split: option.split_asm)

lemma typed_defaults:
  "''phone'' \<in> set deviceTypes" "''celsius'' \<in> set temperatureUnits" "''base'' \<in> set notesFontSizes"
  "''newest'' \<in> set notesSortOrders" "''dark'' \<in> set colorModes"
  by (simp_all add: deviceTypes_def temperatureUnits_def notesFontSizes_def notesSortOrders_def
      colorModes_def)

lemma load_typed: "store_typed ls \<Longrightarrow> load_settings ls pd = Some s \<Longrightarrow> settings_typed s"
  by (drule load_settings_typed_fields)
    (simp add: store_typed_def settings_typed_def or_default_typed typed_defaults)

lemma mount_typed:
  "store_typed ls \<Longrightarrow> mount_settings ls pd cls = Some env \<Longrightarrow> env_typed env"
  by (auto simp: mount_settings_def env_typed_def dest: load_typed)

text \<open>The casts check nothing: a stored colour mode outside the union is loaded as it is.\<close>

lemma untyped_store_loads_untyped:
  "\<exists>s. load_settings (Map.empty(''colorMode'' \<mapsto> ''blue'')) False = Some s
     \<and> colorMode s = ''blue'' \<and> \<not> settings_typed s"
  unfolding load_settings_def Let_def or_default_def fp_eval
  by (simp add: settings_typed_def colorModes_def)

subsection \<open>Modes and themes\<close>

lemma currentMode_unforced: "\<not> active_forced s \<Longrightarrow> currentMode s = colorMode s"
  by (auto simp: active_forced_def currentMode_def split: option.splits)

lemma active_forced_synthwave: "active_forced (s\<lparr>activeThemeId := ''synthwave''\<rparr>)"
  by (simp add: active_forced_def availableThemes_def)

lemma st_settings_step:
  "settings_handler env e = Some env1 \<Longrightarrow> settings_step env e = Some (settings_effects (Some (st env)) env1)"
  by (simp add: settings_step_def)

subsection \<open>Properties\<close>

text \<open>
  The enumerated settings keep their TypeScript types: mounted on a store whose values
  are typed, every run of the context's handlers with typed arguments (timer callbacks
  included) leaves each of them a member of its union.
\<close>

theorem settings_run_typed:
  assumes "mount_settings ls pd cls = Some env" "store_typed ls"
    and "list_all event_typed es" "settings_run env es = Some env'"
  shows "settings_typed (st env')"
proof -
  have "env_typed env'" if "env_typed env0" "list_all event_typed es0" "settings_run env0 es0 = Some env'"
    for env0 es0 using that
  proof (induction es0 arbitrary: env0)
    case (Cons e es0)
    then obtain env1 where "settings_step env0 e = Some env1" "settings_run env1 es0 = Some env'"
      by (auto split: option.splits)
    with Cons show ?case by (auto intro: typed_step)
  qed simp
  then show ?thesis
    using mount_typed [OF assms(2,1)] assms(3,4) by (simp add: env_typed_def)
qed

text \<open>
  C25: both colour-mode buttons toggle: in light mode, a click on the already selected
  Light button switches the device to dark.
\<close>

theorem light_button_turns_dark:
  assumes "\<not> active_forced (st env)" "colorMode (st env) = ''light''"
  shows "\<exists>env'. themes_step env ClickLight = Some env' \<and> colorMode (st env') = ''dark''
    \<and> currentMode (st env') = ''dark''"
proof -
  have "\<not> active_forced ((st env)\<lparr>colorMode := ''dark''\<rparr>)"
    using assms(1) by (simp add: active_forced_def)
  then show ?thesis
    using assms currentMode_unforced
    by (simp add: themes_step_def settings_step_def themes_toggleColorMode_def update_st_def)
qed

text \<open>
  C26: selecting the Synthwave theme forces the dark mode and hides the colour-mode
  buttons; selecting the previous theme again restores the state exactly, the user's
  colour mode included.
\<close>

theorem forced_theme_round_trip:
  assumes "activeThemeId (st env) \<in> set (map themeId availableThemes)"
  shows "\<exists>e1 e2. themes_step env (SelectTheme ''synthwave'') = Some e1 \<and> currentMode (st e1) = ''dark''
    \<and> \<not> themes_enabled (st e1) ClickLight \<and> \<not> themes_enabled (st e1) ClickDark
    \<and> themes_step e1 (SelectTheme (activeThemeId (st env))) = Some e2 \<and> st e2 = st env"
  using assms active_forced_synthwave [of "st env"]
  by (simp add: themes_step_def settings_step_def handleThemeSelect_def update_st_def
      currentMode_def availableThemes_def)

subsection \<open>Witnesses\<close>

lemma mount_empty_st:
  "\<exists>env. mount_settings Map.empty False [] = Some env \<and> st env = the (load_settings Map.empty False)"
  using mount_empty by blast

lemma settings_run_typed_witness:
  "\<exists>env env'. mount_settings Map.empty False [] = Some env \<and> store_typed Map.empty
     \<and> list_all event_typed [SetColorMode ''light'', SetDeviceType ''tablet'']
     \<and> settings_run env [SetColorMode ''light'', SetDeviceType ''tablet''] = Some env'
     \<and> settings_typed (st env')"
proof -
  obtain env where m: "mount_settings Map.empty False [] = Some env"
    using mount_empty by blast
  have h: "store_typed Map.empty" "list_all event_typed [SetColorMode ''light'', SetDeviceType ''tablet'']"
    by (simp_all add: store_typed_def stored_typed_def colorModes_def deviceTypes_def)
  obtain env' where r: "settings_run env [SetColorMode ''light'', SetDeviceType ''tablet''] = Some env'"
    by (simp add: settings_step_def)
  from settings_run_typed [OF m h r] m h r show ?thesis by blast
qed

lemma light_button_turns_dark_witness:
  "\<exists>env. mount_settings Map.empty False [] = Some env
     \<and> \<not> active_forced (st env\<lparr>colorMode := ''light''\<rparr>) \<and> colorMode (st env\<lparr>colorMode := ''light''\<rparr>) = ''light''
     \<and> (\<exists>env'. themes_step (env\<lparr>st := st env\<lparr>colorMode := ''light''\<rparr>\<rparr>) ClickLight = Some env'
            \<and> colorMode (st env') = ''dark'' \<and> currentMode (st env') = ''dark'')"
proof -
  obtain env where m: "mount_settings Map.empty False [] = Some env"
    and s: "st env = the (load_settings Map.empty False)"
    using mount_empty_st by blast
  let ?env1 = "env\<lparr>st := st env\<lparr>colorMode := ''light''\<rparr>\<rparr>"
  have h: "\<not> active_forced (st ?env1)" "colorMode (st ?env1) = ''light''"
    by (simp_all add: s load_settings_empty active_forced_def availableThemes_def)
  from light_button_turns_dark [OF h] h m show ?thesis by auto
qed

lemma forced_theme_round_trip_witness:
  "\<exists>env. mount_settings Map.empty False [] = Some env
     \<and> activeThemeId (st env) \<in> set (map themeId availableThemes)
     \<and> (\<exists>e1 e2. themes_step env (SelectTheme ''synthwave'') = Some e1 \<and> currentMode (st e1) = ''dark''
       \<and> \<not> themes_enabled (st e1) ClickLight \<and> \<not> themes_enabled (st e1) ClickDark
       \<and> themes_step e1 (SelectTheme (activeThemeId (st env))) = Some e2 \<and> st e2 = st env)"
proof -
  obtain env where m: "mount_settings Map.empty False [] = Some env"
    and s: "st env = the (load_settings Map.empty False)"
    using mount_empty_st by blast
  have h: "activeThemeId (st env) \<in> set (map themeId availableThemes)"
    by (simp add: s load_settings_empty availableThemes_def)
  from forced_theme_round_trip [OF h] h m show ?thesis by blast
qed

end
