(* ===== verification/Weather.thy ===== *)
theory Weather
  imports Themes JSFloat
begin

text \<open>
  The weather app, \<open>apps/WeatherApp.tsx\<close>.

  The four state hooks (lines 37--40) are the record \<open>weather\<close>; the fetches in flight, the
  pending geolocation request and the fade-in timeout are explicit in it, so that the
  network responses are events that arrive in any order. \<open>fetchWeatherData\<close> issues a
  request (its body runs synchronously up to \<open>await fetch\<close>); the rest of its body is the
  event \<open>FetchOk\<close> or \<open>FetchFail\<close> of that request. The settings the app reads
  (\<open>tempUnit\<close>, \<open>defaultWeatherLocation\<close>) are parameters. Numbers are the doubles of
  \<open>JSNumber\<close>; weather codes are integers, as the Open-Meteo API returns them. Strings outside
  ASCII are written as their UTF-8 bytes.
\<close>

subsection \<open>Data\<close>

record forecast_hourly =
  hourly_time :: "string list"
  hourly_temperature :: "double list"
  hourly_code :: "int list"

record forecast_daily =
  daily_time :: "string list"
  daily_code :: "int list"
  daily_max :: "double list"
  daily_min :: "double list"

text \<open>\<open>interface WeatherData\<close>; the fetch defines every optional field.\<close>

record weather_data =
  temp :: int
  description :: string
  iconCode :: int
  location :: string
  feelsLike :: int
  humidity :: int
  windSpeed :: int
  windDirection :: double
  pressure :: int
  precipitation :: double
  hourly :: "forecast_hourly option"
  daily :: "forecast_daily option"

text \<open>The parts of the API's JSON answer that the app reads.\<close>

record api_current =
  temperature_2m :: double
  apparent_temperature :: double
  relative_humidity_2m :: double
  cur_precipitation :: double
  weather_code :: int
  pressure_msl :: double
  wind_speed_10m :: double
  wind_direction_10m :: double

record api_data =
  current :: api_current
  api_hourly :: "forecast_hourly option"
  api_daily :: "forecast_daily option"

text \<open>
  The state hooks, the fetches in flight (request id, latitude, longitude), whether a
  geolocation request is pending and whether the fade-in timeout is pending.
\<close>

record weather =
  weatherData :: "weather_data option"
  loading :: bool
  error :: "string option"
  dataVisible :: bool
  requests :: "(nat \<times> jsnum \<times> jsnum) list"
  nextRequest :: nat
  geoPending :: bool
  fadeTimer :: bool

definition defaultLat :: double where
  "defaultLat = dec_double 407128 (-4)"

definition defaultLon :: double where
  "defaultLon = dec_double (-740060) (-4)"

subsection \<open>Pure helpers\<close>

text \<open>\<open>toFixed(2)\<close>: the exact value scaled and rounded half up, the sign written apart.\<close>

definition fixed2 :: "int \<Rightarrow> string" where
  "fixed2 n = int_toString (n div 100) @ ''.'' @ (if n mod 100 < 10 then ''0'' else []) @ int_toString (n mod 100)"

definition toFixed2_pos :: "double \<Rightarrow> string" where
  "toFixed2_pos d = (if 10 ^ 21 \<le> dval d then double_toString d else fixed2 \<lfloor>100 * dval d + 1 / 2\<rfloor>)"

primrec toFixed2 :: "jsnum \<Rightarrow> string" where
  "toFixed2 NaN = ''NaN''"
| "toFixed2 (Num d) = (if dval d < 0 then CHR ''-'' # toFixed2_pos (js_neg d) else toFixed2_pos d)"

definition getLocationName :: "jsnum \<Rightarrow> jsnum \<Rightarrow> string" where
  "getLocationName lat lon = toFixed2 lat @ '', '' @ toFixed2 lon"

definition convertTemperature :: "string \<Rightarrow> double \<Rightarrow> int" where
  "convertTemperature tu celsius =
     (if tu = ''fahrenheit''
      then js_round (js_add (js_div (js_mul celsius (js_of_int 9)) (js_of_int 5)) (js_of_int 32))
      else js_round celsius)"

text \<open>The degree sign of line 193 as the file has it: the bytes of \<open>\<not>\<infinity>\<close>, a mis-encoded \<open>\<degree>\<close>.\<close>

definition degree_text :: string where
  "degree_text = [CHR 0xC2, CHR 0xAC, CHR 0xE2, CHR 0x88, CHR 0x9E]"

definition formatTemperature :: "string \<Rightarrow> double \<Rightarrow> string" where
  "formatTemperature tu celsius =
     int_toString (convertTemperature tu celsius) @ degree_text
       @ (if tu = ''celsius'' then ''C'' else ''F'')"

definition getWeatherBackground :: "int \<Rightarrow> string" where
  "getWeatherBackground code =
     (if code = 0 \<or> code = 1 then ''bg-gradient-to-b from-primary/80 to-primary/40''
      else if code = 2 then ''bg-gradient-to-b from-primary/60 to-surface-variant''
      else if code = 3 then ''bg-gradient-to-b from-surface-variant to-surface''
      else if code \<ge> 45 \<and> code \<le> 48 then ''bg-gradient-to-b from-surface-variant to-surface''
      else if (code \<ge> 51 \<and> code \<le> 57) \<or> (code \<ge> 61 \<and> code \<le> 67) \<or> (code \<ge> 80 \<and> code \<le> 82)
        then ''bg-gradient-to-b from-tertiary/80 to-surface-variant''
      else if (code \<ge> 71 \<and> code \<le> 77) \<or> (code \<ge> 85 \<and> code \<le> 86)
        then ''bg-gradient-to-b from-surface to-tertiary/20''
      else if code \<ge> 95 then ''bg-gradient-to-b from-tertiary to-tertiary-container/80''
      else ''bg-gradient-to-b from-surface to-surface-light'')"

definition weatherCodes :: "(int \<times> string) list" where
  "weatherCodes =
     [(0, ''clear sky''), (1, ''mainly clear''), (2, ''partly cloudy''), (3, ''overcast''),
      (45, ''fog''), (48, ''depositing rime fog''), (51, ''light drizzle''),
      (53, ''moderate drizzle''), (55, ''dense drizzle''), (56, ''light freezing drizzle''),
      (57, ''dense freezing drizzle''), (61, ''slight rain''), (63, ''moderate rain''),
      (65, ''heavy rain''), (66, ''light freezing rain''), (67, ''heavy freezing rain''),
      (71, ''slight snow fall''), (73, ''moderate snow fall''), (75, ''heavy snow fall''),
      (77, ''snow grains''), (80, ''slight rain showers''), (81, ''moderate rain showers''),
      (82, ''violent rain showers''), (85, ''slight snow showers''), (86, ''heavy snow showers''),
      (95, ''thunderstorm''), (96, ''thunderstorm with slight hail''),
      (99, ''thunderstorm with heavy hail'')]"

definition getWeatherDescription :: "int \<Rightarrow> string" where
  "getWeatherDescription code =
     (case map_of weatherCodes code of Some d \<Rightarrow> if d = [] then ''unknown'' else d | None \<Rightarrow> ''unknown'')"

definition getIconCodeFromWeatherCode :: "int \<Rightarrow> string" where
  "getIconCodeFromWeatherCode code =
     (if code = 0 then ''01d'' else if code = 1 then ''01d'' else if code = 2 then ''02d''
      else if code = 3 then ''03d'' else if code \<ge> 45 \<and> code \<le> 48 then ''50d''
      else if code \<ge> 51 \<and> code \<le> 57 then ''09d'' else if code \<ge> 61 \<and> code \<le> 67 then ''10d''
      else if code \<ge> 71 \<and> code \<le> 77 then ''13d'' else if code \<ge> 80 \<and> code \<le> 82 then ''09d''
      else if code \<ge> 85 \<and> code \<le> 86 then ''13d'' else if code \<ge> 95 then ''11d'' else ''01d'')"

text \<open>JavaScript's \<open>%\<close> on integers: the remainder takes the sign of the dividend.\<close>

definition js_rem :: "int \<Rightarrow> int \<Rightarrow> int" where
  "js_rem a b = (if a < 0 then - ((- a) mod b) else a mod b)"

definition directions :: "string list" where
  "directions = [''N'', ''NE'', ''E'', ''SE'', ''S'', ''SW'', ''W'', ''NW'']"

text \<open>\<open>directions[index]\<close> is \<open>undefined\<close> (\<open>None\<close>) at a negative index.\<close>

definition getWindDirection :: "double \<Rightarrow> string option" where
  "getWindDirection degrees =
     (let index = js_rem (js_round (js_div degrees (js_of_int 45))) 8
      in if 0 \<le> index \<and> index < int (length directions) then Some (directions ! nat index) else None)"

subsection \<open>Locations\<close>

text \<open>A number of the pattern \<open>-?\d+(\.\d+)?\<close>.\<close>

definition dec_lit :: "string \<Rightarrow> bool" where
  "dec_lit s =
     (let t = (case s of [] \<Rightarrow> [] | c # r \<Rightarrow> if c = CHR ''-'' then r else s);
          ip = takeWhile is_digit t; rest = dropWhile is_digit t
      in ip \<noteq> [] \<and> (rest = [] \<or> hd rest = CHR ''.'' \<and> tl rest \<noteq> [] \<and> list_all is_digit (tl rest)))"

text \<open>
  The language of the same pattern, read off the regular expression: one or more digits,
  optionally a dot and one or more digits; the whole number optionally after a minus.
\<close>

definition digits_pattern :: "string \<Rightarrow> bool" where
  "digits_pattern t \<longleftrightarrow> (\<exists>ds fr. t = ds @ fr \<and> ds \<noteq> [] \<and> list_all is_digit ds
     \<and> (fr = [] \<or> (\<exists>es. fr = CHR ''.'' # es \<and> es \<noteq> [] \<and> list_all is_digit es)))"

definition num_pattern :: "string \<Rightarrow> bool" where
  "num_pattern s \<longleftrightarrow> digits_pattern s \<or> (\<exists>t. s = CHR ''-'' # t \<and> digits_pattern t)"

text \<open>
  \<open>locationQuery.match(/^(-?\d+(\.\d+)?),(-?\d+(\.\d+)?)$/)\<close> and its groups 1 and 3. A
  number has no comma, so the comma the pattern matches is the first one of the query.
\<close>

definition coords_match :: "string \<Rightarrow> (string \<times> string) option" where
  "coords_match q =
     (let a = takeWhile (\<lambda>c. c \<noteq> CHR '','') q; r = dropWhile (\<lambda>c. c \<noteq> CHR '','') q
      in if r \<noteq> [] \<and> dec_lit a \<and> dec_lit (tl r) then Some (a, tl r) else None)"

subsection \<open>Fetching\<close>

text \<open>\<open>fetchWeatherData\<close> up to \<open>await fetch(apiUrl)\<close>: the request is issued.\<close>

definition fetchWeatherData :: "jsnum \<Rightarrow> jsnum \<Rightarrow> weather \<Rightarrow> weather" where
  "fetchWeatherData lat lon s =
     s\<lparr>loading := True, error := None, requests := requests s @ [(nextRequest s, lat, lon)],
       nextRequest := Suc (nextRequest s)\<rparr>"

text \<open>Its \<open>try\<close> block cannot throw: \<open>fetchWeatherData\<close> catches its own errors.\<close>

definition fetchWeatherByLocation :: "string \<Rightarrow> weather \<Rightarrow> weather" where
  "fetchWeatherByLocation q s =
     (let s1 = s\<lparr>loading := True, error := None\<rparr>
      in case coords_match q of
           Some (a, b) \<Rightarrow> fetchWeatherData (parseFloat a) (parseFloat b) s1
         | None \<Rightarrow> fetchWeatherData (Num defaultLat) (Num defaultLon) s1)"

text \<open>The object built from the answer (lines 139--155).\<close>

definition to_weather_data :: "api_data \<Rightarrow> jsnum \<Rightarrow> jsnum \<Rightarrow> weather_data" where
  "to_weather_data d lat lon =
     (let c = current d in
      \<lparr>temp = js_round (temperature_2m c), description = getWeatherDescription (weather_code c),
       iconCode = weather_code c, location = getLocationName lat lon,
       feelsLike = js_round (apparent_temperature c), humidity = js_round (relative_humidity_2m c),
       windSpeed = js_round (wind_speed_10m c), windDirection = wind_direction_10m c,
       pressure = js_round (pressure_msl c), precipitation = cur_precipitation c,
       hourly = api_hourly d, daily = api_daily d\<rparr>)"

definition fetch_error_msg :: string where
  "fetch_error_msg = ''Failed to fetch weather data. Please try again later.''"

definition remove_request :: "nat \<Rightarrow> weather \<Rightarrow> weather" where
  "remove_request i s = s\<lparr>requests := filter (\<lambda>p. fst p \<noteq> i) (requests s)\<rparr>"

text \<open>The rest of \<open>fetchWeatherData\<close> once request \<open>i\<close> is answered: its \<open>try\<close> block, or its \<open>catch\<close>.\<close>

definition fetch_ok :: "nat \<Rightarrow> api_data \<Rightarrow> weather \<Rightarrow> weather option" where
  "fetch_ok i d s =
     (case map_of (requests s) i of
        Some (lat, lon) \<Rightarrow>
          Some ((remove_request i s)\<lparr>weatherData := Some (to_weather_data d lat lon), loading := False\<rparr>)
      | None \<Rightarrow> None)"

definition fetch_fail :: "nat \<Rightarrow> weather \<Rightarrow> weather option" where
  "fetch_fail i s =
     (if map_of (requests s) i \<noteq> None
      then Some ((remove_request i s)\<lparr>error := Some fetch_error_msg, loading := False\<rparr>)
      else None)"

subsection \<open>Effects\<close>

text \<open>
  The fade-in effect (lines 49--62). It runs when \<open>loading\<close> changed or a response stored a
  new object in \<open>weatherData\<close>; its cleanup first clears the pending timeout.
\<close>

definition fade_effect :: "weather \<Rightarrow> weather" where
  "fade_effect s =
     (let s1 = s\<lparr>fadeTimer := False\<rparr>
      in if \<not> loading s1 \<and> weatherData s1 \<noteq> None \<and> \<not> dataVisible s1 then s1\<lparr>fadeTimer := True\<rparr>
         else if loading s1 then s1\<lparr>dataVisible := False\<rparr> else s1)"

text \<open>The mount effect (lines 65--85): a saved location, else geolocation, else New York.\<close>

definition mount_effect :: "string option \<Rightarrow> bool \<Rightarrow> weather \<Rightarrow> weather" where
  "mount_effect loc hasGeo s =
     (if truthy loc then fetchWeatherByLocation (the loc) s
      else if hasGeo then s\<lparr>geoPending := True\<rparr>
      else fetchWeatherData (Num defaultLat) (Num defaultLon) s)"

definition initial_weather :: weather where
  "initial_weather =
     \<lparr>weatherData = None, loading = True, error = None, dataVisible = False, requests = [],
      nextRequest = 0, geoPending = False, fadeTimer = False\<rparr>"

definition mount_weather :: "string option \<Rightarrow> bool \<Rightarrow> weather" where
  "mount_weather loc hasGeo = mount_effect loc hasGeo (fade_effect initial_weather)"

subsection \<open>Events\<close>

text \<open>
  The callbacks of \<open>getCurrentPosition\<close>, the answers to a request, the fade-in timeout,
  the app bar's refresh button (shown with data) and the error view's Try Again button.
\<close>

datatype weather_event =
    GeoSuccess double double
  | GeoError
  | FetchOk nat api_data
  | FetchFail nat
  | FadeTimeout
  | Refresh
  | TryAgain

fun weather_handler :: "string option \<Rightarrow> weather \<Rightarrow> weather_event \<Rightarrow> weather option" where
  "weather_handler loc s (GeoSuccess lat lon) =
     (if geoPending s then Some (fetchWeatherData (Num lat) (Num lon) (s\<lparr>geoPending := False\<rparr>)) else None)"
| "weather_handler loc s GeoError =
     (if geoPending s
      then Some (fetchWeatherData (Num defaultLat) (Num defaultLon) (s\<lparr>geoPending := False\<rparr>)) else None)"
| "weather_handler loc s (FetchOk i d) = fetch_ok i d s"
| "weather_handler loc s (FetchFail i) = fetch_fail i s"
| "weather_handler loc s FadeTimeout =
     (if fadeTimer s then Some (s\<lparr>dataVisible := True, fadeTimer := False\<rparr>) else None)"
| "weather_handler loc s Refresh =
     (if weatherData s \<noteq> None
      then Some (fetchWeatherByLocation (if truthy loc then the loc else []) s) else None)"
| "weather_handler loc s TryAgain =
     (if \<not> loading s \<and> truthy (error s)
      then Some (fetchWeatherData (Num defaultLat) (Num defaultLon) s) else None)"

fun new_data :: "weather_event \<Rightarrow> bool" where
  "new_data (FetchOk i d) = True"
| "new_data _ = False"

definition weather_step :: "string option \<Rightarrow> weather \<Rightarrow> weather_event \<Rightarrow> weather option" where
  "weather_step loc s e =
     map_option (\<lambda>s'. if loading s' \<noteq> loading s \<or> new_data e then fade_effect s' else s')
       (weather_handler loc s e)"

primrec weather_run :: "string option \<Rightarrow> weather \<Rightarrow> weather_event list \<Rightarrow> weather option" where
  "weather_run loc s [] = Some s"
| "weather_run loc s (e # es) = Option.bind (weather_step loc s e) (\<lambda>s'. weather_run loc s' es)"

text \<open>What the app shows (lines 503--551): spinner, error, the data, or nothing.\<close>

datatype weather_screen = LoadingView | ErrorView string | DataView string string string | BlankView

definition weather_view :: "string \<Rightarrow> weather \<Rightarrow> weather_screen" where
  "weather_view tu s =
     (if loading s then LoadingView
      else if truthy (error s) then ErrorView (the (error s))
      else case weatherData s of
             Some w \<Rightarrow> DataView (formatTemperature tu (js_of_int (temp w))) (description w) (location w)
           | None \<Rightarrow> BlankView)"

text \<open>An answer of the API, for the examples.\<close>

definition sample_answer :: "int \<Rightarrow> int \<Rightarrow> api_data" where
  "sample_answer t code =
     \<lparr>current = \<lparr>temperature_2m = (t, 0), apparent_temperature = (t, 0), relative_humidity_2m = (5, 3),
        cur_precipitation = (0, 0), weather_code = code, pressure_msl = (1013, 0),
        wind_speed_10m = (3, 0), wind_direction_10m = (45, 1)\<rparr>,
      api_hourly = None, api_daily = None\<rparr>"

definition weather_inv :: "weather \<Rightarrow> bool" where
  "weather_inv s \<longleftrightarrow> distinct (map fst (requests s)) \<and> list_all (\<lambda>p. fst p < nextRequest s) (requests s)"

subsection \<open>The coordinate pattern\<close>

lemma not_digit_comma: "\<not> is_digit CHR '',''"
  by (simp add: is_digit_def)

lemma dec_lit_chars:
  assumes "dec_lit s" shows "CHR '','' \<notin> set s"
proof -
  define t where "t = (case s of [] \<Rightarrow> [] | c # r \<Rightarrow> if c = CHR ''-'' then r else s)"
  define rest where "rest = dropWhile is_digit t"
  have st: "set s \<subseteq> insert (CHR ''-'') (set t)" by (cases s) (auto simp: t_def)
  have d: "rest = [] \<or> hd rest = CHR ''.'' \<and> list_all is_digit (tl rest)"
    using assms unfolding dec_lit_def Let_def t_def rest_def by auto
  have "CHR '','' \<notin> set rest"
    using d not_digit_comma by (cases rest) (auto simp: list_all_iff)
  moreover have "CHR '','' \<notin> set (takeWhile is_digit t)"
    using not_digit_comma by (auto dest: set_takeWhileD)
  ultimately have "CHR '','' \<notin> set t"
    unfolding rest_def by (metis Un_iff set_append takeWhile_dropWhile_id)
  with st show ?thesis by auto
qed

lemma coords_match_Nil: "coords_match [] = None"
  by (simp add: coords_match_def)

lemma coords_match_split:
  "CHR '','' \<notin> set a \<Longrightarrow> takeWhile (\<lambda>c. c \<noteq> CHR '','') (a @ CHR '','' # b) = a
     \<and> dropWhile (\<lambda>c. c \<noteq> CHR '','') (a @ CHR '','' # b) = CHR '','' # b"
  by (induction a) auto

lemma coords_match_iff:
  "coords_match q = Some (a, b) \<longleftrightarrow> q = a @ CHR '','' # b \<and> dec_lit a \<and> dec_lit b" (is "?l \<longleftrightarrow> ?r")
proof
  let ?P = "\<lambda>c. c \<noteq> CHR '',''"
  assume ?l
  then have a: "takeWhile ?P q = a" and r: "dropWhile ?P q \<noteq> []" and b: "tl (dropWhile ?P q) = b"
    and "dec_lit a" "dec_lit b"
    by (simp_all add: coords_match_def Let_def split: if_splits)
  have "hd (dropWhile ?P q) = CHR '',''"
    using hd_dropWhile [OF r] by simp
  with r b have "dropWhile ?P q = CHR '','' # b"
    by (cases "dropWhile ?P q") simp_all
  then have "q = a @ CHR '','' # b"
    using takeWhile_dropWhile_id [of ?P q] a by simp
  with \<open>dec_lit a\<close> \<open>dec_lit b\<close> show ?r by simp
next
  assume ?r
  then show ?l
    using coords_match_split [OF dec_lit_chars [of a]] by (simp add: coords_match_def Let_def)
qed

lemma not_digit_dot_minus [simp]: "\<not> is_digit CHR ''.''" "\<not> is_digit CHR ''-''"
  by (simp_all add: is_digit_def)

lemma digits_pattern_iff:
  "digits_pattern t \<longleftrightarrow> takeWhile is_digit t \<noteq> []
     \<and> (dropWhile is_digit t = [] \<or> hd (dropWhile is_digit t) = CHR ''.''
        \<and> tl (dropWhile is_digit t) \<noteq> [] \<and> list_all is_digit (tl (dropWhile is_digit t)))"
  (is "_ \<longleftrightarrow> ?l")
proof
  assume l: ?l
  define ds where "ds = takeWhile is_digit t"
  define fr where "fr = dropWhile is_digit t"
  have t: "t = ds @ fr" by (simp add: ds_def fr_def)
  have ne: "ds \<noteq> []" using l by (simp add: ds_def)
  have all: "list_all is_digit ds"
    unfolding ds_def list_all_iff by (blast dest: set_takeWhileD)
  have "fr = [] \<or> hd fr = CHR ''.'' \<and> tl fr \<noteq> [] \<and> list_all is_digit (tl fr)"
    using l by (simp only: fr_def)
  then have frc: "fr = [] \<or> (\<exists>es. fr = CHR ''.'' # es \<and> es \<noteq> [] \<and> list_all is_digit es)"
    by (cases fr) simp_all
  show "digits_pattern t"
    unfolding digits_pattern_def using t ne all frc by blast
next
  assume "digits_pattern t"
  then obtain ds fr where t: "t = ds @ fr" "ds \<noteq> []" "list_all is_digit ds"
    and fr: "fr = [] \<or> (\<exists>es. fr = CHR ''.'' # es \<and> es \<noteq> [] \<and> list_all is_digit es)"
    unfolding digits_pattern_def by blast
  have "takeWhile is_digit fr = [] \<and> dropWhile is_digit fr = fr" using fr by auto
  then have "takeWhile is_digit t = ds" "dropWhile is_digit t = fr"
    using t by (simp_all add: takeWhile_append2 dropWhile_append2 list_all_iff)
  with t fr show ?l by auto
qed
lemma digits_pattern_hd: "digits_pattern t \<Longrightarrow> t \<noteq> [] \<and> is_digit (hd t)"
  unfolding digits_pattern_def by (auto simp: list_all_iff neq_Nil_conv)

text \<open>The matcher reads a number exactly when the number is in the pattern's language.\<close>

lemma dec_lit_pattern: "dec_lit s \<longleftrightarrow> num_pattern s"
proof (cases s)
  case Nil
  then show ?thesis using digits_pattern_hd [of "[]"] by (auto simp: dec_lit_def num_pattern_def)
next
  case (Cons c r)
  show ?thesis
  proof (cases "c = CHR ''-''")
    case True
    then have "\<not> digits_pattern s" using Cons digits_pattern_hd [of s] by auto
    with Cons True show ?thesis by (simp add: dec_lit_def num_pattern_def digits_pattern_iff Let_def)
  next
    case False
    with Cons show ?thesis by (simp add: dec_lit_def num_pattern_def digits_pattern_iff Let_def)
  qed
qed

lemma coords_match_pattern:
  "coords_match q = Some (a, b) \<longleftrightarrow> q = a @ CHR '','' # b \<and> num_pattern a \<and> num_pattern b"
  by (simp add: coords_match_iff dec_lit_pattern)

lemma requests_fetchWeatherByLocation:
  "requests (fetchWeatherByLocation q s) = requests s @ [(nextRequest s,
     case coords_match q of Some (a, b) \<Rightarrow> (parseFloat a, parseFloat b) | None \<Rightarrow> (Num defaultLat, Num defaultLon))]"
  by (simp add: fetchWeatherByLocation_def fetchWeatherData_def split: option.split)

text \<open>
  C30: a location query requests the coordinates it spells: when it is two numbers of the
  pattern \<open>-?\d+(\.\d+)?\<close> joined by a comma, with nothing around them, the request is
  for \<open>parseFloat\<close> of the two numbers; otherwise it is for New York.
\<close>

theorem location_query_request:
  "requests (fetchWeatherByLocation q s) = requests s @ [(nextRequest s, lat, lon)] \<longleftrightarrow>
     (\<exists>a b. q = a @ CHR '','' # b \<and> num_pattern a \<and> num_pattern b \<and> lat = parseFloat a \<and> lon = parseFloat b)
     \<or> (\<not> (\<exists>a b. q = a @ CHR '','' # b \<and> num_pattern a \<and> num_pattern b)
        \<and> lat = Num defaultLat \<and> lon = Num defaultLon)"
proof (cases "coords_match q")
  case None
  then have n: "\<not> (\<exists>a b. q = a @ CHR '','' # b \<and> num_pattern a \<and> num_pattern b)"
    using coords_match_pattern [of q] by force
  then have "\<not> (\<exists>a b. q = a @ CHR '','' # b \<and> num_pattern a \<and> num_pattern b \<and> lat = parseFloat a \<and> lon = parseFloat b)"
    by blast
  with n None show ?thesis by (auto simp: requests_fetchWeatherByLocation)
next
  case (Some ab)
  then obtain a b where ab: "coords_match q = Some (a, b)" by (cases ab) auto
  then have m: "q = a @ CHR '','' # b" "num_pattern a" "num_pattern b"
    using coords_match_pattern by blast+
  have u: "a' = a \<and> b' = b" if "q = a' @ CHR '','' # b' \<and> num_pattern a' \<and> num_pattern b'" for a' b'
  proof -
    have "coords_match q = Some (a', b')" using that coords_match_pattern by blast
    with ab show ?thesis by simp
  qed
  have e1: "(\<exists>a' b'. q = a' @ CHR '','' # b' \<and> num_pattern a' \<and> num_pattern b' \<and> lat = parseFloat a' \<and> lon = parseFloat b')
      \<longleftrightarrow> lat = parseFloat a \<and> lon = parseFloat b"
    using m u by blast
  have e2: "\<exists>a' b'. q = a' @ CHR '','' # b' \<and> num_pattern a' \<and> num_pattern b'"
    using m by blast
  show ?thesis
    unfolding e1 using e2 ab by (auto simp: requests_fetchWeatherByLocation)
qed

subsection \<open>Wind direction\<close>

lemma js_of_int_45: "js_of_int 45 = (45, 0)"
  by (simp add: fp_eval)

lemma wind_minus_90: "js_round (js_div (js_of_int (- 90)) (js_of_int 45)) = - 2"
proof -
  have a: "js_of_int (- 90) = (- 45, 1)"
    by (simp add: fp_eval)
  have b: "js_div_int (- 90) 45 = (- 1, 1)"
    by (simp add: fp_eval Let_def cong: float_cong)
  show ?thesis
    by (simp add: a b js_of_int_45 js_div_def js_round_def)
qed

lemma wind_direction_bounds:
  "(0 \<le> dval d \<longrightarrow> (\<exists>c. getWindDirection d = Some c)) \<and> getWindDirection (js_of_int (- 90)) = None"
proof
  show "0 \<le> dval d \<longrightarrow> (\<exists>c. getWindDirection d = Some c)"
  proof
    assume "0 \<le> dval d"
    then have "0 \<le> js_round (js_div d (js_of_int 45))"
      by (intro js_round_nonneg js_div_nonneg) (simp_all add: dval_nonneg_iff js_of_int_45)
    then show "\<exists>c. getWindDirection d = Some c"
      by (simp add: getWindDirection_def js_rem_def directions_def Let_def)
  qed
  show "getWindDirection (js_of_int (- 90)) = None"
    by (simp add: getWindDirection_def wind_minus_90 js_rem_def)
qed

subsection \<open>Responses\<close>

lemma fade_effect_fields [simp]:
  "requests (fade_effect s) = requests s" "weatherData (fade_effect s) = weatherData s"
  "loading (fade_effect s) = loading s" "error (fade_effect s) = error s"
  "nextRequest (fade_effect s) = nextRequest s" "geoPending (fade_effect s) = geoPending s"
  by (simp_all add: fade_effect_def Let_def)

lemma map_of_filter_other: "i \<noteq> j \<Longrightarrow> map_of (filter (\<lambda>p. fst p \<noteq> j) xs) i = map_of xs i"
  by (induction xs) auto

lemma step_fetch_ok:
  "map_of (requests s) i = Some (lat, lon) \<Longrightarrow> weather_step loc s (FetchOk i d) =
     Some (fade_effect ((remove_request i s)\<lparr>weatherData := Some (to_weather_data d lat lon), loading := False\<rparr>))"
  by (simp add: weather_step_def fetch_ok_def)

lemma step_fetch_fail:
  "map_of (requests s) i \<noteq> None \<Longrightarrow> \<exists>s'. weather_step loc s (FetchFail i) = Some s'
     \<and> requests s' = filter (\<lambda>p. fst p \<noteq> i) (requests s) \<and> error s' = Some fetch_error_msg
     \<and> \<not> loading s' \<and> weatherData s' = weatherData s"
  by (simp add: weather_step_def fetch_fail_def remove_request_def)

lemma requests_remove_request [simp]: "requests (remove_request i s) = filter (\<lambda>p. fst p \<noteq> i) (requests s)"
  by (simp add: remove_request_def)

lemma remove_request_fields [simp]:
  "error (remove_request i s) = error s" "weatherData (remove_request i s) = weatherData s"
  by (simp_all add: remove_request_def)

text \<open>
  C27: answers are not matched to the request that is current: when two fetches are in
  flight (two taps on refresh), the answer that arrives last is shown, whichever request
  was issued last, and the app stops loading.
\<close>

theorem last_answer_wins:
  assumes "map_of (requests s) i = Some p" "map_of (requests s) j = Some q" "i \<noteq> j"
  shows "\<exists>s'. weather_run loc s [FetchOk j dj, FetchOk i di] = Some s'
    \<and> weatherData s' = Some (to_weather_data di (fst p) (snd p)) \<and> \<not> loading s'"
proof -
  obtain s1 where s1: "weather_step loc s (FetchOk j dj) = Some s1" "requests s1 = filter (\<lambda>p. fst p \<noteq> j) (requests s)"
    using step_fetch_ok [of s j "fst q" "snd q" loc dj] assms(2) by simp
  then have "map_of (requests s1) i = Some (fst p, snd p)"
    using assms(1,3) by (simp add: map_of_filter_other)
  with s1 show ?thesis using step_fetch_ok [of s1 i "fst p" "snd p" loc di] by simp
qed

text \<open>
  C28: with two fetches in flight, a failed answer followed by a successful one leaves the
  error screen: the data arrives but \<open>error\<close> is never cleared by a success.
\<close>

theorem failed_answer_hides_data:
  assumes "map_of (requests s) i \<noteq> None" "map_of (requests s) j = Some q" "i \<noteq> j"
  shows "\<exists>s'. weather_run loc s [FetchFail i, FetchOk j d] = Some s'
    \<and> weatherData s' \<noteq> None \<and> weather_view tu s' = ErrorView fetch_error_msg"
proof -
  obtain s1 where s1: "weather_step loc s (FetchFail i) = Some s1"
      "requests s1 = filter (\<lambda>p. fst p \<noteq> i) (requests s)" "error s1 = Some fetch_error_msg"
    using step_fetch_fail [OF assms(1)] by blast
  then have "map_of (requests s1) j = Some (fst q, snd q)"
    using assms(2,3) by (simp add: map_of_filter_other)
  with s1 show ?thesis using step_fetch_ok [of s1 j "fst q" "snd q" loc d]
    by (simp add: weather_view_def fetch_error_msg_def)
qed

text \<open>
  C29: without a saved location the app shows the weather of the geolocated position, but its
  refresh button calls \<open>fetchWeatherByLocation('')\<close>, which requests New York.
\<close>

theorem refresh_forgets_position:
  assumes "\<not> truthy loc"
  shows "\<exists>s'. weather_run loc (mount_weather loc True) [GeoSuccess lat lon, FetchOk 0 d, Refresh] = Some s'
    \<and> requests s' = [(1, Num defaultLat, Num defaultLon)] \<and> weatherData s' = Some (to_weather_data d (Num lat) (Num lon))"
  using assms
  by (simp add: mount_weather_def mount_effect_def initial_weather_def fade_effect_def weather_step_def
      fetchWeatherData_def fetch_ok_def fetchWeatherByLocation_def coords_match_Nil remove_request_def Let_def)

subsection \<open>Temperatures\<close>

text \<open>Settings of an undeclared unit are shown unconverted, with the Fahrenheit label.\<close>

lemma untyped_unit_mislabelled:
  "formatTemperature ''kelvin'' c = int_toString (js_round c) @ degree_text @ ''F''"
  by (simp add: formatTemperature_def convertTemperature_def)

subsection \<open>Request ids\<close>

text \<open>Request ids are distinct and below the counter, under every event.\<close>

lemma weather_inv_upd [simp]:
  "weather_inv (s\<lparr>geoPending := g\<rparr>) = weather_inv s"
  "weather_inv (s\<lparr>dataVisible := v, fadeTimer := t\<rparr>) = weather_inv s"
  "weather_inv (fade_effect s) = weather_inv s"
  by (simp_all add: weather_inv_def)

lemma inv_fetchWeatherData: "weather_inv s \<Longrightarrow> weather_inv (fetchWeatherData lat lon s)"
  by (auto simp: weather_inv_def fetchWeatherData_def list_all_iff)

lemma inv_fetchWeatherByLocation: "weather_inv s \<Longrightarrow> weather_inv (fetchWeatherByLocation q s)"
  by (auto simp: fetchWeatherByLocation_def Let_def weather_inv_def fetchWeatherData_def list_all_iff
      split: option.split)

lemma inv_remove_request: "weather_inv s \<Longrightarrow> weather_inv (remove_request i s)"
  by (auto simp: weather_inv_def remove_request_def distinct_map_filter list_all_iff)

lemma weather_handler_inv:
  "weather_inv s \<Longrightarrow> weather_handler loc s e = Some s' \<Longrightarrow> weather_inv s'"
proof (cases e)
  case (FetchOk i d)
  moreover assume "weather_inv s" "weather_handler loc s e = Some s'"
  ultimately show ?thesis
    using inv_remove_request [of s i] by (auto simp: fetch_ok_def weather_inv_def split: option.splits)
next
  case (FetchFail i)
  moreover assume "weather_inv s" "weather_handler loc s e = Some s'"
  ultimately show ?thesis
    using inv_remove_request [of s i] by (auto simp: fetch_fail_def weather_inv_def split: if_splits)
qed (auto simp: inv_fetchWeatherData inv_fetchWeatherByLocation split: if_splits)

lemma weather_step_inv: "weather_inv s \<Longrightarrow> weather_step loc s e = Some s' \<Longrightarrow> weather_inv s'"
  by (auto simp: weather_step_def dest: weather_handler_inv split: if_splits)

lemma weather_run_inv: "weather_inv s \<Longrightarrow> weather_run loc s es = Some s' \<Longrightarrow> weather_inv s'"
  by (induction es arbitrary: s) (auto dest: weather_step_inv split: Option.bind_splits)

lemma mount_weather_inv: "weather_inv (mount_weather loc hasGeo)"
proof -
  have "weather_inv (fade_effect initial_weather)"
    by (simp add: weather_inv_def initial_weather_def)
  then show ?thesis
    by (simp add: mount_weather_def mount_effect_def inv_fetchWeatherData inv_fetchWeatherByLocation)
qed

subsection \<open>Witnesses\<close>

lemma two_refreshes:
  "\<exists>s. weather_run None (mount_weather None False) [FetchOk 0 d0, Refresh, Refresh] = Some s
     \<and> map_of (requests s) 1 = Some (Num defaultLat, Num defaultLon)
     \<and> map_of (requests s) 2 = Some (Num defaultLat, Num defaultLon)"
  by (simp add: mount_weather_def mount_effect_def initial_weather_def fade_effect_def weather_step_def
      fetchWeatherData_def fetch_ok_def fetchWeatherByLocation_def coords_match_Nil remove_request_def Let_def)

lemma last_answer_wins_witness:
  "\<exists>s. weather_run None (mount_weather None False) [FetchOk 0 (sample_answer 21 0), Refresh, Refresh] = Some s
     \<and> map_of (requests s) 1 = Some (Num defaultLat, Num defaultLon)
     \<and> map_of (requests s) 2 = Some (Num defaultLat, Num defaultLon) \<and> (1::nat) \<noteq> 2
     \<and> (\<exists>s'. weather_run None s [FetchOk 2 (sample_answer 25 2), FetchOk 1 (sample_answer 21 0)] = Some s'
       \<and> weatherData s' = Some (to_weather_data (sample_answer 21 0) (Num defaultLat) (Num defaultLon))
       \<and> \<not> loading s')"
proof -
  obtain s where s: "weather_run None (mount_weather None False) [FetchOk 0 (sample_answer 21 0), Refresh, Refresh] = Some s"
    "map_of (requests s) 1 = Some (Num defaultLat, Num defaultLon)"
    "map_of (requests s) 2 = Some (Num defaultLat, Num defaultLon)"
    using two_refreshes by blast
  have "\<exists>s'. weather_run None s [FetchOk 2 (sample_answer 25 2), FetchOk 1 (sample_answer 21 0)] = Some s'
       \<and> weatherData s' = Some (to_weather_data (sample_answer 21 0) (Num defaultLat) (Num defaultLon))
       \<and> \<not> loading s'"
    using last_answer_wins [OF s(2) s(3)] by simp
  with s show ?thesis by simp
qed

lemma failed_answer_hides_data_witness:
  "\<exists>s. weather_run None (mount_weather None False) [FetchOk 0 (sample_answer 21 0), Refresh, Refresh] = Some s
     \<and> map_of (requests s) 1 \<noteq> None
     \<and> map_of (requests s) 2 = Some (Num defaultLat, Num defaultLon) \<and> (1::nat) \<noteq> 2
     \<and> (\<exists>s'. weather_run None s [FetchFail 1, FetchOk 2 (sample_answer 25 2)] = Some s'
       \<and> weatherData s' \<noteq> None \<and> weather_view ''celsius'' s' = ErrorView fetch_error_msg)"
proof -
  obtain s where s: "weather_run None (mount_weather None False) [FetchOk 0 (sample_answer 21 0), Refresh, Refresh] = Some s"
    "map_of (requests s) 1 = Some (Num defaultLat, Num defaultLon)"
    "map_of (requests s) 2 = Some (Num defaultLat, Num defaultLon)"
    using two_refreshes by blast
  have "\<exists>s'. weather_run None s [FetchFail 1, FetchOk 2 (sample_answer 25 2)] = Some s'
       \<and> weatherData s' \<noteq> None \<and> weather_view ''celsius'' s' = ErrorView fetch_error_msg"
    using failed_answer_hides_data [of s 1 2] s(2,3) by simp
  with s show ?thesis by simp
qed

lemma refresh_forgets_position_witness:
  "\<not> truthy None \<and> (\<exists>s'. weather_run None (mount_weather None True)
       [GeoSuccess (dec_double 4885 (-2)) (dec_double 235 (-2)), FetchOk 0 (sample_answer 21 0), Refresh] = Some s'
     \<and> requests s' = [(1, Num defaultLat, Num defaultLon)]
     \<and> weatherData s' = Some (to_weather_data (sample_answer 21 0) (Num (dec_double 4885 (-2))) (Num (dec_double 235 (-2)))))"
  using refresh_forgets_position [of None] by simp

lemma fahrenheit_20: "formatTemperature ''fahrenheit'' (js_of_int 20) = ''68'' @ degree_text @ ''F''"
  by (simp add: formatTemperature_def convertTemperature_def float_eval Let_def int_toString_def
      cong: float_cong)

lemma location_query_request_witness:
  "requests (fetchWeatherByLocation ''40.5,-74'' initial_weather) = [(0, parseFloat ''40.5'', parseFloat ''-74'')]
   \<and> requests (fetchWeatherByLocation ''Paris'' initial_weather) = [(0, Num defaultLat, Num defaultLon)]"
proof -
  have p: "num_pattern ''40.5''" "num_pattern ''-74''"
    unfolding dec_lit_pattern [symmetric] by (simp_all add: dec_lit_def is_digit_def)
  have q: "''40.5,-74'' = ''40.5'' @ CHR '','' # ''-74''" by simp
  have n: "\<not> (\<exists>a b. ''Paris'' = a @ CHR '','' # b \<and> num_pattern a \<and> num_pattern b)"
    using in_set_conv_decomp [of "CHR '',''" "''Paris''"] by auto
  have "requests (fetchWeatherByLocation ''40.5,-74'' initial_weather)
      = requests initial_weather @ [(nextRequest initial_weather, parseFloat ''40.5'', parseFloat ''-74'')]"
    by (rule location_query_request [THEN iffD2]) (use p q in blast)
  moreover have "requests (fetchWeatherByLocation ''Paris'' initial_weather)
      = requests initial_weather @ [(nextRequest initial_weather, Num defaultLat, Num defaultLon)]"
    by (rule location_query_request [THEN iffD2]) (use n in blast)
  ultimately show ?thesis by (simp add: initial_weather_def)
qed

lemma wind_direction_bounds_witness:
  "0 \<le> dval (js_of_int 90) \<and> (\<exists>c. getWindDirection (js_of_int 90) = Some c)"
  using wind_direction_bounds [of "js_of_int 90"] by (simp add: fp_eval dval_def)

end
