(* ===== verification/StatusBar.thy ===== *)
theory StatusBar
  imports Settings JSFloat
begin

text \<open>
  The status bar and its notification shade, \<open>components/StatusBar.tsx\<close>.

  The state hooks (lines 20--30) are the record \<open>statusbar\<close>, except the clock \<open>time\<close>, whose
  only use is locale formatting. The pending \<open>setTimeout\<close> callbacks are explicit with their
  deadlines and the current time \<open>now\<close> (in ms): the event \<open>Wait\<close> lets time pass up to the
  next deadline and \<open>FireDue\<close> runs the timeout that is due first, so timeouts fire in the
  order the browser fires them. The context operations the tiles call go to the settings
  context of theory \<open>Settings\<close> (record \<open>sb_device\<close>); the \<open>webdroid:openApp\<close> events the
  settings tile dispatches are collected in \<open>openAppEvents\<close>. The values \<open>movement\<close>,
  \<open>velocity\<close> and \<open>direction\<close> that \<open>useDrag\<close> computes are event parameters.
\<close>

subsection \<open>State\<close>

datatype shade_state = Closed | Opening | Open | Closing

record notification =
  nid :: int
  ntitle :: string
  ntime :: string
  napp :: string

text \<open>The timeouts the component sets, with the values their closures captured.\<close>

datatype sb_timer =
    SetShadeT shade_state
  | SetTranslateT double
  | PowerCloseT double
  | SettingsCloseT double

record statusbar =
  shadeState :: shade_state
  shadeTranslateY :: double
  isDragging :: bool
  shadeHeight :: double
  isHovering :: bool
  notifications :: "notification list"
  bluetoothEnabled :: bool
  sbTimers :: "(nat \<times> sb_timer) list"
  now :: nat
  openAppEvents :: "string list"

record sb_device =
  bar :: statusbar
  ctx :: settings_env

definition initial_notifications :: "notification list" where
  "initial_notifications =
     [\<lparr>nid = 1, ntitle = ''System update available'', ntime = ''5min ago'', napp = ''System''\<rparr>,
      \<lparr>nid = 2, ntitle = ''Welcome to WebDroid OS'', ntime = ''10min ago'', napp = ''System''\<rparr>]"

definition initial_statusbar :: statusbar where
  "initial_statusbar =
     \<lparr>shadeState = Closed, shadeTranslateY = js_of_int (- 10000), isDragging = False,
      shadeHeight = js_of_int 500, isHovering = False, notifications = initial_notifications,
      bluetoothEnabled = False, sbTimers = [], now = 0, openAppEvents = []\<rparr>"

subsection \<open>Operations\<close>

text \<open>\<open>updateShadeHeight\<close> of the layout effect: 60\% of the window height.\<close>

definition updateShadeHeight :: "int \<Rightarrow> statusbar \<Rightarrow> statusbar" where
  "updateShadeHeight innerHeight b =
     (let height = js_mul (js_of_int innerHeight) (dec_double 6 (-1))
      in b\<lparr>shadeHeight := height, shadeTranslateY := js_sub (js_neg height) (js_of_int 20)\<rparr>)"

definition set_timeout_sb :: "nat \<Rightarrow> sb_timer \<Rightarrow> statusbar \<Rightarrow> statusbar" where
  "set_timeout_sb delay t b = b\<lparr>sbTimers := sbTimers b @ [(now b + delay, t)]\<rparr>"

text \<open>
  The animated close that \<open>handleClickOutside\<close> (lines 84--88) and the dimming overlay
  (lines 319--322) both write out.
\<close>

definition close_animated :: "statusbar \<Rightarrow> statusbar" where
  "close_animated b =
     set_timeout_sb 300 (SetShadeT Closed)
       (set_timeout_sb 10 (SetTranslateT (js_neg (shadeHeight b))) (b\<lparr>shadeState := Closing\<rparr>))"

definition handleClickOutside :: "statusbar \<Rightarrow> statusbar" where
  "handleClickOutside b = (if shadeState b = Open then close_animated b else b)"

definition overlayClick :: "statusbar \<Rightarrow> statusbar" where
  "overlayClick b = (if shadeState b = Open then close_animated b else b)"

text \<open>The effect on \<open>[shadeState, shadeHeight, isDragging]\<close> (lines 97--105).\<close>

definition translate_effect :: "statusbar \<Rightarrow> statusbar" where
  "translate_effect b =
     (if isDragging b then b
      else if shadeState b = Open then b\<lparr>shadeTranslateY := (0, 0)\<rparr>
      else if shadeState b = Closed then b\<lparr>shadeTranslateY := js_sub (js_neg (shadeHeight b)) (js_of_int 20)\<rparr>
      else b)"

definition visiblePercentage :: "statusbar \<Rightarrow> double" where
  "visiblePercentage b =
     js_min (1, 0) (js_max (0, 0) (js_div (js_add (shadeHeight b) (shadeTranslateY b)) (shadeHeight b)))"

definition calculateBlurAmount :: "statusbar \<Rightarrow> int" where
  "calculateBlurAmount b =
     (if js_eq (shadeHeight b) (0, 0) then 0 else js_round (js_mul (visiblePercentage b) (js_of_int 12)))"

definition calculateOverlayOpacity :: "statusbar \<Rightarrow> double" where
  "calculateOverlayOpacity b =
     (if js_eq (shadeHeight b) (0, 0) then (0, 0) else js_mul (visiblePercentage b) (dec_double 5 (-1)))"

text \<open>The drag handler while the gesture is active: the shade follows the finger.\<close>

definition drag_base :: "statusbar \<Rightarrow> double" where
  "drag_base b = (if shadeState b = Open \<or> shadeState b = Opening then (0, 0) else js_neg (shadeHeight b))"

definition drag_active :: "double \<Rightarrow> statusbar \<Rightarrow> statusbar" where
  "drag_active my b =
     b\<lparr>isDragging := True,
       shadeTranslateY := js_max (js_neg (shadeHeight b)) (js_min (0, 0) (js_add (drag_base b) my))\<rparr>"

definition velocityThreshold :: double where
  "velocityThreshold = dec_double 5 (-1)"

text \<open>The drag handler when the gesture ends: open, close, or snap back.\<close>

definition drag_end :: "double \<Rightarrow> double \<Rightarrow> double \<Rightarrow> statusbar \<Rightarrow> statusbar" where
  "drag_end my vy dy b =
     (let b1 = b\<lparr>isDragging := False\<rparr>;
          openThreshold = js_mul (shadeHeight b) (dec_double 3 (-1));
          isFlungDown = js_less velocityThreshold vy \<and> js_less (0, 0) dy;
          isFlungUp = js_less velocityThreshold vy \<and> js_less dy (0, 0);
          isDraggedDown = js_less openThreshold my;
          isDraggedUp = js_less my (js_neg openThreshold)
      in if (shadeState b = Closed \<or> shadeState b = Closing) \<and> (isFlungDown \<or> isDraggedDown)
         then set_timeout_sb 300 (SetShadeT Open) (b1\<lparr>shadeState := Opening\<rparr>)
         else if (shadeState b = Open \<or> shadeState b = Opening) \<and> (isFlungUp \<or> isDraggedUp)
         then set_timeout_sb 300 (SetShadeT Closed) (b1\<lparr>shadeState := Closing\<rparr>)
         else b1\<lparr>shadeState := (if shadeState b = Open \<or> shadeState b = Opening then Open else Closed)\<rparr>)"

definition handlePowerClick :: "statusbar \<Rightarrow> statusbar" where
  "handlePowerClick b = set_timeout_sb 300 (PowerCloseT (shadeHeight b)) (b\<lparr>shadeState := Closing\<rparr>)"

definition handleOpenSettings :: "statusbar \<Rightarrow> statusbar" where
  "handleOpenSettings b = set_timeout_sb 300 (SettingsCloseT (shadeHeight b)) (b\<lparr>shadeState := Closing\<rparr>)"

text \<open>The timeout callbacks, with the context operations they call.\<close>

fun fire_sb :: "sb_timer \<Rightarrow> statusbar \<Rightarrow> statusbar \<times> settings_event list" where
  "fire_sb (SetShadeT s) b = (b\<lparr>shadeState := s\<rparr>, [])"
| "fire_sb (SetTranslateT y) b = (b\<lparr>shadeTranslateY := y\<rparr>, [])"
| "fire_sb (PowerCloseT h) b = (b\<lparr>shadeTranslateY := js_neg h, shadeState := Closed\<rparr>, [ContextShowPowerMenu])"
| "fire_sb (SettingsCloseT h) b =
     (b\<lparr>shadeTranslateY := js_neg h, shadeState := Closed, openAppEvents := openAppEvents b @ [''settings'']\<rparr>, [])"

text \<open>The timeout due first: the earliest deadline, the earliest set among equal ones.\<close>

definition due_index :: "(nat \<times> sb_timer) list \<Rightarrow> nat" where
  "due_index ts = (let m = Min (set (map fst ts)) in length (takeWhile (\<lambda>p. fst p \<noteq> m) ts))"

subsection \<open>Events\<close>

text \<open>The shade panel is hidden while closed and not dragged (line 338); its controls need it.\<close>

definition shade_visible :: "statusbar \<Rightarrow> bool" where
  "shade_visible b \<longleftrightarrow> shadeState b \<noteq> Closed \<or> isDragging b"

datatype sb_event =
    Resize int
  | DragMove double
  | DragEnd double double double
  | ClickOutside
  | OverlayClick
  | ClearNotifications
  | BluetoothToggle
  | DeviceTypeTile
  | DarkModeTile
  | PowerTile
  | SettingsTile
  | MuteIcon
  | BrightnessInput string
  | HoverEnter
  | HoverLeave
  | Wait nat
  | FireDue

text \<open>Each handler's update of the status bar and the context operations it calls, in order.\<close>

fun sb_handler :: "sb_device \<Rightarrow> sb_event \<Rightarrow> (statusbar \<times> settings_event list) option" where
  "sb_handler d (Resize h) = (if 0 \<le> h then Some (updateShadeHeight h (bar d), []) else None)"
| "sb_handler d (DragMove my) = Some (drag_active my (bar d), [])"
| "sb_handler d (DragEnd my vy dy) =
     (if isDragging (bar d) then Some (drag_end my vy dy (bar d), []) else None)"
| "sb_handler d ClickOutside = Some (handleClickOutside (bar d), [])"
| "sb_handler d OverlayClick = (if shade_visible (bar d) then Some (overlayClick (bar d), []) else None)"
| "sb_handler d ClearNotifications =
     (if shade_visible (bar d) \<and> notifications (bar d) \<noteq> []
      then Some ((bar d)\<lparr>notifications := []\<rparr>, []) else None)"
| "sb_handler d BluetoothToggle =
     (if shade_visible (bar d)
      then Some ((bar d)\<lparr>bluetoothEnabled := \<not> bluetoothEnabled (bar d)\<rparr>, []) else None)"
| "sb_handler d DeviceTypeTile =
     (if shade_visible (bar d)
      then Some (bar d, [SetDeviceType (if deviceType (st (ctx d)) = ''phone'' then ''tablet'' else ''phone'')])
      else None)"
| "sb_handler d DarkModeTile = (if shade_visible (bar d) then Some (bar d, [ToggleColorMode]) else None)"
| "sb_handler d PowerTile = (if shade_visible (bar d) then Some (handlePowerClick (bar d), []) else None)"
| "sb_handler d SettingsTile = (if shade_visible (bar d) then Some (handleOpenSettings (bar d), []) else None)"
| "sb_handler d MuteIcon = Some (bar d, [ToggleMute])"
| "sb_handler d (BrightnessInput v) =
     (if shade_visible (bar d)
      then (case parseInt v of Some n \<Rightarrow> Some (bar d, [SetBrightnessLevel n]) | None \<Rightarrow> None) else None)"
| "sb_handler d HoverEnter = Some ((bar d)\<lparr>isHovering := True\<rparr>, [])"
| "sb_handler d HoverLeave = Some ((bar d)\<lparr>isHovering := False\<rparr>, [])"
| "sb_handler d (Wait n) =
     (if list_all (\<lambda>p. now (bar d) + n \<le> fst p) (sbTimers (bar d))
      then Some ((bar d)\<lparr>now := now (bar d) + n\<rparr>, []) else None)"
| "sb_handler d FireDue =
     (let ts = sbTimers (bar d); i = due_index ts
      in if ts = [] then None
         else Some (fire_sb (snd (ts ! i))
                 ((bar d)\<lparr>now := fst (ts ! i), sbTimers := take i ts @ drop (Suc i) ts\<rparr>)))"

definition shade_deps :: "statusbar \<Rightarrow> shade_state \<times> double \<times> bool" where
  "shade_deps b = (shadeState b, shadeHeight b, isDragging b)"

text \<open>An event: the handler, the context operations, then the effect if its dependencies changed.\<close>

definition sb_step :: "sb_device \<Rightarrow> sb_event \<Rightarrow> sb_device option" where
  "sb_step d e =
     (case sb_handler d e of
        None \<Rightarrow> None
      | Some (b, evs) \<Rightarrow>
          map_option (\<lambda>env. \<lparr>bar = (if shade_deps b \<noteq> shade_deps (bar d) then translate_effect b else b),
                            ctx = env\<rparr>)
            (settings_run (ctx d) evs))"

primrec sb_run :: "sb_device \<Rightarrow> sb_event list \<Rightarrow> sb_device option" where
  "sb_run d [] = Some d"
| "sb_run d (e # es) = Option.bind (sb_step d e) (\<lambda>d'. sb_run d' es)"

text \<open>Mounting in a window of the given height: the layout effect, then the effect above.\<close>

definition mount_statusbar :: "int \<Rightarrow> settings_env \<Rightarrow> sb_device" where
  "mount_statusbar innerHeight env =
     \<lparr>bar = translate_effect (updateShadeHeight innerHeight initial_statusbar), ctx = env\<rparr>"

subsection \<open>Invariants\<close>

text \<open>
  A timeout that settles the shade (sets it open or closed), and the invariant that a shade
  caught half-way (opening or closing) always has such a timeout pending.
\<close>

fun settles :: "sb_timer \<Rightarrow> bool" where
  "settles (SetTranslateT y) = False"
| "settles _ = True"

fun settles_to :: "sb_timer \<Rightarrow> bool" where
  "settles_to (SetShadeT s) = (s = Open \<or> s = Closed)"
| "settles_to _ = True"

definition settle_inv :: "statusbar \<Rightarrow> bool" where
  "settle_inv b \<longleftrightarrow> list_all (\<lambda>p. settles_to (snd p)) (sbTimers b)
     \<and> ((shadeState b = Opening \<or> shadeState b = Closing) \<longrightarrow> (\<exists>p \<in> set (sbTimers b). settles (snd p)))"

text \<open>No pending timeout is due before the current time.\<close>

definition time_inv :: "statusbar \<Rightarrow> bool" where
  "time_inv b \<longleftrightarrow> list_all (\<lambda>p. now b \<le> fst p) (sbTimers b)"

text \<open>
  The shade is never pulled below its open position: its offset is at most \<open>0\<close>, its height
  is not negative, and the pending timeouts carry such offsets and heights.
\<close>

fun timer_top :: "sb_timer \<Rightarrow> bool" where
  "timer_top (SetTranslateT y) = (dval y \<le> 0)"
| "timer_top (PowerCloseT h) = (0 \<le> dval h)"
| "timer_top (SettingsCloseT h) = (0 \<le> dval h)"
| "timer_top (SetShadeT s) = True"

definition top_inv :: "statusbar \<Rightarrow> bool" where
  "top_inv b \<longleftrightarrow> 0 \<le> dval (shadeHeight b) \<and> dval (shadeTranslateY b) \<le> 0
     \<and> list_all (\<lambda>p. timer_top (snd p)) (sbTimers b)"

subsection \<open>Runs and offsets\<close>

lemma sb_run_append: "sb_run d (es @ fs) = Option.bind (sb_run d es) (\<lambda>d'. sb_run d' fs)"
  by (induction es arbitrary: d) (auto split: Option.bind_splits)

lemma sb_step_Some:
  "sb_step d e = Some d' \<Longrightarrow> \<exists>b evs. sb_handler d e = Some (b, evs)
     \<and> bar d' = (if shade_deps b \<noteq> shade_deps (bar d) then translate_effect b else b)"
  by (auto simp: sb_step_def split: option.splits)

lemma translate_effect_fields [simp]:
  "shadeHeight (translate_effect b) = shadeHeight b" "shadeState (translate_effect b) = shadeState b"
  "sbTimers (translate_effect b) = sbTimers b" "isDragging (translate_effect b) = isDragging b"
  "now (translate_effect b) = now b"
  by (simp_all add: translate_effect_def)

lemma fire_sb_height: "fire_sb t b0 = (b, evs) \<Longrightarrow> shadeHeight b = shadeHeight b0"
  by (cases t) auto

lemma height_nonneg_update: "0 \<le> h \<Longrightarrow> 0 \<le> dval (shadeHeight (updateShadeHeight h b))"
  by (simp add: updateShadeHeight_def Let_def dval_nonneg_iff js_mul_nonneg js_of_int_def
      fp_norm_nonneg dec_double_def js_div_int_nonneg)

lemma handler_height:
  "0 \<le> dval (shadeHeight (bar d)) \<Longrightarrow> sb_handler d e = Some (b, evs) \<Longrightarrow> 0 \<le> dval (shadeHeight b)"
  by (cases e) (auto simp: height_nonneg_update drag_active_def drag_end_def Let_def set_timeout_sb_def
      handleClickOutside_def overlayClick_def close_animated_def handlePowerClick_def
      handleOpenSettings_def dest!: fire_sb_height split: if_splits option.splits)

lemma step_height:
  "0 \<le> dval (shadeHeight (bar d)) \<Longrightarrow> sb_step d e = Some d' \<Longrightarrow> 0 \<le> dval (shadeHeight (bar d'))"
  by (auto dest!: sb_step_Some dest: handler_height)

lemma run_height:
  "0 \<le> dval (shadeHeight (bar d)) \<Longrightarrow> sb_run d es = Some d' \<Longrightarrow> 0 \<le> dval (shadeHeight (bar d'))"
  by (induction es arbitrary: d) (auto dest: step_height split: Option.bind_splits)

lemma mount_height: "0 \<le> h \<Longrightarrow> 0 \<le> dval (shadeHeight (bar (mount_statusbar h env)))"
  by (simp add: mount_statusbar_def height_nonneg_update)

subsection \<open>The shade stays above its open position\<close>

lemma length_takeWhile_lt: "\<exists>x\<in>set xs. \<not> P x \<Longrightarrow> length (takeWhile P xs) < length xs"
  by (induction xs) auto

lemma due_index_less: "ts \<noteq> [] \<Longrightarrow> due_index ts < length ts"
proof -
  assume "ts \<noteq> []"
  then have "Min (set (map fst ts)) \<in> set (map fst ts)" by simp
  then have "\<exists>x\<in>set ts. \<not> fst x \<noteq> Min (set (map fst ts))" by force
  then show ?thesis
    unfolding due_index_def Let_def by (rule length_takeWhile_lt)
qed

lemma hidden_offset_nonpos: "0 \<le> dval h \<Longrightarrow> dval (js_sub (js_neg h) (js_of_int 20)) \<le> 0"
  by (simp add: dval_nonpos_iff dval_nonneg_iff js_sub_nonpos js_neg_def js_of_int_def fp_norm_nonneg)

lemma neg_height_nonpos: "0 \<le> dval h \<Longrightarrow> dval (js_neg h) \<le> 0"
  by (simp add: dval_js_neg)

lemma top_inv_upd [simp]:
  "top_inv (b\<lparr>shadeState := s\<rparr>) = top_inv b" "top_inv (b\<lparr>isDragging := x\<rparr>) = top_inv b"
  "top_inv (b\<lparr>isHovering := x\<rparr>) = top_inv b" "top_inv (b\<lparr>notifications := ns\<rparr>) = top_inv b"
  "top_inv (b\<lparr>bluetoothEnabled := x\<rparr>) = top_inv b" "top_inv (b\<lparr>now := n\<rparr>) = top_inv b"
  by (simp_all add: top_inv_def)

lemma top_inv_set_timeout: "timer_top t \<Longrightarrow> top_inv b \<Longrightarrow> top_inv (set_timeout_sb n t b)"
  by (simp add: top_inv_def set_timeout_sb_def)

lemma top_inv_translate: "top_inv b \<Longrightarrow> top_inv (translate_effect b)"
  by (simp add: top_inv_def translate_effect_def hidden_offset_nonpos)

lemma top_inv_update:
  "0 \<le> h \<Longrightarrow> top_inv b \<Longrightarrow> top_inv (updateShadeHeight h b)"
  using height_nonneg_update [of h b]
  by (simp add: top_inv_def updateShadeHeight_def Let_def hidden_offset_nonpos)

lemma top_inv_drag_active: "top_inv b \<Longrightarrow> top_inv (drag_active my b)"
  by (auto simp: top_inv_def drag_active_def dval_js_max dval_js_min dval_js_neg)

lemma top_inv_drag_end: "top_inv b \<Longrightarrow> top_inv (drag_end my vy dy b)"
  unfolding drag_end_def Let_def by (simp add: top_inv_set_timeout)

lemma top_inv_close_animated: "top_inv b \<Longrightarrow> top_inv (close_animated b)"
proof -
  assume b: "top_inv b"
  then have "top_inv (set_timeout_sb 10 (SetTranslateT (js_neg (shadeHeight b))) (b\<lparr>shadeState := Closing\<rparr>))"
    by (intro top_inv_set_timeout) (simp_all add: top_inv_def neg_height_nonpos)
  then show ?thesis unfolding close_animated_def by (rule top_inv_set_timeout [rotated]) simp
qed

lemma top_inv_fire:
  assumes "top_inv b" "timer_top t" "fire_sb t b = (b', evs)"
  shows "top_inv b'"
  using assms by (cases t) (auto simp: top_inv_def neg_height_nonpos)

lemma top_inv_remove:
  assumes "top_inv b" "ts = sbTimers b" "i < length ts"
  shows "top_inv (b\<lparr>now := n, sbTimers := take i ts @ drop (Suc i) ts\<rparr>) \<and> timer_top (snd (ts ! i))"
  using assms by (auto simp: top_inv_def list_all_iff dest: in_set_takeD in_set_dropD)

lemma top_inv_handler:
  "top_inv (bar d) \<Longrightarrow> sb_handler d e = Some (b, evs) \<Longrightarrow> top_inv b"
proof (cases e)
  case FireDue
  moreover assume inv: "top_inv (bar d)" "sb_handler d e = Some (b, evs)"
  moreover note rm = top_inv_remove [OF inv(1) refl due_index_less, of n for n]
  ultimately show ?thesis
    by (auto simp: Let_def split: if_splits intro: top_inv_fire [OF conjunct1 [OF rm] conjunct2 [OF rm]])
next
  case (DragEnd my vy dy)
  moreover assume "top_inv (bar d)" "sb_handler d e = Some (b, evs)"
  ultimately have "b = drag_end my vy dy (bar d)" "top_inv (bar d)" by (simp_all split: if_splits)
  then show ?thesis by (simp add: top_inv_drag_end)
next
  case PowerTile
  moreover assume "top_inv (bar d)" "sb_handler d e = Some (b, evs)"
  ultimately show ?thesis
    by (auto simp: handlePowerClick_def intro!: top_inv_set_timeout split: if_splits) (simp add: top_inv_def)
next
  case SettingsTile
  moreover assume "top_inv (bar d)" "sb_handler d e = Some (b, evs)"
  ultimately show ?thesis
    by (auto simp: handleOpenSettings_def intro!: top_inv_set_timeout split: if_splits) (simp add: top_inv_def)
qed (auto simp: top_inv_update top_inv_drag_active top_inv_close_animated handleClickOutside_def
      overlayClick_def split: if_splits option.splits)

lemma top_inv_step: "top_inv (bar d) \<Longrightarrow> sb_step d e = Some d' \<Longrightarrow> top_inv (bar d')"
proof -
  assume inv: "top_inv (bar d)" and st: "sb_step d e = Some d'"
  then obtain b evs where h: "sb_handler d e = Some (b, evs)"
    and b: "bar d' = (if shade_deps b \<noteq> shade_deps (bar d) then translate_effect b else b)"
    by (blast dest: sb_step_Some)
  have "top_inv b" using top_inv_handler [OF inv h] .
  with b show ?thesis by (simp add: top_inv_translate)
qed

lemma top_inv_run: "top_inv (bar d) \<Longrightarrow> sb_run d es = Some d' \<Longrightarrow> top_inv (bar d')"
  by (induction es arbitrary: d) (auto dest: top_inv_step split: Option.bind_splits)

lemma mount_top_inv: "0 \<le> h \<Longrightarrow> top_inv (bar (mount_statusbar h env))"
proof -
  assume h: "0 \<le> h"
  have "top_inv initial_statusbar"
    by (simp add: top_inv_def initial_statusbar_def dval_nonpos_iff dval_nonneg_iff js_of_int_def
        fp_norm_nonpos fp_norm_nonneg)
  then have "top_inv (updateShadeHeight h initial_statusbar)" by (rule top_inv_update [OF h])
  then show ?thesis by (simp add: mount_statusbar_def top_inv_translate)
qed

text \<open>
  C33: the notification shade is never pulled below its fully open position: after any
  events from mount in a window of non-negative height, its offset is at most \<open>0\<close>.
\<close>

theorem shade_never_below_open:
  assumes "0 \<le> h" "sb_run (mount_statusbar h env) es = Some d'"
  shows "dval (shadeTranslateY (bar d')) \<le> 0"
  using top_inv_run [OF mount_top_inv [OF assms(1)] assms(2)] by (simp add: top_inv_def)

text \<open>
  The lower end is not kept during a drag: a resize while the shade is dragged sets the
  offset to \<open>-height - 20\<close> (line 57), below the \<open>-shadeHeight\<close> the drag handler clamps to,
  and the drag goes on from there.
\<close>

lemma resize_mid_drag:
  "\<exists>d'. sb_run (mount_statusbar 800 env) [DragMove (0, 0), Resize 1000] = Some d'
     \<and> isDragging (bar d') \<and> dval (shadeTranslateY (bar d')) < - dval (shadeHeight (bar d'))"
  by (simp add: sb_step_def mount_statusbar_def initial_statusbar_def updateShadeHeight_def
      translate_effect_def drag_active_def drag_base_def shade_deps_def dval_js_max dval_js_min
      float_eval dval_def Let_def cong: float_cong)

subsection \<open>Timeouts that are not cleared\<close>

lemma dval_minus_one: "dval (- 1, 0) < 0"
  by (simp add: dval_def)

lemma velocity_half: "js_less velocityThreshold (1, 0)"
  by (simp add: velocityThreshold_def js_less_def float_eval dval_def Let_def cong: float_cong)

text \<open>
  C31: the shade's timeouts are never cleared: flung open and, within 300 ms, flung shut,
  the shade springs fully open when the first timeout fires, with the close still pending.
\<close>

theorem shade_springs_open:
  assumes "shadeState (bar d) = Closed" "sbTimers (bar d) = []" "\<not> isDragging (bar d)"
  shows "\<exists>d'. sb_run d [DragMove (0, 0), DragEnd (0, 0) (1, 0) (1, 0), Wait 100,
                        DragMove (0, 0), DragEnd (0, 0) (1, 0) (- 1, 0), Wait 200, FireDue] = Some d'
    \<and> shadeState (bar d') = Open \<and> shadeTranslateY (bar d') = (0, 0)
    \<and> sbTimers (bar d') = [(now (bar d) + 400, SetShadeT Closed)]"
  using assms velocity_half dval_minus_one
  by (simp add: sb_step_def drag_active_def drag_end_def Let_def set_timeout_sb_def shade_deps_def
      translate_effect_def due_index_def js_less_def drag_base_def)

subsection \<open>The shade settles\<close>

lemma settle_inv_set_timeout:
  "settles_to t \<Longrightarrow> settle_inv b \<Longrightarrow> settle_inv (set_timeout_sb n t b)"
  by (auto simp: settle_inv_def set_timeout_sb_def)

lemma set_remove_nth_sb:
  "i < length ts \<Longrightarrow> set ts \<subseteq> insert (ts ! i) (set (take i ts @ drop (Suc i) ts))"
proof -
  assume "i < length ts"
  then have "ts = take i ts @ ts ! i # drop (Suc i) ts" by (rule id_take_nth_drop)
  then have "set ts = insert (ts ! i) (set (take i ts @ drop (Suc i) ts))"
    by (metis Un_insert_right list.simps(15) set_append)
  then show ?thesis by simp
qed

lemma settle_inv_fire:
  assumes "settle_inv b" "ts = sbTimers b" "ts \<noteq> []" "i = due_index ts"
  shows "settle_inv (fst (fire_sb (snd (ts ! i)) (b\<lparr>now := n, sbTimers := take i ts @ drop (Suc i) ts\<rparr>)))"
proof -
  have i: "i < length ts" using assms(3,4) due_index_less by simp
  have all: "list_all (\<lambda>p. settles_to (snd p)) (take i ts @ drop (Suc i) ts)"
    using assms(1,2) by (auto simp: settle_inv_def list_all_iff dest: in_set_takeD in_set_dropD)
  have nth: "settles_to (snd (ts ! i))"
    using assms(1,2) i by (auto simp: settle_inv_def list_all_iff)
  show ?thesis
  proof (cases "snd (ts ! i)")
    case (SetTranslateT y)
    then have "\<not> settles (snd (ts ! i))" by simp
    then have "(\<exists>p \<in> set ts. settles (snd p)) \<longrightarrow> (\<exists>p \<in> set (take i ts @ drop (Suc i) ts). settles (snd p))"
      using set_remove_nth_sb [OF i] by blast
    with SetTranslateT all assms(1,2) show ?thesis by (simp add: settle_inv_def)
  qed (use all nth in \<open>auto simp: settle_inv_def\<close>)
qed

lemma settle_inv_upd [simp]:
  "settle_inv (b\<lparr>isHovering := x\<rparr>) = settle_inv b" "settle_inv (b\<lparr>notifications := ns\<rparr>) = settle_inv b"
  "settle_inv (b\<lparr>bluetoothEnabled := x\<rparr>) = settle_inv b" "settle_inv (b\<lparr>now := n\<rparr>) = settle_inv b"
  "settle_inv (b\<lparr>isDragging := x, shadeTranslateY := y\<rparr>) = settle_inv b"
  "settle_inv (b\<lparr>shadeHeight := h, shadeTranslateY := y\<rparr>) = settle_inv b"
  by (simp_all add: settle_inv_def)

lemma settle_inv_closing:
  "settles_to t \<Longrightarrow> settles t \<Longrightarrow> settle_inv b \<Longrightarrow> settle_inv (set_timeout_sb n t (b\<lparr>shadeState := Closing\<rparr>))"
  by (auto simp: settle_inv_def set_timeout_sb_def)

lemma settle_inv_close_animated: "settle_inv b \<Longrightarrow> settle_inv (close_animated b)"
  by (auto simp: settle_inv_def close_animated_def set_timeout_sb_def)

lemma settle_inv_drag_end: "settle_inv b \<Longrightarrow> settle_inv (drag_end my vy dy b)"
  unfolding drag_end_def Let_def by (auto simp: settle_inv_def set_timeout_sb_def)

lemma settle_inv_handler:
  "settle_inv (bar d) \<Longrightarrow> sb_handler d e = Some (b, evs) \<Longrightarrow> settle_inv b"
proof (cases e)
  case FireDue
  moreover assume "settle_inv (bar d)" "sb_handler d e = Some (b, evs)"
  ultimately show ?thesis
    using settle_inv_fire [of "bar d" "sbTimers (bar d)" "due_index (sbTimers (bar d))"]
    by (auto simp: Let_def split: if_splits) (metis fst_conv)
next
  case (DragEnd my vy dy)
  moreover assume "settle_inv (bar d)" "sb_handler d e = Some (b, evs)"
  ultimately have "b = drag_end my vy dy (bar d)" by (simp split: if_splits)
  with \<open>settle_inv (bar d)\<close> show ?thesis by (simp add: settle_inv_drag_end)
next
  case ClickOutside
  moreover assume "settle_inv (bar d)" "sb_handler d e = Some (b, evs)"
  ultimately show ?thesis using settle_inv_close_animated by (auto simp: handleClickOutside_def)
next
  case OverlayClick
  moreover assume "settle_inv (bar d)" "sb_handler d e = Some (b, evs)"
  ultimately show ?thesis using settle_inv_close_animated by (auto simp: overlayClick_def split: if_splits)
next
  case PowerTile
  moreover assume "settle_inv (bar d)" "sb_handler d e = Some (b, evs)"
  ultimately show ?thesis
    using settle_inv_closing [of "PowerCloseT (shadeHeight (bar d))"]
    by (auto simp: handlePowerClick_def split: if_splits)
next
  case SettingsTile
  moreover assume "settle_inv (bar d)" "sb_handler d e = Some (b, evs)"
  ultimately show ?thesis
    using settle_inv_closing [of "SettingsCloseT (shadeHeight (bar d))"]
    by (auto simp: handleOpenSettings_def split: if_splits)
qed (auto simp: updateShadeHeight_def drag_active_def Let_def split: if_splits option.splits)

lemma settle_inv_translate [simp]: "settle_inv (translate_effect b) = settle_inv b"
  by (simp add: settle_inv_def)

lemma settle_inv_step: "settle_inv (bar d) \<Longrightarrow> sb_step d e = Some d' \<Longrightarrow> settle_inv (bar d')"
  by (auto dest!: sb_step_Some dest: settle_inv_handler)

lemma settle_inv_run: "settle_inv (bar d) \<Longrightarrow> sb_run d es = Some d' \<Longrightarrow> settle_inv (bar d')"
  by (induction es arbitrary: d) (auto dest: settle_inv_step split: Option.bind_splits)

text \<open>
  C32: the shade never rests half-way: after any events from mount, once no timeout is
  pending it is open or closed.
\<close>

theorem shade_settles:
  assumes "sb_run (mount_statusbar h env) es = Some d'" "sbTimers (bar d') = []"
  shows "shadeState (bar d') = Open \<or> shadeState (bar d') = Closed"
proof -
  have "settle_inv (bar (mount_statusbar h env))"
    by (simp add: settle_inv_def mount_statusbar_def initial_statusbar_def updateShadeHeight_def Let_def)
  then have "settle_inv (bar d')" using settle_inv_run assms(1) by blast
  with assms(2) show ?thesis by (cases "shadeState (bar d')") (auto simp: settle_inv_def)
qed

lemma time_inv_set_timeout: "time_inv b \<Longrightarrow> time_inv (set_timeout_sb n t b)"
  by (simp add: time_inv_def set_timeout_sb_def)

lemma time_inv_upd [simp]:
  "time_inv (b\<lparr>shadeState := s\<rparr>) = time_inv b" "time_inv (b\<lparr>isDragging := x\<rparr>) = time_inv b"
  "time_inv (translate_effect b) = time_inv b"
  "time_inv (b\<lparr>isHovering := x\<rparr>) = time_inv b" "time_inv (b\<lparr>notifications := ns\<rparr>) = time_inv b"
  "time_inv (b\<lparr>bluetoothEnabled := x\<rparr>) = time_inv b"
  "time_inv (b\<lparr>isDragging := x, shadeTranslateY := y\<rparr>) = time_inv b"
  "time_inv (b\<lparr>shadeHeight := h, shadeTranslateY := y\<rparr>) = time_inv b"
  by (simp_all add: time_inv_def)

lemma time_inv_close_animated: "time_inv b \<Longrightarrow> time_inv (close_animated b)"
  by (simp add: close_animated_def time_inv_set_timeout)

lemma time_inv_drag_end: "time_inv b \<Longrightarrow> time_inv (drag_end my vy dy b)"
  unfolding drag_end_def Let_def by (simp add: time_inv_set_timeout)

subsection \<open>Time\<close>

text \<open>Timeouts fire in time order: the clock never moves backwards.\<close>

lemma now_set_timeout [simp]: "now (set_timeout_sb n t b) = now b"
  by (simp add: set_timeout_sb_def)

lemma now_close_animated [simp]: "now (close_animated b) = now b"
  by (simp add: close_animated_def)

lemma drag_end_now: "now (drag_end my vy dy b) = now b"
  by (simp add: drag_end_def Let_def set_timeout_sb_def)

lemma due_fst_min: "ts \<noteq> [] \<Longrightarrow> p \<in> set ts \<Longrightarrow> fst (ts ! due_index ts) \<le> fst p"
proof -
  assume ts: "ts \<noteq> []" and p: "p \<in> set ts"
  have "\<not> (fst (ts ! due_index ts) \<noteq> Min (set (map fst ts)))"
    using due_index_less [OF ts] unfolding due_index_def Let_def by (rule nth_length_takeWhile)
  with p show ?thesis by simp
qed

lemma fire_sb_now_timers: "fire_sb t b0 = (b, evs) \<Longrightarrow> now b = now b0 \<and> sbTimers b = sbTimers b0"
  by (cases t) auto

lemma time_inv_fire:
  assumes "ts = sbTimers b" "ts \<noteq> []" "i = due_index ts"
  shows "time_inv (b\<lparr>now := fst (ts ! i), sbTimers := take i ts @ drop (Suc i) ts\<rparr>)"
  using assms due_fst_min by (auto simp: time_inv_def list_all_iff dest: in_set_takeD in_set_dropD)

lemma time_inv_handler:
  "time_inv (bar d) \<Longrightarrow> sb_handler d e = Some (b, evs) \<Longrightarrow> time_inv b \<and> now (bar d) \<le> now b"
proof (cases e)
  case FireDue
  moreover assume inv: "time_inv (bar d)" and h: "sb_handler d e = Some (b, evs)"
  moreover have "now (bar d) \<le> fst (sbTimers (bar d) ! due_index (sbTimers (bar d)))"
    if "sbTimers (bar d) \<noteq> []"
    using inv that due_index_less [OF that] by (auto simp: time_inv_def list_all_iff)
  ultimately show ?thesis
    using time_inv_fire [of "sbTimers (bar d)" "bar d" "due_index (sbTimers (bar d))"]
    by (auto simp: Let_def time_inv_def split: if_splits dest!: fire_sb_now_timers)
next
  case (DragEnd my vy dy)
  moreover assume "time_inv (bar d)" "sb_handler d e = Some (b, evs)"
  ultimately have "b = drag_end my vy dy (bar d)" "time_inv (bar d)" by (simp_all split: if_splits)
  then show ?thesis by (simp add: time_inv_drag_end drag_end_now)
next
  case (Wait n)
  moreover assume "time_inv (bar d)" "sb_handler d e = Some (b, evs)"
  ultimately show ?thesis by (auto simp: time_inv_def split: if_splits)
qed (auto simp: updateShadeHeight_def drag_active_def Let_def time_inv_close_animated
      handleClickOutside_def overlayClick_def handlePowerClick_def handleOpenSettings_def
      time_inv_set_timeout split: if_splits option.splits)

lemma time_inv_step:
  "time_inv (bar d) \<Longrightarrow> sb_step d e = Some d' \<Longrightarrow> time_inv (bar d') \<and> now (bar d) \<le> now (bar d')"
  by (auto dest!: sb_step_Some dest: time_inv_handler)

lemma run_now_mono:
  "time_inv (bar d) \<Longrightarrow> sb_run d es = Some d' \<Longrightarrow> now (bar d) \<le> now (bar d')"
proof (induction es arbitrary: d)
  case (Cons e es)
  then obtain d1 where "sb_step d e = Some d1" "sb_run d1 es = Some d'"
    by (auto split: Option.bind_splits)
  with Cons show ?case using time_inv_step by fastforce
qed simp

lemma mount_time_inv: "time_inv (bar (mount_statusbar h env))"
  by (simp add: time_inv_def mount_statusbar_def initial_statusbar_def updateShadeHeight_def Let_def)

subsection \<open>Witnesses\<close>

lemma mounted_closed:
  "shadeState (bar (mount_statusbar h env)) = Closed \<and> sbTimers (bar (mount_statusbar h env)) = []
     \<and> \<not> isDragging (bar (mount_statusbar h env)) \<and> now (bar (mount_statusbar h env)) = 0"
  by (simp add: mount_statusbar_def initial_statusbar_def updateShadeHeight_def translate_effect_def Let_def)

lemma shade_springs_open_witness:
  "shadeState (bar (mount_statusbar 800 (the (mount_settings Map.empty False [])))) = Closed
   \<and> sbTimers (bar (mount_statusbar 800 (the (mount_settings Map.empty False [])))) = []
   \<and> \<not> isDragging (bar (mount_statusbar 800 (the (mount_settings Map.empty False []))))
   \<and> (\<exists>d'. sb_run (mount_statusbar 800 (the (mount_settings Map.empty False [])))
        [DragMove (0, 0), DragEnd (0, 0) (1, 0) (1, 0), Wait 100,
         DragMove (0, 0), DragEnd (0, 0) (1, 0) (- 1, 0), Wait 200, FireDue] = Some d'
       \<and> shadeState (bar d') = Open \<and> shadeTranslateY (bar d') = (0, 0)
       \<and> sbTimers (bar d') = [(400, SetShadeT Closed)])"
  using shade_springs_open [of "mount_statusbar 800 (the (mount_settings Map.empty False []))"]
    mounted_closed [of 800 "the (mount_settings Map.empty False [])"]
  by simp

lemma shade_never_below_open_witness:
  "0 \<le> (800::int) \<and> (\<exists>d'. sb_run (mount_statusbar 800 (the (mount_settings Map.empty False [])))
      [DragMove (js_of_int 1000)] = Some d' \<and> dval (shadeTranslateY (bar d')) \<le> 0)"
proof -
  obtain d' where r: "sb_run (mount_statusbar 800 (the (mount_settings Map.empty False []))) [DragMove (js_of_int 1000)] = Some d'"
    by (simp add: sb_step_def)
  show ?thesis using shade_never_below_open [OF _ r] r by auto
qed

lemma shade_settles_witness:
  "\<exists>d'. sb_run (mount_statusbar 800 (the (mount_settings Map.empty False [])))
         [DragMove (0, 0), DragEnd (0, 0) (1, 0) (1, 0), Wait 300, FireDue] = Some d'
     \<and> sbTimers (bar d') = [] \<and> (shadeState (bar d') = Open \<or> shadeState (bar d') = Closed)"
proof -
  obtain d' where r: "sb_run (mount_statusbar 800 (the (mount_settings Map.empty False [])))
         [DragMove (0, 0), DragEnd (0, 0) (1, 0) (1, 0), Wait 300, FireDue] = Some d'"
      and t: "sbTimers (bar d') = []"
    using velocity_half
    by (simp add: mount_statusbar_def initial_statusbar_def updateShadeHeight_def sb_step_def
        drag_active_def drag_end_def Let_def set_timeout_sb_def shade_deps_def translate_effect_def
        due_index_def js_less_def drag_base_def)
  show ?thesis using shade_settles [OF r t] r t by blast
qed

end
