(* ===== verification/Spec2Isabelle.thy ===== *)
theory Spec2Isabelle
  imports Controller UseLongPress Settings Notes Files PinModal Alarm Clock Calculator VolumeButtons Themes Weather StatusBar
begin

text \<open>
  \<^bold>\<open>WebDroid OS: a verification development of its navigation core, power lifecycle,
  settings and apps.\<close>

  WebDroid OS is a React simulation of an Android phone. Its core is three components:
  \<open>AppContent\<close> (\<open>src/WebDroid-OS/src/App.tsx\<close>) owns the active app, the back
  history, the recents list and the recents overlay; \<open>DeviceFrame\<close>
  (\<open>src/src/components/DeviceFrame.tsx\<close>) owns the boot state, the screen state, the
  power menu and the "Powering off" overlay, renders the screens, and calls back into
  \<open>AppContent\<close>; \<open>LockScreen\<close> (\<open>src/WebDroid-OS/src/components/LockScreen.tsx\<close>)
  collects PIN digits. The buttons of \<open>DeviceButtons.tsx\<close>, the long-press hook
  \<open>src/src/hooks/useLongPress.ts\<close>, the launcher, the navigation bar, the recents view,
  the shade of \<open>StatusBar.tsx\<close> and the PIN setting of \<open>LockSettingsPage.tsx\<close> produce
  the events. The settings context (\<open>src/WebDroid-OS/src/contexts/SettingsContext.tsx\<close>)
  holds the volume, brightness, theme and PIN and mirrors them to \<open>localStorage\<close>. The
  apps (notes, files, clock, calculator) keep their own state.

  \<^bold>\<open>Theories.\<close>
  \<^item> \<open>WebDroid_Prelude\<close>: JavaScript truthiness of an optional string, ASCII white space
    and \<open>trim\<close>, the collection \<open>webdroid_inv\<close>, and shared list lemmas.
  \<^item> \<open>JSNumber\<close>: doubles as pairs \<open>(m, e)\<close> with every operation rounded once to 53
    bits (\<open>fp_norm\<close>), \<open>Math.round\<close>, \<open>String(n)\<close> of integers and \<open>parseInt\<close>, with
    evaluation rules so that \<open>simp\<close> computes on concrete numbers.
  \<^item> \<open>JSFloat\<close>: \<open>NaN\<close>, the correctly rounded quotient, \<open>parseFloat\<close> and the
    ECMAScript \<open>Number::toString\<close> (shortest round-tripping digits, positional or
    exponent layout); lemma: the printed form is never empty and holds at most one point.
  \<^item> \<open>Recents\<close>: the two list updates of \<open>recentAppsList\<close>; the registry invariant, an
    equivalence with \<open>take 10 (rev (remdups opens))\<close>, eviction at capacity.
  \<^item> \<open>Navigation\<close>: \<open>AppContent\<close> as the record \<open>app_content\<close> and its five handlers;
    the invariant \<open>app_inv\<close>; a refinement of the spec's navigation stack.
  \<^item> \<open>DeviceFrame\<close>, \<open>LockScreen\<close>, \<open>UseLongPress\<close>: the frame's handlers with their
    effects in program order, the PIN pad, the long-press hook with explicit timer ids.
  \<^item> \<open>Controller\<close>: the composed device (\<open>webdroid\<close>); \<open>dispatch\<close> handles one event on
    an element the current render mounts or fires a pending timer; \<open>settle\<close> runs the
    re-lock effect; \<open>reach\<close> is the inductive set of reachable states.
  \<^item> \<open>Settings\<close>: the context's state, its load from \<open>localStorage\<close>, the storage,
    theme and volume effects and every handler (\<open>settings_step\<close>); the store mirrors the
    state after every step, reload restores it, volume and brightness stay in range.
  \<^item> \<open>PinModal\<close>: \<open>ChangePinModal\<close> and \<open>LockSettingsPage\<close>; the checks of the dialog
    in order, as an \<open>error + string\<close> result.
  \<^item> \<open>Notes\<close>: \<open>NotesApp.tsx\<close>: handlers, the editor effect, \<open>saveNotes\<close> (which may fail),
    the sort, and the link scanner \<open>scan_links\<close> (a \<open>function\<close> with its termination).
  \<^item> \<open>Files\<close>: \<open>FileExplorerApp.tsx\<close>: the breadcrumb loop as \<open>partial_function
    (option)\<close> (\<open>None\<close> if it hangs), proved total on the mock file system by a rank that
    decreases along parent links; \<open>toFixed(1)\<close> and \<open>formatFileSize\<close>.
  \<^item> \<open>Alarm\<close>: \<open>AlarmTab.tsx\<close>: the time regular expression, \<open>split(/\s+/)\<close>, the
    submit handler with its three outcomes, the stored alarm list.
  \<^item> \<open>Clock\<close>: \<open>TimerTab.tsx\<close>, \<open>StopwatchTab.tsx\<close> and the tab container, with the
    interval effects and \<open>Date.now()\<close> readings as event parameters.
  \<^item> \<open>Calculator\<close>: \<open>CalculatorApp.tsx\<close>: the five state hooks as the record \<open>calc\<close>,
    every handler and the button dispatch; runs of clicks as folds.
  \<^item> \<open>VolumeButtons\<close>: the volume buttons of \<open>DeviceButtons.tsx\<close> with DeviceFrame's
    \<open>handleVolumeUp/Down\<close> and the settings context: the delay and repeat callbacks are
    closures of the render that pressed (\<open>increaseVolume_r r\<close>), the refs and the window
    timers explicit.
  \<^item> \<open>Themes\<close>: \<open>ThemesApp.tsx\<close>: its handlers as calls of the context setters, the
    render conditions (cards, background tiles, the colour-mode buttons only for a theme
    without \<open>forcedMode\<close>), and the TypeScript unions of \<open>SettingsContext.tsx\<close> as
    the typing predicate \<open>settings_typed\<close> over the settings state.
  \<^item> \<open>Weather\<close>: \<open>WeatherApp.tsx\<close>: the state hooks with the fetches in flight, the
    geolocation request and the fade-in timeout made explicit (record \<open>weather\<close>); both
    effects, \<open>fetchWeatherByLocation\<close> with its coordinate pattern, \<open>fetchWeatherData\<close> split
    at \<open>await fetch\<close> into the request and its answer (events \<open>FetchOk\<close>/\<open>FetchFail\<close>
    arriving in any order), the buttons, the render, and the pure helpers
    (\<open>toFixed(2)\<close>, temperatures, wind direction, background, description, icon code).
  \<^item> \<open>StatusBar\<close>: \<open>StatusBar.tsx\<close>: the shade's state hooks, its effects, the drag
    handler, outside and overlay clicks, tiles, slider and mute icon; its \<open>setTimeout\<close>s are
    explicit with deadlines and a clock (\<open>Wait\<close>, \<open>FireDue\<close> fires the earliest), and the
    tiles call the settings context of \<open>Settings\<close>.

  \<^bold>\<open>Semantics chosen.\<close> A handler reads the state of the render that defined it and its
  updates are applied in order; closures captured by a timer are recorded in the timer
  with the render state they read. Timers fire in any order, so reachability
  over-approximates every real timing. Loops are list operations, a \<open>function\<close> with a
  measure (\<open>scan_links\<close>, \<open>split_ws_aux\<close>), structural recursion on a digit count
  (\<open>dec_search\<close> tries at most 17 digit counts, enough for every double), or a
  \<open>partial_function (option)\<close> whose totality is proved (\<open>crumbs_loop\<close>).

  \<^bold>\<open>Main results.\<close> Every reachable device state satisfies \<open>sys_inv\<close>; the power menu
  can never be opened (\<open>useLongPress\<close> returns a function that \<open>DeviceButtons\<close> spreads
  into props); a device without a PIN re-locked by the power button can never be
  unlocked; the settings store mirrors the state; the notes survive a reload and their
  ids stay distinct; the file explorer never hangs; the calculator computes
  \<open>String(a op b)\<close> and keeps at most one point on its display; a release stops every
  volume repeat timer; selecting a forcing theme and the previous one again restores the
  settings; a weather location query requests the coordinates \<open>parseFloat\<close> reads from it
  exactly when it is in the language of the coordinate pattern (\<open>num_pattern\<close>, stated
  apart from the matcher), and New York otherwise, and the request ids stay distinct; the
  shade never rests half-way once its timeouts have fired, is never pulled below its open
  position (an invariant \<open>top_inv\<close> over every run), and the status bar's clock never
  runs backwards. Findings proved as theorems: the calculator applies a pending
  operator when another is typed, shows \<open>NaN\<close> for a lone point and appends digits to a
  result; a tap on a volume button changes the volume twice and holding it changes
  nothing more; five volume decrements leave a residue of \<open>2^-55\<close>; a discarded note
  edit is saved; \<open>7:30AM\<close> is lost; two saves in one millisecond collide; the
  selected Light button switches to dark; the weather app shows whichever answer arrives
  last, keeps an error screen over a later success, and its refresh button requests New
  York after a geolocated fetch; its degree sign is mis-encoded; the shade's timeouts are
  never cleared, so a shade flung shut right after opening springs open again. Findings
  shown by lemmas: the casts of the stored values check nothing, so an untyped store loads
  as it is; a resize during a drag puts the shade below the drag's lower clamp
  (\<open>resize_mid_drag\<close>); the long-press hook, were it attached, would fire early after a
  double start (\<open>double_start_fires_early\<close>).

  \<^bold>\<open>Not modelled.\<close> Presentation (styles, animations, wallpaper), sound synthesis
  (\<open>soundSynth.ts\<close> beyond \<open>setMasterVolume\<close>, \<open>useSound\<close>), the camera and
  browser apps and the settings pages other than the PIN page (their state
  is UI plumbing around the context operations modelled in \<open>Settings\<close>; the camera
  calls \<open>getUserMedia\<close>), the weather app's emoji table and its hourly and daily
  forecast rendering (\<open>Date\<close> and locale formatting), the status bar's clock display
  and the gesture library's computation of drag movement and velocity (event parameters),
  the world clock (locale-dependent date formatting), the dead legacy
  \<open>context/SettingsContext.tsx\<close>, the effect of \<open>DeviceFrame.tsx\<close> lines 143--150
  (which never applies), and number overflow to infinity: the doubles of \<open>JSNumber\<close>
  have an unbounded exponent, so a chain of calculator multiplications past about
  \<open>1.8e308\<close> keeps a finite value where JavaScript shows \<open>Infinity\<close>. The calculator
  theorems compare the display with the same model arithmetic on both sides, so they do
  not depend on it; no other component computes near that range. The real-number value of
  \<open>convertTemperature\<close> is not proved in general (it needs a bound on the rounding error
  of each operation); \<open>fahrenheit_20\<close> evaluates it at a point.
\<close>

section \<open>Properties across components\<close>

text \<open>
  C14: the lock settings page and the composed device agree on what a PIN is: whenever an
  event of the page (\<open>LockSettingsPage\<close> with its \<open>ChangePinModal\<close>) changes the PIN,
  the device, showing the settings app, accepts the new value as its \<open>SettingsSetPin\<close>
  event, so the PINs the controller's theorems range over are all the page can store.
\<close>

theorem settings_page_pin_accepted:
  assumes "appsShown (view s)" "currentApp (app s) = Some ''settings''"
    "pagePin (page_step pg e) \<noteq> pagePin pg"
  shows "dispatch s (SettingsSetPin (pagePin (page_step pg e))) = Some (setLockscreenPin (pagePin (page_step pg e)) s)"
  using page_pin_passes_device_guard [OF assms(3)] assms(1,2)
  by (simp add: device_pin_ok_def)

subsection \<open>Witnesses\<close>

theorem settings_page_pin_accepted_witness:
  "\<exists>s. run (initial_webdroid None) [BootDone, HomeLaunch ''settings''] = Some s \<and>
     dispatch s (SettingsSetPin (pagePin (page_step \<lparr>pagePin = None, modalOpen = True,
       modal = \<lparr>oldPinInput = [], newPinInput = ''2580'', confirmPinInput = ''2580'', errorMessage = []\<rparr>\<rparr> SubmitPin)))
     = Some (setLockscreenPin (Some ''2580'') s)"
proof -
  obtain s where r: "run (initial_webdroid None) [BootDone, HomeLaunch ''settings''] = Some s"
    and a: "appsShown (view s)" "currentApp (app s) = Some ''settings''"
    by (simp add: step_simps concrete_states handleBootComplete_def homeApps_def handleOpenApp_def)
  have pg: "pagePin (page_step \<lparr>pagePin = None, modalOpen = True,
       modal = \<lparr>oldPinInput = [], newPinInput = ''2580'', confirmPinInput = ''2580'', errorMessage = []\<rparr>\<rparr> SubmitPin)
     = Some ''2580''"
    by (simp add: page_step_def page_submit_def handleSubmit_def validate_pin_def four_digits_def is_digit_def
        handlePinSubmit_def)
  from settings_page_pin_accepted [OF a, of "\<lparr>pagePin = None, modalOpen = True,
       modal = \<lparr>oldPinInput = [], newPinInput = ''2580'', confirmPinInput = ''2580'', errorMessage = []\<rparr>\<rparr>" SubmitPin]
    r pg show ?thesis by auto
qed

end
